(* ===== verification/Relay_Prelude.thy ===== *)
theory Relay_Prelude
  imports Main "HOL-Library.Monad_Syntax"
begin

text \<open>
  Shared vocabulary of the development: the named collections that carry the
  component proofs, Python's string operations as the program uses them, and
  tables of rows with a primary key.

  A Python \<open>str\<close> is a \<^typ>\<open>string\<close>, one \<^typ>\<open>char\<close> per code point, so the code
  points U+0000 to U+00FF are representable. That is exactly the range of HTTP
  header values as Django hands them to the program (WSGI decodes them as
  Latin-1). Time stamps are integers, in microseconds.
\<close>

named_theorems row_simps \<open>reading a table after a change\<close>
named_theorems inv_intros \<open>operations keep the invariants\<close>
named_theorems str_simps \<open>Python string operations\<close>

type_synonym pystr = string
type_synonym timestamp = int

section \<open>Python strings\<close>

definition code_point :: "char \<Rightarrow> nat" where
  "code_point c = of_char c"

text \<open>\<open>str.isspace\<close> for one character: what \<open>str.strip()\<close> removes.\<close>

definition py_space :: "char \<Rightarrow> bool" where
  "py_space c = (let n = code_point c in
     9 \<le> n \<and> n \<le> 13 \<or> 28 \<le> n \<and> n \<le> 32 \<or> n = 133 \<or> n = 160)"

definition strip_by :: "(char \<Rightarrow> bool) \<Rightarrow> pystr \<Rightarrow> pystr" where
  "strip_by p s = rev (dropWhile p (rev (dropWhile p s)))"

definition py_strip :: "pystr \<Rightarrow> pystr" where
  "py_strip s = strip_by py_space s"

text \<open>\<open>str.startswith\<close> and \<open>sep in s\<close> for a one-character separator.\<close>

definition py_startswith :: "pystr \<Rightarrow> pystr \<Rightarrow> bool" where
  "py_startswith s p = (take (length p) s = p)"

text \<open>\<open>s.partition(c)\<close>: before, whether the separator was found, after.\<close>

fun py_partition :: "char \<Rightarrow> pystr \<Rightarrow> pystr \<times> bool \<times> pystr" where
  "py_partition c [] = ([], False, [])"
| "py_partition c (x # xs) =
     (if x = c then ([], True, xs)
      else case py_partition c xs of (a, found, b) \<Rightarrow> (x # a, found, b))"

text \<open>\<open>s.split(c)\<close>: never the empty list.\<close>

fun py_split :: "char \<Rightarrow> pystr \<Rightarrow> pystr list" where
  "py_split c [] = [[]]"
| "py_split c (x # xs) =
     (if x = c then [] # py_split c xs
      else case py_split c xs of [] \<Rightarrow> [[x]] | w # ws \<Rightarrow> (x # w) # ws)"

fun py_join :: "pystr \<Rightarrow> pystr list \<Rightarrow> pystr" where
  "py_join sep [] = []"
| "py_join sep [w] = w"
| "py_join sep (w # ws) = w @ sep @ py_join sep ws"

definition is_ascii :: "pystr \<Rightarrow> bool" where
  "is_ascii s = list_all (\<lambda>c. code_point c < 128) s"

definition ascii_digit :: "char \<Rightarrow> bool" where
  "ascii_digit c = (48 \<le> code_point c \<and> code_point c \<le> 57)"

definition digit_value :: "char \<Rightarrow> nat" where
  "digit_value c = code_point c - 48"

text \<open>\<open>str(n)\<close> for a natural number, and \<open>int(s)\<close> for a string of ASCII digits.\<close>

fun str_nat :: "nat \<Rightarrow> pystr" where
  "str_nat n = (if n < 10 then [char_of (48 + n)] else str_nat (n div 10) @ [char_of (48 + n mod 10)])"

declare str_nat.simps [simp del]

definition nat_of_digits :: "pystr \<Rightarrow> nat" where
  "nat_of_digits s = foldl (\<lambda>a c. 10 * a + digit_value c) 0 s"

definition str_int :: "int \<Rightarrow> pystr" where
  "str_int i = (if i < 0 then ''-'' @ str_nat (nat (- i)) else str_nat (nat i))"

subsection \<open>Facts on strings\<close>

lemma dropWhile_hd: "dropWhile p s = x # xs \<Longrightarrow> \<not> p x"
  by (metis hd_dropWhile list.sel(1) list.distinct(1))

lemma set_dropWhile_sub: "set (dropWhile p s) \<subseteq> set s"
  by (induction s) auto

lemma dropWhile_snoc: "\<not> p x \<Longrightarrow> dropWhile p (xs @ [x]) = dropWhile p xs @ [x]"
  by (induction xs) auto

lemma strip_by_ends:
  assumes "strip_by p s \<noteq> []"
  shows "\<not> p (hd (strip_by p s)) \<and> \<not> p (last (strip_by p s))"
proof -
  let ?a = "dropWhile p s"
  have r: "strip_by p s = rev (dropWhile p (rev ?a))" by (simp add: strip_by_def)
  have last: "\<not> p (last (strip_by p s))"
    using assms hd_dropWhile [of p "rev ?a"] by (simp add: r last_rev)
  have "?a \<noteq> []" using assms by (cases ?a) (simp_all add: r)
  then obtain x xs where a: "?a = x # xs" and px: "\<not> p x"
    by (cases ?a) (auto dest: dropWhile_hd)
  have "hd (strip_by p s) = x"
    using px by (simp add: r a dropWhile_snoc)
  with px last show ?thesis by simp
qed

lemma strip_by_id: "s = [] \<or> \<not> p (hd s) \<and> \<not> p (last s) \<Longrightarrow> strip_by p s = s"
proof (cases s)
  case (Cons a t)
  assume "s = [] \<or> \<not> p (hd s) \<and> \<not> p (last s)"
  with Cons have "dropWhile p s = s" and "\<not> p (hd (rev s))"
    by (simp_all only: hd_rev) simp_all
  moreover from this(2) Cons have "dropWhile p (rev s) = rev s"
    by (cases "rev s") auto
  ultimately show ?thesis by (simp add: strip_by_def)
qed (simp add: strip_by_def)

lemma strip_by_idem: "strip_by p (strip_by p s) = strip_by p s"
  using strip_by_ends strip_by_id by metis

lemma set_strip_by: "set (strip_by p s) \<subseteq> set s"
  using set_dropWhile_sub [of p "rev (dropWhile p s)"] set_dropWhile_sub [of p s]
  by (auto simp: strip_by_def)

lemma py_strip_idem [str_simps]: "py_strip (py_strip s) = py_strip s"
  by (simp add: py_strip_def strip_by_idem)

lemma py_startswith_iff: "py_startswith s p \<longleftrightarrow> (\<exists>t. s = p @ t)"
  by (auto simp: py_startswith_def) (metis append_take_drop_id)

lemma py_startswith_append [simp, str_simps]: "py_startswith (p @ t) p"
  by (simp add: py_startswith_def)

lemma py_partition_found [str_simps]:
  "c \<notin> set a \<Longrightarrow> py_partition c (a @ c # b) = (a, True, b)"
  by (induction a) auto

lemma py_partition_cases:
  "py_partition c s = (a, found, b) \<Longrightarrow>
     c \<notin> set a \<and> (if found then s = a @ c # b else s = a \<and> b = [])"
  by (induction s arbitrary: a) (auto split: if_splits prod.splits)

lemma py_split_nonempty [simp]: "py_split c s \<noteq> []"
  by (induction s) (auto split: list.splits)

lemma py_split_sepfree: "w \<in> set (py_split c s) \<Longrightarrow> c \<notin> set w"
proof (induction s arbitrary: w)
  case Nil
  then show ?case by simp
next
  case (Cons x xs)
  then show ?case
    by (cases "py_split c xs") (auto split: if_splits)
qed

lemma py_split_no_sep: "c \<notin> set s \<Longrightarrow> py_split c s = [s]"
  by (induction s) auto

lemma py_split_append:
  "c \<notin> set w \<Longrightarrow> py_split c (w @ c # rest) = w # py_split c rest"
  by (induction w) auto

lemma py_split_concat: "py_split c (p @ c # t) = py_split c p @ py_split c t"
proof (induction p)
  case (Cons x xs)
  then show ?case by (cases "py_split c xs") (auto split: list.splits)
qed simp

lemma py_split_join:
  "ws \<noteq> [] \<Longrightarrow> \<forall>w\<in>set ws. c \<notin> set w \<Longrightarrow> py_split c (py_join [c] ws) = ws"
proof (induction ws)
  case (Cons w vs)
  then show ?case by (cases vs) (simp_all add: py_split_append py_split_no_sep)
qed simp

lemma py_join_split: "py_join [c] (py_split c s) = s"
proof (induction s)
  case (Cons x xs)
  obtain w ws where s: "py_split c xs = w # ws" by (cases "py_split c xs") auto
  with Cons show ?case by (cases ws) auto
qed simp

subsection \<open>Decimal numbers\<close>

lemma code_point_char_of [simp]: "n < 256 \<Longrightarrow> code_point (char_of n) = n"
  by (simp add: code_point_def)

lemma code_point_lt [simp]: "code_point c < 256"
  by (simp add: code_point_def)

lemma code_point_inject [simp]: "code_point c = code_point d \<longleftrightarrow> c = d"
  by (simp add: code_point_def)

lemma str_nat_nonempty [simp]: "str_nat n \<noteq> []"
  by (subst str_nat.simps) simp

lemma str_nat_digits: "c \<in> set (str_nat n) \<Longrightarrow> ascii_digit c"
proof (induction n rule: str_nat.induct)
  case (1 n)
  then show ?case
    by (cases "n < 10") (auto simp: str_nat.simps [of n] ascii_digit_def)
qed

lemma nat_of_digits_snoc [simp]:
  "nat_of_digits (s @ [c]) = 10 * nat_of_digits s + digit_value c"
  by (simp add: nat_of_digits_def)

lemma nat_of_digits_str_nat [simp, str_simps]: "nat_of_digits (str_nat n) = n"
proof (induction n rule: str_nat.induct)
  case (1 n)
  show ?case
  proof (cases "n < 10")
    case True
    then show ?thesis
      by (simp add: str_nat.simps [of n] nat_of_digits_def digit_value_def)
  next
    case False
    then have "nat_of_digits (str_nat n) = 10 * nat_of_digits (str_nat (n div 10)) + n mod 10"
      by (simp add: str_nat.simps [of n] digit_value_def)
    with 1 False show ?thesis by simp
  qed
qed

lemma str_nat_inject [simp]: "str_nat m = str_nat n \<longleftrightarrow> m = n"
  by (metis nat_of_digits_str_nat)

lemma str_nat_no_leading_zero: "0 < n \<Longrightarrow> hd (str_nat n) \<noteq> CHR ''0''"
proof (induction n rule: str_nat.induct)
  case (1 n)
  show ?case
  proof (cases "n < 10")
    case True
    with 1 have "code_point (char_of (48 + n)) \<noteq> code_point (CHR ''0'')"
      by (simp add: code_point_def [of "CHR ''0''"])
    then show ?thesis using True by (auto simp add: str_nat.simps [of n] simp del: code_point_char_of)
  next
    case False
    with 1 show ?thesis by (simp add: str_nat.simps [of n])
  qed
qed

lemma str_nat_length: "n < 10 ^ k \<Longrightarrow> 0 < k \<Longrightarrow> length (str_nat n) \<le> k"
proof (induction n arbitrary: k rule: str_nat.induct)
  case (1 n)
  show ?case
  proof (cases "n < 10")
    case True
    with 1 show ?thesis by (simp add: str_nat.simps [of n])
  next
    case False
    with 1(2) obtain j where k: "k = Suc j" and j: "0 < j"
      by (cases k; cases "k = 1") (auto simp: numeral_eq_Suc)
    with 1(2) have "n div 10 < 10 ^ j" by (simp add: less_mult_imp_div_less mult.commute)
    with 1(1) False j k show ?thesis by (simp add: str_nat.simps [of n])
  qed
qed

section \<open>Tables\<close>

text \<open>
  A database table is the list of its rows. \<open>get_row\<close> is a lookup by primary
  key, \<open>update_rows\<close> an \<open>UPDATE ... WHERE\<close>; filters and deletions are
  \<^const>\<open>filter\<close>. Row operations of the program keep the primary key, which is
  what the laws of the interface \<open>row_store\<close> need.
\<close>

definition get_row :: "('row \<Rightarrow> 'k) \<Rightarrow> 'k \<Rightarrow> 'row list \<Rightarrow> 'row option" where
  "get_row key k rows = find (\<lambda>r. key r = k) rows"

definition update_rows :: "('row \<Rightarrow> bool) \<Rightarrow> ('row \<Rightarrow> 'row) \<Rightarrow> 'row list \<Rightarrow> 'row list" where
  "update_rows P f rows = map (\<lambda>r. if P r then f r else r) rows"

lemma set_update_rows [row_simps]:
  "set (update_rows P f rows) = {r \<in> set rows. \<not> P r} \<union> f ` {r \<in> set rows. P r}"
  by (auto simp: update_rows_def)

lemma length_update_rows [simp]: "length (update_rows P f rows) = length rows"
  by (simp add: update_rows_def)

lemma map_key_update_rows [row_simps]:
  "(\<And>r. P r \<Longrightarrow> g (f r) = g r) \<Longrightarrow> map g (update_rows P f rows) = map g rows"
  by (auto simp: update_rows_def)

lemma update_rows_id: "\<forall>r\<in>set rows. \<not> P r \<Longrightarrow> update_rows P f rows = rows"
  by (induction rows) (auto simp: update_rows_def)

lemma get_row_Some_iff:
  "distinct (map key rows) \<Longrightarrow> get_row key k rows = Some r \<longleftrightarrow> r \<in> set rows \<and> key r = k"
  by (induction rows) (auto simp: get_row_def)

lemma get_row_SomeD: "get_row key k rows = Some r \<Longrightarrow> r \<in> set rows \<and> key r = k"
  by (induction rows) (auto simp: get_row_def split: if_splits)

lemma get_row_None_iff: "get_row key k rows = None \<longleftrightarrow> k \<notin> key ` set rows"
  by (induction rows) (auto simp: get_row_def)

lemma get_row_append [row_simps]:
  "get_row key k (rows @ [r]) =
     (case get_row key k rows of Some x \<Rightarrow> Some x | None \<Rightarrow> if key r = k then Some r else None)"
  by (induction rows) (auto simp: get_row_def)

lemma get_row_update_rows [row_simps]:
  assumes "\<And>r. P r \<Longrightarrow> key (f r) = key r"
  shows "get_row key k (update_rows P f rows) =
           map_option (\<lambda>r. if P r then f r else r) (get_row key k rows)"
  using assms by (induction rows) (auto simp: get_row_def update_rows_def)

lemma get_row_filter:
  "distinct (map key rows) \<Longrightarrow>
     get_row key k (filter P rows) =
       (case get_row key k rows of None \<Rightarrow> None | Some r \<Rightarrow> if P r then Some r else None)"
proof (induction rows)
  case (Cons a rows)
  show ?case
  proof (cases "key a = k")
    case True
    with Cons.prems have "get_row key k (filter P rows) = None"
      by (auto simp: get_row_None_iff)
    with True show ?thesis by (simp add: get_row_def)
  next
    case False
    with Cons show ?thesis by (simp add: get_row_def)
  qed
qed (simp add: get_row_def)

lemma get_row_filter_key [row_simps]:
  "get_row key k (filter (\<lambda>r. \<not> p (key r)) rows) = (if p k then None else get_row key k rows)"
  by (induction rows) (auto simp: get_row_def)

lemma distinct_keys_filter:
  "distinct (map key rows) \<Longrightarrow> distinct (map key (filter P rows))"
  by (induction rows) auto

lemma distinct_keys_eq:
  "distinct (map key rows) \<Longrightarrow> r \<in> set rows \<Longrightarrow> s \<in> set rows \<Longrightarrow> key r = key s \<Longrightarrow> r = s"
  by (auto simp: distinct_map dest: inj_onD)

text \<open>
  What a client of one table relies on: a saved row is read back, no other row
  moves, and saves to one row compose.
\<close>

locale row_store =
  fixes key :: "'row \<Rightarrow> 'k"
    and get :: "'k \<Rightarrow> 't \<Rightarrow> 'row option"
    and save :: "'k \<Rightarrow> ('row \<Rightarrow> 'row) \<Rightarrow> 't \<Rightarrow> 't"
  assumes get_key: "get k t = Some r \<Longrightarrow> key r = k"
    and get_save_same: "(\<And>r. key (f r) = key r) \<Longrightarrow> get k (save k f t) = map_option f (get k t)"
    and get_save_other: "(\<And>r. key (f r) = key r) \<Longrightarrow> k' \<noteq> k \<Longrightarrow> get k' (save k f t) = get k' t"
begin

lemma save_preserves:
  assumes "\<And>r. key (f r) = key r"
    and "\<And>k r. get k t = Some r \<Longrightarrow> Q k r"
    and "\<And>r. get k0 t = Some r \<Longrightarrow> Q k0 r \<Longrightarrow> Q k0 (f r)"
    and "get k (save k0 f t) = Some r'"
  shows "Q k r'"
  using assms by (cases "k = k0") (auto simp: get_save_same get_save_other)

lemma save_save:
  "(\<And>r. key (f r) = key r) \<Longrightarrow> (\<And>r. key (g r) = key r) \<Longrightarrow>
     get k (save k g (save k f t)) = map_option (g \<circ> f) (get k t)"
  by (simp add: get_save_same option.map_comp)

lemma save_present:
  "(\<And>r. key (f r) = key r) \<Longrightarrow> get k' (save k f t) = None \<longleftrightarrow> get k' t = None"
  by (cases "k' = k") (simp_all add: get_save_same get_save_other)

end

text \<open>\<open>qs.order_by(f).first()\<close>\<close>

lemma first_sorted_Some:
  "(case sort_key f xs of [] \<Rightarrow> None | x # _ \<Rightarrow> Some x) = Some y \<Longrightarrow> y \<in> set xs"
  using set_sort [of f xs] by (cases "sort_key f xs") auto

lemma first_sorted_None:
  "(case sort_key f xs of [] \<Rightarrow> None | x # _ \<Rightarrow> Some x) = None \<longleftrightarrow> xs = []"
  using set_sort [of f xs] by (cases "sort_key f xs") auto

lemma distinct_map_splits:
  assumes "\<And>xs1 x xs2 y. xs = xs1 @ x # xs2 \<Longrightarrow> y \<in> set xs1 \<Longrightarrow> f y \<noteq> f x"
  shows "distinct (map f xs)"
  using assms
proof (induction xs rule: rev_induct)
  case (snoc x xs)
  have "f y \<noteq> f x" if "y \<in> set xs" for y using snoc.prems [of xs x "[]" y] that by simp
  moreover have "distinct (map f xs)"
  proof (rule snoc.IH)
    fix xs1 z xs2 y assume "xs = xs1 @ z # xs2" "y \<in> set xs1"
    then show "f y \<noteq> f z" using snoc.prems [of xs1 z "xs2 @ [x]" y] by simp
  qed
  ultimately show ?case by force
qed simp

section \<open>Transition systems\<close>

text \<open>
  What reasoning about the running system relies on: an invariant of the initial states
  that every step keeps. It holds in every reachable state, and what every step keeps
  under the invariant holds along every run.
\<close>

locale invariant_system =
  fixes init :: "'s \<Rightarrow> bool"
    and step :: "'s \<Rightarrow> 's \<Rightarrow> bool"
    and inv :: "'s \<Rightarrow> bool"
  assumes init_inv: "init s \<Longrightarrow> inv s"
    and step_inv: "step s s' \<Longrightarrow> inv s \<Longrightarrow> inv s'"
begin

lemma run_inv: "step\<^sup>*\<^sup>* s s' \<Longrightarrow> inv s \<Longrightarrow> inv s'"
  by (induction rule: rtranclp_induct) (auto intro: step_inv)

lemma reached_inv: "init s0 \<Longrightarrow> step\<^sup>*\<^sup>* s0 s \<Longrightarrow> inv s"
  by (auto intro: run_inv init_inv)

lemma run_keeps:
  assumes "step\<^sup>*\<^sup>* s s'" and "inv s" and "P s"
    and keep: "\<And>a b. inv a \<Longrightarrow> step a b \<Longrightarrow> P a \<Longrightarrow> P b"
  shows "P s'"
  using assms(1-3)
proof (induction rule: rtranclp_induct)
  case (step y z)
  moreover have "inv y" using step.hyps(1) step.prems(1) by (rule run_inv)
  ultimately show ?case using keep by blast
qed

end

end
