(* ===== verification/Relay_Json.thy ===== *)
theory Relay_Json
  imports Relay_Prelude Complex_Main
begin

text \<open>
  JSON values as Python holds them after parsing (\<open>context\<close>, \<open>payload_snapshot\<close>),
  with Python's \<open>==\<close> on them: a \<open>dict\<close> is compared without regard to order, and
  \<open>bool\<close>, \<open>int\<close> and \<open>float\<close> are compared by value (\<open>True == 1 == 1.0\<close>). A finite
  float is a rational number; the JSON parser of the API refuses NaN and infinities.
\<close>

datatype json =
    JNull
  | JBool bool
  | JInt int
  | JFloat rat
  | JStr pystr
  | JArr "json list"
  | JObj "(pystr \<times> json) list"

fun json_number :: "json \<Rightarrow> rat option" where
  "json_number (JBool b) = Some (if b then 1 else 0)"
| "json_number (JInt i) = Some (of_int i)"
| "json_number (JFloat r) = Some r"
| "json_number _ = None"

fun py_eq :: "json \<Rightarrow> json \<Rightarrow> bool"
  and py_eq_list :: "json list \<Rightarrow> json list \<Rightarrow> bool"
  and py_eq_items :: "(pystr \<times> json) list \<Rightarrow> (pystr \<times> json) list \<Rightarrow> bool" where
  "py_eq JNull b = (b = JNull)"
| "py_eq (JStr s) b = (b = JStr s)"
| "py_eq (JArr xs) b = (case b of JArr ys \<Rightarrow> py_eq_list xs ys | _ \<Rightarrow> False)"
| "py_eq (JObj xs) b =
     (case b of JObj ys \<Rightarrow> length xs = length ys \<and> py_eq_items xs ys | _ \<Rightarrow> False)"
| "py_eq a b = (case json_number b of Some r \<Rightarrow> json_number a = Some r | None \<Rightarrow> False)"
| "py_eq_list [] ys = (ys = [])"
| "py_eq_list (x # xs) ys = (case ys of [] \<Rightarrow> False | y # ys' \<Rightarrow> py_eq x y \<and> py_eq_list xs ys')"
| "py_eq_items [] ys = True"
| "py_eq_items ((k, v) # xs) ys =
     (case map_of ys k of None \<Rightarrow> False | Some w \<Rightarrow> py_eq v w \<and> py_eq_items xs ys)"

text \<open>A \<open>dict\<close> has each key once.\<close>

fun json_ok :: "json \<Rightarrow> bool" where
  "json_ok (JArr xs) = list_all json_ok xs"
| "json_ok (JObj xs) = (distinct (map fst xs) \<and> list_all (\<lambda>(k, v). json_ok v) xs)"
| "json_ok _ = True"

text \<open>
  What PostgreSQL can store: its text and \<open>jsonb\<close> values cannot contain the character
  \<open>U+0000\<close>, which JSON can spell as an escape.
\<close>

definition storable_text :: "pystr \<Rightarrow> bool" where
  "storable_text s \<longleftrightarrow> CHR 0x00 \<notin> set s"

fun storable_json :: "json \<Rightarrow> bool" where
  "storable_json (JStr s) = storable_text s"
| "storable_json (JArr xs) = list_all storable_json xs"
| "storable_json (JObj xs) = list_all (\<lambda>(k, v). storable_text k \<and> storable_json v) xs"
| "storable_json _ = True"

lemma storable_text_simps [simp]:
  "storable_text []" "storable_text (c # s) \<longleftrightarrow> c \<noteq> CHR 0x00 \<and> storable_text s"
  "storable_text (s @ t) \<longleftrightarrow> storable_text s \<and> storable_text t"
  by (auto simp: storable_text_def)

text \<open>\<open>bool(v)\<close>, and the idiom \<open>v or {}\<close>.\<close>

fun py_truthy :: "json \<Rightarrow> bool" where
  "py_truthy JNull = False"
| "py_truthy (JBool b) = b"
| "py_truthy (JInt i) = (i \<noteq> 0)"
| "py_truthy (JFloat r) = (r \<noteq> 0)"
| "py_truthy (JStr s) = (s \<noteq> [])"
| "py_truthy (JArr xs) = (xs \<noteq> [])"
| "py_truthy (JObj xs) = (xs \<noteq> [])"

definition or_empty_dict :: "json \<Rightarrow> json" where
  "or_empty_dict v = (if py_truthy v then v else JObj [])"

definition is_dict :: "json \<Rightarrow> bool" where
  "is_dict v = (case v of JObj _ \<Rightarrow> True | _ \<Rightarrow> False)"

lemma or_empty_dict_idem [simp]: "or_empty_dict (or_empty_dict v) = or_empty_dict v"
  by (simp add: or_empty_dict_def)

lemma or_empty_dict_dict: "is_dict v \<Longrightarrow> or_empty_dict v = v"
  by (cases v) (auto simp: or_empty_dict_def is_dict_def)

lemma json_ok_or_empty: "json_ok v \<Longrightarrow> json_ok (or_empty_dict v)"
  by (simp add: or_empty_dict_def)

section \<open>Equality of JSON values\<close>

lemma py_eq_items_iff:
  "py_eq_items xs ys \<longleftrightarrow> (\<forall>(k, v)\<in>set xs. \<exists>w. map_of ys k = Some w \<and> py_eq v w)"
  by (induction xs) (auto split: option.splits)

lemma py_eq_list_iff: "py_eq_list xs ys \<longleftrightarrow> list_all2 py_eq xs ys"
  by (induction xs arbitrary: ys) (auto split: list.splits)

lemma py_eq_refl: "json_ok v \<Longrightarrow> py_eq v v"
proof (induction v)
  case (JArr xs)
  then show ?case by (auto simp: py_eq_list_iff list_all2_same list_all_iff)
next
  case (JObj xs)
  then show ?case
    by (fastforce simp: py_eq_items_iff list_all_iff)
qed auto

text \<open>
  Two dicts with distinct keys and the same number of items that agree on the
  keys of the first agree on the keys of the second.
\<close>

lemma dict_items_sym:
  assumes "distinct (map fst xs)" and "distinct (map fst ys)" and "length xs = length ys"
    and "\<forall>(k, v)\<in>set xs. \<exists>w. map_of ys k = Some w \<and> R v w"
  shows "\<forall>(k, w)\<in>set ys. \<exists>v. map_of xs k = Some v \<and> R v w"
proof -
  have sub: "fst ` set xs \<subseteq> fst ` set ys"
    using assms(4) by (force dest: map_of_SomeD)
  have "card (fst ` set xs) = card (fst ` set ys)"
    using assms(1-3) by (metis distinct_card length_map list.set_map)
  with sub have keys: "fst ` set xs = fst ` set ys"
    by (simp add: card_subset_eq)
  show ?thesis
  proof clarify
    fix k w assume kw: "(k, w) \<in> set ys"
    with keys obtain v where kv: "(k, v) \<in> set xs" by (metis fst_conv image_iff prod.collapse)
    with assms(4) obtain w' where w': "map_of ys k = Some w'" "R v w'" by auto
    moreover have "map_of ys k = Some w" using kw assms(2) by simp
    moreover have "map_of xs k = Some v" using kv assms(1) by simp
    ultimately show "\<exists>v. map_of xs k = Some v \<and> R v w" by simp
  qed
qed

lemma py_eq_sym: "json_ok a \<Longrightarrow> json_ok b \<Longrightarrow> py_eq a b \<Longrightarrow> py_eq b a"
proof (induction a arbitrary: b)
  case (JArr xs)
  from JArr.prems(3) obtain ys where b: "b = JArr ys" "list_all2 py_eq xs ys"
    by (auto simp: py_eq_list_iff split: json.splits)
  have "list_all2 py_eq ys xs"
    unfolding list_all2_conv_all_nth
  proof (intro conjI allI impI)
    show "length ys = length xs" using b(2) by (simp add: list_all2_lengthD)
    fix i assume "i < length ys"
    with b(2) have i: "i < length xs" "py_eq (xs ! i) (ys ! i)"
      by (auto simp: list_all2_conv_all_nth)
    then show "py_eq (ys ! i) (xs ! i)"
      using JArr.IH [of "xs ! i" "ys ! i"] JArr.prems(1,2) b \<open>i < length ys\<close>
      by (simp add: list_all_length)
  qed
  with b show ?case by (simp add: py_eq_list_iff)
next
  case (JObj xs)
  from JObj.prems(3) obtain ys where b: "b = JObj ys" and len: "length xs = length ys"
    and items: "py_eq_items xs ys" by (auto split: json.splits)
  let ?R = "\<lambda>v w. py_eq w v"
  have "\<forall>(k, v)\<in>set xs. \<exists>w. map_of ys k = Some w \<and> ?R v w"
  proof clarify
    fix k v assume kv: "(k, v) \<in> set xs"
    with items obtain w where w: "map_of ys k = Some w" "py_eq v w"
      by (auto simp: py_eq_items_iff)
    have "json_ok v" using JObj.prems(1) kv by (auto simp: list_all_iff)
    moreover have "json_ok w" using JObj.prems(2) w(1) b
      by (auto simp: list_all_iff dest: map_of_SomeD)
    ultimately have "py_eq w v" using JObj.IH [of "(k, v)" v w] kv w(2) by simp
    with w(1) show "\<exists>w. map_of ys k = Some w \<and> py_eq w v" by blast
  qed
  then have "\<forall>(k, w)\<in>set ys. \<exists>v. map_of xs k = Some v \<and> py_eq w v"
    using dict_items_sym [of xs ys ?R] JObj.prems(1,2) len b by simp
  with b len show ?case by (simp add: py_eq_items_iff)
qed (auto split: json.splits option.splits elim: json_number.elims)

end
