(* ===== verification/Relay_Models.thy ===== *)
theory Relay_Models
  imports Relay_Prelude Relay_Json
begin

text \<open>
  The data model: the enumerations and tables declared in
  \<open>apps/core/models/api_key.py\<close>, \<open>apps/templating/models.py\<close> and
  \<open>apps/messages_api/models.py\<close>, the database as one record of tables, and the
  inserts that enforce the constraints those files declare. A foreign key is the
  primary key of the row it refers to; a nullable column is an \<open>option\<close>.
\<close>

section \<open>Enumerations\<close>

datatype channel = EMAIL | WEBHOOK

datatype priority = HIGH | DEFAULT | LOW

datatype message_status = QUEUED | SENDING | SENT | FAILED | DEAD

datatype attempt_result = SUCCESS | TRANSIENT_ERROR | PERMANENT_ERROR

text \<open>\<open>Channel.values\<close> and its like list the members in the order of their declaration.\<close>

lemma channel_all: "(\<forall>c. P c) \<longleftrightarrow> P EMAIL \<and> P WEBHOOK" for P :: "channel \<Rightarrow> bool"
  by (metis channel.exhaust)

lemma channel_ex: "(\<exists>c. P c) \<longleftrightarrow> P EMAIL \<or> P WEBHOOK" for P :: "channel \<Rightarrow> bool"
  by (metis channel.exhaust)

instantiation channel :: enum
begin

definition "enum_class.enum = [EMAIL, WEBHOOK]"
definition "enum_class.enum_all P \<longleftrightarrow> P EMAIL \<and> P WEBHOOK"
definition "enum_class.enum_ex P \<longleftrightarrow> P EMAIL \<or> P WEBHOOK"

instance
  by intro_classes (auto simp: enum_channel_def enum_all_channel_def enum_ex_channel_def channel_all channel_ex intro: channel.exhaust)

end

lemma priority_all: "(\<forall>c. P c) \<longleftrightarrow> P HIGH \<and> P DEFAULT \<and> P LOW" for P :: "priority \<Rightarrow> bool"
  by (metis priority.exhaust)

lemma priority_ex: "(\<exists>c. P c) \<longleftrightarrow> P HIGH \<or> P DEFAULT \<or> P LOW" for P :: "priority \<Rightarrow> bool"
  by (metis priority.exhaust)

instantiation priority :: enum
begin

definition "enum_class.enum = [HIGH, DEFAULT, LOW]"
definition "enum_class.enum_all P \<longleftrightarrow> P HIGH \<and> P DEFAULT \<and> P LOW"
definition "enum_class.enum_ex P \<longleftrightarrow> P HIGH \<or> P DEFAULT \<or> P LOW"

instance
  by intro_classes (auto simp: enum_priority_def enum_all_priority_def enum_ex_priority_def priority_all priority_ex intro: priority.exhaust)

end

fun channel_value :: "channel \<Rightarrow> pystr" where
  "channel_value EMAIL = ''email''"
| "channel_value WEBHOOK = ''webhook''"

fun priority_value :: "priority \<Rightarrow> pystr" where
  "priority_value HIGH = ''high''"
| "priority_value DEFAULT = ''default''"
| "priority_value LOW = ''low''"

section \<open>Rows\<close>

record api_key =
  ak_id :: nat
  ak_name :: pystr
  ak_key_id :: pystr
  ak_hashed_secret :: pystr
  ak_webhook_secret :: pystr
  ak_rate_limit_per_min :: nat
  ak_burst :: nat
  ak_is_active :: bool
  ak_created_at :: timestamp
  ak_revoked_at :: "timestamp option"

record template =
  tm_id :: nat
  tm_name :: pystr
  tm_channel :: channel
  tm_is_active :: bool
  tm_created_at :: timestamp
  tm_deleted_at :: "timestamp option"

record template_version =
  tv_id :: nat
  tv_template :: nat
  tv_version :: nat
  tv_subject_template :: pystr
  tv_body_template :: pystr
  tv_created_at :: timestamp
  tv_created_by :: "nat option"

record message =
  msg_id :: pystr
  msg_idempotency_key :: pystr
  msg_api_key :: "nat option"
  msg_channel :: channel
  msg_recipient :: pystr
  msg_template_version :: "nat option"
  msg_rendered_subject :: pystr
  msg_rendered_body :: pystr
  msg_context :: json
  msg_priority :: priority
  msg_status :: message_status
  msg_scheduled_at :: "timestamp option"
  msg_enqueued_at :: "timestamp option"
  msg_claimed_by :: pystr
  msg_created_at :: timestamp
  msg_updated_at :: timestamp

record delivery_attempt =
  da_message :: pystr
  da_attempt_no :: nat
  da_started_at :: timestamp
  da_finished_at :: "timestamp option"
  da_result :: attempt_result
  da_http_status :: "int option"
  da_smtp_code :: "int option"
  da_error_message :: pystr

record dead_letter =
  dl_message :: pystr
  dl_reason :: pystr
  dl_payload_snapshot :: json
  dl_created_at :: timestamp

text \<open>
  The database. \<open>seq\<close> fields are the next values of the auto-increment primary
  keys the program refers to.
\<close>

record db =
  api_keys :: "api_key list"
  templates :: "template list"
  template_versions :: "template_version list"
  messages :: "message list"
  attempts :: "delivery_attempt list"
  dead_letters :: "dead_letter list"
  seq_api_key :: nat
  seq_template :: nat
  seq_template_version :: nat

text \<open>Django's database exceptions that the program can meet.\<close>

datatype db_error = IntegrityError | DoesNotExist | DatabaseError | DataError

section \<open>Queries and writes\<close>

definition get_message :: "pystr \<Rightarrow> db \<Rightarrow> message option" where
  "get_message k d = get_row msg_id k (messages d)"

definition save_message :: "pystr \<Rightarrow> (message \<Rightarrow> message) \<Rightarrow> db \<Rightarrow> db" where
  "save_message k f d = d\<lparr>messages := update_rows (\<lambda>m. msg_id m = k) f (messages d)\<rparr>"

definition message_attempts :: "pystr \<Rightarrow> db \<Rightarrow> delivery_attempt list" where
  "message_attempts k d = filter (\<lambda>a. da_message a = k) (attempts d)"

definition get_dead_letter :: "pystr \<Rightarrow> db \<Rightarrow> dead_letter option" where
  "get_dead_letter k d = get_row dl_message k (dead_letters d)"

definition get_api_key :: "nat \<Rightarrow> db \<Rightarrow> api_key option" where
  "get_api_key k d = get_row ak_id k (api_keys d)"

definition get_template_version :: "nat \<Rightarrow> db \<Rightarrow> template_version option" where
  "get_template_version k d = get_row tv_id k (template_versions d)"

text \<open>
  Two rows collide on the constraint \<open>message_idempotency_unique\<close>. SQL treats
  NULL as different from NULL, so rows without an API key never collide.
\<close>

definition idempotency_clash :: "message \<Rightarrow> message \<Rightarrow> bool" where
  "idempotency_clash m n =
     (msg_api_key m \<noteq> None \<and> msg_api_key m = msg_api_key n \<and>
      msg_idempotency_key m = msg_idempotency_key n)"

definition fk_ok :: "('k \<Rightarrow> 'row option) \<Rightarrow> 'k option \<Rightarrow> bool" where
  "fk_ok look r = (case r of None \<Rightarrow> True | Some k \<Rightarrow> look k \<noteq> None)"

text \<open>
  A value a column cannot hold is refused with \<open>DataError\<close> before any constraint is
  looked at: text and JSON with the character \<open>U+0000\<close>. The columns the serializers or
  the HTTP server already keep free of it are not checked again.
\<close>

definition message_storable :: "message \<Rightarrow> bool" where
  "message_storable m \<longleftrightarrow> storable_text (msg_rendered_subject m) \<and> storable_text (msg_rendered_body m) \<and>
     storable_json (msg_context m)"

definition insert_message :: "message \<Rightarrow> db \<Rightarrow> db_error + db" where
  "insert_message m d =
     (if \<not> message_storable m then Inl DataError
      else if get_message (msg_id m) d \<noteq> None
       \<or> list_ex (idempotency_clash m) (messages d)
       \<or> \<not> fk_ok (\<lambda>k. get_api_key k d) (msg_api_key m)
       \<or> \<not> fk_ok (\<lambda>k. get_template_version k d) (msg_template_version m)
      then Inl IntegrityError
      else Inr (d\<lparr>messages := messages d @ [m]\<rparr>))"

text \<open>The largest value of PostgreSQL's \<open>integer\<close>, the type of a \<open>PositiveIntegerField\<close>.\<close>

definition MAX_INTEGER :: nat where "MAX_INTEGER = 2147483647"

text \<open>
  Django gives a \<open>PositiveIntegerField\<close> the database constraint \<open>CHECK (column >= 0)\<close>,
  which a null passes.
\<close>

definition check_positive :: "int option \<Rightarrow> bool" where
  "check_positive v = (case v of None \<Rightarrow> True | Some n \<Rightarrow> 0 \<le> n)"

lemma check_positive_simps [simp]: "check_positive None" "check_positive (Some n) \<longleftrightarrow> 0 \<le> n"
  by (simp_all add: check_positive_def)

text \<open>
  \<open>delivery_attempt_unique\<close> on (message, attempt_no), the foreign key, and the checks of
  the two code columns.
\<close>

definition insert_attempt :: "delivery_attempt \<Rightarrow> db \<Rightarrow> db_error + db" where
  "insert_attempt a d =
     (if \<not> storable_text (da_error_message a) then Inl DataError
      else if get_message (da_message a) d = None
       \<or> list_ex (\<lambda>b. da_message b = da_message a \<and> da_attempt_no b = da_attempt_no a) (attempts d)
       \<or> \<not> check_positive (da_http_status a) \<or> \<not> check_positive (da_smtp_code a)
      then Inl IntegrityError
      else Inr (d\<lparr>attempts := attempts d @ [a]\<rparr>))"

text \<open>
  \<open>DeadLetter.objects.get_or_create(message=..., defaults=...)\<close>: the one-to-one
  relation keeps at most one row per message.
\<close>

definition get_or_create_dead_letter :: "dead_letter \<Rightarrow> db \<Rightarrow> db_error + db" where
  "get_or_create_dead_letter l d =
     (case get_dead_letter (dl_message l) d of
        Some _ \<Rightarrow> Inr d
      | None \<Rightarrow> if get_message (dl_message l) d = None then Inl IntegrityError
                else Inr (d\<lparr>dead_letters := dead_letters d @ [l]\<rparr>))"

text \<open>
  \<open>msg.save(update_fields=[...])\<close>: Django raises \<open>DatabaseError\<close> when the row is gone.
\<close>

definition save_fields :: "pystr \<Rightarrow> (message \<Rightarrow> message) \<Rightarrow> db \<Rightarrow> db_error + db" where
  "save_fields k f d =
     (if get_message k d = None then Inl DatabaseError else Inr (save_message k f d))"

text \<open>
  \<open>QuerySet.delete()\<close> on messages: attempts and dead letters cascade. The number
  returned counts every deleted row.
\<close>

definition delete_messages :: "pystr list \<Rightarrow> db \<Rightarrow> nat \<times> db" where
  "delete_messages ks d =
     (let gone = (\<lambda>k. k \<in> set ks);
          ms = filter (\<lambda>m. \<not> gone (msg_id m)) (messages d);
          ats = filter (\<lambda>a. \<not> gone (da_message a)) (attempts d);
          dls = filter (\<lambda>l. \<not> gone (dl_message l)) (dead_letters d)
      in ((length (messages d) - length ms) + (length (attempts d) - length ats)
            + (length (dead_letters d) - length dls),
          d\<lparr>messages := ms, attempts := ats, dead_letters := dls\<rparr>))"

section \<open>Well-formed databases\<close>

text \<open>
  The constraints of the three model files, as one invariant: primary keys,
  \<open>message_idempotency_unique\<close>, \<open>delivery_attempt_unique\<close>, the one-to-one dead
  letter, and the foreign keys of attempts and dead letters.
\<close>

definition idempotency_unique :: "message list \<Rightarrow> bool" where
  "idempotency_unique ms =
     (\<forall>m\<in>set ms. \<forall>n\<in>set ms. idempotency_clash m n \<longrightarrow> msg_id m = msg_id n)"

definition db_ok :: "db \<Rightarrow> bool" where
  "db_ok d \<longleftrightarrow>
     distinct (map msg_id (messages d)) \<and>
     idempotency_unique (messages d) \<and>
     distinct (map (\<lambda>a. (da_message a, da_attempt_no a)) (attempts d)) \<and>
     distinct (map dl_message (dead_letters d)) \<and>
     da_message ` set (attempts d) \<subseteq> msg_id ` set (messages d) \<and>
     dl_message ` set (dead_letters d) \<subseteq> msg_id ` set (messages d)"

lemma db_ok_messages: "db_ok d \<Longrightarrow> distinct (map msg_id (messages d))"
  by (simp add: db_ok_def)

lemma get_message_iff:
  "db_ok d \<Longrightarrow> get_message k d = Some m \<longleftrightarrow> m \<in> set (messages d) \<and> msg_id m = k"
  by (simp add: get_message_def get_row_Some_iff db_ok_def)

lemma get_message_id: "get_message k d = Some m \<Longrightarrow> msg_id m = k"
  by (auto simp: get_message_def dest: get_row_SomeD)

lemma get_message_None: "get_message k d = None \<longleftrightarrow> k \<notin> msg_id ` set (messages d)"
  by (simp add: get_message_def get_row_None_iff)

interpretation msgs: row_store msg_id get_message save_message
  by unfold_locales
    (auto simp: get_message_def save_message_def row_simps map_option_case
          dest: get_row_SomeD split: option.splits)

lemma idempotency_unique_snoc:
  assumes "idempotency_unique ms" and "\<And>n. n \<in> set ms \<Longrightarrow> \<not> idempotency_clash m n"
  shows "idempotency_unique (ms @ [m])"
proof -
  have "\<not> idempotency_clash n m" if "n \<in> set ms" for n
    using assms(2) [OF that] by (auto simp: idempotency_clash_def)
  with assms show ?thesis by (simp add: idempotency_unique_def ball_Un)
qed

lemma insert_messageD:
  assumes "insert_message m d = Inr d'"
  shows "d' = d\<lparr>messages := messages d @ [m]\<rparr>" and "msg_id m \<notin> msg_id ` set (messages d)"
    and "n \<in> set (messages d) \<Longrightarrow> \<not> idempotency_clash m n" and "message_storable m"
  using assms
  by (simp_all add: insert_message_def get_message_None list_ex_iff split: if_splits)

lemma insert_message_ok [inv_intros]:
  assumes "db_ok d" and "insert_message m d = Inr d'"
  shows "db_ok d'"
proof -
  note new = insert_messageD [OF assms(2)]
  have "idempotency_unique (messages d')"
    using assms(1) new(3) by (simp add: new(1) db_ok_def idempotency_unique_snoc)
  then show ?thesis using assms(1) new(2) by (simp add: db_ok_def new(1) subset_insertI2)
qed

lemma insert_attemptD:
  assumes "insert_attempt a d = Inr d'"
  shows "d' = d\<lparr>attempts := attempts d @ [a]\<rparr>" and "da_message a \<in> msg_id ` set (messages d)"
    and "(da_message a, da_attempt_no a) \<notin> (\<lambda>b. (da_message b, da_attempt_no b)) ` set (attempts d)"
    and "check_positive (da_http_status a) \<and> check_positive (da_smtp_code a) \<and> storable_text (da_error_message a)"
  using assms
  by (simp_all add: insert_attempt_def get_message_None list_ex_iff image_iff split: if_splits)
     (metis prod.inject)

lemma insert_attempt_ok [inv_intros]:
  assumes "db_ok d" and "insert_attempt a d = Inr d'"
  shows "db_ok d'"
  using assms(1) insert_attemptD [OF assms(2)] by (simp add: db_ok_def)

lemma get_or_create_dead_letterD:
  assumes "get_or_create_dead_letter l d = Inr d'"
  shows "d' = d \<and> get_dead_letter (dl_message l) d \<noteq> None \<or>
     d' = d\<lparr>dead_letters := dead_letters d @ [l]\<rparr> \<and> dl_message l \<in> msg_id ` set (messages d) \<and>
     dl_message l \<notin> dl_message ` set (dead_letters d)"
  using assms get_row_None_iff [of dl_message "dl_message l" "dead_letters d"]
  by (simp add: get_or_create_dead_letter_def get_dead_letter_def get_message_None
      del: not_None_eq split: if_splits option.splits)

lemma get_or_create_dead_letter_ok [inv_intros]:
  assumes "db_ok d" and "get_or_create_dead_letter l d = Inr d'"
  shows "db_ok d'"
  using assms(1) get_or_create_dead_letterD [OF assms(2)] by (elim disjE) (simp_all add: db_ok_def)

text \<open>An update that keeps the key columns keeps the constraints.\<close>

definition keeps_keys :: "(message \<Rightarrow> message) \<Rightarrow> bool" where
  "keeps_keys f \<longleftrightarrow> (\<forall>m. msg_id (f m) = msg_id m \<and> msg_api_key (f m) = msg_api_key m \<and>
                        msg_idempotency_key (f m) = msg_idempotency_key m)"

lemma keeps_keysD: "keeps_keys f \<Longrightarrow> msg_id (f m) = msg_id m"
  by (simp add: keeps_keys_def)

lemma get_message_save [row_simps]:
  "keeps_keys f \<Longrightarrow> get_message j (save_message k f d) =
     (if j = k then map_option f (get_message j d) else get_message j d)"
  by (simp add: msgs.get_save_same msgs.get_save_other keeps_keysD)

lemma update_idempotency_unique:
  assumes "idempotency_unique ms" and f: "keeps_keys f"
  shows "idempotency_unique (update_rows P f ms)"
  unfolding idempotency_unique_def
proof (intro ballI impI)
  let ?g = "\<lambda>m. if P m then f m else m"
  fix m n assume "m \<in> set (update_rows P f ms)" "n \<in> set (update_rows P f ms)"
    and clash: "idempotency_clash m n"
  then obtain a b where ab: "a \<in> set ms" "b \<in> set ms" "m = ?g a" "n = ?g b"
    by (auto simp: update_rows_def)
  have "idempotency_clash a b" and id: "msg_id m = msg_id a" "msg_id n = msg_id b"
    using clash f by (auto simp: ab idempotency_clash_def keeps_keys_def split: if_splits)
  with ab assms(1) show "msg_id m = msg_id n" by (simp add: idempotency_unique_def)
qed

lemma update_messages_ok [inv_intros]:
  assumes "db_ok d" and f: "keeps_keys f"
  shows "db_ok (d\<lparr>messages := update_rows P f (messages d)\<rparr>)"
proof -
  let ?ms = "update_rows P f (messages d)"
  have ids: "map msg_id ?ms = map msg_id (messages d)"
    using f by (simp add: row_simps keeps_keys_def)
  have "idempotency_unique ?ms"
    using assms(1) update_idempotency_unique [OF _ f] by (simp add: db_ok_def)
  moreover have "msg_id ` set ?ms = msg_id ` set (messages d)"
    using ids by (metis image_set)
  ultimately show ?thesis using assms(1) ids by (simp add: db_ok_def)
qed

lemma save_message_ok [inv_intros]: "db_ok d \<Longrightarrow> keeps_keys f \<Longrightarrow> db_ok (save_message k f d)"
  by (simp add: save_message_def update_messages_ok)

lemma keys_subset_filter:
  assumes "k ` A \<subseteq> j ` B"
  shows "k ` {x \<in> A. k x \<notin> S} \<subseteq> j ` {y \<in> B. j y \<notin> S}"
proof (rule image_subsetI)
  fix x assume x: "x \<in> {x \<in> A. k x \<notin> S}"
  with assms have "k x \<in> j ` B" by blast
  then obtain y where "y \<in> B" "k x = j y" by blast
  with x show "k x \<in> j ` {y \<in> B. j y \<notin> S}" by simp
qed

lemma delete_messages_ok [inv_intros]: "db_ok d \<Longrightarrow> db_ok (snd (delete_messages ks d))"
  by (simp add: db_ok_def delete_messages_def Let_def distinct_keys_filter
      idempotency_unique_def keys_subset_filter)

end
