(* ===== verification/Relay_Json_Loads.thy ===== *)
theory Relay_Json_Loads
  imports Relay_Prelude
begin

text \<open>
  Which strings \<open>json.loads\<close> accepts. The renderer calls it on a webhook body only to
  see whether it raises, so this is a recogniser: it follows the scanner of Python's
  \<open>json\<close> module (its default, strict decoder) and returns the unread rest of the input.
  Three outcomes matter to the caller: the text parses, it raises a \<open>ValueError\<close>
  (\<open>Bad\<close>), or the nesting exceeds the interpreter's recursion limit and it raises a
  \<open>RecursionError\<close> (\<open>TooDeep\<close>). Fuel makes the scanner structurally recursive;
  \<open>json_loads_terminates\<close> shows that twice the length of the input plus two is enough.
\<close>

datatype scan = Ok pystr | Bad | TooDeep | OutOfFuel

definition json_ws :: "char \<Rightarrow> bool" where
  "json_ws c = (c = CHR '' '' \<or> code_point c = 9 \<or> code_point c = 10 \<or> code_point c = 13)"

definition skip_ws :: "pystr \<Rightarrow> pystr" where
  "skip_ws s = dropWhile json_ws s"

definition hex_digit :: "char \<Rightarrow> bool" where
  "hex_digit c = (let n = code_point c in
     48 \<le> n \<and> n \<le> 57 \<or> 65 \<le> n \<and> n \<le> 70 \<or> 97 \<le> n \<and> n \<le> 102)"

text \<open>\<open>scanstring\<close>, strict: after the opening quote, up to and including the closing one.\<close>

fun scan_string :: "pystr \<Rightarrow> pystr option" where
  "scan_string [] = None"
| "scan_string (c # cs) =
     (if code_point c = 34 then Some cs
      else if code_point c < 32 then None
      else if code_point c = 92 then
        (case cs of
           [] \<Rightarrow> None
         | e # es \<Rightarrow>
             if e = CHR ''u'' then
               (if length es \<ge> 4 \<and> list_all hex_digit (take 4 es) then scan_string (drop 4 es) else None)
             else if code_point e = 34 \<or> code_point e = 92 \<or> e \<in> set ''/bfnrt'' then scan_string es
             else None)
      else scan_string cs)"

text \<open>
  \<open>NUMBER_RE\<close>: an integer part without leading zeros, then a fraction and an exponent
  where they match. An integer literal of more than 4300 digits is refused by \<open>int()\<close>
  with a \<open>ValueError\<close>.
\<close>

definition int_max_str_digits :: nat where "int_max_str_digits = 4300"

definition scan_frac :: "pystr \<Rightarrow> bool \<times> pystr" where
  "scan_frac s = (case s of
      c # d # ds \<Rightarrow> if c = CHR ''.'' \<and> ascii_digit d then (True, dropWhile ascii_digit ds) else (False, s)
    | _ \<Rightarrow> (False, s))"

definition scan_exp :: "pystr \<Rightarrow> bool \<times> pystr" where
  "scan_exp s = (case s of
      e # es \<Rightarrow>
        if e = CHR ''e'' \<or> e = CHR ''E'' then
          (let ds = (case es of c # cs \<Rightarrow> if c = CHR ''+'' \<or> c = CHR ''-'' then cs else es | [] \<Rightarrow> [])
           in if ds \<noteq> [] \<and> ascii_digit (hd ds) then (True, dropWhile ascii_digit ds) else (False, s))
        else (False, s)
    | [] \<Rightarrow> (False, s))"

definition scan_number :: "pystr \<Rightarrow> pystr option" where
  "scan_number s =
     (let t = (case s of c # cs \<Rightarrow> if c = CHR ''-'' then cs else s | [] \<Rightarrow> []) in
      case t of
        [] \<Rightarrow> None
      | d # ds \<Rightarrow>
          if \<not> ascii_digit d then None
          else
            let ip = (if d = CHR ''0'' then [] else takeWhile ascii_digit ds);
                rest = drop (length ip) ds;
                (isf, r1) = scan_frac rest;
                (ise, r2) = scan_exp r1
            in if \<not> isf \<and> \<not> ise \<and> length ip + 1 > int_max_str_digits then None else Some r2)"

definition json_words :: "pystr list" where
  "json_words = [''null'', ''true'', ''false'', ''NaN'', ''Infinity'', ''-Infinity'']"

definition scan_literal :: "pystr \<Rightarrow> pystr option" where
  "scan_literal s =
     (case filter (py_startswith s) json_words of
        w # _ \<Rightarrow> Some (drop (length w) s)
      | [] \<Rightarrow> scan_number s)"

definition of_option :: "pystr option \<Rightarrow> scan" where
  "of_option r = (case r of None \<Rightarrow> Bad | Some s \<Rightarrow> Ok s)"

text \<open>Values, array elements and object members; \<open>dep\<close> is the recursion still allowed.\<close>

fun scan_value :: "nat \<Rightarrow> nat \<Rightarrow> pystr \<Rightarrow> scan"
  and scan_elems :: "nat \<Rightarrow> nat \<Rightarrow> pystr \<Rightarrow> scan"
  and scan_members :: "nat \<Rightarrow> nat \<Rightarrow> pystr \<Rightarrow> scan" where
  "scan_value 0 dep s = OutOfFuel"
| "scan_value (Suc n) dep s =
     (case s of
        [] \<Rightarrow> Bad
      | c # cs \<Rightarrow>
          if code_point c = 34 then of_option (scan_string cs)
          else if c = CHR ''{'' then
            (if dep = 0 then TooDeep
             else case skip_ws cs of
                    [] \<Rightarrow> Bad
                  | x # xs \<Rightarrow> if x = CHR ''}'' then Ok xs else scan_members n (dep - 1) (x # xs))
          else if c = CHR ''['' then
            (if dep = 0 then TooDeep
             else case skip_ws cs of
                    [] \<Rightarrow> Bad
                  | x # xs \<Rightarrow> if x = CHR '']'' then Ok xs else scan_elems n (dep - 1) (x # xs))
          else of_option (scan_literal s))"
| "scan_elems 0 dep s = OutOfFuel"
| "scan_elems (Suc n) dep s =
     (case scan_value n dep s of
        Ok r \<Rightarrow>
          (case skip_ws r of
             [] \<Rightarrow> Bad
           | x # xs \<Rightarrow> if x = CHR '']'' then Ok xs
                      else if x = CHR '','' then scan_elems n dep (skip_ws xs)
                      else Bad)
      | e \<Rightarrow> e)"
| "scan_members 0 dep s = OutOfFuel"
| "scan_members (Suc n) dep s =
     (case s of
        [] \<Rightarrow> Bad
      | q # cs \<Rightarrow>
          if code_point q \<noteq> 34 then Bad
          else case scan_string cs of
                 None \<Rightarrow> Bad
               | Some r \<Rightarrow>
                   (case skip_ws r of
                      [] \<Rightarrow> Bad
                    | y # ys \<Rightarrow>
                        if y \<noteq> CHR '':'' then Bad
                        else case scan_value n dep (skip_ws ys) of
                               Ok t \<Rightarrow>
                                 (case skip_ws t of
                                    [] \<Rightarrow> Bad
                                  | x # xs \<Rightarrow> if x = CHR ''}'' then Ok xs
                                             else if x = CHR '','' then scan_members n dep (skip_ws xs)
                                             else Bad)
                             | e \<Rightarrow> e))"

definition json_fuel :: "pystr \<Rightarrow> nat" where
  "json_fuel s = 2 * length s + 2"

definition json_loads :: "nat \<Rightarrow> pystr \<Rightarrow> scan" where
  "json_loads limit s =
     (let t = skip_ws s in
      case scan_value (json_fuel t) limit t of
        Ok r \<Rightarrow> if skip_ws r = [] then Ok [] else Bad
      | e \<Rightarrow> e)"

section \<open>The scanner consumes input and has enough fuel\<close>

lemma skip_ws_length: "length (skip_ws s) \<le> length s"
  by (simp add: skip_ws_def length_dropWhile_le)

lemma scan_string_length: "scan_string s = Some r \<Longrightarrow> length r < length s"
  by (induction s rule: scan_string.induct) (auto split: if_splits list.splits)

lemma scan_frac_length: "length (snd (scan_frac s)) \<le> length s"
  by (auto simp: scan_frac_def split: list.splits)
     (meson le_SucI length_dropWhile_le)

lemma scan_exp_length: "length (snd (scan_exp s)) \<le> length s"
  using length_dropWhile_le [of ascii_digit]
  by (auto simp: scan_exp_def Let_def le_SucI split: list.splits)

lemma scan_number_length:
  assumes "scan_number s = Some r" shows "length r < length s"
proof -
  define t where "t = (case s of c # cs \<Rightarrow> if c = CHR ''-'' then cs else s | [] \<Rightarrow> [])"
  have t_le: "length t \<le> length s" by (simp add: t_def split: list.splits)
  from assms obtain d ds where t: "t = d # ds"
    by (auto simp: scan_number_def t_def [symmetric] split: list.splits)
  let ?rest = "drop (length (if d = CHR ''0'' then [] else takeWhile ascii_digit ds)) ds"
  have "r = snd (scan_exp (snd (scan_frac ?rest)))"
    using assms t by (auto simp: scan_number_def t_def [symmetric] Let_def split: if_splits prod.splits)
  then have "length r \<le> length ?rest"
    using scan_exp_length scan_frac_length le_trans by metis
  also have "\<dots> \<le> length ds" by simp
  finally show ?thesis using t t_le by simp
qed

lemma json_words_nonempty: "w \<in> set json_words \<Longrightarrow> w \<noteq> []"
  by (auto simp: json_words_def)

lemma scan_literal_length:
  assumes "scan_literal s = Some r" shows "length r < length s"
proof (cases "filter (py_startswith s) json_words")
  case Nil
  with assms show ?thesis by (simp add: scan_literal_def scan_number_length)
next
  case (Cons w ws)
  then have "w \<in> set (filter (py_startswith s) json_words)" by simp
  then have "py_startswith s w" and "w \<noteq> []" using json_words_nonempty by auto
  then obtain t where "s = w @ t" by (auto simp: py_startswith_iff)
  with assms Cons \<open>w \<noteq> []\<close> show ?thesis by (auto simp: scan_literal_def)
qed

lemma of_option_Ok: "of_option x = Ok r \<longleftrightarrow> x = Some r"
  by (auto simp: of_option_def split: option.splits)

lemma of_option_fuel [simp]: "of_option x \<noteq> OutOfFuel"
  by (auto simp: of_option_def split: option.splits)

lemma skip_ws_Cons: "skip_ws s = x # xs \<Longrightarrow> length xs < length s"
  using skip_ws_length [of s] by simp

lemma skip_ws_less: "length r < length (skip_ws t) \<Longrightarrow> length r < length t"
  using skip_ws_length [of t] by simp

lemmas scan_lengths = skip_ws_Cons skip_ws_less scan_string_length scan_literal_length

lemma scan_consumes:
  "(scan_value n dep s = Ok r \<longrightarrow> length r < length s) \<and>
   (scan_elems n dep s = Ok r \<longrightarrow> length r < length s) \<and>
   (scan_members n dep s = Ok r \<longrightarrow> length r < length s)"
proof (induction n arbitrary: dep s r)
  case (Suc n)
  have V: "length r < length s" if "scan_value n dep s = Ok r" for dep s r using Suc that by blast
  have E: "length r < length s" if "scan_elems n dep s = Ok r" for dep s r using Suc that by blast
  have M: "length r < length s" if "scan_members n dep s = Ok r" for dep s r using Suc that by blast
  have "length r < length s" if "scan_value (Suc n) dep s = Ok r"
    using that
    by (auto simp: of_option_Ok split: list.splits if_splits
        dest!: E M dest: scan_lengths)
  moreover have "length r < length s" if "scan_elems (Suc n) dep s = Ok r"
    using that
    by (auto split: scan.splits list.splits if_splits dest!: V E scan_lengths)
  moreover have "length r < length s" if "scan_members (Suc n) dep s = Ok r"
    using that
    by (auto split: scan.splits list.splits if_splits option.splits dest!: V M scan_lengths)
  ultimately show ?case by blast
qed simp

text \<open>A value of length \<open>l\<close> needs at most \<open>2 l + 1\<close> units of fuel, a list of items \<open>2 l + 2\<close>.\<close>

lemma scan_fuel:
  "(2 * length s < n \<longrightarrow> scan_value n dep s \<noteq> OutOfFuel) \<and>
   (2 * length s + 1 < n \<longrightarrow> scan_elems n dep s \<noteq> OutOfFuel) \<and>
   (2 * length s + 1 < n \<longrightarrow> scan_members n dep s \<noteq> OutOfFuel)"
proof (induction n arbitrary: dep s)
  case (Suc n)
  have V: "scan_value n dep s \<noteq> OutOfFuel" if "2 * length s < n" for dep s using Suc that by blast
  have E: "scan_elems n dep s \<noteq> OutOfFuel" if "2 * length s + 1 < n" for dep s using Suc that by blast
  have M: "scan_members n dep s \<noteq> OutOfFuel" if "2 * length s + 1 < n" for dep s using Suc that by blast
  have "scan_value (Suc n) dep s \<noteq> OutOfFuel" if f: "2 * length s < Suc n"
  proof -
    have short: "2 * length (x # xs) + 1 < n" if "s = c # cs" "skip_ws cs = x # xs" for c cs x xs
      using f that skip_ws_length [of cs] by simp
    show ?thesis using E M short by (simp split: list.splits)
  qed
  moreover have "scan_elems (Suc n) dep s \<noteq> OutOfFuel" if f: "2 * length s + 1 < Suc n"
  proof -
    have short: "2 * length (skip_ws xs) + 1 < n" if "scan_value n dep s = Ok r" "skip_ws r = x # xs" for r x xs
      using f that scan_consumes [of n dep s r] skip_ws_length [of xs] skip_ws_Cons [of r x xs] by simp
    from f V [of s dep] E [OF short] show ?thesis by (auto split: scan.splits list.splits)
  qed
  moreover have "scan_members (Suc n) dep s \<noteq> OutOfFuel" if f: "2 * length s + 1 < Suc n"
  proof -
    have v: "2 * length (skip_ws ys) < n \<and> length (skip_ws ys) < length s"
      if "s = q # cs" "scan_string cs = Some r" "skip_ws r = y # ys" for q cs r y ys
      using f that scan_string_length [of cs r] skip_ws_length [of ys] skip_ws_Cons [of r y ys] by simp
    have short: "2 * length (skip_ws xs) + 1 < n"
      if "length u < length s" "scan_value n dep u = Ok r" "skip_ws r = x # xs" for u r x xs
      using f that scan_consumes [of n dep u r] skip_ws_length [of xs] skip_ws_Cons [of r x xs] by simp
    show ?thesis using V v M [OF short] by (auto split: scan.splits list.splits option.splits) blast
  qed
  ultimately show ?case by blast
qed simp

lemma json_loads_terminates: "json_loads limit s \<noteq> OutOfFuel"
  using scan_fuel [of "skip_ws s" "json_fuel (skip_ws s)" limit]
  by (auto simp: json_loads_def Let_def json_fuel_def split: scan.splits)

lemma json_loads_Ok: "json_loads limit s = Ok r \<Longrightarrow> r = []"
  by (auto simp: json_loads_def Let_def split: scan.splits if_splits)

end
