(* ===== verification/Relay_Templating.thy ===== *)
theory Relay_Templating
  imports Relay_Models Relay_Json_Loads "HOL-Library.Multiset"
begin

text \<open>
  \<open>apps/templating/models.py\<close> and \<open>apps/templating/renderer.py\<close>: template rows and
  their versions, and the renderer. Jinja2 is not part of the repository: a compiled
  template is the argument \<open>jinja\<close>, which takes the autoescape flag of the
  environment, the template source and the context, and either raises (\<open>Inl\<close> with
  the text \<open>type: message\<close>) or returns the rendered text.
\<close>

section \<open>Template rows\<close>

definition is_deleted :: "template \<Rightarrow> bool" where
  "is_deleted t = (tm_deleted_at t \<noteq> None)"

definition alive :: "db \<Rightarrow> template list" where
  "alive d = filter (\<lambda>t. tm_deleted_at t = None) (templates d)"

definition active :: "db \<Rightarrow> template list" where
  "active d = filter tm_is_active (alive d)"

text \<open>\<open>Template.objects.alive().filter(name=name).first()\<close>: ordered by primary key.\<close>

definition alive_named :: "pystr \<Rightarrow> db \<Rightarrow> template option" where
  "alive_named name d = find (\<lambda>t. tm_name t = name) (alive d)"

definition versions_of :: "template \<Rightarrow> db \<Rightarrow> template_version list" where
  "versions_of t d = filter (\<lambda>v. tv_template v = tm_id t) (template_versions d)"

text \<open>\<open>versions.order_by("-version")\<close>: a stable sort on the negated number.\<close>

definition versions_desc :: "template \<Rightarrow> db \<Rightarrow> template_version list" where
  "versions_desc t d = sort_key (\<lambda>v. - int (tv_version v)) (versions_of t d)"

definition latest_version :: "template \<Rightarrow> db \<Rightarrow> template_version option" where
  "latest_version t d = (case versions_desc t d of [] \<Rightarrow> None | v # _ \<Rightarrow> Some v)"

definition version_numbered :: "template \<Rightarrow> nat \<Rightarrow> db \<Rightarrow> template_version option" where
  "version_numbered t n d = find (\<lambda>v. tv_version v = n) (versions_of t d)"

text \<open>
  Inserts, with \<open>template_name_unique_alive\<close> (a partial unique index over the rows not
  deleted) and \<open>template_version_unique\<close>.
\<close>

definition insert_template :: "pystr \<Rightarrow> channel \<Rightarrow> timestamp \<Rightarrow> db \<Rightarrow> db_error + template \<times> db" where
  "insert_template name ch now d =
     (if alive_named name d \<noteq> None then Inl IntegrityError
      else let t = \<lparr>tm_id = seq_template d, tm_name = name, tm_channel = ch, tm_is_active = True,
                    tm_created_at = now, tm_deleted_at = None\<rparr>
           in Inr (t, d\<lparr>templates := templates d @ [t], seq_template := Suc (seq_template d)\<rparr>))"

definition insert_template_version ::
    "template \<Rightarrow> nat \<Rightarrow> pystr \<Rightarrow> pystr \<Rightarrow> nat option \<Rightarrow> timestamp \<Rightarrow> db \<Rightarrow> db_error + template_version \<times> db" where
  "insert_template_version t n subject body created_by now d =
     (if version_numbered t n d \<noteq> None then Inl IntegrityError
      else let v = \<lparr>tv_id = seq_template_version d, tv_template = tm_id t, tv_version = n,
                    tv_subject_template = subject, tv_body_template = body,
                    tv_created_at = now, tv_created_by = created_by\<rparr>
           in Inr (v, d\<lparr>template_versions := template_versions d @ [v],
                        seq_template_version := Suc (seq_template_version d)\<rparr>))"

section \<open>Rendering\<close>

record rendered_message =
  rm_subject :: pystr
  rm_body :: pystr

type_synonym jinja = "bool \<Rightarrow> pystr \<Rightarrow> json \<Rightarrow> pystr + pystr"

datatype render_cause = JinjaError pystr | TooLong | NotJson

text \<open>
  \<open>RenderError\<close> is what the view catches; a \<open>RecursionError\<close> of \<open>json.loads\<close> is not a
  \<open>ValueError\<close> and passes through both handlers.
\<close>

datatype render_exn = RenderError render_cause | RecursionError

definition MAX_RENDERED_CHARS :: nat where "MAX_RENDERED_CHARS = 256 * 1024"

definition render_subject :: "jinja \<Rightarrow> template_version \<Rightarrow> json \<Rightarrow> pystr + pystr" where
  "render_subject jinja tv ctx =
     (if tv_subject_template tv \<noteq> [] then jinja False (tv_subject_template tv) ctx else Inr [])"

definition render ::
    "jinja \<Rightarrow> nat \<Rightarrow> template_version \<Rightarrow> json \<Rightarrow> channel \<Rightarrow> render_exn + rendered_message" where
  "render jinja limit tv ctx ch =
     (case jinja (ch = EMAIL) (tv_body_template tv) ctx of
        Inl e \<Rightarrow> Inl (RenderError (JinjaError e))
      | Inr body \<Rightarrow>
          (case render_subject jinja tv ctx of
             Inl e \<Rightarrow> Inl (RenderError (JinjaError e))
           | Inr subject \<Rightarrow>
               if length body + length subject > MAX_RENDERED_CHARS then Inl (RenderError TooLong)
               else if ch = WEBHOOK then
                 (case json_loads limit body of
                    Ok _ \<Rightarrow> Inr \<lparr>rm_subject = subject, rm_body = body\<rparr>
                  | TooDeep \<Rightarrow> Inl RecursionError
                  | _ \<Rightarrow> Inl (RenderError NotJson))
               else Inr \<lparr>rm_subject = subject, rm_body = body\<rparr>))"

section \<open>The invariant of templates\<close>

text \<open>
  Live names are unique, primary keys are fresh, and the versions of a template are
  numbered 1, 2, 3, ... in the order they were created.
\<close>

definition versions_numbered :: "db \<Rightarrow> bool" where
  "versions_numbered d \<longleftrightarrow> (\<forall>t\<in>set (templates d).
     map tv_version (versions_of t d) = [1..<Suc (length (versions_of t d))])"

definition templates_ok :: "db \<Rightarrow> bool" where
  "templates_ok d \<longleftrightarrow>
     distinct (map tm_name (alive d)) \<and>
     distinct (map tm_id (templates d)) \<and>
     distinct (map tv_id (template_versions d)) \<and>
     (\<forall>t\<in>set (templates d). tm_id t < seq_template d) \<and>
     (\<forall>v\<in>set (template_versions d). tv_id v < seq_template_version d) \<and>
     tv_template ` set (template_versions d) \<subseteq> tm_id ` set (templates d) \<and>
     versions_numbered d"

lemma templates_okD:
  assumes "templates_ok d"
  shows "distinct (map tm_name (alive d))" "distinct (map tm_id (templates d))"
    "distinct (map tv_id (template_versions d))" "versions_numbered d"
  using assms by (simp_all add: templates_ok_def)

lemma alive_sub: "set (alive d) \<subseteq> set (templates d)"
  by (auto simp: alive_def)

lemma alive_named_Some:
  "distinct (map tm_name (alive d)) \<Longrightarrow>
     alive_named name d = Some t \<longleftrightarrow> t \<in> set (alive d) \<and> tm_name t = name"
  using get_row_Some_iff [of tm_name "alive d" name t]
  by (simp add: alive_named_def get_row_def)

lemma alive_named_None: "alive_named name d = None \<longleftrightarrow> name \<notin> tm_name ` set (alive d)"
  using get_row_None_iff [of tm_name name "alive d"] by (simp add: alive_named_def get_row_def)

lemma sort_key_desc:
  assumes "map f xs = [1..<Suc (length xs)]"
  shows "sort_key (\<lambda>x. - int (f x)) xs = rev xs"
proof -
  have inc: "sorted_wrt (\<lambda>x y. f x < f y) xs"
    using assms by (metis sorted_wrt_map strict_sorted_iff sorted_upt distinct_upt)
  then have "sorted_wrt (<) (map (\<lambda>x. - int (f x)) (rev xs))"
    by (simp add: sorted_wrt_rev sorted_wrt_map)
  then have s: "sorted (map (\<lambda>x. - int (f x)) (rev xs))"
    and "distinct (map (\<lambda>x. - int (f x)) (rev xs))"
    by (simp_all only: strict_sorted_iff)
  then have "inj_on (\<lambda>x. - int (f x)) (set xs)" by (simp add: distinct_map)
  with s show ?thesis by (intro sort_key_inj_key_eq) simp_all
qed

lemma versions_desc_rev:
  "versions_numbered d \<Longrightarrow> t \<in> set (templates d) \<Longrightarrow> versions_desc t d = rev (versions_of t d)"
  by (simp add: versions_desc_def versions_numbered_def sort_key_desc)

lemma latest_version_last:
  "versions_numbered d \<Longrightarrow> t \<in> set (templates d) \<Longrightarrow>
     latest_version t d = (if versions_of t d = [] then None else Some (last (versions_of t d)))"
  by (auto simp: latest_version_def versions_desc_rev rev_swap hd_rev [symmetric] split: list.splits)

lemma latest_version_number:
  assumes "versions_numbered d" and "t \<in> set (templates d)" and "latest_version t d = Some v"
  shows "v \<in> set (versions_of t d) \<and> tv_version v = length (versions_of t d)"
proof -
  let ?vs = "versions_of t d"
  have ne: "?vs \<noteq> []" and v: "v = last ?vs"
    using assms latest_version_last by (auto split: if_splits)
  have "map tv_version ?vs = [1..<Suc (length ?vs)]" using assms(1,2) by (simp add: versions_numbered_def)
  then have "last (map tv_version ?vs) = last [1..<Suc (length ?vs)]" by (rule arg_cong)
  with ne v show ?thesis by (simp add: last_map Suc_le_eq)
qed

section \<open>Properties\<close>

text \<open>
  What a rendered message is. Whatever the template engine does, a successful
  \<open>render\<close> returns the engine's output for the body, with autoescape exactly for email,
  and the engine's output for the subject, never escaped; subject and body together stay
  within 262144 characters; and a webhook body is a JSON document.
\<close>

lemma render_sound:
  assumes "render jinja limit tv ctx ch = Inr r"
  shows "jinja (ch = EMAIL) (tv_body_template tv) ctx = Inr (rm_body r) \<and>
     (if tv_subject_template tv = [] then rm_subject r = []
      else jinja False (tv_subject_template tv) ctx = Inr (rm_subject r)) \<and>
     length (rm_body r) + length (rm_subject r) \<le> 262144 \<and>
     (ch = WEBHOOK \<longrightarrow> json_loads limit (rm_body r) = Ok [])"
  using assms json_loads_Ok
  by (auto simp: render_def render_subject_def MAX_RENDERED_CHARS_def
      split: sum.splits if_splits scan.splits)

end
