(* ===== verification/Relay_Channel_Base.thy ===== *)
theory Relay_Channel_Base
  imports Relay_Models
begin

text \<open>
  \<open>apps/channels/base.py\<close>: the result a channel reports and the \<open>Channel\<close>
  protocol. \<open>send\<close> either raises (\<open>Inl\<close> with the \<open>repr\<close> of the exception) or
  returns a \<open>channel_result\<close>; what the network answers is part of the environment
  \<open>'env\<close> the channel runs in.
\<close>

record channel_result =
  cr_success :: bool
  cr_transient :: bool
  cr_error_message :: pystr
  cr_http_status :: "int option"
  cr_smtp_code :: "int option"

type_synonym send_outcome = "pystr + channel_result"

text \<open>
  The contract both channels keep and the delivery task relies on (ADR-0003): a
  success carries no error, a channel reports the code of one transport only, and
  a result with no transport code at all is never permanent unless the channel
  refused the recipient before connecting.
\<close>

locale channel_contract =
  fixes send :: "'env \<Rightarrow> message \<Rightarrow> send_outcome"
    and refused :: "'env \<Rightarrow> message \<Rightarrow> bool"
  assumes success_clean:
      "send e m = Inr r \<Longrightarrow> cr_success r \<Longrightarrow> \<not> cr_transient r \<and> cr_error_message r = []"
    and one_transport:
      "send e m = Inr r \<Longrightarrow> cr_http_status r = None \<or> cr_smtp_code r = None"
    and permanent_has_code:
      "send e m = Inr r \<Longrightarrow> \<not> cr_success r \<Longrightarrow> \<not> cr_transient r \<Longrightarrow>
         refused e m \<or> cr_http_status r \<noteq> None \<or> cr_smtp_code r \<noteq> None"
    and refused_permanent:
      "refused e m \<Longrightarrow> \<exists>r. send e m = Inr r \<and> \<not> cr_success r \<and> \<not> cr_transient r"
begin

lemma refused_not_sent: "refused e m \<Longrightarrow> send e m = Inr r \<Longrightarrow> \<not> cr_success r"
  using refused_permanent by force

lemma uncoded_retries:
  "send e m = Inr r \<Longrightarrow> \<not> cr_success r \<Longrightarrow> \<not> refused e m \<Longrightarrow>
     cr_http_status r = None \<Longrightarrow> cr_smtp_code r = None \<Longrightarrow> cr_transient r"
  using permanent_has_code by blast

end

end
