(* ===== verification/Relay_Delivery.thy ===== *)
theory Relay_Delivery
  imports Relay_Channel_Base
begin

text \<open>
  \<open>tasks/delivery.py\<close>. The body of a delivery task, \<open>_dispatch\<close>, is four database
  steps around one call of the channel: claim the message, record the attempt,
  settle the outcome (with the dead letter in the same transaction). Each step is a
  definition of its own, because other tasks run between them; \<open>dispatch\<close> composes
  them for one undisturbed run. A raised exception is a value of \<open>task_result\<close>.
\<close>

definition RETRY_BACKOFF_BASE_S :: nat where "RETRY_BACKOFF_BASE_S = 30"
definition RETRY_BACKOFF_MAX_S :: nat where "RETRY_BACKOFF_MAX_S = 3600"
definition MAX_RETRIES :: nat where "MAX_RETRIES = 6"

datatype task_error = TransientError pystr | DbError db_error

datatype task_result = Returned pystr | Raised task_error

text \<open>The Prometheus counters the workers keep (\<open>apps/core/metrics.py\<close>).\<close>

record metrics =
  messages_total :: "channel \<Rightarrow> message_status \<Rightarrow> nat"
  delivery_attempts_total :: "channel \<Rightarrow> attempt_result \<Rightarrow> nat"

definition inc_messages_total :: "channel \<Rightarrow> message_status \<Rightarrow> metrics \<Rightarrow> metrics" where
  "inc_messages_total c s mt = mt\<lparr>messages_total :=
     (messages_total mt)(c := (messages_total mt c)(s := messages_total mt c s + 1))\<rparr>"

definition inc_attempts_total :: "channel \<Rightarrow> attempt_result \<Rightarrow> metrics \<Rightarrow> metrics" where
  "inc_attempts_total c r mt = mt\<lparr>delivery_attempts_total :=
     (delivery_attempts_total mt)(c := (delivery_attempts_total mt c)(r := delivery_attempts_total mt c r + 1))\<rparr>"

section \<open>Claiming\<close>

datatype claim = Missing | Noop | Duplicate | Claimed message

definition is_terminal :: "message_status \<Rightarrow> bool" where
  "is_terminal s = (s = SENT \<or> s = FAILED \<or> s = DEAD)"

definition set_claim :: "pystr \<Rightarrow> timestamp \<Rightarrow> message \<Rightarrow> message" where
  "set_claim owner now m = m\<lparr>msg_status := SENDING, msg_claimed_by := owner, msg_updated_at := now\<rparr>"

definition claim_message :: "pystr \<Rightarrow> pystr \<Rightarrow> timestamp \<Rightarrow> db \<Rightarrow> claim \<times> db" where
  "claim_message owner message_id now d =
     (case get_message message_id d of
        None \<Rightarrow> (Missing, d)
      | Some msg \<Rightarrow>
          if is_terminal (msg_status msg) then (Noop, d)
          else if msg_status msg = SENDING \<and> msg_claimed_by msg \<noteq> owner then (Duplicate, d)
          else (Claimed (set_claim owner now msg), save_message message_id (set_claim owner now) d))"

section \<open>Calling the channel and recording the attempt\<close>

definition channel_raised :: "pystr \<Rightarrow> channel_result" where
  "channel_raised exc = \<lparr>cr_success = False, cr_transient = True, cr_error_message = exc,
     cr_http_status = None, cr_smtp_code = None\<rparr>"

definition channel_outcome :: "send_outcome \<Rightarrow> channel_result" where
  "channel_outcome s = (case s of Inl exc \<Rightarrow> channel_raised exc | Inr r \<Rightarrow> r)"

definition map_result :: "channel_result \<Rightarrow> attempt_result" where
  "map_result r = (if cr_success r then SUCCESS
     else if cr_transient r then TRANSIENT_ERROR else PERMANENT_ERROR)"

definition record_attempt ::
    "message \<Rightarrow> channel_result \<Rightarrow> timestamp \<Rightarrow> timestamp \<Rightarrow> db \<Rightarrow> db_error + db" where
  "record_attempt msg r started finished d =
     insert_attempt
       \<lparr>da_message = msg_id msg,
        da_attempt_no = length (message_attempts (msg_id msg) d) + 1,
        da_started_at = started, da_finished_at = Some finished,
        da_result = map_result r, da_http_status = cr_http_status r,
        da_smtp_code = cr_smtp_code r, da_error_message = cr_error_message r\<rparr> d"

section \<open>Settling\<close>

definition snapshot :: "message \<Rightarrow> json" where
  "snapshot msg = JObj
     [(''id'', JStr (msg_id msg)),
      (''channel'', JStr (channel_value (msg_channel msg))),
      (''recipient'', JStr (msg_recipient msg)),
      (''rendered_subject'', JStr (msg_rendered_subject msg)),
      (''rendered_body'', JStr (msg_rendered_body msg)),
      (''context'', msg_context msg),
      (''priority'', JStr (priority_value (msg_priority msg)))]"

definition set_status :: "message_status \<Rightarrow> timestamp \<Rightarrow> message \<Rightarrow> message" where
  "set_status s now m = m\<lparr>msg_status := s, msg_updated_at := now\<rparr>"

text \<open>One transaction: an error leaves the database as it was.\<close>

definition move_to_dead_letter ::
    "message \<Rightarrow> message_status \<Rightarrow> pystr \<Rightarrow> timestamp \<Rightarrow> db \<Rightarrow> db_error + db" where
  "move_to_dead_letter msg s reason now d =
     (case save_fields (msg_id msg) (set_status s now) d of
        Inl e \<Rightarrow> Inl e
      | Inr d1 \<Rightarrow> get_or_create_dead_letter
          \<lparr>dl_message = msg_id msg, dl_reason = reason,
           dl_payload_snapshot = snapshot msg, dl_created_at = now\<rparr> d1)"

definition settle ::
    "message \<Rightarrow> channel_result \<Rightarrow> nat \<Rightarrow> timestamp \<Rightarrow> db \<times> metrics \<Rightarrow> task_result \<times> db \<times> metrics" where
  "settle msg r retries_done now s =
     (case s of (d, mt) \<Rightarrow>
      if cr_success r then
        (case save_fields (msg_id msg) (set_status SENT now) d of
           Inl e \<Rightarrow> (Raised (DbError e), d, mt)
         | Inr d' \<Rightarrow> (Returned ''sent'', d', inc_messages_total (msg_channel msg) SENT mt))
      else if \<not> cr_transient r then
        (case move_to_dead_letter msg FAILED (''permanent: '' @ cr_error_message r) now d of
           Inl e \<Rightarrow> (Raised (DbError e), d, mt)
         | Inr d' \<Rightarrow> (Returned ''failed'', d', inc_messages_total (msg_channel msg) FAILED mt))
      else if retries_done \<ge> MAX_RETRIES then
        (case move_to_dead_letter msg DEAD (''exhausted: '' @ cr_error_message r) now d of
           Inl e \<Rightarrow> (Raised (DbError e), d, mt)
         | Inr d' \<Rightarrow> (Returned ''dead'', d', inc_messages_total (msg_channel msg) DEAD mt))
      else (Raised (TransientError
              (if cr_error_message r \<noteq> [] then cr_error_message r else ''transient failure'')), d, mt))"

section \<open>One run of the task\<close>

text \<open>The instants at which a run reads the clock.\<close>

record run_times =
  at_claim :: timestamp
  at_started :: timestamp
  at_finished :: timestamp
  at_settle :: timestamp

definition dispatch ::
    "(message \<Rightarrow> send_outcome) \<Rightarrow> pystr \<Rightarrow> nat \<Rightarrow> run_times \<Rightarrow> pystr
       \<Rightarrow> db \<times> metrics \<Rightarrow> task_result \<times> db \<times> metrics" where
  "dispatch send owner retries_done t message_id s =
     (case s of (d, mt) \<Rightarrow>
      case claim_message owner message_id (at_claim t) d of
        (Missing, d1) \<Rightarrow> (Raised (DbError DoesNotExist), d1, mt)
      | (Noop, d1) \<Rightarrow> (Returned ''noop'', d1, mt)
      | (Duplicate, d1) \<Rightarrow> (Returned ''duplicate'', d1, mt)
      | (Claimed msg, d1) \<Rightarrow>
          let r = channel_outcome (send msg);
              mt1 = inc_attempts_total (msg_channel msg) (map_result r) mt
          in case record_attempt msg r (at_started t) (at_finished t) d1 of
               Inl e \<Rightarrow> (Raised (DbError e), d1, mt1)
             | Inr d2 \<Rightarrow> settle msg r retries_done (at_settle t) (d2, mt1))"

section \<open>Publishing\<close>

text \<open>
  A task as the broker holds it. Celery chooses the task id; \<open>apply_async\<close> fails
  with kombu's \<open>OperationalError\<close> when the broker cannot be reached, which is an
  argument here.
\<close>

datatype task_name = Send_email | Send_webhook

record task =
  tk_name :: task_name
  tk_id :: pystr
  tk_message_id :: pystr
  tk_queue :: priority
  tk_retries :: nat

datatype broker_error = BrokerError

definition enqueue_for :: "bool \<Rightarrow> pystr \<Rightarrow> message \<Rightarrow> task list \<Rightarrow> broker_error + task list" where
  "enqueue_for broker_up task_id m q =
     (let name = (if msg_channel m = EMAIL then Send_email else Send_webhook) in
      if broker_up
      then Inr (q @ [\<lparr>tk_name = name, tk_id = task_id, tk_message_id = msg_id m,
                      tk_queue = msg_priority m, tk_retries = 0\<rparr>])
      else Inl BrokerError)"

section \<open>The invariant of delivery\<close>

text \<open>
  Attempts of a message are numbered 1, 2, 3, ... in the order they were made; a
  message has a dead letter exactly when it is \<open>FAILED\<close> or \<open>DEAD\<close>.
\<close>

definition attempts_numbered :: "db \<Rightarrow> bool" where
  "attempts_numbered d \<longleftrightarrow> (\<forall>k. map da_attempt_no (message_attempts k d) =
       [1..<Suc (length (message_attempts k d))])"

definition gave_up :: "message_status \<Rightarrow> bool" where
  "gave_up s = (s = FAILED \<or> s = DEAD)"

definition letters_match :: "db \<Rightarrow> bool" where
  "letters_match d \<longleftrightarrow> (\<forall>k m. get_message k d = Some m \<longrightarrow>
       (get_dead_letter k d \<noteq> None \<longleftrightarrow> gave_up (msg_status m)))"

definition delivery_ok :: "db \<Rightarrow> bool" where
  "delivery_ok d \<longleftrightarrow> db_ok d \<and> attempts_numbered d \<and> letters_match d"

lemma keeps_keys_set_claim [simp]: "keeps_keys (set_claim owner now)"
  by (simp add: keeps_keys_def set_claim_def)

lemma keeps_keys_set_status [simp]: "keeps_keys (set_status s now)"
  by (simp add: keeps_keys_def set_status_def)

lemmas status_updates = set_claim_def set_status_def

text \<open>Frame facts: which table each step touches.\<close>

lemma save_message_frame [simp]:
  "attempts (save_message k f d) = attempts d" "dead_letters (save_message k f d) = dead_letters d"
  by (simp_all add: save_message_def)

lemma message_attempts_save [simp]: "message_attempts k (save_message k' f d) = message_attempts k d"
  by (simp add: message_attempts_def)

lemma get_dead_letter_save [simp]: "get_dead_letter k (save_message k' f d) = get_dead_letter k d"
  by (simp add: get_dead_letter_def)

lemma get_message_attempts_upd [simp]: "get_message k (d\<lparr>attempts := as\<rparr>) = get_message k d"
  by (simp add: get_message_def)

lemma get_message_letters_upd [simp]: "get_message k (d\<lparr>dead_letters := ls\<rparr>) = get_message k d"
  by (simp add: get_message_def)

lemma attempts_numbered_frame: "attempts d' = attempts d \<Longrightarrow> attempts_numbered d \<Longrightarrow> attempts_numbered d'"
  by (simp add: attempts_numbered_def message_attempts_def)

text \<open>
  The attempt number \<open>count() + 1\<close> is fresh, so recording an attempt of a message
  that exists never violates \<open>delivery_attempt_unique\<close>.
\<close>

definition new_attempt :: "message \<Rightarrow> channel_result \<Rightarrow> timestamp \<Rightarrow> timestamp \<Rightarrow> db \<Rightarrow> delivery_attempt" where
  "new_attempt msg r started finished d =
     \<lparr>da_message = msg_id msg, da_attempt_no = length (message_attempts (msg_id msg) d) + 1,
      da_started_at = started, da_finished_at = Some finished,
      da_result = map_result r, da_http_status = cr_http_status r,
      da_smtp_code = cr_smtp_code r, da_error_message = cr_error_message r\<rparr>"

lemma numbered_bound:
  assumes "attempts_numbered d" and "a \<in> set (attempts d)"
  shows "da_attempt_no a \<le> length (message_attempts (da_message a) d)"
proof -
  let ?as = "message_attempts (da_message a) d"
  have "da_attempt_no a \<in> set (map da_attempt_no ?as)"
    using assms(2) by (auto simp: message_attempts_def)
  moreover have "map da_attempt_no ?as = [1..<Suc (length ?as)]"
    using assms(1) by (simp only: attempts_numbered_def)
  ultimately show ?thesis by (simp only: set_upt) simp
qed

text \<open>
  What the attempt's columns can hold: the codes of an answer must not be negative, and its
  message must be storable text.
\<close>

definition recordable :: "channel_result \<Rightarrow> bool" where
  "recordable r \<longleftrightarrow> check_positive (cr_http_status r) \<and> check_positive (cr_smtp_code r) \<and>
     storable_text (cr_error_message r)"

definition refusal_of :: "channel_result \<Rightarrow> db_error" where
  "refusal_of r = (if storable_text (cr_error_message r) then IntegrityError else DataError)"

lemma recordable_raised [simp]: "recordable (channel_outcome (Inl exc)) \<longleftrightarrow> storable_text exc"
  by (simp add: recordable_def channel_raised_def channel_outcome_def)

lemma record_attempt_refused:
  "\<not> recordable r \<Longrightarrow> record_attempt msg r t1 t2 d = Inl (refusal_of r)"
  by (auto simp: record_attempt_def insert_attempt_def recordable_def refusal_of_def)

lemma record_attempt_succeeds:
  assumes "attempts_numbered d" and "get_message (msg_id msg) d \<noteq> None" and "recordable r"
  shows "record_attempt msg r t1 t2 d =
           Inr (d\<lparr>attempts := attempts d @ [new_attempt msg r t1 t2 d]\<rparr>)"
proof -
  have "\<not> list_ex (\<lambda>b. da_message b = msg_id msg \<and>
          da_attempt_no b = length (message_attempts (msg_id msg) d) + 1) (attempts d)"
    using numbered_bound [OF assms(1)] by (auto simp: list_ex_iff) (metis Suc_n_not_le_n)
  then show ?thesis using assms(2,3)
    by (simp add: record_attempt_def insert_attempt_def new_attempt_def recordable_def)
qed

lemma record_attempt_numbered:
  assumes "attempts_numbered d" and "record_attempt msg r t1 t2 d = Inr d'"
  shows "attempts_numbered d'"
proof -
  have d': "d' = d\<lparr>attempts := attempts d @ [new_attempt msg r t1 t2 d]\<rparr>"
    using insert_attemptD(1) assms(2) by (auto simp: record_attempt_def new_attempt_def)
  have "message_attempts k d' = message_attempts k d @
          (if k = msg_id msg then [new_attempt msg r t1 t2 d] else [])" for k
    by (simp add: d' message_attempts_def new_attempt_def)
  then show ?thesis using assms(1)
    by (simp add: attempts_numbered_def new_attempt_def)
qed

lemma record_attempt_ok: "db_ok d \<Longrightarrow> record_attempt msg r t1 t2 d = Inr d' \<Longrightarrow> db_ok d'"
  unfolding record_attempt_def by (rule insert_attempt_ok)

section \<open>The steps keep the invariant\<close>

lemma claim_message_db:
  "claim_message owner k now d = (c, d') \<Longrightarrow>
     (case c of Claimed msg \<Rightarrow>
         d' = save_message k (set_claim owner now) d \<and>
         (\<exists>m. get_message k d = Some m \<and> \<not> is_terminal (msg_status m) \<and>
              (msg_status m = SENDING \<longrightarrow> msg_claimed_by m = owner) \<and> msg = set_claim owner now m)
       | _ \<Rightarrow> d' = d)"
  by (auto simp: claim_message_def split: option.splits if_splits)

lemma set_claim_letters:
  assumes "letters_match d" and "get_message k d = Some m" and "\<not> is_terminal (msg_status m)"
  shows "letters_match (save_message k (set_claim owner now) d)"
  unfolding letters_match_def
proof (intro allI impI)
  fix j n assume n: "get_message j (save_message k (set_claim owner now) d) = Some n"
  show "(get_dead_letter j (save_message k (set_claim owner now) d) \<noteq> None) = gave_up (msg_status n)"
  proof (cases "j = k")
    case True
    with n assms(2) have "n = set_claim owner now m"
      by (simp add: msgs.get_save_same keeps_keysD)
    moreover have "get_dead_letter k d = None"
      using assms by (auto simp: letters_match_def gave_up_def is_terminal_def)
    ultimately show ?thesis using True by (simp add: set_claim_def gave_up_def)
  next
    case False
    with n assms(1) show ?thesis
      by (simp add: msgs.get_save_other keeps_keysD letters_match_def)
  qed
qed

lemma claim_message_delivery_ok [inv_intros]:
  assumes "delivery_ok d" and "claim_message owner k now d = (c, d')"
  shows "delivery_ok d'"
proof (cases c)
  case (Claimed msg)
  with claim_message_db [OF assms(2)] assms(1) show ?thesis
    by (auto simp: delivery_ok_def save_message_ok set_claim_letters
        intro: attempts_numbered_frame)
qed (use claim_message_db [OF assms(2)] assms(1) in auto)

lemma record_attempt_delivery_ok [inv_intros]:
  assumes "delivery_ok d" and "record_attempt msg r t1 t2 d = Inr d'"
  shows "delivery_ok d'"
proof -
  have "d' = d\<lparr>attempts := attempts d @ [new_attempt msg r t1 t2 d]\<rparr>"
    using insert_attemptD(1) assms(2) by (auto simp: record_attempt_def new_attempt_def)
  then have "letters_match d'"
    using assms(1) by (simp add: delivery_ok_def letters_match_def get_dead_letter_def)
  with assms show ?thesis
    by (auto simp: delivery_ok_def intro: record_attempt_ok record_attempt_numbered)
qed

text \<open>
  \<open>_move_to_dead_letter\<close> on a message without one: the status and the letter
  appear together.
\<close>

definition dead_letter_for :: "message \<Rightarrow> pystr \<Rightarrow> timestamp \<Rightarrow> dead_letter" where
  "dead_letter_for msg reason now =
     \<lparr>dl_message = msg_id msg, dl_reason = reason, dl_payload_snapshot = snapshot msg, dl_created_at = now\<rparr>"

lemma move_to_dead_letter_fresh:
  assumes "get_message (msg_id msg) d \<noteq> None" and "get_dead_letter (msg_id msg) d = None"
  shows "move_to_dead_letter msg s reason now d =
     Inr ((save_message (msg_id msg) (set_status s now) d)
            \<lparr>dead_letters := dead_letters d @ [dead_letter_for msg reason now]\<rparr>)"
  using assms msgs.save_present [of "set_status s now" "msg_id msg" "msg_id msg" d]
  by (simp add: move_to_dead_letter_def save_fields_def get_or_create_dead_letter_def
      dead_letter_for_def keeps_keysD)

lemma get_dead_letter_snoc [row_simps]:
  "get_dead_letter k (d\<lparr>dead_letters := dead_letters d @ [l]\<rparr>) =
     (case get_dead_letter k d of Some x \<Rightarrow> Some x | None \<Rightarrow> if dl_message l = k then Some l else None)"
  by (simp add: get_dead_letter_def get_row_append)

text \<open>What a run does to the message, by the channel's answer and the retries done.\<close>

definition final_status :: "channel_result \<Rightarrow> nat \<Rightarrow> message_status" where
  "final_status r retries_done =
     (if cr_success r then SENT else if \<not> cr_transient r then FAILED
      else if retries_done \<ge> MAX_RETRIES then DEAD else SENDING)"

definition run_result :: "channel_result \<Rightarrow> nat \<Rightarrow> task_result" where
  "run_result r retries_done =
     (case final_status r retries_done of
        SENT \<Rightarrow> Returned ''sent'' | FAILED \<Rightarrow> Returned ''failed'' | DEAD \<Rightarrow> Returned ''dead''
      | _ \<Rightarrow> Raised (TransientError
               (if cr_error_message r \<noteq> [] then cr_error_message r else ''transient failure'')))"

definition give_up_reason :: "channel_result \<Rightarrow> pystr" where
  "give_up_reason r = (if cr_transient r then ''exhausted: '' else ''permanent: '') @ cr_error_message r"

definition settled_db :: "message \<Rightarrow> channel_result \<Rightarrow> nat \<Rightarrow> timestamp \<Rightarrow> db \<Rightarrow> db" where
  "settled_db msg r n now d =
     (let s = final_status r n; d1 = save_message (msg_id msg) (set_status s now) d in
      if s = SENDING then d
      else if s = SENT then d1
      else d1\<lparr>dead_letters := dead_letters d @ [dead_letter_for msg (give_up_reason r) now]\<rparr>)"

definition settled_metrics :: "message \<Rightarrow> channel_result \<Rightarrow> nat \<Rightarrow> metrics \<Rightarrow> metrics" where
  "settled_metrics msg r n mt =
     (if final_status r n = SENDING then mt
      else inc_messages_total (msg_channel msg) (final_status r n) mt)"

lemma settle_eq:
  assumes "get_message (msg_id msg) d \<noteq> None" and "get_dead_letter (msg_id msg) d = None"
  shows "settle msg r n now (d, mt) =
           (run_result r n, settled_db msg r n now d, settled_metrics msg r n mt)"
  using assms
  by (auto simp: settle_def run_result_def settled_db_def settled_metrics_def final_status_def
      move_to_dead_letter_fresh save_fields_def give_up_reason_def)

lemma settled_db_message:
  "get_message k (settled_db msg r n now d) =
     (if k = msg_id msg \<and> final_status r n \<noteq> SENDING
      then map_option (set_status (final_status r n) now) (get_message k d) else get_message k d)"
  by (simp add: settled_db_def Let_def msgs.get_save_same msgs.get_save_other keeps_keysD)

lemma settled_db_letter:
  assumes "get_dead_letter (msg_id msg) d = None"
  shows "get_dead_letter k (settled_db msg r n now d) =
     (if k = msg_id msg \<and> gave_up (final_status r n)
      then Some (dead_letter_for msg (give_up_reason r) now) else get_dead_letter k d)"
  using assms
  by (auto simp: settled_db_def Let_def get_dead_letter_def get_row_append dead_letter_for_def
      gave_up_def final_status_def split: option.splits)

lemma settled_db_attempts [simp]: "attempts (settled_db msg r n now d) = attempts d"
  by (simp add: settled_db_def Let_def)

lemma settled_db_ok:
  assumes "db_ok d" and "get_message (msg_id msg) d \<noteq> None" and "get_dead_letter (msg_id msg) d = None"
  shows "db_ok (settled_db msg r n now d)"
proof -
  let ?s = "final_status r n" and ?l = "dead_letter_for msg (give_up_reason r) now"
  let ?d1 = "save_message (msg_id msg) (set_status ?s now) d"
  have d1: "db_ok ?d1" using assms(1) by (simp add: save_message_ok)
  have "get_message (dl_message ?l) ?d1 \<noteq> None" and "get_dead_letter (dl_message ?l) ?d1 = None"
    using assms(2,3) by (simp_all add: dead_letter_for_def msgs.save_present keeps_keysD del: not_None_eq)
  then have "get_or_create_dead_letter ?l ?d1 = Inr (?d1\<lparr>dead_letters := dead_letters ?d1 @ [?l]\<rparr>)"
    by (simp add: get_or_create_dead_letter_def)
  then have "db_ok (?d1\<lparr>dead_letters := dead_letters d @ [?l]\<rparr>)"
    using get_or_create_dead_letter_ok [OF d1] by simp
  then show ?thesis using assms(1) d1 by (auto simp: settled_db_def Let_def)
qed

lemma settled_delivery_ok [inv_intros]:
  assumes "delivery_ok d" and "get_message (msg_id msg) d = Some m" and "\<not> is_terminal (msg_status m)"
  shows "delivery_ok (settled_db msg r n now d)"
proof -
  have none: "get_dead_letter (msg_id msg) d = None"
    using assms by (auto simp: delivery_ok_def letters_match_def gave_up_def is_terminal_def)
  have "letters_match (settled_db msg r n now d)"
    using assms(1,2) none unfolding letters_match_def delivery_ok_def
    by (auto simp: settled_db_message settled_db_letter set_status_def gave_up_def final_status_def
        split: if_splits)
  then show ?thesis
    using assms none settled_db_ok [of d msg r n now]
    by (auto simp: delivery_ok_def intro: attempts_numbered_frame)
qed

section \<open>What one run does\<close>

definition claimable :: "pystr \<Rightarrow> message \<Rightarrow> bool" where
  "claimable owner m \<longleftrightarrow> \<not> is_terminal (msg_status m) \<and>
     (msg_status m = SENDING \<longrightarrow> msg_claimed_by m = owner)"

lemma claim_message_claimable:
  "get_message k d = Some m \<Longrightarrow> claimable owner m \<Longrightarrow>
     claim_message owner k now d =
       (Claimed (set_claim owner now m), save_message k (set_claim owner now) d)"
  by (auto simp: claim_message_def claimable_def)

lemma claim_message_terminal:
  "get_message k d = Some m \<Longrightarrow> is_terminal (msg_status m) \<Longrightarrow> claim_message owner k now d = (Noop, d)"
  by (simp add: claim_message_def)

lemma claim_message_foreign:
  "get_message k d = Some m \<Longrightarrow> msg_status m = SENDING \<Longrightarrow> msg_claimed_by m \<noteq> owner \<Longrightarrow>
     claim_message owner k now d = (Duplicate, d)"
  by (simp add: claim_message_def is_terminal_def)

text \<open>The database after an undisturbed run on a message the task may claim.\<close>

definition run_db ::
    "pystr \<Rightarrow> nat \<Rightarrow> run_times \<Rightarrow> message \<Rightarrow> channel_result \<Rightarrow> db \<Rightarrow> db" where
  "run_db owner n t m r d =
     (let msg = set_claim owner (at_claim t) m;
          d1 = save_message (msg_id m) (set_claim owner (at_claim t)) d
      in settled_db msg r n (at_settle t)
           (d1\<lparr>attempts := attempts d @ [new_attempt msg r (at_started t) (at_finished t) d]\<rparr>))"

lemma dispatch_run:
  assumes ok: "delivery_ok d" and m: "get_message k d = Some m" and c: "claimable owner m"
    and r: "r = channel_outcome (send (set_claim owner (at_claim t) m))" and rr: "recordable r"
  shows "dispatch send owner n t k (d, mt) =
     (run_result r n, run_db owner n t m r d,
      settled_metrics m r n (inc_attempts_total (msg_channel m) (map_result r) mt))"
    and "delivery_ok (run_db owner n t m r d)"
proof -
  let ?msg = "set_claim owner (at_claim t) m"
  let ?d1 = "save_message k (set_claim owner (at_claim t)) d"
  let ?d2 = "?d1\<lparr>attempts := attempts d @ [new_attempt ?msg r (at_started t) (at_finished t) d]\<rparr>"
  have id: "msg_id m = k" "msg_id ?msg = k"
    using m by (auto simp: set_claim_def dest: get_message_id)
  have claim: "claim_message owner k (at_claim t) d = (Claimed ?msg, ?d1)"
    using m c by (rule claim_message_claimable)
  have ok1: "delivery_ok ?d1" using claim_message_delivery_ok [OF ok claim] .
  have m1: "get_message k ?d1 = Some ?msg"
    using m by (simp add: msgs.get_save_same keeps_keysD)
  have "new_attempt ?msg r (at_started t) (at_finished t) ?d1
          = new_attempt ?msg r (at_started t) (at_finished t) d"
    by (simp add: new_attempt_def)
  then have rec: "record_attempt ?msg r (at_started t) (at_finished t) ?d1 = Inr ?d2"
    using ok1 m1 id rr by (simp add: record_attempt_succeeds delivery_ok_def)
  have ok2: "delivery_ok ?d2" using record_attempt_delivery_ok [OF ok1 rec] .
  have m2: "get_message (msg_id ?msg) ?d2 = Some ?msg" using m1 id by simp
  moreover have nt: "\<not> is_terminal (msg_status ?msg)" by (simp add: set_claim_def is_terminal_def)
  ultimately have nl: "get_dead_letter (msg_id ?msg) ?d2 = None"
    using ok2 by (auto simp: delivery_ok_def letters_match_def gave_up_def is_terminal_def)
  have chan: "msg_channel ?msg = msg_channel m" by (simp add: set_claim_def)
  show "dispatch send owner n t k (d, mt) =
     (run_result r n, run_db owner n t m r d,
      settled_metrics m r n (inc_attempts_total (msg_channel m) (map_result r) mt))"
    using claim rec settle_eq [of ?msg ?d2] m2 nl id
    by (simp add: dispatch_def Let_def r [symmetric] run_db_def settled_metrics_def chan)
  show "delivery_ok (run_db owner n t m r d)"
    using settled_delivery_ok [OF ok2 m2 nt] id by (simp add: run_db_def Let_def)
qed

text \<open>An answer the attempt's columns refuse: the claim stays, and nothing else is written.\<close>

lemma dispatch_unrecordable:
  assumes "get_message k d = Some m" and "claimable owner m"
    and "r = channel_outcome (send (set_claim owner (at_claim t) m))" and "\<not> recordable r"
  shows "dispatch send owner n t k (d, mt) =
     (Raised (DbError (refusal_of r)), save_message k (set_claim owner (at_claim t)) d,
      inc_attempts_total (msg_channel m) (map_result r) mt)"
  using claim_message_claimable [OF assms(1,2)] assms(3,4)
  by (simp add: dispatch_def record_attempt_refused Let_def) (simp add: set_claim_def)

lemma run_db_message:
  assumes "get_message k d = Some m"
  shows "get_message j (run_db owner n t m r d) =
     (if j = k then Some (set_status (final_status r n)
          (if final_status r n = SENDING then at_claim t else at_settle t) (set_claim owner (at_claim t) m))
      else get_message j d)"
  using assms get_message_id [OF assms]
  by (auto simp: run_db_def Let_def settled_db_message msgs.get_save_same msgs.get_save_other
      keeps_keysD status_updates)

lemma run_db_attempts:
  assumes "get_message k d = Some m"
  shows "attempts (run_db owner n t m r d) = attempts d @
           [new_attempt (set_claim owner (at_claim t) m) r (at_started t) (at_finished t) d]"
  by (simp add: run_db_def Let_def)

text \<open>
  The retry chain of one task (\<open>autoretry_for=(TransientError,)\<close>,
  \<open>max_retries=MAX_RETRIES\<close>): Celery runs the task again under the same id with
  \<open>request.retries\<close> increased, and stops when the task returns, raises anything
  else, or has no retry left. \<open>send i\<close> and \<open>t i\<close> are the channel's answer and the
  clock of run \<open>i\<close>.
\<close>

function run_task ::
    "(nat \<Rightarrow> message \<Rightarrow> send_outcome) \<Rightarrow> pystr \<Rightarrow> (nat \<Rightarrow> run_times) \<Rightarrow> pystr \<Rightarrow> nat
       \<Rightarrow> db \<times> metrics \<Rightarrow> task_result \<times> db \<times> metrics" where
  "run_task send owner t message_id n s =
     (case dispatch (send n) owner n (t n) message_id s of
        (res, s') \<Rightarrow>
          case res of
            Raised (TransientError e) \<Rightarrow>
              if n < MAX_RETRIES then run_task send owner t message_id (n + 1) s' else (res, s')
          | _ \<Rightarrow> (res, s'))"
  by pat_completeness auto
termination
  by (relation "measure (\<lambda>(send, owner, t, k, n, s). MAX_RETRIES - n)") auto

declare run_task.simps [simp del]

lemma run_db_claimable:
  assumes "get_message k d = Some m" and "final_status r n = SENDING"
  shows "\<exists>m'. get_message k (run_db owner n t m r d) = Some m' \<and> claimable owner m'"
  using assms
  by (auto simp: run_db_message claimable_def status_updates is_terminal_def)

text \<open>
  A finished chain: the task returned, the message is in a terminal state, and
  between one and \<open>bound\<close> attempts were recorded.
\<close>

definition finished_run :: "pystr \<Rightarrow> db \<Rightarrow> nat \<Rightarrow> task_result \<times> db \<times> metrics \<Rightarrow> bool" where
  "finished_run k d bound out \<longleftrightarrow>
     fst out \<in> {Returned ''sent'', Returned ''failed'', Returned ''dead''} \<and>
     delivery_ok (fst (snd out)) \<and>
     (case get_message k (fst (snd out)) of None \<Rightarrow> False | Some m \<Rightarrow> is_terminal (msg_status m)) \<and>
     length (message_attempts k d) < length (message_attempts k (fst (snd out))) \<and>
     length (message_attempts k (fst (snd out))) \<le> length (message_attempts k d) + bound"

lemma finished_run_step:
  assumes "finished_run k d1 b out" and "length (message_attempts k d1) = Suc (length (message_attempts k d))"
  shows "finished_run k d (Suc b) out"
  using assms by (auto simp: finished_run_def)

lemma run_task_finishes:
  assumes "delivery_ok d" and "get_message k d = Some m" and "claimable owner m" and "n \<le> MAX_RETRIES"
    and answers: "\<And>i m. recordable (channel_outcome (send i m))"
  shows "finished_run k d (Suc (MAX_RETRIES - n)) (run_task send owner t k n (d, mt))"
  using assms(1-4)
proof (induction "MAX_RETRIES - n" arbitrary: n d m mt rule: less_induct)
  case less
  let ?r = "channel_outcome (send n (set_claim owner (at_claim (t n)) m))"
  let ?d = "run_db owner n (t n) m ?r d"
  let ?mt = "settled_metrics m ?r n (inc_attempts_total (msg_channel m) (map_result ?r) mt)"
  have run: "dispatch (send n) owner n (t n) k (d, mt) = (run_result ?r n, ?d, ?mt)"
    and ok: "delivery_ok ?d"
    using dispatch_run [where send = "send n" and t = "t n", OF less.prems(1-3) refl answers] by blast+
  have id: "msg_id m = k" using less.prems(2) by (rule get_message_id)
  have att: "message_attempts k ?d = message_attempts k d @
      [new_attempt (set_claim owner (at_claim (t n)) m) ?r (at_started (t n)) (at_finished (t n)) d]"
    using run_db_attempts [OF less.prems(2)] id
    by (simp add: message_attempts_def new_attempt_def set_claim_def)
  show ?case
  proof (cases "final_status ?r n = SENDING")
    case True
    then have lt: "n < MAX_RETRIES" and res: "\<exists>e. run_result ?r n = Raised (TransientError e)"
      by (auto simp: final_status_def run_result_def split: if_splits)
    obtain m1 where m1: "get_message k ?d = Some m1" "claimable owner m1"
      using run_db_claimable [OF less.prems(2) True] by blast
    from lt have small: "MAX_RETRIES - (n + 1) < MAX_RETRIES - n" "n + 1 \<le> MAX_RETRIES" by auto
    have "finished_run k ?d (Suc (MAX_RETRIES - (n + 1))) (run_task send owner t k (n + 1) (?d, ?mt))"
      by (rule less.hyps [OF small(1) ok m1 small(2)])
    then have "finished_run k d (Suc (Suc (MAX_RETRIES - (n + 1)))) (run_task send owner t k (n + 1) (?d, ?mt))"
      by (rule finished_run_step) (simp add: att)
    moreover have "Suc (MAX_RETRIES - (n + 1)) = MAX_RETRIES - n" using lt by simp
    ultimately show ?thesis using lt res run by (auto simp: run_task.simps [of send owner t k n])
  next
    case False
    then have "run_result ?r n \<in> {Returned ''sent'', Returned ''failed'', Returned ''dead''}"
      and "is_terminal (final_status ?r n)"
      by (auto simp: run_result_def final_status_def is_terminal_def split: if_splits)
    with run ok att less.prems(2) show ?thesis
      by (auto simp: run_task.simps [of send owner t k n] run_db_message set_status_def finished_run_def)
  qed
qed

section \<open>Properties\<close>

text \<open>What a run should do, as one table of cases.\<close>

definition dispatch_spec ::
    "(message \<Rightarrow> send_outcome) \<Rightarrow> pystr \<Rightarrow> nat \<Rightarrow> run_times \<Rightarrow> pystr \<Rightarrow> db \<times> metrics
       \<Rightarrow> task_result \<times> db \<times> metrics" where
  "dispatch_spec send owner n t k s =
     (case s of (d, mt) \<Rightarrow>
      case get_message k d of
        None \<Rightarrow> (Raised (DbError DoesNotExist), d, mt)
      | Some m \<Rightarrow>
          if is_terminal (msg_status m) then (Returned ''noop'', d, mt)
          else if msg_status m = SENDING \<and> msg_claimed_by m \<noteq> owner then (Returned ''duplicate'', d, mt)
          else let r = channel_outcome (send (set_claim owner (at_claim t) m));
                   mt1 = inc_attempts_total (msg_channel m) (map_result r) mt in
            if recordable r then (run_result r n, run_db owner n t m r d, settled_metrics m r n mt1)
            else (Raised (DbError (refusal_of r)), save_message k (set_claim owner (at_claim t)) d, mt1))"

lemma not_claimable: "\<not> claimable owner m \<longleftrightarrow>
    is_terminal (msg_status m) \<or> msg_status m = SENDING \<and> msg_claimed_by m \<noteq> owner"
  by (auto simp: claimable_def)

text \<open>
  One run of \<open>_dispatch\<close> on every branch. On a well-formed database it raises
  \<open>DoesNotExist\<close> for an unknown id, does nothing for a finished message and for one
  claimed by another task, and otherwise records exactly one attempt and moves the
  message to the status the channel's answer and the retries done call for, unless the
  answer cannot be recorded: then it raises a database error with the message claimed.
  No other database error is possible after the claim, and the database stays well-formed.
\<close>

theorem dispatch_every_branch:
  assumes "delivery_ok d"
  shows "dispatch send owner n t k (d, mt) = dispatch_spec send owner n t k (d, mt) \<and>
     delivery_ok (fst (snd (dispatch send owner n t k (d, mt))))"
proof (cases "get_message k d")
  case None
  with assms show ?thesis by (simp add: dispatch_def dispatch_spec_def claim_message_def)
next
  case (Some m)
  show ?thesis
  proof (cases "claimable owner m")
    case True
    let ?r = "channel_outcome (send (set_claim owner (at_claim t) m))"
    from True have spec: "\<not> is_terminal (msg_status m)" "\<not> (msg_status m = SENDING \<and> msg_claimed_by m \<noteq> owner)"
      by (auto simp: claimable_def)
    show ?thesis
    proof (cases "recordable ?r")
      case rr: True
      from dispatch_run(1) [OF assms Some True refl, where send = send and t = t and n = n and mt = mt]
        dispatch_run(2) [OF assms Some True refl, where send = send and t = t and n = n] Some spec rr show ?thesis
        by (auto simp: dispatch_spec_def Let_def)
    next
      case rr: False
      have "delivery_ok (save_message k (set_claim owner (at_claim t)) d)"
        using claim_message_delivery_ok [OF assms claim_message_claimable [OF Some True]] .
      with dispatch_unrecordable [OF Some True refl, where send = send and t = t and n = n and mt = mt] Some spec rr show ?thesis
        by (auto simp: dispatch_spec_def Let_def)
    qed
  next
    case False
    with Some assms show ?thesis
      by (auto simp: not_claimable dispatch_def dispatch_spec_def claim_message_terminal claim_message_foreign)
  qed
qed

text \<open>
  C23: the retry chain ends. Whatever the channel answers in each run (exceptions
  included), as long as each answer can be recorded, a task that may claim its message returns \<open>sent\<close>, \<open>failed\<close> or \<open>dead\<close>,
  leaves the message in a final status, and makes at least one and at most seven
  attempts, the first run and six retries.
\<close>

theorem retry_chain_finishes:
  assumes "delivery_ok d" and "get_message k d = Some m" and "claimable owner m"
    and "\<And>i m. recordable (channel_outcome (send i m))"
  shows "finished_run k d 7 (run_task send owner t k 0 (d, mt))"
  using run_task_finishes [OF assms(1-3), of 0 send] assms(4) by (simp add: MAX_RETRIES_def)

end
