(* ===== verification/Relay_Scheduler.thy ===== *)
theory Relay_Scheduler
  imports Relay_Delivery "HOL-Library.Product_Lexorder"
begin

text \<open>
  \<open>tasks/scheduler.py\<close>: the two Beat jobs. \<open>dispatch_scheduled\<close> picks due, stranded
  and stale messages in one transaction, stamps them, and publishes their tasks after
  the commit; \<open>cleanup_old_messages\<close> deletes finished messages past the retention
  window, batch by batch. Time stamps and time spans are microseconds.
\<close>

definition seconds :: "int \<Rightarrow> int" where "seconds n = n * 1000000"
definition minutes :: "int \<Rightarrow> int" where "minutes n = seconds (60 * n)"
definition hours :: "int \<Rightarrow> int" where "hours n = minutes (60 * n)"
definition days :: "int \<Rightarrow> int" where "days n = hours (24 * n)"

lemmas timedelta_defs = seconds_def minutes_def hours_def days_def

definition DISPATCH_BATCH_SIZE :: nat where "DISPATCH_BATCH_SIZE = 200"
definition REENQUEUE_AFTER :: int where "REENQUEUE_AFTER = minutes 15"
definition STALE_SENDING_AFTER :: int where "STALE_SENDING_AFTER = hours 2"
definition CLEANUP_AGE_DAYS :: int where "CLEANUP_AGE_DAYS = 90"
definition CLEANUP_BATCH_SIZE :: nat where "CLEANUP_BATCH_SIZE = 1000"

section \<open>Which messages are due\<close>

text \<open>SQL comparisons with NULL are not true.\<close>

definition due :: "timestamp \<Rightarrow> message \<Rightarrow> bool" where
  "due now m \<longleftrightarrow> msg_enqueued_at m = None \<and>
     (case msg_scheduled_at m of None \<Rightarrow> False | Some s \<Rightarrow> s \<le> now)"

definition stranded :: "timestamp \<Rightarrow> message \<Rightarrow> bool" where
  "stranded now m \<longleftrightarrow>
     (case msg_enqueued_at m of None \<Rightarrow> False | Some e \<Rightarrow> e < now - REENQUEUE_AFTER)"

definition stale :: "timestamp \<Rightarrow> message \<Rightarrow> bool" where
  "stale now m \<longleftrightarrow> msg_status m = SENDING \<and> msg_updated_at m < now - STALE_SENDING_AFTER"

definition eligible :: "timestamp \<Rightarrow> message \<Rightarrow> bool" where
  "eligible now m \<longleftrightarrow> (due now m \<or> stranded now m) \<and> msg_status m = QUEUED \<or> stale now m"

text \<open>
  \<open>ORDER BY scheduled_at, created_at\<close>. Where NULL sorts is the database's choice:
  last on PostgreSQL, first on SQLite.
\<close>

definition dispatch_key :: "bool \<Rightarrow> message \<Rightarrow> int \<times> int \<times> int" where
  "dispatch_key nulls_last m =
     (case msg_scheduled_at m of
        None \<Rightarrow> (if nulls_last then 1 else -1, 0, msg_created_at m)
      | Some s \<Rightarrow> (0, s, msg_created_at m))"

text \<open>
  What the database contributes: where NULL sorts, whether it has \<open>SKIP LOCKED\<close>,
  and which rows other transactions hold locked at this moment.
\<close>

record db_backend =
  nulls_last :: bool
  has_skip_locked :: bool
  locked :: "pystr \<Rightarrow> bool"

definition dispatch_batch :: "db_backend \<Rightarrow> timestamp \<Rightarrow> db \<Rightarrow> message list" where
  "dispatch_batch be now d =
     take DISPATCH_BATCH_SIZE
       (sort_key (dispatch_key (nulls_last be))
         (filter (\<lambda>m. eligible now m \<and> \<not> (has_skip_locked be \<and> locked be (msg_id m))) (messages d)))"

definition set_requeued :: "timestamp \<Rightarrow> message \<Rightarrow> message" where
  "set_requeued now m = m\<lparr>msg_status := QUEUED, msg_claimed_by := [],
     msg_enqueued_at := Some now, msg_updated_at := now\<rparr>"

definition stamp_batch :: "timestamp \<Rightarrow> message list \<Rightarrow> db \<Rightarrow> db" where
  "stamp_batch now batch d =
     d\<lparr>messages := update_rows (\<lambda>m. msg_id m \<in> set (map msg_id batch)) (set_requeued now) (messages d)\<rparr>"

section \<open>Publishing the batch\<close>

text \<open>
  \<open>_enqueue_all\<close>: publish \<open>i\<close> reaches the broker if \<open>up i\<close>, under the task id
  \<open>ids i\<close>. The first failure ends the loop.
\<close>

fun enqueue_all ::
    "(nat \<Rightarrow> bool) \<Rightarrow> (nat \<Rightarrow> pystr) \<Rightarrow> nat \<Rightarrow> message list \<Rightarrow> task list \<Rightarrow> broker_error option \<times> task list" where
  "enqueue_all up ids i [] q = (None, q)"
| "enqueue_all up ids i (m # ms) q =
     (case enqueue_for (up i) (ids i) m q of
        Inl e \<Rightarrow> (Some e, q)
      | Inr q' \<Rightarrow> enqueue_all up ids (Suc i) ms q')"

definition dispatch_scheduled ::
    "db_backend \<Rightarrow> (nat \<Rightarrow> bool) \<Rightarrow> (nat \<Rightarrow> pystr) \<Rightarrow> timestamp \<Rightarrow> db \<times> task list
       \<Rightarrow> (broker_error + nat) \<times> db \<times> task list" where
  "dispatch_scheduled be up ids now s =
     (case s of (d, q) \<Rightarrow>
      let batch = dispatch_batch be now d;
          d' = stamp_batch now batch d
      in case enqueue_all up ids 0 batch q of
           (Some e, q') \<Rightarrow> (Inl e, d', q')
         | (None, q') \<Rightarrow> (Inr (length batch), d', q'))"

section \<open>Retention\<close>

definition cleanup_ids :: "timestamp \<Rightarrow> db \<Rightarrow> pystr list" where
  "cleanup_ids cutoff d =
     take CLEANUP_BATCH_SIZE
       (map msg_id (sort_key (\<lambda>m. - msg_created_at m)
         (filter (\<lambda>m. is_terminal (msg_status m) \<and> msg_created_at m < cutoff) (messages d))))"

lemma cleanup_ids_sub: "k \<in> set (cleanup_ids cutoff d) \<Longrightarrow> k \<in> msg_id ` set (messages d)"
  by (auto simp: cleanup_ids_def dest!: in_set_takeD)

lemma delete_messages_shrinks:
  "k \<in> set ks \<Longrightarrow> k \<in> msg_id ` set (messages d) \<Longrightarrow>
     length (messages (snd (delete_messages ks d))) < length (messages d)"
  by (auto simp: delete_messages_def Let_def intro: length_filter_less)

function cleanup_loop :: "timestamp \<Rightarrow> nat \<Rightarrow> db \<Rightarrow> nat \<times> db" where
  "cleanup_loop cutoff total_deleted d =
     (let ids = cleanup_ids cutoff d in
      if ids = [] then (total_deleted, d)
      else case delete_messages ids d of (deleted, d') \<Rightarrow>
        if length ids < CLEANUP_BATCH_SIZE then (total_deleted + deleted, d')
        else cleanup_loop cutoff (total_deleted + deleted) d')"
  by pat_completeness auto
termination
proof (relation "measure (\<lambda>(cutoff, total_deleted, d). length (messages d))", goal_cases)
  case (2 cutoff total_deleted d ids p)
  then have "hd ids \<in> set ids" by simp
  then show ?case
    using 2 delete_messages_shrinks [of "hd ids" ids d] cleanup_ids_sub by (auto simp: prod_eq_iff)
qed simp

declare cleanup_loop.simps [simp del]

definition cleanup_old_messages :: "timestamp \<Rightarrow> db \<Rightarrow> nat \<times> db" where
  "cleanup_old_messages now d = cleanup_loop (now - days CLEANUP_AGE_DAYS) 0 d"

section \<open>Facts on the dispatcher\<close>

lemma dispatch_batch_eligible:
  "m \<in> set (dispatch_batch be now d) \<Longrightarrow> m \<in> set (messages d) \<and> eligible now m"
  by (auto simp: dispatch_batch_def dest!: in_set_takeD)

lemma dispatch_batch_complete:
  assumes "length (filter (eligible now) (messages d)) \<le> DISPATCH_BATCH_SIZE"
    and "\<And>k. \<not> locked be k"
  shows "set (dispatch_batch be now d) = {m \<in> set (messages d). eligible now m}"
  using assms by (simp add: dispatch_batch_def)

lemma dispatch_batch_length: "length (dispatch_batch be now d) \<le> DISPATCH_BATCH_SIZE"
  by (simp add: dispatch_batch_def)

lemma keeps_keys_requeued [simp]: "keeps_keys (set_requeued now)"
  by (simp add: keeps_keys_def set_requeued_def)

lemma get_message_stamp_batch:
  "get_message k (stamp_batch now batch d) =
     (if k \<in> msg_id ` set batch then map_option (set_requeued now) (get_message k d) else get_message k d)"
  by (auto simp: get_message_def stamp_batch_def row_simps keeps_keysD map_option_case
      dest: get_row_SomeD split: option.splits)

lemma stamp_batch_frame [simp]:
  "attempts (stamp_batch now batch d) = attempts d"
  "dead_letters (stamp_batch now batch d) = dead_letters d"
  "message_attempts k (stamp_batch now batch d) = message_attempts k d"
  "get_dead_letter k (stamp_batch now batch d) = get_dead_letter k d"
  by (simp_all add: stamp_batch_def message_attempts_def get_dead_letter_def)

lemma stamp_batch_delivery_ok [inv_intros]:
  assumes "delivery_ok d" and elig: "\<And>m. m \<in> set batch \<Longrightarrow> m \<in> set (messages d) \<and> eligible now m"
  shows "delivery_ok (stamp_batch now batch d)"
proof -
  have db: "db_ok (stamp_batch now batch d)"
    using assms(1) by (simp add: stamp_batch_def delivery_ok_def update_messages_ok)
  have "letters_match (stamp_batch now batch d)"
    unfolding letters_match_def
  proof (intro allI impI)
    fix k n assume n: "get_message k (stamp_batch now batch d) = Some n"
    show "(get_dead_letter k (stamp_batch now batch d) \<noteq> None) = gave_up (msg_status n)"
    proof (cases "k \<in> msg_id ` set batch")
      case True
      then obtain m where m: "m \<in> set batch" "k = msg_id m" by auto
      then have gm: "get_message k d = Some m"
        using elig assms(1) by (simp add: get_message_iff delivery_ok_def)
      with n True have "n = set_requeued now m" by (simp add: get_message_stamp_batch)
      moreover have "\<not> gave_up (msg_status m)"
        using elig [OF m(1)] by (auto simp: eligible_def stale_def gave_up_def)
      ultimately show ?thesis
        using gm assms(1) by (auto simp: delivery_ok_def letters_match_def set_requeued_def gave_up_def)
    next
      case False
      with n assms(1) show ?thesis
        by (simp add: get_message_stamp_batch delivery_ok_def letters_match_def)
    qed
  qed
  with db assms(1) show ?thesis
    by (auto simp: delivery_ok_def intro: attempts_numbered_frame)
qed

text \<open>With the broker up, one task per message of the batch, in order.\<close>

definition task_for :: "pystr \<Rightarrow> message \<Rightarrow> task" where
  "task_for tid m = \<lparr>tk_name = (if msg_channel m = EMAIL then Send_email else Send_webhook),
     tk_id = tid, tk_message_id = msg_id m, tk_queue = msg_priority m, tk_retries = 0\<rparr>"

lemma enqueue_for_up: "enqueue_for True tid m q = Inr (q @ [task_for tid m])"
  by (simp add: enqueue_for_def task_for_def)

lemma enqueue_all_prefix:
  "\<exists>n \<le> length ms. snd (enqueue_all up ids i ms q) =
       q @ map (\<lambda>j. task_for (ids (i + j)) (ms ! j)) [0..<n] \<and>
     (\<forall>j < n. up (i + j)) \<and>
     (if fst (enqueue_all up ids i ms q) = None then n = length ms else n < length ms \<and> \<not> up (i + n))"
proof (induction ms arbitrary: i q)
  case (Cons m ms)
  show ?case
  proof (cases "up i")
    case True
    have eq: "enqueue_all up ids i (m # ms) q = enqueue_all up ids (Suc i) ms (q @ [task_for (ids i) m])"
      using True by (simp add: enqueue_for_up)
    from Cons.IH [of "Suc i" "q @ [task_for (ids i) m]"] obtain n where
      n: "n \<le> length ms" "\<forall>j < n. up (Suc i + j)"
      and snd: "snd (enqueue_all up ids (Suc i) ms (q @ [task_for (ids i) m])) =
        (q @ [task_for (ids i) m]) @ map (\<lambda>j. task_for (ids (Suc i + j)) (ms ! j)) [0..<n]"
      and fst: "if fst (enqueue_all up ids (Suc i) ms (q @ [task_for (ids i) m])) = None
        then n = length ms else n < length ms \<and> \<not> up (Suc i + n)"
      by blast
    have "map (\<lambda>j. task_for (ids (i + j)) ((m # ms) ! j)) [0..<Suc n] =
        task_for (ids i) m # map (\<lambda>j. task_for (ids (Suc i + j)) (ms ! j)) [0..<n]"
      by (simp add: upt_conv_Cons map_Suc_upt [symmetric] o_def del: upt_Suc)
    moreover have "\<forall>j < Suc n. up (i + j)"
      using n(2) True by (auto simp: less_Suc_eq_0_disj)
    ultimately show ?thesis using n snd fst eq by (intro exI [of _ "Suc n"]) auto
  next
    case False
    then show ?thesis by (intro exI [of _ 0]) (simp add: enqueue_for_def)
  qed
qed simp

section \<open>Facts on the retention job\<close>

definition expired :: "timestamp \<Rightarrow> message \<Rightarrow> bool" where
  "expired cutoff m \<longleftrightarrow> is_terminal (msg_status m) \<and> msg_created_at m < cutoff"

definition row_count :: "db \<Rightarrow> nat" where
  "row_count d = length (messages d) + length (attempts d) + length (dead_letters d)"

lemma cleanup_ids_expired:
  "k \<in> set (cleanup_ids cutoff d) \<Longrightarrow> \<exists>m\<in>set (messages d). msg_id m = k \<and> expired cutoff m"
  by (auto simp: cleanup_ids_def expired_def dest!: in_set_takeD)

lemma cleanup_ids_all:
  "length (cleanup_ids cutoff d) < CLEANUP_BATCH_SIZE \<Longrightarrow>
     set (cleanup_ids cutoff d) = msg_id ` {m \<in> set (messages d). expired cutoff m}"
  by (simp add: cleanup_ids_def expired_def min_def split: if_splits)

lemma three_counts:
  "(a'::nat) \<le> a \<Longrightarrow> b' \<le> b \<Longrightarrow> c' \<le> c \<Longrightarrow>
     (a' + b' + c') + ((a - a') + (b - b') + (c - c')) = a + b + c"
  by arith

lemma delete_messages_rows:
  "row_count (snd (delete_messages ks d)) + fst (delete_messages ks d) = row_count d"
  using three_counts [OF length_filter_le [of "\<lambda>m. msg_id m \<notin> set ks" "messages d"]
      length_filter_le [of "\<lambda>a. da_message a \<notin> set ks" "attempts d"]
      length_filter_le [of "\<lambda>l. dl_message l \<notin> set ks" "dead_letters d"]]
  by (simp add: delete_messages_def Let_def row_count_def)

text \<open>Deleting messages by id, and what is left afterwards.\<close>

definition without :: "(pystr \<Rightarrow> bool) \<Rightarrow> db \<Rightarrow> db" where
  "without gone d = d\<lparr>messages := filter (\<lambda>m. \<not> gone (msg_id m)) (messages d),
     attempts := filter (\<lambda>a. \<not> gone (da_message a)) (attempts d),
     dead_letters := filter (\<lambda>l. \<not> gone (dl_message l)) (dead_letters d)\<rparr>"

lemma delete_messages_without: "snd (delete_messages ks d) = without (\<lambda>k. k \<in> set ks) d"
  by (simp add: delete_messages_def without_def Let_def)

lemma without_without: "without p (without q d) = without (\<lambda>k. p k \<or> q k) d"
  by (simp add: without_def conj_commute)

definition expired_id :: "timestamp \<Rightarrow> db \<Rightarrow> pystr \<Rightarrow> bool" where
  "expired_id cutoff d k \<longleftrightarrow> (\<exists>m\<in>set (messages d). msg_id m = k \<and> expired cutoff m)"

lemma expired_id_without:
  "expired_id cutoff (without p d) k \<longleftrightarrow> expired_id cutoff d k \<and> \<not> p k"
  by (auto simp: expired_id_def without_def)

lemma cleanup_loop_result:
  "snd (cleanup_loop cutoff n d) = without (expired_id cutoff d) d \<and>
   row_count (snd (cleanup_loop cutoff n d)) + fst (cleanup_loop cutoff n d) = row_count d + n"
proof (induction cutoff n d rule: cleanup_loop.induct)
  case (1 cutoff n d)
  let ?ids = "cleanup_ids cutoff d"
  let ?del = "delete_messages ?ids d"
  have sub: "k \<in> set ?ids \<Longrightarrow> expired_id cutoff d k" for k
    using cleanup_ids_expired by (fastforce simp: expired_id_def)
  have few: "k \<in> set ?ids \<longleftrightarrow> expired_id cutoff d k" if "length ?ids < CLEANUP_BATCH_SIZE" for k
    using cleanup_ids_all [OF that] by (auto simp: expired_id_def)
  show ?case
  proof (cases "length ?ids < CLEANUP_BATCH_SIZE")
    case True
    then have "cleanup_loop cutoff n d = (if ?ids = [] then (n, d) else (n + fst ?del, snd ?del))"
      by (simp add: cleanup_loop.simps [of cutoff n d] Let_def split: prod.splits)
    moreover have "snd ?del = without (expired_id cutoff d) d"
      using few [OF True] by (simp add: delete_messages_without)
    moreover have "without (expired_id cutoff d) d = d" if "?ids = []"
      using few [OF True] that \<open>snd ?del = _\<close> by (simp add: without_def)
    ultimately show ?thesis
      using delete_messages_rows [of ?ids d] by (cases "?ids = []") simp_all
  next
    case False
    then have ne: "?ids \<noteq> []" by (auto simp: CLEANUP_BATCH_SIZE_def)
    with False have rec: "cleanup_loop cutoff n d = cleanup_loop cutoff (n + fst ?del) (snd ?del)"
      by (simp add: cleanup_loop.simps [of cutoff n d] Let_def split: prod.splits)
    have IH: "snd (cleanup_loop cutoff (n + fst ?del) (snd ?del)) = without (expired_id cutoff (snd ?del)) (snd ?del) \<and>
       row_count (snd (cleanup_loop cutoff (n + fst ?del) (snd ?del))) + fst (cleanup_loop cutoff (n + fst ?del) (snd ?del))
         = row_count (snd ?del) + (n + fst ?del)"
      using "1.IH" [OF refl ne, of "fst ?del" "snd ?del"] False by auto
    have "without (expired_id cutoff (snd ?del)) (snd ?del) = without (expired_id cutoff d) d"
      using sub by (auto simp: delete_messages_without without_without expired_id_without
          intro!: arg_cong [where f = "\<lambda>p. without p d"])
    with IH rec delete_messages_rows [of ?ids d] show ?thesis by auto
  qed
qed

section \<open>Properties\<close>

lemma take_sort_key_least:
  assumes "x \<in> set (take n (sort_key f xs))" and "y \<in> set xs" and "y \<notin> set (take n (sort_key f xs))"
  shows "f x \<le> f y"
proof -
  let ?s = "sort_key f xs"
  have "y \<in> set (take n ?s @ drop n ?s)" using assms(2) by simp
  then have "y \<in> set (drop n ?s)" using assms(3) by (simp only: set_append Un_iff) simp
  moreover have "sorted (map f (take n ?s @ drop n ?s))" by simp
  then have "\<forall>a\<in>set (take n ?s). \<forall>b\<in>set (drop n ?s). f a \<le> f b"
    by (simp only: map_append sorted_append set_map) blast
  ultimately show ?thesis using assms(1) by blast
qed

text \<open>
  What the dispatcher picks. At most 200 messages; each is eligible and not locked by
  another transaction (where the database can skip locked rows); and when messages are
  left over, none of them is ordered before a picked one, so the messages scheduled
  earliest go first.
\<close>

theorem dispatch_batch_earliest:
  "length (dispatch_batch be now d) \<le> 200 \<and>
   set (dispatch_batch be now d) \<subseteq>
     {m \<in> set (messages d). eligible now m \<and> (has_skip_locked be \<longrightarrow> \<not> locked be (msg_id m))} \<and>
   (\<forall>m\<in>set (dispatch_batch be now d). \<forall>n\<in>set (messages d).
      eligible now n \<longrightarrow> \<not> (has_skip_locked be \<and> locked be (msg_id n)) \<longrightarrow>
      n \<notin> set (dispatch_batch be now d) \<longrightarrow>
      dispatch_key (nulls_last be) m \<le> dispatch_key (nulls_last be) n)"
proof (intro conjI ballI impI)
  show "length (dispatch_batch be now d) \<le> 200"
    using dispatch_batch_length by (simp add: DISPATCH_BATCH_SIZE_def)
  show "set (dispatch_batch be now d) \<subseteq>
     {m \<in> set (messages d). eligible now m \<and> (has_skip_locked be \<longrightarrow> \<not> locked be (msg_id m))}"
    by (auto simp: dispatch_batch_def dest!: in_set_takeD)
  fix m n assume "m \<in> set (dispatch_batch be now d)" "n \<in> set (messages d)" "eligible now n"
    "\<not> (has_skip_locked be \<and> locked be (msg_id n))" "n \<notin> set (dispatch_batch be now d)"
  then show "dispatch_key (nulls_last be) m \<le> dispatch_key (nulls_last be) n"
    unfolding dispatch_batch_def by (intro take_sort_key_least) auto
qed

text \<open>
  C29: the retention job. It always ends; afterwards exactly the finished messages older
  than 90 days are gone, with their attempts and dead letters, nothing else is touched,
  and the number returned is the number of rows deleted from the three tables.
\<close>

theorem cleanup_deletes_exactly_expired:
  "snd (cleanup_old_messages now d) = without (expired_id (now - days 90) d) d \<and>
   fst (cleanup_old_messages now d) =
     row_count d - row_count (without (expired_id (now - days 90) d) d)"
  using cleanup_loop_result [of "now - days 90" 0 d]
  by (auto simp: cleanup_old_messages_def CLEANUP_AGE_DAYS_def)

end
