(* ===== verification/Relay_Services.thy ===== *)
theory Relay_Services
  imports Relay_Templating Relay_Scheduler
begin

text \<open>
  \<open>apps/messages_api/services.py\<close>: accepting a message. The request's validated data
  is a record; a key that is missing and a key whose value is \<open>None\<close> read the same
  through \<open>dict.get\<close>, so both are \<open>None\<close> here. Other requests may commit between
  the lookup and the insert: \<open>others\<close> is what they do to the database.
\<close>

record validated_data =
  vd_channel :: channel
  vd_recipient :: pystr
  vd_template :: "pystr option"
  vd_template_version :: "int option"
  vd_context :: "json option"
  vd_priority :: "priority option"
  vd_scheduled_at :: "timestamp option"

datatype not_found = NameRequired | NoSuchTemplate | NoSuchVersion | NoVersions

datatype create_error =
    IdempotencyConflict
  | TemplateNotFound not_found
  | RenderFailed render_exn
  | Unresolved db_error

text \<open>What one call meets outside the database.\<close>

record create_env =
  ce_jinja :: jinja
  ce_recursion_limit :: nat
  ce_now :: timestamp
  ce_new_ulid :: pystr
  ce_broker_up :: bool
  ce_task_id :: pystr
  ce_others :: "db \<Rightarrow> db"

section \<open>Lookup and replay\<close>

definition find_existing :: "nat option \<Rightarrow> pystr \<Rightarrow> db \<Rightarrow> message option" where
  "find_existing ak idem d =
     (case sort_key (\<lambda>m. - msg_created_at m)
             (filter (\<lambda>m. msg_api_key m = ak \<and> msg_idempotency_key m = idem) (messages d)) of
        [] \<Rightarrow> None
      | m # _ \<Rightarrow> Some m)"

definition context_or_empty :: "json option \<Rightarrow> json" where
  "context_or_empty c = (case c of None \<Rightarrow> JObj [] | Some v \<Rightarrow> or_empty_dict v)"

definition priority_or_default :: "priority option \<Rightarrow> priority" where
  "priority_or_default p = (case p of None \<Rightarrow> DEFAULT | Some q \<Rightarrow> q)"

definition payload_matches :: "message \<Rightarrow> validated_data \<Rightarrow> bool" where
  "payload_matches m new =
     (if msg_channel m \<noteq> vd_channel new then False
      else if msg_recipient m \<noteq> vd_recipient new then False
      else if \<not> py_eq (context_or_empty (vd_context new)) (or_empty_dict (msg_context m)) then False
      else if vd_scheduled_at new \<noteq> msg_scheduled_at m then False
      else msg_priority m = priority_or_default (vd_priority new))"

definition replay :: "message \<Rightarrow> validated_data \<Rightarrow> create_error + message \<times> bool" where
  "replay m data = (if payload_matches m data then Inr (m, False) else Inl IdempotencyConflict)"

section \<open>Choosing the template\<close>

definition resolve_template :: "validated_data \<Rightarrow> db \<Rightarrow> not_found + template_version" where
  "resolve_template data d =
     (case vd_template data of
        None \<Rightarrow> Inl NameRequired
      | Some name \<Rightarrow>
          if name = [] then Inl NameRequired
          else case alive_named name d of
            None \<Rightarrow> Inl NoSuchTemplate
          | Some tmpl \<Rightarrow>
              if tm_channel tmpl \<noteq> vd_channel data then Inl NoSuchTemplate
              else case vd_template_version data of
                Some n \<Rightarrow>
                  if n \<noteq> 0 then
                    (case if n < 0 then None else version_numbered tmpl (nat n) d of
                       None \<Rightarrow> Inl NoSuchVersion | Some v \<Rightarrow> Inr v)
                  else (case latest_version tmpl d of None \<Rightarrow> Inl NoVersions | Some v \<Rightarrow> Inr v)
              | None \<Rightarrow> (case latest_version tmpl d of None \<Rightarrow> Inl NoVersions | Some v \<Rightarrow> Inr v))"

section \<open>Creating the row and publishing\<close>

definition send_now :: "timestamp \<Rightarrow> timestamp option \<Rightarrow> bool" where
  "send_now now s = (case s of None \<Rightarrow> True | Some t \<Rightarrow> t \<le> now)"

definition new_message ::
    "create_env \<Rightarrow> nat option \<Rightarrow> pystr \<Rightarrow> validated_data \<Rightarrow> template_version \<Rightarrow> rendered_message \<Rightarrow> message" where
  "new_message e ak idem data tv r =
     \<lparr>msg_id = ce_new_ulid e, msg_idempotency_key = idem, msg_api_key = ak,
      msg_channel = vd_channel data, msg_recipient = vd_recipient data,
      msg_template_version = Some (tv_id tv),
      msg_rendered_subject = rm_subject r, msg_rendered_body = rm_body r,
      msg_context = context_or_empty (vd_context data),
      msg_priority = priority_or_default (vd_priority data),
      msg_status = QUEUED, msg_scheduled_at = vd_scheduled_at data,
      msg_enqueued_at = (if send_now (ce_now e) (vd_scheduled_at data) then Some (ce_now e) else None),
      msg_claimed_by = [], msg_created_at = ce_now e, msg_updated_at = ce_now e\<rparr>"

definition enqueue_after_commit :: "create_env \<Rightarrow> message \<Rightarrow> task list \<Rightarrow> task list" where
  "enqueue_after_commit e m q =
     (case enqueue_for (ce_broker_up e) (ce_task_id e) m q of Inl _ \<Rightarrow> q | Inr q' \<Rightarrow> q')"

definition insert_and_publish ::
    "create_env \<Rightarrow> nat option \<Rightarrow> pystr \<Rightarrow> validated_data \<Rightarrow> message \<Rightarrow> db \<times> task list
       \<Rightarrow> (create_error + message \<times> bool) \<times> db \<times> task list" where
  "insert_and_publish e ak idem data m s =
     (case s of (d, q) \<Rightarrow>
      case insert_message m d of
        Inl err \<Rightarrow>
          if err \<noteq> IntegrityError then (Inl (Unresolved err), d, q)
          else (case find_existing ak idem d of
             None \<Rightarrow> (Inl (Unresolved err), d, q)
           | Some ex \<Rightarrow> (replay ex data, d, q))
      | Inr d' \<Rightarrow>
          (Inr (m, True), d',
           if send_now (ce_now e) (vd_scheduled_at data) then enqueue_after_commit e m q else q))"

definition create_message ::
    "create_env \<Rightarrow> nat option \<Rightarrow> pystr \<Rightarrow> validated_data \<Rightarrow> db \<times> task list
       \<Rightarrow> (create_error + message \<times> bool) \<times> db \<times> task list" where
  "create_message e ak idem data s =
     (case s of (d, q) \<Rightarrow>
      case find_existing ak idem d of
        Some ex \<Rightarrow> (replay ex data, d, q)
      | None \<Rightarrow>
          (case resolve_template data d of
             Inl why \<Rightarrow> (Inl (TemplateNotFound why), d, q)
           | Inr tv \<Rightarrow>
               (case render (ce_jinja e) (ce_recursion_limit e) tv (context_or_empty (vd_context data))
                       (vd_channel data) of
                  Inl exn \<Rightarrow> (Inl (RenderFailed exn), d, q)
                | Inr r \<Rightarrow> insert_and_publish e ak idem data (new_message e ak idem data tv r)
                             (ce_others e d, q))))"

section \<open>The lookup as an interface\<close>

text \<open>
  What idempotent creation relies on: a lookup by owner and key that finds at most one
  row per key, an insert that refuses a taken key, and a lookup after an insert that
  finds the new row.
\<close>

locale idempotent_store =
  fixes look :: "'owner \<Rightarrow> 'key \<Rightarrow> 's \<Rightarrow> 'row option"
    and ins :: "'row \<Rightarrow> 's \<Rightarrow> 'err + 's"
    and owner :: "'row \<Rightarrow> 'owner"
    and rkey :: "'row \<Rightarrow> 'key"
    and scoped :: "'owner \<Rightarrow> bool"
    and ok :: "'s \<Rightarrow> bool"
  assumes look_sound: "look ow k s = Some r \<Longrightarrow> owner r = ow \<and> rkey r = k"
    and ins_ok: "ok s \<Longrightarrow> ins r s = Inr s' \<Longrightarrow> ok s'"
    and ins_taken: "scoped (owner r) \<Longrightarrow> look (owner r) (rkey r) s \<noteq> None \<Longrightarrow> \<exists>e. ins r s = Inl e"
    and look_new: "ok s \<Longrightarrow> scoped (owner r) \<Longrightarrow> ins r s = Inr s' \<Longrightarrow> look (owner r) (rkey r) s' = Some r"
    and look_frame: "ins r s = Inr s' \<Longrightarrow> (ow, k) \<noteq> (owner r, rkey r) \<Longrightarrow> look ow k s' = look ow k s"
begin

lemma insert_once:
  assumes "ok s" and "scoped (owner r)" and "ins r s = Inr s'"
    and "owner r' = owner r" and "rkey r' = rkey r"
  shows "\<exists>e. ins r' s' = Inl e"
  using assms look_new ins_taken by (metis option.distinct(1))

lemma insert_was_free:
  "scoped (owner r) \<Longrightarrow> ins r s = Inr s' \<Longrightarrow> look (owner r) (rkey r) s = None"
  using ins_taken by force

end

lemma find_existing_sound:
  "find_existing ak idem d = Some m \<Longrightarrow>
     m \<in> set (messages d) \<and> msg_api_key m = ak \<and> msg_idempotency_key m = idem"
  unfolding find_existing_def by (drule first_sorted_Some) simp

lemma find_existing_None:
  "find_existing ak idem d = None \<longleftrightarrow>
     (\<forall>m\<in>set (messages d). \<not> (msg_api_key m = ak \<and> msg_idempotency_key m = idem))"
  unfolding find_existing_def first_sorted_None by (auto simp: filter_empty_conv)

lemma find_existing_unique:
  assumes "db_ok d" and "m \<in> set (messages d)" and "msg_api_key m = Some a"
  shows "find_existing (Some a) (msg_idempotency_key m) d = Some m"
proof -
  obtain n where n: "find_existing (Some a) (msg_idempotency_key m) d = Some n"
    using assms(2,3) find_existing_None by (metis option.exhaust)
  then have "idempotency_clash n m" and ns: "n \<in> set (messages d)"
    using find_existing_sound [OF n] assms(3) by (auto simp: idempotency_clash_def)
  then have "msg_id n = msg_id m"
    using assms(1,2) by (auto simp: db_ok_def idempotency_unique_def)
  then have "n = m"
    using distinct_keys_eq [of msg_id "messages d"] assms(1,2) ns by (simp add: db_ok_def)
  with n show ?thesis by simp
qed

interpretation idem: idempotent_store find_existing insert_message msg_api_key msg_idempotency_key
  "\<lambda>ow. ow \<noteq> None" db_ok
proof unfold_locales
  fix s s' :: db and r ow k
  show "find_existing ow k s = Some r \<Longrightarrow> msg_api_key r = ow \<and> msg_idempotency_key r = k"
    by (auto dest: find_existing_sound)
  show "db_ok s \<Longrightarrow> insert_message r s = Inr s' \<Longrightarrow> db_ok s'" by (rule insert_message_ok)
  show "\<exists>e. insert_message r s = Inl e"
    if "msg_api_key r \<noteq> None" "find_existing (msg_api_key r) (msg_idempotency_key r) s \<noteq> None"
  proof -
    from that(2) obtain n where n: "n \<in> set (messages s)" "msg_api_key n = msg_api_key r"
      "msg_idempotency_key n = msg_idempotency_key r"
      by (auto dest: find_existing_sound)
    with that(1) have "idempotency_clash r n" by (simp add: idempotency_clash_def)
    with n(1) have "list_ex (idempotency_clash r) (messages s)" by (auto simp: list_ex_iff)
    then show ?thesis by (simp add: insert_message_def)
  qed
  show "find_existing (msg_api_key r) (msg_idempotency_key r) s' = Some r"
    if "db_ok s" "msg_api_key r \<noteq> None" "insert_message r s = Inr s'"
  proof -
    have "db_ok s'" using that insert_message_ok by blast
    moreover have "r \<in> set (messages s')" using insert_messageD(1) [OF that(3)] by simp
    ultimately show ?thesis using that(2) find_existing_unique by fastforce
  qed
  show "find_existing ow k s' = find_existing ow k s"
    if "insert_message r s = Inr s'" "(ow, k) \<noteq> (msg_api_key r, msg_idempotency_key r)"
    using insert_messageD(1) [OF that(1)] that(2) by (auto simp: find_existing_def)
qed

section \<open>Properties\<close>

text \<open>
  The race between two requests with one idempotency key. If another request inserts
  its message between our lookup and our insert, our insert is refused and we answer from
  the other request's row, by replay or conflict; the database is left as the other
  request made it, and no task is published.
\<close>

theorem create_message_race:
  assumes "find_existing (Some a) idem d = None" and "resolve_template data d = Inr tv"
    and "render (ce_jinja e) (ce_recursion_limit e) tv (context_or_empty (vd_context data)) (vd_channel data) = Inr r"
    and "find_existing (Some a) idem (ce_others e d) = Some ex"
    and "message_storable (new_message e (Some a) idem data tv r)"
  shows "create_message e (Some a) idem data (d, q) = (replay ex data, ce_others e d, q)"
proof -
  let ?m = "new_message e (Some a) idem data tv r"
  have "msg_api_key ?m = Some a" "msg_idempotency_key ?m = idem" by (simp_all add: new_message_def)
  then have "\<exists>err. insert_message ?m (ce_others e d) = Inl err"
    using idem.ins_taken [of ?m "ce_others e d"] assms(4) by auto
  then have "insert_message ?m (ce_others e d) = Inl IntegrityError"
    using assms(5) by (auto simp: insert_message_def split: if_splits)
  then show ?thesis using assms by (simp add: create_message_def insert_and_publish_def)
qed

lemma create_message_cases:
  assumes "ce_others e d = d" and "create_message e ak idem data (d, q) = (res, d', q')"
  shows "(\<exists>err. res = Inl err \<and> d' = d \<and> q' = q) \<or>
     (\<exists>ex. res = Inr (ex, False) \<and> d' = d \<and> q' = q \<and> ex \<in> set (messages d) \<and>
        msg_api_key ex = ak \<and> msg_idempotency_key ex = idem \<and> payload_matches ex data) \<or>
     (\<exists>tv r. resolve_template data d = Inr tv \<and>
        render (ce_jinja e) (ce_recursion_limit e) tv (context_or_empty (vd_context data)) (vd_channel data) = Inr r \<and>
        (let m = new_message e ak idem data tv r in
         res = Inr (m, True) \<and> insert_message m d = Inr d' \<and> d' = d\<lparr>messages := messages d @ [m]\<rparr> \<and>
         q' = (if send_now (ce_now e) (vd_scheduled_at data) \<and> ce_broker_up e
               then q @ [task_for (ce_task_id e) m] else q)))"
proof (cases "find_existing ak idem d")
  case (Some ex)
  with assms find_existing_sound [OF Some] show ?thesis
    by (auto simp: create_message_def replay_def split: if_splits)
next
  case None
  show ?thesis
  proof (cases "resolve_template data d")
    case (Inl why)
    with None assms show ?thesis by (auto simp: create_message_def)
  next
    case (Inr tv)
    show ?thesis
    proof (cases "render (ce_jinja e) (ce_recursion_limit e) tv (context_or_empty (vd_context data)) (vd_channel data)")
      case (Inl exn)
      with None Inr assms show ?thesis by (auto simp: create_message_def)
    next
      case r: (Inr r)
      let ?m = "new_message e ak idem data tv r"
      have pub: "insert_and_publish e ak idem data ?m (d, q) = (res, d', q')"
        using None Inr r assms by (simp add: create_message_def)
      show ?thesis
      proof (cases "insert_message ?m d")
        case (Inl err)
        with pub None show ?thesis by (auto simp: insert_and_publish_def split: if_splits)
      next
        case (Inr d1)
        with pub insert_messageD(1) [OF Inr] have "res = Inr (?m, True)" "insert_message ?m d = Inr d'" "d' = d\<lparr>messages := messages d @ [?m]\<rparr>"
          "q' = (if send_now (ce_now e) (vd_scheduled_at data) \<and> ce_broker_up e
                 then q @ [task_for (ce_task_id e) ?m] else q)"
          by (auto simp: insert_and_publish_def enqueue_after_commit_def enqueue_for_def task_for_def)
        with \<open>resolve_template data d = Inr tv\<close> r show ?thesis by (auto simp: Let_def)
      qed
    qed
  qed
qed

text \<open>
  C24: every outcome of \<open>create_message\<close> in a database no other request changes meanwhile:
  an error leaves database and queue alone; a replay does too and answers with a stored
  message of this API key and idempotency key; a creation appends one queued message
  carrying the rendered snapshot, and publishes one task for it if it is to be sent now
  and the broker is up, and none otherwise.
\<close>

theorem create_message_outcomes:
  assumes "ce_others e d = d" and "create_message e ak idem data (d, q) = (res, d', q')"
  shows "(\<exists>err. res = Inl err \<and> d' = d \<and> q' = q) \<or>
     (\<exists>ex. res = Inr (ex, False) \<and> d' = d \<and> q' = q \<and> ex \<in> set (messages d) \<and>
        msg_api_key ex = ak \<and> msg_idempotency_key ex = idem \<and> payload_matches ex data) \<or>
     (\<exists>tv r. resolve_template data d = Inr tv \<and>
        render (ce_jinja e) (ce_recursion_limit e) tv (context_or_empty (vd_context data)) (vd_channel data) = Inr r \<and>
        (let m = new_message e ak idem data tv r in
         res = Inr (m, True) \<and> d' = d\<lparr>messages := messages d @ [m]\<rparr> \<and>
         q' = (if send_now (ce_now e) (vd_scheduled_at data) \<and> ce_broker_up e
               then q @ [task_for (ce_task_id e) m] else q)))"
  using create_message_cases [OF assms] unfolding Let_def by blast

text \<open>
  Which template version is used. A successful \<open>_resolve_template\<close> returns a version of
  the one live template of that name, whose channel is the request's; it is the requested
  version when the request names one, and otherwise the newest version of the template.
\<close>

lemma resolve_template_sound:
  assumes "templates_ok d" and "resolve_template data d = Inr v"
  shows "\<exists>t. t \<in> set (templates d) \<and> tm_deleted_at t = None \<and> Some (tm_name t) = vd_template data \<and>
     tm_channel t = vd_channel data \<and> v \<in> set (template_versions d) \<and> tv_template v = tm_id t \<and>
     (if vd_template_version data \<in> {None, Some 0} then tv_version v = length (versions_of t d)
      else vd_template_version data = Some (int (tv_version v)))"
proof -
  obtain name t where t: "vd_template data = Some name" "alive_named name d = Some t"
      "tm_channel t = vd_channel data"
    and v: "(case vd_template_version data of
              Some n \<Rightarrow> (if n \<noteq> 0 then (if n < 0 then None else version_numbered t (nat n) d) else latest_version t d)
            | None \<Rightarrow> latest_version t d) = Some v"
    using assms(2) by (auto simp: resolve_template_def split: option.splits if_splits)
  have al: "t \<in> set (alive d)" "tm_name t = name"
    using t(2) alive_named_Some [OF templates_okD(1) [OF assms(1)]] by auto
  then have mem: "t \<in> set (templates d)" "tm_deleted_at t = None" by (auto simp: alive_def is_deleted_def)
  have num: "version_numbered t n d = Some v \<Longrightarrow> v \<in> set (versions_of t d) \<and> tv_version v = n" for n
    by (auto simp: version_numbered_def find_Some_iff)
  have lat: "latest_version t d = Some v \<Longrightarrow> v \<in> set (versions_of t d) \<and> tv_version v = length (versions_of t d)"
    using latest_version_number [OF templates_okD(4) [OF assms(1)] mem(1)] by blast
  have "v \<in> set (versions_of t d) \<and>
     (if vd_template_version data \<in> {None, Some 0} then tv_version v = length (versions_of t d)
      else vd_template_version data = Some (int (tv_version v)))"
    using v num lat by (auto split: option.splits if_splits)
  then show ?thesis using t mem al(2) by (auto simp: versions_of_def)
qed

text \<open>The comparison does not look at the template: a request naming another one is a replay.\<close>

lemma replay_ignores_template:
  "replay m (data\<lparr>vd_template := t, vd_template_version := v\<rparr>) = replay m data"
  by (simp add: replay_def payload_matches_def)

text \<open>
  What a new message carries. It refers to a version of the live template of the name and
  channel the request asked for, the requested version or otherwise the newest; its body and
  subject are what the engine made of that version, escaped for email only, together at most
  262144 characters, and a webhook's body is JSON.
\<close>

theorem created_message_snapshot:
  assumes "templates_ok d" and "ce_others e d = d"
    and "create_message e ak idem data (d, q) = (Inr (m, True), d', q')"
  shows "\<exists>t v. t \<in> set (templates d) \<and> tm_deleted_at t = None \<and> Some (tm_name t) = vd_template data \<and>
     tm_channel t = msg_channel m \<and> v \<in> set (versions_of t d) \<and> msg_template_version m = Some (tv_id v) \<and>
     (if vd_template_version data \<in> {None, Some 0} then tv_version v = length (versions_of t d)
      else vd_template_version data = Some (int (tv_version v))) \<and>
     ce_jinja e (msg_channel m = EMAIL) (tv_body_template v) (msg_context m) = Inr (msg_rendered_body m) \<and>
     (if tv_subject_template v = [] then msg_rendered_subject m = []
      else ce_jinja e False (tv_subject_template v) (msg_context m) = Inr (msg_rendered_subject m)) \<and>
     length (msg_rendered_body m) + length (msg_rendered_subject m) \<le> 262144 \<and>
     (msg_channel m = WEBHOOK \<longrightarrow> json_loads (ce_recursion_limit e) (msg_rendered_body m) = Ok [])"
proof -
  obtain v r where v: "resolve_template data d = Inr v"
    and r: "render (ce_jinja e) (ce_recursion_limit e) v (context_or_empty (vd_context data)) (vd_channel data) = Inr r"
    and m: "m = new_message e ak idem data v r"
    using create_message_cases [OF assms(2,3)] by (auto simp: Let_def)
  from resolve_template_sound [OF assms(1) v] obtain t where
    "t \<in> set (templates d)" "tm_deleted_at t = None" "Some (tm_name t) = vd_template data"
    "tm_channel t = vd_channel data" "v \<in> set (versions_of t d)"
    "if vd_template_version data \<in> {None, Some 0} then tv_version v = length (versions_of t d)
      else vd_template_version data = Some (int (tv_version v))"
    by (auto simp: versions_of_def)
  moreover have "msg_channel m = vd_channel data" "msg_template_version m = Some (tv_id v)"
    "msg_context m = context_or_empty (vd_context data)" "msg_rendered_body m = rm_body r"
    "msg_rendered_subject m = rm_subject r"
    by (simp_all add: m new_message_def)
  moreover note render_sound [OF r]
  ultimately show ?thesis by metis
qed

end
