(* ===== verification/Relay_Settings.thy ===== *)
theory Relay_Settings
  imports Relay_Scheduler
begin

text \<open>
  The settings the rest of the program depends on: the Celery section of
  \<open>settings/base.py\<close> with its timing constants and routes, the fallbacks of
  \<open>settings/dev.py\<close>, and the start-up checks of \<open>settings/prod.py\<close>, which refuse weak
  secrets and open host lists. Durations are seconds, as in the source.
\<close>

section \<open>Celery\<close>

definition CELERY_TASK_ACKS_LATE :: bool where "CELERY_TASK_ACKS_LATE = True"
definition CELERY_TASK_REJECT_ON_WORKER_LOST :: bool where "CELERY_TASK_REJECT_ON_WORKER_LOST = True"
definition CELERY_WORKER_PREFETCH_MULTIPLIER :: nat where "CELERY_WORKER_PREFETCH_MULTIPLIER = 1"
definition CELERY_TASK_TIME_LIMIT :: int where "CELERY_TASK_TIME_LIMIT = 60"
definition CELERY_TASK_SOFT_TIME_LIMIT :: int where "CELERY_TASK_SOFT_TIME_LIMIT = 50"
definition visibility_timeout :: int where "visibility_timeout = 3600 + 300"

definition CELERY_TASK_QUEUES :: "pystr list" where
  "CELERY_TASK_QUEUES = [''high'', ''default'', ''low'']"

definition CELERY_TASK_ROUTES :: "pystr \<rightharpoonup> pystr" where
  "CELERY_TASK_ROUTES = map_of
     [(''tasks.delivery.send_email'', ''default''),
      (''tasks.delivery.send_webhook'', ''default''),
      (''tasks.scheduler.dispatch_scheduled'', ''default''),
      (''tasks.scheduler.cleanup_old_messages'', ''low'')]"

definition dispatch_interval :: int where "dispatch_interval = 60"

text \<open>
  The countdown before retry \<open>n\<close> (counting from 0) is at most this: Celery doubles
  \<open>retry_backoff\<close> per retry, caps it at \<open>retry_backoff_max\<close>, and jitter only shortens it.
\<close>

definition max_countdown :: "nat \<Rightarrow> nat" where
  "max_countdown n = min RETRY_BACKOFF_MAX_S (RETRY_BACKOFF_BASE_S * 2 ^ n)"

definition task_time_limit :: int where
  "task_time_limit = seconds CELERY_TASK_TIME_LIMIT"

section \<open>Start-up checks\<close>

record secrets =
  SECRET_KEY :: pystr
  JWT_SIGNING_KEY :: pystr
  API_KEY_HASH_PEPPER :: pystr
  WEBHOOK_HMAC_SECRET :: pystr

definition MIN_SECRET_LENGTH :: nat where "MIN_SECRET_LENGTH = 32"

definition weak_secret :: "pystr \<Rightarrow> bool" where
  "weak_secret v \<longleftrightarrow> length v < MIN_SECRET_LENGTH
     \<or> py_startswith v ''dev-'' \<or> py_startswith v ''ci-'' \<or> py_startswith v ''test-''"

text \<open>The named secrets in the order the loop visits them.\<close>

definition named_secrets :: "secrets \<Rightarrow> (pystr \<times> pystr) list" where
  "named_secrets c =
     [(''SECRET_KEY'', SECRET_KEY c), (''JWT_SIGNING_KEY'', JWT_SIGNING_KEY c),
      (''API_KEY_HASH_PEPPER'', API_KEY_HASH_PEPPER c), (''WEBHOOK_HMAC_SECRET'', WEBHOOK_HMAC_SECRET c)]"

datatype config_error = WeakSecret pystr | OpenHosts

fun check_secrets :: "(pystr \<times> pystr) list \<Rightarrow> config_error option" where
  "check_secrets [] = None"
| "check_secrets ((name, v) # rest) = (if weak_secret v then Some (WeakSecret name) else check_secrets rest)"

definition prod_startup :: "secrets \<Rightarrow> pystr list \<Rightarrow> config_error option" where
  "prod_startup c allowed_hosts =
     (case check_secrets (named_secrets c) of
        Some e \<Rightarrow> Some e
      | None \<Rightarrow> if allowed_hosts = [] \<or> ''*'' \<in> set allowed_hosts then Some OpenHosts else None)"

definition or_default :: "'a list \<Rightarrow> 'a list \<Rightarrow> 'a list" where
  "or_default v fallback = (if v \<noteq> [] then v else fallback)"

definition dev_secrets :: "secrets \<Rightarrow> secrets" where
  "dev_secrets c =
     \<lparr>SECRET_KEY = or_default (SECRET_KEY c) ''dev-insecure-secret-key-change-me'',
      JWT_SIGNING_KEY = or_default (JWT_SIGNING_KEY c) ''dev-insecure-jwt-signing-key-change-me'',
      API_KEY_HASH_PEPPER = or_default (API_KEY_HASH_PEPPER c) ''dev-insecure-pepper'',
      WEBHOOK_HMAC_SECRET = or_default (WEBHOOK_HMAC_SECRET c) ''dev-insecure-webhook-secret''\<rparr>"

definition dev_allowed_hosts :: "pystr list \<Rightarrow> pystr list" where
  "dev_allowed_hosts hosts = or_default hosts [''localhost'', ''127.0.0.1'', ''[::1]'']"

lemma check_secrets_None: "check_secrets xs = None \<longleftrightarrow> (\<forall>(n, v)\<in>set xs. \<not> weak_secret v)"
  by (induction xs rule: check_secrets.induct) auto

lemma check_secrets_Some: "check_secrets xs = Some e \<Longrightarrow> \<exists>n v. (n, v) \<in> set xs \<and> e = WeakSecret n \<and> weak_secret v"
  by (induction xs rule: check_secrets.induct) (auto split: if_splits)

lemma prod_startup_ok:
  "prod_startup c hosts = None \<longleftrightarrow>
     (\<forall>v\<in>{SECRET_KEY c, JWT_SIGNING_KEY c, API_KEY_HASH_PEPPER c, WEBHOOK_HMAC_SECRET c}. \<not> weak_secret v)
     \<and> hosts \<noteq> [] \<and> ''*'' \<notin> set hosts"
proof -
  have "check_secrets (named_secrets c) = None \<longleftrightarrow>
     (\<forall>v\<in>{SECRET_KEY c, JWT_SIGNING_KEY c, API_KEY_HASH_PEPPER c, WEBHOOK_HMAC_SECRET c}. \<not> weak_secret v)"
    by (simp add: check_secrets_None named_secrets_def)
  then show ?thesis by (simp add: prod_startup_def split: option.splits) auto
qed

section \<open>Properties\<close>

text \<open>
  The time limits fit together. Every wait between two runs of one task, a retry
  countdown or the broker's redelivery of a crashed worker's task, plus a full run, ends
  before the dispatcher takes the message for stale; no retry countdown reaches the
  visibility timeout, so a waiting retry is not delivered twice; the soft limit comes
  before the hard one.
\<close>

lemma time_limits_fit:
  "int (max_countdown n) < visibility_timeout \<and>
   seconds (int (max_countdown n)) + task_time_limit < STALE_SENDING_AFTER \<and>
   seconds visibility_timeout + task_time_limit < STALE_SENDING_AFTER \<and>
   CELERY_TASK_SOFT_TIME_LIMIT < CELERY_TASK_TIME_LIMIT"
proof -
  have "int (max_countdown n) \<le> 3600" by (simp add: max_countdown_def RETRY_BACKOFF_MAX_S_def)
  then show ?thesis
    by (simp add: visibility_timeout_def task_time_limit_def CELERY_TASK_TIME_LIMIT_def
        CELERY_TASK_SOFT_TIME_LIMIT_def STALE_SENDING_AFTER_def timedelta_defs)
qed

text \<open>The secrets the development profile fills in do not pass.\<close>

lemma dev_secrets_weak:
  assumes "SECRET_KEY c = [] \<or> JWT_SIGNING_KEY c = [] \<or> API_KEY_HASH_PEPPER c = [] \<or> WEBHOOK_HMAC_SECRET c = []"
  shows "prod_startup (dev_secrets c) hosts \<noteq> None"
proof -
  have weak: "weak_secret (''dev-'' @ v)" for v by (simp add: weak_secret_def py_startswith_def)
  have "\<exists>v\<in>{SECRET_KEY (dev_secrets c), JWT_SIGNING_KEY (dev_secrets c),
        API_KEY_HASH_PEPPER (dev_secrets c), WEBHOOK_HMAC_SECRET (dev_secrets c)}. weak_secret v"
    using assms weak [of "''insecure-secret-key-change-me''"] weak [of "''insecure-jwt-signing-key-change-me''"]
      weak [of "''insecure-pepper''"] weak [of "''insecure-webhook-secret''"]
    by (auto simp: dev_secrets_def or_default_def)
  then show ?thesis using prod_startup_ok [of "dev_secrets c" hosts] by auto
qed

end
