(* ===== verification/Relay_Lifecycle.thy ===== *)
theory Relay_Lifecycle
  imports Relay_Services Relay_Settings
begin

text \<open>
  The running system: API processes, workers, Beat, the broker and the clock, as one
  step relation over the database steps of the other theories. A worker's run is a
  sequence of separate steps (claim, record the attempt, settle), so the runs of
  different tasks, Beat and API requests interleave freely; a worker may die at any
  point, the broker may lose a task, and a task that died is delivered again under
  the same id (\<open>acks_late\<close>, \<open>reject_on_worker_lost\<close>). A worker is killed at the hard
  time limit, so the clock cannot pass a run's deadline while the run is alive.
\<close>

section \<open>The state\<close>

text \<open>
  A run in progress: the task, the message object read when it was claimed, when that
  was, and the channel's answer once the attempt is recorded.
\<close>

record running =
  rn_task :: task
  rn_msg :: message
  rn_since :: timestamp
  rn_result :: "channel_result option"

record sys =
  sy_now :: timestamp
  sy_db :: db
  sy_metrics :: metrics
  sy_queue :: "task list"
  sy_running :: "running list"

definition live_tasks :: "sys \<Rightarrow> task list" where
  "live_tasks s = sy_queue s @ map rn_task (sy_running s)"

definition live_ids :: "sys \<Rightarrow> pystr list" where
  "live_ids s = map tk_id (live_tasks s)"

definition run_mid :: "running \<Rightarrow> pystr" where
  "run_mid r = tk_message_id (rn_task r)"

text \<open>Celery publishes a task that raised \<open>TransientError\<close> again, with one retry more.\<close>

definition retry_tasks :: "task \<Rightarrow> task_result \<Rightarrow> task list" where
  "retry_tasks tk out = (case out of
      Raised (TransientError _) \<Rightarrow> [tk\<lparr>tk_retries := Suc (tk_retries tk)\<rparr>] | _ \<Rightarrow> [])"

definition same_delivery_tables :: "db \<Rightarrow> db \<Rightarrow> bool" where
  "same_delivery_tables d d' \<longleftrightarrow>
     messages d' = messages d \<and> attempts d' = attempts d \<and> dead_letters d' = dead_letters d"

inductive sys_step :: "sys \<Rightarrow> sys \<Rightarrow> bool" where
  tick: "\<lbrakk>sy_now s \<le> t; \<forall>r\<in>set (sy_running s). t \<le> rn_since r + task_time_limit\<rbrakk>
    \<Longrightarrow> sys_step s (s\<lparr>sy_now := t\<rparr>)"
| accept: "\<lbrakk>ce_now e = sy_now s; ce_task_id e \<notin> set (live_ids s);
     insert_and_publish e ak idem data (new_message e ak idem data tv rm) (sy_db s, sy_queue s)
       = (res, d', q')\<rbrakk>
    \<Longrightarrow> sys_step s (s\<lparr>sy_db := d', sy_queue := q'\<rparr>)"
| admin: "same_delivery_tables (sy_db s) d' \<Longrightarrow> sys_step s (s\<lparr>sy_db := d'\<rparr>)"
| start: "\<lbrakk>sy_queue s = q1 @ tk # q2;
     claim_message (tk_id tk) (tk_message_id tk) (sy_now s) (sy_db s) = (Claimed msg, d')\<rbrakk>
    \<Longrightarrow> sys_step s (s\<lparr>sy_db := d', sy_queue := q1 @ q2,
          sy_running := sy_running s @
            [\<lparr>rn_task = tk, rn_msg = msg, rn_since = sy_now s, rn_result = None\<rparr>]\<rparr>)"
| skip: "\<lbrakk>sy_queue s = q1 @ tk # q2;
     claim_message (tk_id tk) (tk_message_id tk) (sy_now s) (sy_db s) = (c, d');
     c = Missing \<or> c = Noop \<or> c = Duplicate\<rbrakk>
    \<Longrightarrow> sys_step s (s\<lparr>sy_db := d', sy_queue := q1 @ q2\<rparr>)"
| answer: "\<lbrakk>sy_running s = r1 @ r # r2; rn_result r = None;
     record_attempt (rn_msg r) res t1 t2 (sy_db s) = Inr d'\<rbrakk>
    \<Longrightarrow> sys_step s (s\<lparr>sy_db := d',
          sy_metrics := inc_attempts_total (msg_channel (rn_msg r)) (map_result res) (sy_metrics s),
          sy_running := r1 @ r\<lparr>rn_result := Some res\<rparr> # r2\<rparr>)"
| answer_fails: "\<lbrakk>sy_running s = r1 @ r # r2; rn_result r = None;
     record_attempt (rn_msg r) res t1 t2 (sy_db s) = Inl err\<rbrakk>
    \<Longrightarrow> sys_step s (s\<lparr>
          sy_metrics := inc_attempts_total (msg_channel (rn_msg r)) (map_result res) (sy_metrics s),
          sy_running := r1 @ r2\<rparr>)"
| settle: "\<lbrakk>sy_running s = r1 @ r # r2; rn_result r = Some res;
     settle (rn_msg r) res (tk_retries (rn_task r)) (sy_now s) (sy_db s, sy_metrics s) = (out, d', mt')\<rbrakk>
    \<Longrightarrow> sys_step s (s\<lparr>sy_db := d', sy_metrics := mt',
          sy_queue := sy_queue s @ retry_tasks (rn_task r) out, sy_running := r1 @ r2\<rparr>)"
| crash: "sy_running s = r1 @ r # r2
    \<Longrightarrow> sys_step s (s\<lparr>sy_queue := sy_queue s @ [rn_task r], sy_running := r1 @ r2\<rparr>)"
| lose: "sy_queue s = q1 @ tk # q2 \<Longrightarrow> sys_step s (s\<lparr>sy_queue := q1 @ q2\<rparr>)"
| beat: "\<lbrakk>inj ids; \<forall>i. ids i \<notin> set (live_ids s);
     dispatch_scheduled be up ids (sy_now s) (sy_db s, sy_queue s) = (res, d', q')\<rbrakk>
    \<Longrightarrow> sys_step s (s\<lparr>sy_db := d', sy_queue := q'\<rparr>)"
| cleanup: "cleanup_old_messages (sy_now s) (sy_db s) = (n, d')
    \<Longrightarrow> sys_step s (s\<lparr>sy_db := d'\<rparr>)"

text \<open>An empty installation.\<close>

definition empty_db :: db where
  "empty_db = \<lparr>api_keys = [], templates = [], template_versions = [], messages = [], attempts = [],
     dead_letters = [], seq_api_key = 1, seq_template = 1, seq_template_version = 1\<rparr>"

definition sys_init :: "sys \<Rightarrow> bool" where
  "sys_init s \<longleftrightarrow> sy_db s = empty_db \<and> sy_queue s = [] \<and> sy_running s = []"

definition reachable :: "sys \<Rightarrow> bool" where
  "reachable s \<longleftrightarrow> (\<exists>s0. sys_init s0 \<and> sys_step\<^sup>*\<^sup>* s0 s)"

section \<open>The invariant\<close>

definition attempted :: "db \<Rightarrow> pystr \<Rightarrow> attempt_result \<Rightarrow> bool" where
  "attempted d k res \<longleftrightarrow> (\<exists>a\<in>set (attempts d). da_message a = k \<and> da_result a = res)"

text \<open>A finished message has the attempt that finished it.\<close>

definition status_evidence :: "message_status \<Rightarrow> attempt_result option" where
  "status_evidence st = (case st of SENT \<Rightarrow> Some SUCCESS | FAILED \<Rightarrow> Some PERMANENT_ERROR
      | DEAD \<Rightarrow> Some TRANSIENT_ERROR | _ \<Rightarrow> None)"

definition evidenced :: "db \<Rightarrow> bool" where
  "evidenced d \<longleftrightarrow> (\<forall>k m res. get_message k d = Some m \<longrightarrow>
      status_evidence (msg_status m) = Some res \<longrightarrow> attempted d k res)"

text \<open>A queued message can be found again by the dispatcher.\<close>

definition recoverable :: "db \<Rightarrow> bool" where
  "recoverable d \<longleftrightarrow> (\<forall>k m. get_message k d = Some m \<longrightarrow> msg_status m = QUEUED \<longrightarrow>
      msg_enqueued_at m \<noteq> None \<or> msg_scheduled_at m \<noteq> None)"

text \<open>A run in progress owns its message.\<close>

definition owns :: "running \<Rightarrow> db \<Rightarrow> bool" where
  "owns r d \<longleftrightarrow> (\<exists>m. get_message (run_mid r) d = Some m \<and> msg_status m = SENDING \<and>
      msg_claimed_by m = tk_id (rn_task r) \<and> rn_since r \<le> msg_updated_at m)"

definition run_ok :: "timestamp \<Rightarrow> db \<Rightarrow> running \<Rightarrow> bool" where
  "run_ok now d r \<longleftrightarrow> rn_since r \<le> now \<and> now \<le> rn_since r + task_time_limit \<and>
     msg_id (rn_msg r) = run_mid r \<and> owns r d \<and>
     (\<forall>res. rn_result r = Some res \<longrightarrow> attempted d (run_mid r) (map_result res))"

definition sys_inv :: "sys \<Rightarrow> bool" where
  "sys_inv s \<longleftrightarrow> delivery_ok (sy_db s) \<and> evidenced (sy_db s) \<and> recoverable (sy_db s) \<and>
     distinct (live_ids s) \<and> (\<forall>r\<in>set (sy_running s). run_ok (sy_now s) (sy_db s) r)"

section \<open>What each database step does to messages\<close>

lemma get_message_insert:
  "insert_message m d = Inr d' \<Longrightarrow> get_message k d' = (if k = msg_id m then Some m else get_message k d)"
proof -
  assume ins: "insert_message m d = Inr d'"
  have "get_row msg_id (msg_id m) (messages d) = None"
    using insert_messageD(2) [OF ins] by (simp add: get_row_None_iff)
  then show ?thesis
    by (auto simp: get_message_def insert_messageD(1) [OF ins] get_row_append split: option.splits)
qed

lemma insert_message_delivery_ok [inv_intros]:
  assumes "delivery_ok d" and "insert_message m d = Inr d'" and "\<not> gave_up (msg_status m)"
  shows "delivery_ok d'"
proof -
  note new = insert_messageD [OF assms(2)]
  have "msg_id m \<notin> dl_message ` set (dead_letters d)"
    using new(2) assms(1) by (auto simp: delivery_ok_def db_ok_def)
  then have "get_dead_letter (msg_id m) d = None"
    by (simp add: get_dead_letter_def get_row_None_iff)
  moreover have "get_dead_letter k d' = get_dead_letter k d" for k
    by (simp add: new(1) get_dead_letter_def)
  ultimately have "letters_match d'"
    using assms(1,3) get_message_insert [OF assms(2)]
    by (auto simp: letters_match_def delivery_ok_def)
  moreover have "attempts d' = attempts d" by (simp add: new(1))
  ultimately show ?thesis
    using assms(1) insert_message_ok [OF _ assms(2)]
    by (auto simp: delivery_ok_def intro: attempts_numbered_frame)
qed

lemma get_message_without: "get_message k (without p d) = (if p k then None else get_message k d)"
  by (simp add: get_message_def without_def get_row_filter_key)

lemma message_attempts_without:
  "message_attempts k (without p d) = (if p k then [] else message_attempts k d)"
  by (auto simp: message_attempts_def without_def filter_empty_conv intro: filter_cong)

lemma get_dead_letter_without: "get_dead_letter k (without p d) = (if p k then None else get_dead_letter k d)"
  by (simp add: get_dead_letter_def without_def get_row_filter_key)

lemma db_ok_without [inv_intros]: "db_ok d \<Longrightarrow> db_ok (without p d)"
  using keys_subset_filter [of da_message "set (attempts d)" msg_id "set (messages d)" "Collect p"]
    keys_subset_filter [of dl_message "set (dead_letters d)" msg_id "set (messages d)" "Collect p"]
  by (simp add: db_ok_def without_def distinct_keys_filter idempotency_unique_def)

lemma delivery_ok_without [inv_intros]:
  assumes "delivery_ok d" shows "delivery_ok (without p d)"
proof -
  have "attempts_numbered (without p d)"
    using assms unfolding delivery_ok_def attempts_numbered_def
    by (simp add: message_attempts_without del: upt_Suc)
  moreover have "letters_match (without p d)"
    using assms by (simp add: delivery_ok_def letters_match_def get_message_without get_dead_letter_without)
  ultimately show ?thesis using assms by (simp add: delivery_ok_def db_ok_without)
qed

lemma attempted_mono: "attempted d k res \<Longrightarrow> set (attempts d) \<subseteq> set (attempts d') \<Longrightarrow> attempted d' k res"
  by (auto simp: attempted_def)

lemma attempted_without: "attempted (without p d) k res \<longleftrightarrow> attempted d k res \<and> \<not> p k"
  by (auto simp: attempted_def without_def)

text \<open>
  A database step as a change of one message at a time: every message after the step is
  either as before or allowed by \<open>P\<close>, and no attempt of a remaining message is lost.
\<close>

definition changes :: "(pystr \<Rightarrow> message option \<Rightarrow> message \<Rightarrow> bool) \<Rightarrow> db \<Rightarrow> db \<Rightarrow> bool" where
  "changes P d d' \<longleftrightarrow>
     (\<forall>k m'. get_message k d' = Some m' \<longrightarrow>
        (get_message k d = Some m' \<or> P k (get_message k d) m') \<and>
        (\<forall>res. attempted d k res \<longrightarrow> attempted d' k res))"

lemma changes_evidenced:
  assumes "changes P d d'" and "evidenced d"
    and "\<And>k m' res. P k (get_message k d) m' \<Longrightarrow> get_message k d' = Some m' \<Longrightarrow>
           status_evidence (msg_status m') = Some res \<Longrightarrow> attempted d' k res"
  shows "evidenced d'"
  using assms unfolding evidenced_def changes_def by blast

lemma changes_recoverable:
  assumes "changes P d d'" and "recoverable d"
    and "\<And>k m'. P k (get_message k d) m' \<Longrightarrow> get_message k d' = Some m' \<Longrightarrow> msg_status m' = QUEUED \<Longrightarrow>
           msg_enqueued_at m' \<noteq> None \<or> msg_scheduled_at m' \<noteq> None"
  shows "recoverable d'"
  using assms unfolding recoverable_def changes_def by blast

lemma run_ok_changes:
  assumes "changes P d d'" and "run_ok now d r"
    and "get_message (run_mid r) d' = get_message (run_mid r) d"
  shows "run_ok now d' r"
  using assms unfolding run_ok_def owns_def changes_def by metis

lemma insert_changes:
  "insert_message m d = Inr d' \<Longrightarrow> changes (\<lambda>k old m'. old = None \<and> m' = m) d d'"
  using insert_messageD(1,2) [of m d d']
  by (auto simp: changes_def get_message_insert attempted_def get_message_None)

lemma claim_changes:
  "claim_message owner k now d = (Claimed msg, d') \<Longrightarrow>
     changes (\<lambda>j old m'. j = k \<and> (\<exists>m. old = Some m \<and> claimable owner m \<and> m' = set_claim owner now m)) d d'"
  using claim_message_db [of owner k now d "Claimed msg" d']
  by (auto simp: changes_def attempted_def claimable_def row_simps split: if_splits)

lemma record_changes:
  "record_attempt msg res t1 t2 d = Inr d' \<Longrightarrow> changes (\<lambda>_ _ _. False) d d'"
  using insert_attemptD(1) unfolding record_attempt_def
  by (fastforce simp: changes_def attempted_def)

lemma settled_changes:
  "changes (\<lambda>k old m'. k = msg_id msg \<and> final_status r n \<noteq> SENDING \<and>
       (\<exists>m. old = Some m \<and> m' = set_status (final_status r n) now m)) d (settled_db msg r n now d)"
  by (auto simp: changes_def settled_db_message attempted_def)

lemma stamp_changes:
  "changes (\<lambda>k old m'. k \<in> msg_id ` set batch \<and> (\<exists>m. old = Some m \<and> m' = set_requeued now m))
     d (stamp_batch now batch d)"
  by (auto simp: changes_def get_message_stamp_batch attempted_def)

lemma without_changes: "changes (\<lambda>_ _ _. False) d (without p d)"
  by (auto simp: changes_def get_message_without attempted_without)

section \<open>Every step keeps the invariant\<close>

lemma sys_invD:
  assumes "sys_inv s"
  shows "delivery_ok (sy_db s)" "evidenced (sy_db s)" "recoverable (sy_db s)" "distinct (live_ids s)"
    and "r \<in> set (sy_running s) \<Longrightarrow> run_ok (sy_now s) (sy_db s) r"
  using assms by (auto simp: sys_inv_def)

text \<open>Runs of different tasks are runs on different messages.\<close>

lemma runs_apart:
  assumes "run_ok now d r" and "run_ok now d r'" and "tk_id (rn_task r) \<noteq> tk_id (rn_task r')"
  shows "run_mid r \<noteq> run_mid r'"
  using assms by (auto simp: run_ok_def owns_def)

lemma other_run:
  assumes "sys_inv s" and "sy_running s = r1 @ r # r2" and "r' \<in> set (r1 @ r2)"
  shows "run_mid r' \<noteq> run_mid r"
proof (rule runs_apart)
  show "run_ok (sy_now s) (sy_db s) r" and "run_ok (sy_now s) (sy_db s) r'"
    using assms by (auto intro: sys_invD(5))
  have "tk_id (rn_task r') \<in> (\<lambda>x. tk_id (rn_task x)) ` set (r1 @ r2)"
    using assms(3) by (rule imageI)
  moreover have "tk_id (rn_task r) \<notin> (\<lambda>x. tk_id (rn_task x)) ` set (r1 @ r2)"
    using sys_invD(4) [OF assms(1)] assms(2) by (simp add: live_ids_def live_tasks_def image_Un)
  ultimately show "tk_id (rn_task r') \<noteq> tk_id (rn_task r)" by metis
qed

text \<open>A task waiting in the queue cannot claim a message another run owns.\<close>

lemma claim_not_owned:
  assumes "sys_inv s" and "tk \<in> set (sy_queue s)" and "r \<in> set (sy_running s)"
    and "claim_message (tk_id tk) (tk_message_id tk) now (sy_db s) = (Claimed msg, d')"
  shows "run_mid r \<noteq> tk_message_id tk"
proof
  assume same: "run_mid r = tk_message_id tk"
  have "tk_id (rn_task r) \<noteq> tk_id tk"
    using sys_invD(4) [OF assms(1)] assms(2,3) by (auto simp: live_ids_def live_tasks_def image_iff)
  moreover have "owns r (sy_db s)" using sys_invD(5) [OF assms(1,3)] by (simp add: run_ok_def)
  ultimately show False
    using claim_message_db [OF assms(4)] same by (auto simp: owns_def)
qed

text \<open>
  The dispatcher never touches a message in the hands of a live run: it would have to be
  stale, and a run is killed long before its message gets stale.
\<close>

lemma time_limit_before_stale: "task_time_limit < STALE_SENDING_AFTER"
  by (simp add: task_time_limit_def CELERY_TASK_TIME_LIMIT_def STALE_SENDING_AFTER_def timedelta_defs)

lemma batch_not_owned:
  assumes "run_ok now d r" and "db_ok d" and "m \<in> set (dispatch_batch be now d)"
  shows "run_mid r \<noteq> msg_id m"
proof
  assume same: "run_mid r = msg_id m"
  have "m \<in> set (messages d)" and el: "eligible now m"
    using dispatch_batch_eligible [OF assms(3)] by auto
  then have "get_message (run_mid r) d = Some m"
    using assms(2) same by (simp add: get_message_iff)
  with assms(1) have "msg_status m = SENDING" "rn_since r \<le> msg_updated_at m"
    "now \<le> rn_since r + task_time_limit"
    by (auto simp: run_ok_def owns_def)
  with el time_limit_before_stale show False by (auto simp: eligible_def stale_def)
qed

lemma run_ok_tick:
  "run_ok now d r \<Longrightarrow> now \<le> t \<Longrightarrow> t \<le> rn_since r + task_time_limit \<Longrightarrow> run_ok t d r"
  by (simp add: run_ok_def)

lemma live_ids_upd [simp]:
  "live_ids (s\<lparr>sy_now := t\<rparr>) = live_ids s" "live_ids (s\<lparr>sy_db := d\<rparr>) = live_ids s"
  "live_ids (s\<lparr>sy_metrics := mt\<rparr>) = live_ids s"
  by (simp_all add: live_ids_def live_tasks_def)

subsection \<open>Accepting, publishing, housekeeping\<close>

lemma insert_and_publish_cases:
  assumes "insert_and_publish e ak idem data m (d, q) = (res, d', q')"
  shows "d' = d \<and> q' = q \<or>
     insert_message m d = Inr d' \<and> res = Inr (m, True) \<and> (q' = q \<or> q' = q @ [task_for (ce_task_id e) m])"
  using assms
  by (auto simp: insert_and_publish_def enqueue_after_commit_def enqueue_for_def task_for_def Let_def
      split: sum.splits option.splits if_splits)

lemma new_message_fields:
  "msg_status (new_message e ak idem data tv rm) = QUEUED"
  "msg_enqueued_at (new_message e ak idem data tv rm) \<noteq> None \<or>
   msg_scheduled_at (new_message e ak idem data tv rm) \<noteq> None"
  by (auto simp: new_message_def send_now_def split: option.splits)

lemma accept_inv:
  assumes inv: "sys_inv s" and fresh: "ce_task_id e \<notin> set (live_ids s)"
    and step: "insert_and_publish e ak idem data (new_message e ak idem data tv rm)
                 (sy_db s, sy_queue s) = (res, d', q')"
  shows "sys_inv (s\<lparr>sy_db := d', sy_queue := q'\<rparr>)"
proof -
  let ?m = "new_message e ak idem data tv rm"
  from insert_and_publish_cases [OF step] consider (same) "d' = sy_db s" "q' = sy_queue s"
    | (ins) "insert_message ?m (sy_db s) = Inr d'"
        "q' = sy_queue s \<or> q' = sy_queue s @ [task_for (ce_task_id e) ?m]"
    by blast
  then show ?thesis
  proof cases
    case same
    with inv show ?thesis by (simp add: sys_inv_def live_ids_def live_tasks_def)
  next
    case ins
    note ch = insert_changes [OF ins(1)]
    have "distinct (live_ids (s\<lparr>sy_db := d', sy_queue := q'\<rparr>))"
      using ins(2) sys_invD(4) [OF inv] fresh
      by (elim disjE) (simp_all add: live_ids_def live_tasks_def task_for_def)
    moreover have "delivery_ok d'"
      using insert_message_delivery_ok [OF sys_invD(1) [OF inv] ins(1)] new_message_fields(1)
      by (simp add: gave_up_def)
    moreover have "evidenced d'"
      by (rule changes_evidenced [OF ch sys_invD(2) [OF inv]])
         (auto simp: new_message_fields status_evidence_def)
    moreover have "recoverable d'"
      by (rule changes_recoverable [OF ch sys_invD(3) [OF inv]]) (use new_message_fields(2) in auto)
    moreover have "run_ok (sy_now s) d' r" if "r \<in> set (sy_running s)" for r
    proof (rule run_ok_changes [OF ch sys_invD(5) [OF inv that]])
      have "get_message (run_mid r) (sy_db s) \<noteq> None"
        using sys_invD(5) [OF inv that] by (auto simp: run_ok_def owns_def)
      then have "run_mid r \<in> msg_id ` set (messages (sy_db s))"
        by (simp only: get_message_None not_not)
      then show "get_message (run_mid r) d' = get_message (run_mid r) (sy_db s)"
        using get_message_insert [OF ins(1)] insert_messageD(2) [OF ins(1)] by auto
    qed
    ultimately show ?thesis by (simp add: sys_inv_def)
  qed
qed

lemma same_tables_get_message:
  "same_delivery_tables d d' \<Longrightarrow> get_message k d' = get_message k d"
  by (simp add: same_delivery_tables_def get_message_def)

lemma admin_inv:
  assumes "sys_inv s" and "same_delivery_tables (sy_db s) d'"
  shows "sys_inv (s\<lparr>sy_db := d'\<rparr>)"
proof -
  note eq = assms(2)[unfolded same_delivery_tables_def] same_tables_get_message [OF assms(2)]
  have "attempted d' = attempted (sy_db s)" by (intro ext) (simp add: attempted_def eq)
  moreover have "delivery_ok d'"
    using sys_invD(1) [OF assms(1)]
    by (simp add: delivery_ok_def db_ok_def attempts_numbered_def letters_match_def message_attempts_def
        get_dead_letter_def eq)
  ultimately show ?thesis
    using assms(1) by (simp add: sys_inv_def evidenced_def recoverable_def run_ok_def owns_def eq)
qed

lemma cleanup_inv:
  assumes "sys_inv s" and "cleanup_old_messages (sy_now s) (sy_db s) = (n, d')"
  shows "sys_inv (s\<lparr>sy_db := d'\<rparr>)"
proof -
  let ?c = "sy_now s - days CLEANUP_AGE_DAYS"
  have d': "d' = without (expired_id ?c (sy_db s)) (sy_db s)"
    using assms(2) cleanup_loop_result [of ?c 0 "sy_db s"] by (simp add: cleanup_old_messages_def)
  note ch = without_changes [of "sy_db s" "expired_id ?c (sy_db s)", folded d']
  have "evidenced d'" by (rule changes_evidenced [OF ch sys_invD(2) [OF assms(1)]]) simp
  moreover have "recoverable d'" by (rule changes_recoverable [OF ch sys_invD(3) [OF assms(1)]]) simp
  moreover have "run_ok (sy_now s) d' r" if r: "r \<in> set (sy_running s)" for r
  proof (rule run_ok_changes [OF ch sys_invD(5) [OF assms(1) r]])
    have db: "db_ok (sy_db s)" using sys_invD(1) [OF assms(1)] by (simp add: delivery_ok_def)
    obtain m where "get_message (run_mid r) (sy_db s) = Some m" "msg_status m = SENDING"
      using sys_invD(5) [OF assms(1) r] by (auto simp: run_ok_def owns_def)
    then have "\<not> expired_id ?c (sy_db s) (run_mid r)"
      using db by (auto simp: expired_id_def expired_def get_message_iff is_terminal_def
          dest: distinct_keys_eq [OF db_ok_messages])
    then show "get_message (run_mid r) d' = get_message (run_mid r) (sy_db s)"
      by (simp add: d' get_message_without)
  qed
  ultimately show ?thesis
    using assms(1) delivery_ok_without by (simp add: sys_inv_def d')
qed

subsection \<open>Workers\<close>

lemma start_inv:
  assumes inv: "sys_inv s" and q: "sy_queue s = q1 @ tk # q2"
    and claim: "claim_message (tk_id tk) (tk_message_id tk) (sy_now s) (sy_db s) = (Claimed msg, d')"
  shows "sys_inv (s\<lparr>sy_db := d', sy_queue := q1 @ q2, sy_running := sy_running s @
           [\<lparr>rn_task = tk, rn_msg = msg, rn_since = sy_now s, rn_result = None\<rparr>]\<rparr>)"
proof -
  let ?r = "\<lparr>rn_task = tk, rn_msg = msg, rn_since = sy_now s, rn_result = None\<rparr>"
  let ?k = "tk_message_id tk"
  note ch = claim_changes [OF claim]
  obtain m where m: "get_message ?k (sy_db s) = Some m" "msg = set_claim (tk_id tk) (sy_now s) m"
    and d': "d' = save_message ?k (set_claim (tk_id tk) (sy_now s)) (sy_db s)"
    using claim_message_db [OF claim] by auto
  have "delivery_ok d'" using claim_message_delivery_ok [OF sys_invD(1) [OF inv] claim] .
  moreover have "evidenced d'"
    by (rule changes_evidenced [OF ch sys_invD(2) [OF inv]]) (auto simp: set_claim_def status_evidence_def)
  moreover have "recoverable d'"
    by (rule changes_recoverable [OF ch sys_invD(3) [OF inv]]) (auto simp: set_claim_def)
  moreover have "run_ok (sy_now s) d' r" if "r \<in> set (sy_running s)" for r
    using claim_not_owned [OF inv _ that claim] q run_ok_changes [OF ch sys_invD(5) [OF inv that]]
    by (simp add: d' row_simps)
  moreover have "run_ok (sy_now s) d' ?r"
    using m get_message_id [OF m(1)]
    by (simp add: run_ok_def owns_def run_mid_def d' row_simps set_claim_def task_time_limit_def
        CELERY_TASK_TIME_LIMIT_def seconds_def)
  moreover have "distinct (live_ids (s\<lparr>sy_db := d', sy_queue := q1 @ q2, sy_running := sy_running s @ [?r]\<rparr>))"
    using sys_invD(4) [OF inv] q by (simp add: live_ids_def live_tasks_def)
  ultimately show ?thesis by (simp add: sys_inv_def ball_Un)
qed

lemma skip_inv:
  assumes "sys_inv s" and "sy_queue s = q1 @ tk # q2"
    and "claim_message owner k now (sy_db s) = (c, d')" and "c = Missing \<or> c = Noop \<or> c = Duplicate"
  shows "sys_inv (s\<lparr>sy_db := d', sy_queue := q1 @ q2\<rparr>)"
proof -
  have "d' = sy_db s" using claim_message_db [OF assms(3)] assms(4) by auto
  then show ?thesis using assms(1,2) by (simp add: sys_inv_def live_ids_def live_tasks_def)
qed

lemma lose_inv:
  "sys_inv s \<Longrightarrow> sy_queue s = q1 @ tk # q2 \<Longrightarrow> sys_inv (s\<lparr>sy_queue := q1 @ q2\<rparr>)"
  by (simp add: sys_inv_def live_ids_def live_tasks_def)

lemma crash_inv:
  "sys_inv s \<Longrightarrow> sy_running s = r1 @ r # r2 \<Longrightarrow>
     sys_inv (s\<lparr>sy_queue := sy_queue s @ [rn_task r], sy_running := r1 @ r2\<rparr>)"
  by (simp add: sys_inv_def live_ids_def live_tasks_def ball_Un)

lemma answer_inv:
  assumes inv: "sys_inv s" and run: "sy_running s = r1 @ r # r2"
    and rec: "record_attempt (rn_msg r) res t1 t2 (sy_db s) = Inr d'"
  shows "sys_inv (s\<lparr>sy_db := d', sy_metrics := mt, sy_running := r1 @ r\<lparr>rn_result := Some res\<rparr> # r2\<rparr>)"
proof -
  note ch = record_changes [OF rec]
  have d': "d' = sy_db s\<lparr>attempts := attempts (sy_db s) @ [new_attempt (rn_msg r) res t1 t2 (sy_db s)]\<rparr>"
    using insert_attemptD(1) rec by (auto simp: record_attempt_def new_attempt_def)
  have "delivery_ok d'" using record_attempt_delivery_ok [OF sys_invD(1) [OF inv] rec] .
  moreover have "evidenced d'" by (rule changes_evidenced [OF ch sys_invD(2) [OF inv]]) simp
  moreover have "recoverable d'" by (rule changes_recoverable [OF ch sys_invD(3) [OF inv]]) simp
  moreover have ok: "run_ok (sy_now s) d' x" if "x \<in> set (sy_running s)" for x
    by (rule run_ok_changes [OF ch sys_invD(5) [OF inv that]]) (simp add: d')
  moreover have "run_ok (sy_now s) d' (r\<lparr>rn_result := Some res\<rparr>)"
    using ok [of r] run
    by (simp add: run_ok_def owns_def run_mid_def d' attempted_def new_attempt_def)
  moreover have "distinct (live_ids (s\<lparr>sy_db := d', sy_metrics := mt,
      sy_running := r1 @ r\<lparr>rn_result := Some res\<rparr> # r2\<rparr>))"
    using sys_invD(4) [OF inv] run by (simp add: live_ids_def live_tasks_def)
  ultimately show ?thesis by (simp add: sys_inv_def run ball_Un)
qed

lemma drop_run_inv:
  "sys_inv s \<Longrightarrow> sy_running s = r1 @ r # r2 \<Longrightarrow> sys_inv (s\<lparr>sy_metrics := mt, sy_running := r1 @ r2\<rparr>)"
  by (simp add: sys_inv_def live_ids_def live_tasks_def ball_Un)

text \<open>Settling the outcome of an owned message never fails.\<close>

lemma settle_owned:
  assumes "delivery_ok d" and "run_ok now d r"
  shows "settle (rn_msg r) res n t (d, mt) =
           (run_result res n, settled_db (rn_msg r) res n t d, settled_metrics (rn_msg r) res n mt)"
proof -
  obtain m where m: "get_message (msg_id (rn_msg r)) d = Some m" "msg_status m = SENDING"
    using assms(2) by (auto simp: run_ok_def owns_def)
  then have "get_dead_letter (msg_id (rn_msg r)) d = None"
    using assms(1) unfolding delivery_ok_def letters_match_def gave_up_def
    by (metis message_status.distinct(11,13))
  with m show ?thesis by (intro settle_eq) auto
qed

lemma final_status_evidence:
  "status_evidence (final_status res n) = Some x \<Longrightarrow> x = map_result res"
  by (auto simp: final_status_def status_evidence_def map_result_def split: if_splits)

lemma settle_inv:
  assumes inv: "sys_inv s" and run: "sy_running s = r1 @ r # r2" and res: "rn_result r = Some res"
    and step: "settle (rn_msg r) res (tk_retries (rn_task r)) (sy_now s) (sy_db s, sy_metrics s) = (out, d', mt')"
  shows "sys_inv (s\<lparr>sy_db := d', sy_metrics := mt', sy_queue := sy_queue s @ retry_tasks (rn_task r) out,
           sy_running := r1 @ r2\<rparr>)"
proof -
  let ?n = "tk_retries (rn_task r)"
  have rok: "run_ok (sy_now s) (sy_db s) r" using sys_invD(5) [OF inv] run by simp
  have d': "d' = settled_db (rn_msg r) res ?n (sy_now s) (sy_db s)"
    using settle_owned [OF sys_invD(1) [OF inv] rok] step by simp
  note ch = settled_changes [of "rn_msg r" res ?n "sy_now s" "sy_db s", folded d']
  have mid: "msg_id (rn_msg r) = run_mid r" and att: "attempted (sy_db s) (run_mid r) (map_result res)"
    using rok res by (auto simp: run_ok_def)
  obtain m where m: "get_message (run_mid r) (sy_db s) = Some m" "msg_status m = SENDING"
    using rok by (auto simp: run_ok_def owns_def)
  have "delivery_ok d'"
    using settled_delivery_ok [OF sys_invD(1) [OF inv], of "rn_msg r" m] m mid
    by (simp add: d' is_terminal_def)
  moreover have "evidenced d'"
  proof (rule changes_evidenced [OF ch sys_invD(2) [OF inv]])
    fix k m' x
    assume P: "k = msg_id (rn_msg r) \<and> final_status res ?n \<noteq> SENDING \<and>
        (\<exists>m. get_message k (sy_db s) = Some m \<and> m' = set_status (final_status res ?n) (sy_now s) m)"
      and "status_evidence (msg_status m') = Some x"
    then have "x = map_result res"
      by (auto simp: set_status_def intro: final_status_evidence)
    with P show "attempted d' k x" using att mid by (simp add: d' attempted_def)
  qed
  moreover have "recoverable d'"
    by (rule changes_recoverable [OF ch sys_invD(3) [OF inv]])
       (auto simp: set_status_def final_status_def split: if_splits)
  moreover have "run_ok (sy_now s) d' x" if x: "x \<in> set (r1 @ r2)" for x
  proof (rule run_ok_changes [OF ch])
    show "run_ok (sy_now s) (sy_db s) x" using x run sys_invD(5) [OF inv] by auto
    show "get_message (run_mid x) d' = get_message (run_mid x) (sy_db s)"
      using other_run [OF inv run x] mid by (simp add: d' settled_db_message)
  qed
  moreover have "distinct (live_ids (s\<lparr>sy_db := d', sy_metrics := mt',
      sy_queue := sy_queue s @ retry_tasks (rn_task r) out, sy_running := r1 @ r2\<rparr>))"
    using sys_invD(4) [OF inv] run
    by (simp add: live_ids_def live_tasks_def retry_tasks_def split: task_result.splits task_error.splits)
  ultimately show ?thesis by (simp add: sys_inv_def)
qed

subsection \<open>Beat\<close>

lemma dispatch_scheduled_db:
  "dispatch_scheduled be up ids now (d, q) = (res, d', q') \<Longrightarrow>
     d' = stamp_batch now (dispatch_batch be now d) d \<and>
     q' = snd (enqueue_all up ids 0 (dispatch_batch be now d) q)"
  by (auto simp: dispatch_scheduled_def Let_def split: prod.splits option.splits)

lemma enqueue_all_ids:
  assumes "inj ids"
  shows "\<exists>new. map tk_id (snd (enqueue_all up ids i ms q)) = map tk_id q @ new \<and>
           distinct new \<and> set new \<subseteq> range ids"
proof -
  obtain n where "snd (enqueue_all up ids i ms q) = q @ map (\<lambda>j. task_for (ids (i + j)) (ms ! j)) [0..<n]"
    using enqueue_all_prefix [of ms up ids i q] by blast
  then have "map tk_id (snd (enqueue_all up ids i ms q)) = map tk_id q @ map (\<lambda>j. ids (i + j)) [0..<n]"
    by (simp add: task_for_def)
  moreover have "distinct (map (\<lambda>j. ids (i + j)) [0..<n])"
    by (auto simp: distinct_map intro!: inj_onI dest!: injD [OF assms])
  ultimately show ?thesis by (intro exI conjI) auto
qed

lemma beat_inv:
  assumes inv: "sys_inv s" and "inj ids" and fresh: "\<forall>i. ids i \<notin> set (live_ids s)"
    and step: "dispatch_scheduled be up ids (sy_now s) (sy_db s, sy_queue s) = (res, d', q')"
  shows "sys_inv (s\<lparr>sy_db := d', sy_queue := q'\<rparr>)"
proof -
  let ?b = "dispatch_batch be (sy_now s) (sy_db s)"
  have d': "d' = stamp_batch (sy_now s) ?b (sy_db s)"
    and q': "q' = snd (enqueue_all up ids 0 ?b (sy_queue s))"
    using dispatch_scheduled_db [OF step] by auto
  note ch = stamp_changes [of ?b "sy_now s" "sy_db s", folded d']
  have "delivery_ok d'"
    unfolding d' by (rule stamp_batch_delivery_ok [OF sys_invD(1) [OF inv] dispatch_batch_eligible])
  moreover have "evidenced d'"
    by (rule changes_evidenced [OF ch sys_invD(2) [OF inv]])
       (auto simp: set_requeued_def status_evidence_def)
  moreover have "recoverable d'"
    by (rule changes_recoverable [OF ch sys_invD(3) [OF inv]]) (auto simp: set_requeued_def)
  moreover have "run_ok (sy_now s) d' r" if "r \<in> set (sy_running s)" for r
  proof (rule run_ok_changes [OF ch sys_invD(5) [OF inv that]])
    have "run_mid r \<notin> msg_id ` set ?b"
      using batch_not_owned [OF sys_invD(5) [OF inv that]] sys_invD(1) [OF inv]
      by (auto simp: delivery_ok_def)
    then show "get_message (run_mid r) d' = get_message (run_mid r) (sy_db s)"
      by (simp add: d' get_message_stamp_batch)
  qed
  moreover have "distinct (live_ids (s\<lparr>sy_db := d', sy_queue := q'\<rparr>))"
  proof -
    obtain new where "map tk_id q' = map tk_id (sy_queue s) @ new" "distinct new" "set new \<subseteq> range ids"
      using enqueue_all_ids [OF assms(2)] q' by blast
    moreover from this fresh have "set new \<inter> set (live_ids s) = {}" by blast
    ultimately show ?thesis
      using sys_invD(4) [OF inv] by (simp add: live_ids_def live_tasks_def) blast
  qed
  ultimately show ?thesis by (simp add: sys_inv_def)
qed

lemma tick_inv:
  "sys_inv s \<Longrightarrow> sy_now s \<le> t \<Longrightarrow> \<forall>r\<in>set (sy_running s). t \<le> rn_since r + task_time_limit \<Longrightarrow>
     sys_inv (s\<lparr>sy_now := t\<rparr>)"
  unfolding sys_inv_def by (auto intro: run_ok_tick)

lemma sys_step_inv: "sys_step s s' \<Longrightarrow> sys_inv s \<Longrightarrow> sys_inv s'"
  by (induction rule: sys_step.induct)
     (blast intro: tick_inv accept_inv admin_inv start_inv skip_inv answer_inv drop_run_inv settle_inv
        crash_inv lose_inv beat_inv cleanup_inv)+

lemma sys_init_inv: "sys_init s \<Longrightarrow> sys_inv s"
  by (simp add: sys_inv_def sys_init_def empty_db_def delivery_ok_def db_ok_def attempts_numbered_def
      letters_match_def evidenced_def recoverable_def live_ids_def live_tasks_def get_message_def
      message_attempts_def idempotency_unique_def get_row_def)

end
