(* ===== verification/Relay_Guarantees.thy ===== *)
theory Relay_Guarantees
  imports Relay_Lifecycle
begin

text \<open>
  What the running system guarantees. One relation, \<open>row_change\<close>, is the abstract
  life of a message row; every step of the system changes every row along it. The
  invariant and this refinement carry the properties: one run at a time per message,
  final statuses that stay, an audit trail of attempts and dead letters, recovery of
  lost work, and idempotent creation over the whole retention window.
\<close>

section \<open>Every reachable state satisfies the invariant\<close>

interpretation live: invariant_system sys_init sys_step sys_inv
  by unfold_locales (auto intro: sys_init_inv sys_step_inv)

lemma reachable_inv: "reachable s \<Longrightarrow> sys_inv s"
  unfolding reachable_def using live.reached_inv by blast

lemma reachable_run: "reachable s \<Longrightarrow> sys_step\<^sup>*\<^sup>* s s' \<Longrightarrow> reachable s'"
  unfolding reachable_def by (blast intro: rtranclp_trans)

lemma reachable_step: "reachable s \<Longrightarrow> sys_step s s' \<Longrightarrow> reachable s'"
  by (blast intro: reachable_run)

section \<open>The life of a message row\<close>

inductive row_change :: "timestamp \<Rightarrow> message option \<Rightarrow> message option \<Rightarrow> bool" for now where
  unchanged: "row_change now r r"
| created: "msg_status m = QUEUED \<Longrightarrow> msg_created_at m = now \<Longrightarrow> row_change now None (Some m)"
| claimed: "claimable owner m \<Longrightarrow> row_change now (Some m) (Some (set_claim owner now m))"
| settled: "msg_status m = SENDING \<Longrightarrow> is_terminal st \<Longrightarrow> row_change now (Some m) (Some (set_status st now m))"
| requeued: "eligible now m \<Longrightarrow> row_change now (Some m) (Some (set_requeued now m))"
| removed: "expired (now - days CLEANUP_AGE_DAYS) m \<Longrightarrow> row_change now (Some m) None"

inductive_simps row_change_Some: "row_change now (Some m) r"

lemma changes_row:
  assumes "changes P d d'" and "get_message k d' = None \<Longrightarrow> get_message k d = None"
    and "\<And>m'. P k (get_message k d) m' \<Longrightarrow> row_change now (get_message k d) (Some m')"
  shows "row_change now (get_message k d) (get_message k d')"
proof (cases "get_message k d'")
  case None
  with assms(2) show ?thesis by (simp add: unchanged)
next
  case (Some m')
  with assms(1) have "get_message k d = Some m' \<or> P k (get_message k d) m'" by (simp add: changes_def)
  with assms(3) Some show ?thesis by (auto intro: unchanged)
qed

lemma final_status_terminal: "final_status r n \<noteq> SENDING \<Longrightarrow> is_terminal (final_status r n)"
  by (simp add: final_status_def is_terminal_def split: if_splits)

lemma accept_row:
  assumes "insert_and_publish e ak idem data (new_message e ak idem data tv rm) (d, q) = (res, d', q')"
  shows "row_change (ce_now e) (get_message k d) (get_message k d')"
proof -
  let ?m = "new_message e ak idem data tv rm"
  from insert_and_publish_cases [OF assms] have "d' = d \<or> insert_message ?m d = Inr d'" by blast
  then show ?thesis
  proof
    assume ins: "insert_message ?m d = Inr d'"
    show ?thesis
    proof (rule changes_row [OF insert_changes [OF ins]])
      show "get_message k d' = None \<Longrightarrow> get_message k d = None"
        using get_message_insert [OF ins, of k] by (simp split: if_splits)
    qed (auto simp: new_message_def intro: created)
  qed (simp add: unchanged)
qed

lemma start_row:
  assumes "claim_message owner j now d = (c, d')"
  shows "row_change now (get_message k d) (get_message k d')"
proof (cases c)
  case (Claimed msg)
  with claim_message_db [OF assms] show ?thesis
    by (intro changes_row [OF claim_changes [OF assms [unfolded Claimed]]])
       (auto simp: row_simps intro: claimed split: if_splits)
qed (use claim_message_db [OF assms] in \<open>auto intro: unchanged\<close>)

lemma settle_row:
  assumes "sys_inv s" and "sy_running s = r1 @ r # r2"
    and "settle (rn_msg r) res n now (sy_db s, mt) = (out, d', mt')"
  shows "row_change now (get_message k (sy_db s)) (get_message k d')"
proof -
  have rok: "run_ok (sy_now s) (sy_db s) r" using sys_invD(5) [OF assms(1)] assms(2) by simp
  then have d': "d' = settled_db (rn_msg r) res n now (sy_db s)"
    using settle_owned [OF sys_invD(1) [OF assms(1)] rok] assms(3) by simp
  obtain m where "get_message (msg_id (rn_msg r)) (sy_db s) = Some m" "msg_status m = SENDING"
    using rok by (auto simp: run_ok_def owns_def)
  then show ?thesis
    by (auto simp: d' settled_db_message final_status_terminal intro: unchanged settled)
qed

lemma beat_row:
  assumes "db_ok d"
  shows "row_change now (get_message k d) (get_message k (stamp_batch now (dispatch_batch be now d) d))"
proof (cases "k \<in> msg_id ` set (dispatch_batch be now d)")
  case True
  then obtain m where "m \<in> set (dispatch_batch be now d)" "k = msg_id m" by auto
  with assms have "get_message k d = Some m" "eligible now m"
    using dispatch_batch_eligible [of m be now d] by (auto simp: get_message_iff)
  then show ?thesis using True by (simp add: get_message_stamp_batch requeued)
qed (simp add: get_message_stamp_batch unchanged)

lemma cleanup_row:
  assumes "db_ok d" and "cleanup_old_messages now d = (n, d')"
  shows "row_change now (get_message k d) (get_message k d')"
proof -
  let ?c = "now - days CLEANUP_AGE_DAYS"
  have d': "d' = without (expired_id ?c d) d"
    using assms(2) cleanup_loop_result [of ?c 0 d] by (simp add: cleanup_old_messages_def)
  show ?thesis
  proof (cases "expired_id ?c d k")
    case True
    then obtain m where "m \<in> set (messages d)" "msg_id m = k" "expired ?c m"
      by (auto simp: expired_id_def)
    moreover from this have "get_message k d = Some m" using assms(1) by (simp add: get_message_iff)
    ultimately show ?thesis using True by (simp add: d' get_message_without removed)
  qed (simp add: d' get_message_without unchanged)
qed

lemma step_row:
  assumes "sys_step s s'" and "sys_inv s"
  shows "row_change (sy_now s) (get_message k (sy_db s)) (get_message k (sy_db s'))"
  using assms(1)
proof cases
  case (answer r1 r r2 res t1 t2 d')
  then have "get_message k d' = get_message k (sy_db s)"
    using insert_attemptD(1) by (fastforce simp: record_attempt_def)
  with answer show ?thesis by (simp add: unchanged)
next
  case (settle r1 r r2 res out d' mt')
  with assms(2) show ?thesis using settle_row by fastforce
next
  case (beat ids be up res d' q')
  then have "d' = stamp_batch (sy_now s) (dispatch_batch be (sy_now s) (sy_db s)) (sy_db s)"
    using dispatch_scheduled_db by blast
  with beat sys_invD(1) [OF assms(2)] show ?thesis by (simp add: beat_row delivery_ok_def)
next
  case (cleanup n d')
  with sys_invD(1) [OF assms(2)] show ?thesis by (simp add: cleanup_row delivery_ok_def)
next
  case (accept e ak idem data tv rm res d' q')
  then show ?thesis using accept_row by fastforce
next
  case (admin d')
  then show ?thesis by (simp add: same_tables_get_message unchanged)
next
  case (start q1 tk q2 msg d')
  then show ?thesis using start_row by fastforce
next
  case (skip q1 tk q2 c d')
  then show ?thesis using start_row by fastforce
qed (simp_all add: unchanged)

section \<open>Rows along a run\<close>

lemma step_now: "sys_step s s' \<Longrightarrow> sy_now s \<le> sy_now s'"
  by (induction rule: sys_step.induct) simp_all

definition retained :: "timestamp \<Rightarrow> message \<Rightarrow> bool" where
  "retained now m \<longleftrightarrow> now - days CLEANUP_AGE_DAYS \<le> msg_created_at m"

text \<open>The columns no step writes after the insert.\<close>

definition payload :: "message \<Rightarrow> message" where
  "payload m = m\<lparr>msg_status := QUEUED, msg_enqueued_at := None, msg_claimed_by := [], msg_updated_at := 0\<rparr>"

lemma row_change_payload:
  assumes "row_change now (Some m) r" and "retained now m"
  shows "\<exists>m'. r = Some m' \<and> payload m' = payload m"
  using assms
  by (auto simp: row_change_Some payload_def set_claim_def set_status_def set_requeued_def expired_def retained_def)

lemma row_change_final:
  assumes "row_change now (Some m) r" and "is_terminal (msg_status m)" and "retained now m"
  shows "r = Some m"
  using assms
  by (auto simp: row_change_Some claimable_def is_terminal_def eligible_def stale_def expired_def retained_def)

text \<open>A fact about one row that every change keeps holds as long as the row is retained.\<close>

lemma run_row:
  assumes "sys_step\<^sup>*\<^sup>* s s'" and "sys_inv s" and "get_message k (sy_db s) = Some m" and "Q m"
    and keep: "\<And>now n r. row_change now (Some n) r \<Longrightarrow> Q n \<Longrightarrow> retained now n \<Longrightarrow>
                 \<exists>n'. r = Some n' \<and> Q n' \<and> msg_created_at n' = msg_created_at n"
    and "retained (sy_now s') m"
  shows "\<exists>m'. get_message k (sy_db s') = Some m' \<and> Q m'"
proof -
  let ?P = "\<lambda>s. retained (sy_now s) m \<longrightarrow>
    (\<exists>n. get_message k (sy_db s) = Some n \<and> Q n \<and> msg_created_at n = msg_created_at m)"
  have "?P s'"
  proof (rule live.run_keeps [OF assms(1,2)])
    show "?P s" using assms(3,4) by blast
    fix a b assume a: "sys_inv a" and ab: "sys_step a b" and P: "?P a"
    show "?P b"
    proof
      assume "retained (sy_now b) m"
      then have ra: "retained (sy_now a) m" using step_now [OF ab] by (simp add: retained_def)
      with P obtain n where n: "get_message k (sy_db a) = Some n" "Q n" "msg_created_at n = msg_created_at m"
        by blast
      have "row_change (sy_now a) (Some n) (get_message k (sy_db b))"
        using step_row [OF ab a, of k] n(1) by simp
      then show "\<exists>n. get_message k (sy_db b) = Some n \<and> Q n \<and> msg_created_at n = msg_created_at m"
        using keep [of "sy_now a" n] n ra by (auto simp: retained_def)
    qed
  qed
  with assms(6) show ?thesis by blast
qed

lemma payloadD:
  assumes "payload m' = payload m"
  shows "msg_id m' = msg_id m" "msg_api_key m' = msg_api_key m"
    "msg_idempotency_key m' = msg_idempotency_key m" "msg_channel m' = msg_channel m"
    "msg_recipient m' = msg_recipient m" "msg_context m' = msg_context m"
    "msg_scheduled_at m' = msg_scheduled_at m" "msg_priority m' = msg_priority m"
    "msg_created_at m' = msg_created_at m"
  using assms by (cases m; cases m'; simp add: payload_def)+

lemma run_payload:
  assumes "sys_step\<^sup>*\<^sup>* s s'" and "sys_inv s" and "get_message k (sy_db s) = Some m"
    and "retained (sy_now s') m"
  shows "\<exists>m'. get_message k (sy_db s') = Some m' \<and> payload m' = payload m"
proof (rule run_row [OF assms(1-3)])
  show "\<exists>n'. r = Some n' \<and> payload n' = payload m \<and> msg_created_at n' = msg_created_at n"
    if "row_change now (Some n) r" and "payload n = payload m" and "retained now n" for now n r
    using row_change_payload [OF that(1,3)] that(2) payloadD(9) by (metis (no_types))
qed (use assms(4) in auto)

section \<open>Accepting a message again\<close>

lemma payload_matches_payload:
  assumes "payload m' = payload m" shows "payload_matches m' data = payload_matches m data"
  by (simp add: payload_matches_def payloadD [OF assms])

lemma or_empty_context [simp]: "or_empty_dict (context_or_empty c) = context_or_empty c"
  by (simp add: context_or_empty_def or_empty_dict_def split: option.splits)

lemma payload_matches_new:
  "json_ok (context_or_empty (vd_context data)) \<Longrightarrow> payload_matches (new_message e ak idem data tv r) data"
  by (simp add: payload_matches_def new_message_def py_eq_refl)

lemma create_message_created:
  assumes "create_message e ak idem data (d, q) = (Inr (m, True), d', q')"
  shows "\<exists>tv r. m = new_message e ak idem data tv r \<and>
     insert_and_publish e ak idem data m (ce_others e d, q) = (Inr (m, True), d', q') \<and>
     insert_message m (ce_others e d) = Inr d'"
  using assms
  by (auto simp: create_message_def insert_and_publish_def replay_def
      split: option.splits sum.splits if_splits)

lemma create_message_known:
  assumes "db_ok d" and "get_message k d = Some m" and "msg_api_key m = Some a"
  shows "create_message e (Some a) (msg_idempotency_key m) data (d, q) = (replay m data, d, q)"
  using assms find_existing_unique [of d m a] by (simp add: create_message_def get_message_iff)

section \<open>Recovery\<close>

definition recovery_deadline :: "message \<Rightarrow> timestamp" where
  "recovery_deadline m =
     (if msg_status m = SENDING then msg_updated_at m + STALE_SENDING_AFTER
      else case msg_enqueued_at m of
             Some e \<Rightarrow> e + REENQUEUE_AFTER
           | None \<Rightarrow> (case msg_scheduled_at m of Some t \<Rightarrow> t | None \<Rightarrow> 0))"

lemma eligible_after_deadline:
  assumes "recoverable d" and "get_message k d = Some m" and "\<not> is_terminal (msg_status m)"
    and "recovery_deadline m < now"
  shows "eligible now m"
proof (cases "msg_status m = SENDING")
  case True
  with assms(4) show ?thesis by (simp add: eligible_def stale_def recovery_deadline_def)
next
  case False
  with assms(3) have q: "msg_status m = QUEUED" by (cases "msg_status m") (auto simp: is_terminal_def)
  with assms(1,2) have "msg_enqueued_at m \<noteq> None \<or> msg_scheduled_at m \<noteq> None"
    by (simp only: recoverable_def)
  with assms(4) q False show ?thesis
    by (auto simp: eligible_def recovery_deadline_def due_def stranded_def split: option.splits)
qed

lemma dispatch_scheduled_up:
  assumes "\<forall>i. up i" and "dispatch_scheduled be up ids now (d, q) = (res, d', q')"
  shows "\<forall>i < length (dispatch_batch be now d). task_for (ids i) (dispatch_batch be now d ! i) \<in> set q'"
proof -
  let ?b = "dispatch_batch be now d"
  obtain n where n: "if fst (enqueue_all up ids 0 ?b q) = None then n = length ?b
        else n < length ?b \<and> \<not> up (0 + n)"
    and "snd (enqueue_all up ids 0 ?b q) = q @ map (\<lambda>j. task_for (ids (0 + j)) (?b ! j)) [0..<n]"
    using enqueue_all_prefix [of ?b up ids 0 q] by blast
  moreover from n assms(1) have "n = length ?b" by (simp split: if_splits)
  moreover have "q' = snd (enqueue_all up ids 0 ?b q)" using dispatch_scheduled_db [OF assms(2)] by simp
  ultimately show ?thesis by simp
qed

end
