(* ===== verification/Relay_Bytes.thy ===== *)
theory Relay_Bytes
  imports Relay_Prelude "HOL-Library.Word"
begin

text \<open>
  Bytes and what the program does with them through Python's standard library: UTF-8,
  hexadecimal and base64-url text, SHA-256 (FIPS 180-4) and HMAC (RFC 2104). A byte is an
  \<open>8 word\<close>; SHA-256 computes on \<open>32 word\<close>, where addition wraps as the standard says.
\<close>

type_synonym byte = "8 word"

unbundle bit_operations_syntax

section \<open>Text and bytes\<close>

text \<open>\<open>str.encode("utf-8")\<close> on the code points below 256 that \<open>pystr\<close> has.\<close>

definition utf8_char :: "char \<Rightarrow> byte list" where
  "utf8_char c = (let n = code_point c in
     if n < 128 then [word_of_nat n] else [word_of_nat (192 + n div 64), word_of_nat (128 + n mod 64)])"

definition utf8 :: "pystr \<Rightarrow> byte list" where
  "utf8 s = concat (map utf8_char s)"

definition hex_digits :: pystr where "hex_digits = ''0123456789abcdef''"

definition hex_byte :: "byte \<Rightarrow> pystr" where
  "hex_byte b = [hex_digits ! (unat b div 16), hex_digits ! (unat b mod 16)]"

definition hexlify :: "byte list \<Rightarrow> pystr" where
  "hexlify bs = concat (map hex_byte bs)"

definition url64_alphabet :: pystr where
  "url64_alphabet = ''ABCDEFGHIJKLMNOPQRSTUVWXYZabcdefghijklmnopqrstuvwxyz0123456789-_''"

definition url64 :: "byte \<Rightarrow> char" where
  "url64 b = url64_alphabet ! unat (b AND 63)"

text \<open>\<open>base64.urlsafe_b64encode(b).rstrip(b"=")\<close>, as \<open>secrets.token_urlsafe\<close> uses it.\<close>

fun urlsafe_b64 :: "byte list \<Rightarrow> pystr" where
  "urlsafe_b64 (a # b # c # rest) =
     [url64 (drop_bit 2 a), url64 (push_bit 4 a OR drop_bit 4 b), url64 (push_bit 2 b OR drop_bit 6 c), url64 c]
       @ urlsafe_b64 rest"
| "urlsafe_b64 [a, b] =
     [url64 (drop_bit 2 a), url64 (push_bit 4 a OR drop_bit 4 b), url64 (push_bit 2 b)]"
| "urlsafe_b64 [a] = [url64 (drop_bit 2 a), url64 (push_bit 4 a)]"
| "urlsafe_b64 [] = []"

section \<open>SHA-256 and HMAC\<close>

text \<open>
  The constants of the standard: the first 32 bits of the fractional parts of the cube
  roots of the first 64 primes, and of the square roots of the first eight. \<open>root_floor\<close>
  finds the integer root bit by bit; the roots have at most 40 bits.
\<close>

definition root_floor :: "nat \<Rightarrow> nat \<Rightarrow> nat" where
  "root_floor k n = fold (\<lambda>b acc. if (acc + 2 ^ b) ^ k \<le> n then acc + 2 ^ b else acc) (rev [0..<40]) 0"

definition root_fraction :: "nat \<Rightarrow> nat \<Rightarrow> 32 word" where
  "root_fraction k p = of_nat (root_floor k (p * 2 ^ (32 * k)))"

definition sha_primes :: "nat list" where
  "sha_primes = filter (\<lambda>p. list_all (\<lambda>q. \<not> q dvd p) [2..<p]) [2..<312]"

definition sha_k :: "32 word list" where
  "sha_k = map (root_fraction 3) sha_primes"

definition sha_init :: "32 word list" where
  "sha_init = map (root_fraction 2) (take 8 sha_primes)"

lemma root_fraction_ends: "root_fraction 3 311 = 0xc67178f2" "root_fraction 2 19 = 0x5be0cd19"
  by (simp_all add: root_fraction_def root_floor_def upt_rec)

definition rotr :: "nat \<Rightarrow> 32 word \<Rightarrow> 32 word" where
  "rotr n x = drop_bit n x OR push_bit (32 - n) x"

text \<open>The message schedule, newest word first, so that the recurrence reads fixed positions.\<close>

fun schedule :: "nat \<Rightarrow> 32 word list \<Rightarrow> 32 word list" where
  "schedule 0 ws = ws"
| "schedule (Suc n) ws =
     (let w15 = ws ! 14; w2 = ws ! 1;
          s0 = rotr 7 w15 XOR rotr 18 w15 XOR drop_bit 3 w15;
          s1 = rotr 17 w2 XOR rotr 19 w2 XOR drop_bit 10 w2
      in schedule n ((ws ! 15 + s0 + ws ! 6 + s1) # ws))"

fun sha_round :: "32 word list \<Rightarrow> 32 word \<times> 32 word \<Rightarrow> 32 word list" where
  "sha_round [a, b, c, d, e, f, g, h] (k, w) =
     (let s1 = rotr 6 e XOR rotr 11 e XOR rotr 25 e;
          ch = (e AND f) XOR ((NOT e) AND g);
          t1 = h + s1 + ch + k + w;
          s0 = rotr 2 a XOR rotr 13 a XOR rotr 22 a;
          maj = (a AND b) XOR (a AND c) XOR (b AND c)
      in [t1 + s0 + maj, a, b, c, d + t1, e, f, g])"
| "sha_round st _ = st"

fun word_be :: "byte list \<Rightarrow> 32 word list" where
  "word_be (a # b # c # d # rest) =
     (push_bit 24 (ucast a) OR push_bit 16 (ucast b) OR push_bit 8 (ucast c) OR ucast d) # word_be rest"
| "word_be _ = []"

definition be_word :: "32 word \<Rightarrow> byte list" where
  "be_word w = map (\<lambda>i. ucast (drop_bit i w)) [24, 16, 8, 0]"

definition sha_block :: "32 word list \<Rightarrow> byte list \<Rightarrow> 32 word list" where
  "sha_block st block =
     map2 (+) st (foldl sha_round st (zip sha_k (rev (schedule 48 (rev (word_be block))))))"

definition be64 :: "nat \<Rightarrow> byte list" where
  "be64 n = map (\<lambda>i. ucast (drop_bit i (word_of_nat n :: 64 word))) [56, 48, 40, 32, 24, 16, 8, 0]"

definition sha_pad :: "byte list \<Rightarrow> byte list" where
  "sha_pad bs = bs @ [0x80] @ replicate ((119 - length bs mod 64) mod 64) 0 @ be64 (8 * length bs)"

function sha_blocks :: "32 word list \<Rightarrow> byte list \<Rightarrow> 32 word list" where
  "sha_blocks st bs = (if bs = [] then st else sha_blocks (sha_block st (take 64 bs)) (drop 64 bs))"
  by pat_completeness auto
termination by (relation "measure (\<lambda>(st, bs). length bs)") auto

declare sha_blocks.simps [simp del]

definition sha256 :: "byte list \<Rightarrow> byte list" where
  "sha256 bs = concat (map be_word (sha_blocks sha_init (sha_pad bs)))"

definition hmac_block_key :: "byte list \<Rightarrow> byte list" where
  "hmac_block_key k = (let k' = if length k > 64 then sha256 k else k in k' @ replicate (64 - length k') 0)"

text \<open>\<open>hmac.new(key, msg, hashlib.sha256).hexdigest()\<close>\<close>

definition hmac_sha256 :: "byte list \<Rightarrow> byte list \<Rightarrow> pystr" where
  "hmac_sha256 key msg =
     (let k = hmac_block_key key
      in hexlify (sha256 (map ((XOR) 0x5c) k @ sha256 (map ((XOR) 0x36) k @ msg))))"

section \<open>Lengths\<close>

lemma length_hexlify [simp]: "length (hexlify bs) = 2 * length bs"
  by (induction bs) (simp_all add: hexlify_def hex_byte_def)

lemma length_sha_round: "length (sha_round st x) = length st"
  by (cases "(st, x)" rule: sha_round.cases) (simp_all add: Let_def)

lemma length_sha_rounds: "length (foldl sha_round st xs) = length st"
  by (induction xs arbitrary: st) (simp_all add: length_sha_round)

lemma length_sha_blocks: "length (sha_blocks st bs) = length st"
proof (induction st bs rule: sha_blocks.induct)
  case (1 st bs)
  then show ?case
    by (subst sha_blocks.simps) (simp add: sha_block_def length_sha_rounds)
qed

lemma length_sha256 [simp]: "length (sha256 bs) = 32"
proof -
  have "length (concat (map be_word ws)) = 4 * length ws" for ws
    by (induction ws) (simp_all add: be_word_def)
  moreover have "8 \<le> length sha_primes"
  proof -
    have mem: "p \<in> set sha_primes \<longleftrightarrow> 2 \<le> p \<and> p < 312 \<and> list_all (\<lambda>q. \<not> q dvd p) [2..<p]" for p
      by (simp only: sha_primes_def set_filter set_upt atLeastLessThan_iff mem_Collect_eq conj_assoc)
    have "list_all (\<lambda>p. 2 \<le> p \<and> p < 312 \<and> list_all (\<lambda>q. \<not> q dvd p) [2..<p]) [2, 3, 5, 7, 11, 13, 17, 19::nat]"
      by code_simp
    then have "set [2, 3, 5, 7, 11, 13, 17, 19] \<subseteq> set sha_primes"
      unfolding subset_iff mem list_all_iff Ball_def .
    from card_mono [OF _ this] have "card (set [2, 3, 5, 7, 11, 13, 17, 19::nat]) \<le> card (set sha_primes)" by simp
    with card_length [of sha_primes] show ?thesis by simp
  qed
  ultimately show ?thesis by (simp add: sha256_def length_sha_blocks sha_init_def)
qed

lemma length_hmac_sha256 [simp]: "length (hmac_sha256 key msg) = 64"
  by (simp add: hmac_sha256_def Let_def)

lemma length_urlsafe_b64: "3 * length (urlsafe_b64 bs) \<le> 4 * length bs + 2"
  by (induction bs rule: urlsafe_b64.induct) simp_all

end
