(* ===== verification/Relay_Http.thy ===== *)
theory Relay_Http
  imports Relay_Models
begin

text \<open>
  Requests and responses as the middleware and views see them. \<open>rq_meta\<close> is
  \<open>request.META\<close>; \<open>rq_resolved\<close> is the attribute \<open>resolve_api_key\<close> stores on the
  request (outer \<open>None\<close>: not set yet), \<open>rq_request_id\<close> the one the request-id
  middleware stores. Response headers are an association list, newest first.
\<close>

datatype http_method = GET | HEAD | POST | PUT | PATCH | DELETE | OPTIONS

record request =
  rq_method :: http_method
  rq_path :: pystr
  rq_meta :: "pystr \<rightharpoonup> pystr"
  rq_resolved :: "api_key option option"
  rq_request_id :: "pystr option"

definition META_get :: "pystr \<Rightarrow> request \<Rightarrow> pystr" where
  "META_get name rq = (case rq_meta rq name of None \<Rightarrow> [] | Some v \<Rightarrow> v)"

record response =
  rs_status :: nat
  rs_body :: json
  rs_headers :: "(pystr \<times> pystr) list"

definition set_header :: "pystr \<Rightarrow> pystr \<Rightarrow> response \<Rightarrow> response" where
  "set_header name v rs = rs\<lparr>rs_headers := (name, v) # filter (\<lambda>h. fst h \<noteq> name) (rs_headers rs)\<rparr>"

definition header :: "pystr \<Rightarrow> response \<Rightarrow> pystr option" where
  "header name rs = map_of (rs_headers rs) name"

definition json_response :: "nat \<Rightarrow> json \<Rightarrow> response" where
  "json_response st b = \<lparr>rs_status = st, rs_body = b, rs_headers = []\<rparr>"

text \<open>The detail of the 404 that \<open>get_object_or_404\<close> raises on the rows of a model.\<close>

definition no_match :: "pystr \<Rightarrow> pystr" where
  "no_match model = ''No '' @ model @ '' matches the given query.''"

text \<open>
  Who a request comes from once DRF has authenticated it, and what a view answers: a reply
  with a status and data, or a refusal with a status and a detail message.
\<close>

record user =
  us_id :: nat
  us_is_staff :: bool

datatype caller = Anonymous | ByKey api_key | ByUser user

datatype 'a reply = Reply nat 'a | Refuse nat pystr

definition is_staff :: "caller \<Rightarrow> bool" where
  "is_staff c = (case c of ByUser u \<Rightarrow> us_is_staff u | _ \<Rightarrow> False)"

text \<open>
  DRF's permission check: an anonymous caller gets 401 (the first authentication class
  names a challenge header), an authenticated one without the permission 403.
\<close>

definition guarded :: "(caller \<Rightarrow> bool) \<Rightarrow> caller \<Rightarrow> 'a reply \<times> 's \<Rightarrow> 's \<Rightarrow> 'a reply \<times> 's" where
  "guarded allowed c run s =
     (if c = Anonymous then (Refuse 401 ''not authenticated'', s)
      else if \<not> allowed c then (Refuse 403 ''permission denied'', s)
      else run)"

text \<open>
  Field parsing of the REST framework, which is not part of the repository: what
  \<open>CharField\<close> (trimmed; not blank, or possibly blank), \<open>ChoiceField\<close>, \<open>IntegerField\<close> and
  \<open>DateTimeField\<close> make of a JSON value, or \<open>None\<close> when they reject it.
\<close>

record drf_fields =
  drf_char :: "json \<Rightarrow> pystr option"
  drf_char_blank :: "json \<Rightarrow> pystr option"
  drf_choice :: "json \<Rightarrow> pystr option"
  drf_int :: "json \<Rightarrow> int option"
  drf_datetime :: "json \<Rightarrow> timestamp option"

text \<open>\<open>ChoiceField(choices=...)\<close> of an enumeration: the member with that value.\<close>

definition choice_field :: "('c::enum \<Rightarrow> pystr) \<Rightarrow> drf_fields \<Rightarrow> json \<Rightarrow> 'c option" where
  "choice_field value drf j = (case drf_choice drf j of None \<Rightarrow> None
     | Some s \<Rightarrow> List.find (\<lambda>c. value c = s) enum_class.enum)"

definition channel_choice :: "drf_fields \<Rightarrow> json option \<Rightarrow> channel option" where
  "channel_choice drf v = (case v of None \<Rightarrow> None | Some j \<Rightarrow> choice_field channel_value drf j)"

lemma choice_field_value:
  assumes "inj value" and "drf_choice drf j = Some (value c)"
  shows "choice_field value drf j = Some c"
proof -
  obtain c' where c': "List.find (\<lambda>c'. value c' = value c) enum_class.enum = Some c'"
    using enum_UNIV by (metis (mono_tags, lifting) UNIV_I find_None_iff not_None_eq)
  then have "value c' = value c" by (auto simp: find_Some_iff)
  with assms c' show ?thesis by (simp add: choice_field_def inj_eq)
qed

definition char_field :: "(json \<Rightarrow> pystr option) \<Rightarrow> nat \<Rightarrow> json option \<Rightarrow> pystr option" where
  "char_field parse max_length v = (case v of None \<Rightarrow> None | Some j \<Rightarrow>
     (case parse j of None \<Rightarrow> None | Some s \<Rightarrow> if length s > max_length then None else Some s))"

lemma map_of_filter_other: "n \<noteq> name \<Longrightarrow> map_of (filter (\<lambda>h. fst h \<noteq> name) hs) n = map_of hs n"
  by (induction hs) auto

lemma header_set [simp]: "header n (set_header name v rs) = (if n = name then Some v else header n rs)"
  by (simp add: header_def set_header_def map_of_filter_other)

lemma set_header_status [simp]: "rs_status (set_header name v rs) = rs_status rs"
  "rs_body (set_header name v rs) = rs_body rs"
  by (simp_all add: set_header_def)

end
