(* ===== verification/Relay_Security.thy ===== *)
theory Relay_Security
  imports Relay_Bytes Relay_Http
begin

text \<open>
  \<open>apps/core/security.py\<close>, \<open>apps/core/authentication.py\<close> and the API-key views of
  \<open>apps/core/views.py\<close>: generating keys, splitting what a client sends, hashing and
  checking secrets, and authenticating a request. The bytes \<open>secrets\<close> draws are
  arguments; the pepper is the setting \<open>API_KEY_HASH_PEPPER\<close>.
\<close>

section \<open>Keys\<close>

definition KEY_PREFIX :: pystr where "KEY_PREFIX = ''nr_''"
definition KEY_ID_NBYTES :: nat where "KEY_ID_NBYTES = 6"
definition SECRET_NBYTES :: nat where "SECRET_NBYTES = 24"

text \<open>
  \<open>_KEY_ID_RE.match\<close>: the pattern \<open>^nr_[0-9a-f]{12}$\<close>, whose \<open>$\<close> also matches before a
  newline that ends the string.
\<close>

definition key_id_body :: "pystr \<Rightarrow> bool" where
  "key_id_body s \<longleftrightarrow> length s = 2 * KEY_ID_NBYTES \<and> list_all (\<lambda>c. c \<in> set hex_digits) s"

definition KEY_ID_RE_match :: "pystr \<Rightarrow> bool" where
  "KEY_ID_RE_match s \<longleftrightarrow> py_startswith s KEY_PREFIX \<and>
     (let b = drop (length KEY_PREFIX) s in
      key_id_body b \<or> b \<noteq> [] \<and> last b = CHR 0x0A \<and> key_id_body (butlast b))"

definition generate_api_key :: "byte list \<Rightarrow> byte list \<Rightarrow> pystr \<times> pystr \<times> pystr" where
  "generate_api_key id_bytes secret_bytes =
     (let key_id = KEY_PREFIX @ hexlify id_bytes; secret = urlsafe_b64 secret_bytes
      in (key_id, secret, key_id @ ''_'' @ secret))"

definition split_full_key :: "pystr \<Rightarrow> (pystr \<times> pystr) option" where
  "split_full_key full_key =
     (if \<not> py_startswith full_key KEY_PREFIX then None
      else case py_partition (CHR ''_'') (drop (length KEY_PREFIX) full_key) of
        (kid, sep, secret) \<Rightarrow>
          let key_id = KEY_PREFIX @ kid in
          if \<not> sep \<or> secret = [] \<or> \<not> KEY_ID_RE_match key_id then None else Some (key_id, secret))"

datatype security_error = PepperNotConfigured

definition hash_secret :: "pystr \<Rightarrow> pystr \<Rightarrow> security_error + pystr" where
  "hash_secret pepper secret =
     (if pepper = [] then Inl PepperNotConfigured else Inr (hmac_sha256 (utf8 pepper) (utf8 secret)))"

definition verify_secret :: "pystr \<Rightarrow> pystr \<Rightarrow> pystr \<Rightarrow> security_error + bool" where
  "verify_secret pepper secret hashed =
     (case hash_secret pepper secret of Inl e \<Rightarrow> Inl e | Inr h \<Rightarrow> Inr (h = hashed))"

section \<open>Authenticating a request\<close>

definition is_revoked :: "api_key \<Rightarrow> bool" where
  "is_revoked k \<longleftrightarrow> ak_revoked_at k \<noteq> None"

definition active_keys :: "db \<Rightarrow> api_key list" where
  "active_keys d = filter (\<lambda>k. ak_is_active k \<and> ak_revoked_at k = None) (api_keys d)"

definition active_key_named :: "pystr \<Rightarrow> db \<Rightarrow> api_key option" where
  "active_key_named key_id d =
     (case sort_key ak_id (filter (\<lambda>k. ak_key_id k = key_id) (active_keys d)) of
        [] \<Rightarrow> None | k # _ \<Rightarrow> Some k)"

definition API_KEY_HEADER_META :: pystr where "API_KEY_HEADER_META = ''HTTP_X_API_KEY''"

definition lookup_api_key :: "pystr \<Rightarrow> db \<Rightarrow> pystr \<Rightarrow> security_error + api_key option" where
  "lookup_api_key pepper d sent =
     (case split_full_key sent of
        None \<Rightarrow> Inr None
      | Some (key_id, secret) \<Rightarrow>
          (case active_key_named key_id d of
             None \<Rightarrow> Inr None
           | Some k \<Rightarrow>
               (case verify_secret pepper secret (ak_hashed_secret k) of
                  Inl e \<Rightarrow> Inl e
                | Inr good \<Rightarrow> Inr (if good then Some k else None))))"

definition resolve_api_key :: "pystr \<Rightarrow> db \<Rightarrow> request \<Rightarrow> security_error + api_key option \<times> request" where
  "resolve_api_key pepper d rq =
     (case rq_resolved rq of
        Some cached \<Rightarrow> Inr (cached, rq)
      | None \<Rightarrow>
          (case lookup_api_key pepper d (META_get API_KEY_HEADER_META rq) of
             Inl e \<Rightarrow> Inl e
           | Inr k \<Rightarrow> Inr (k, rq\<lparr>rq_resolved := Some k\<rparr>)))"

record principal =
  pr_api_key :: api_key
  pr_pk :: nat
  pr_username :: pystr
  pr_is_authenticated :: bool
  pr_is_anonymous :: bool
  pr_is_active :: bool
  pr_is_staff :: bool
  pr_is_superuser :: bool

definition ApiKeyPrincipal :: "api_key \<Rightarrow> principal" where
  "ApiKeyPrincipal k = \<lparr>pr_api_key = k, pr_pk = ak_id k, pr_username = ak_name k, pr_is_authenticated = True,
     pr_is_anonymous = False, pr_is_active = True, pr_is_staff = False, pr_is_superuser = False\<rparr>"

datatype auth_error = AuthenticationFailed pystr | AuthRuntimeError security_error

definition authenticate ::
    "pystr \<Rightarrow> db \<Rightarrow> request \<Rightarrow> auth_error + (principal \<times> api_key) option \<times> request" where
  "authenticate pepper d rq =
     (if META_get API_KEY_HEADER_META rq = [] then Inr (None, rq)
      else case resolve_api_key pepper d rq of
        Inl e \<Rightarrow> Inl (AuthRuntimeError e)
      | Inr (None, rq') \<Rightarrow> Inl (AuthenticationFailed ''invalid api key'')
      | Inr (Some k, rq') \<Rightarrow> Inr (Some (ApiKeyPrincipal k, k), rq'))"

section \<open>Facts\<close>

lemma hex_digits_no_underscore: "CHR ''_'' \<notin> set hex_digits"
  by (simp add: hex_digits_def)

lemma hexlify_digits: "c \<in> set (hexlify bs) \<Longrightarrow> c \<in> set hex_digits"
proof (induction bs)
  case (Cons b bs)
  have "unat b div 16 < 16" using unsigned_less [of b, where ?'a = nat] by simp
  moreover have "length hex_digits = 16" by (simp add: hex_digits_def)
  ultimately have "set (hex_byte b) \<subseteq> set hex_digits"
    by (auto simp: hex_byte_def intro!: nth_mem)
  with Cons show ?case by (auto simp: hexlify_def)
qed (simp add: hexlify_def)

lemma urlsafe_b64_nonempty: "bs \<noteq> [] \<Longrightarrow> urlsafe_b64 bs \<noteq> []"
  by (cases bs rule: urlsafe_b64.cases) auto

lemma key_id_body_hexlify: "length bs = KEY_ID_NBYTES \<Longrightarrow> key_id_body (hexlify bs)"
  using hexlify_digits by (auto simp: key_id_body_def list_all_iff)

lemma split_full_key_Some:
  assumes "split_full_key s = Some (k, x)"
  shows "s = k @ ''_'' @ x" and "x \<noteq> []" and "KEY_ID_RE_match k"
proof -
  obtain kid where p: "py_partition (CHR ''_'') (drop (length KEY_PREFIX) s) = (kid, True, x)"
    and k: "k = KEY_PREFIX @ kid" and "x \<noteq> []" "KEY_ID_RE_match k" and st: "py_startswith s KEY_PREFIX"
    using assms by (auto simp: split_full_key_def Let_def split: if_splits prod.splits)
  then show "x \<noteq> []" "KEY_ID_RE_match k" by auto
  from p have "drop (length KEY_PREFIX) s = kid @ [CHR ''_''] @ x"
    using py_partition_cases [of "CHR ''_''" "drop (length KEY_PREFIX) s"] by (auto split: if_splits)
  moreover have "s = KEY_PREFIX @ drop (length KEY_PREFIX) s"
    using st by (auto simp: py_startswith_iff)
  ultimately show "s = k @ ''_'' @ x" using k by simp
qed

lemma active_key_named_Some:
  "active_key_named key_id d = Some k \<Longrightarrow>
     k \<in> set (api_keys d) \<and> ak_is_active k \<and> ak_revoked_at k = None \<and> ak_key_id k = key_id"
  unfolding active_key_named_def by (drule first_sorted_Some) (simp add: active_keys_def)

section \<open>Properties\<close>

text \<open>
  What \<open>split_full_key\<close> accepts. It succeeds only on strings that are the key id, an
  underscore and a non-empty secret, where the key id is \<open>nr_\<close> and twelve lower-case hex
  digits (and possibly one newline, which the pattern's end anchor lets through).
\<close>

lemma split_full_key_shape:
  assumes "split_full_key s = Some (key_id, secret)"
  shows "s = key_id @ ''_'' @ secret \<and> secret \<noteq> [] \<and>
     (\<exists>h. length h = 12 \<and> set h \<subseteq> set hex_digits \<and>
        (key_id = ''nr_'' @ h \<or> key_id = ''nr_'' @ h @ [CHR 0x0A]))"
proof -
  have m: "KEY_ID_RE_match key_id" by (rule split_full_key_Some(3) [OF assms])
  obtain b where k: "key_id = KEY_PREFIX @ b"
    using m by (auto simp: KEY_ID_RE_match_def py_startswith_iff)
  with m have "key_id_body b \<or> b \<noteq> [] \<and> last b = CHR 0x0A \<and> key_id_body (butlast b)"
    by (simp add: KEY_ID_RE_match_def Let_def)
  then have "\<exists>h. key_id_body h \<and> (b = h \<or> b = h @ [CHR 0x0A])"
    using append_butlast_last_id by metis
  then show ?thesis
    using split_full_key_Some(1,2) [OF assms] k
    by (auto simp: key_id_body_def KEY_ID_NBYTES_def KEY_PREFIX_def list_all_iff)
qed

text \<open>What the request remembers about its key, if anything, is what a lookup finds.\<close>

definition memo_ok :: "pystr \<Rightarrow> db \<Rightarrow> request \<Rightarrow> bool" where
  "memo_ok pepper d rq \<longleftrightarrow>
     (case rq_resolved rq of None \<Rightarrow> True
      | Some found \<Rightarrow> lookup_api_key pepper d (META_get API_KEY_HEADER_META rq) = Inr found)"

lemma memo_ok_unset [simp]: "rq_resolved rq = None \<Longrightarrow> memo_ok pepper d rq"
  by (simp add: memo_ok_def)

lemma resolve_keeps_memo:
  "resolve_api_key pepper d rq = Inr (k, rq') \<Longrightarrow> memo_ok pepper d rq \<Longrightarrow> memo_ok pepper d rq'"
  by (auto simp: resolve_api_key_def memo_ok_def META_get_def split: option.splits sum.splits)

lemma authenticate_memo:
  assumes "memo_ok pepper d rq" and "authenticate pepper d rq = Inr (who, rq')"
  shows "\<exists>rq''. authenticate pepper d (rq\<lparr>rq_resolved := None\<rparr>) = Inr (who, rq'')"
  using assms
  by (auto simp: authenticate_def resolve_api_key_def memo_ok_def META_get_def
      split: option.splits sum.splits if_splits)

lemma authenticate_cases:
  assumes "rq_resolved rq = None" and "authenticate pepper d rq = Inr (who, rq')"
  shows "(who = None \<and> META_get API_KEY_HEADER_META rq = []) \<or>
     (\<exists>k secret. who = Some (ApiKeyPrincipal k, k) \<and> k \<in> set (api_keys d) \<and> ak_is_active k \<and>
        ak_revoked_at k = None \<and> \<not> pr_is_staff (ApiKeyPrincipal k) \<and>
        META_get API_KEY_HEADER_META rq = ak_key_id k @ ''_'' @ secret \<and>
        pepper \<noteq> [] \<and> ak_hashed_secret k = hmac_sha256 (utf8 pepper) (utf8 secret) \<and>
        rq_resolved rq' = Some (Some k))"
proof (cases "META_get API_KEY_HEADER_META rq = []")
  case True
  with assms show ?thesis by (simp add: authenticate_def)
next
  case False
  with assms obtain k where who: "who = Some (ApiKeyPrincipal k, k)"
    and look: "lookup_api_key pepper d (META_get API_KEY_HEADER_META rq) = Inr (Some k)"
    and rq': "rq' = rq\<lparr>rq_resolved := Some (Some k)\<rparr>"
    by (auto simp: authenticate_def resolve_api_key_def split: sum.splits option.splits)
  then obtain key_id secret where sp: "split_full_key (META_get API_KEY_HEADER_META rq) = Some (key_id, secret)"
    and k: "active_key_named key_id d = Some k" and v: "verify_secret pepper secret (ak_hashed_secret k) = Inr True"
    by (auto simp: lookup_api_key_def split: option.splits sum.splits if_splits)
  from v have "pepper \<noteq> [] \<and> ak_hashed_secret k = hmac_sha256 (utf8 pepper) (utf8 secret)"
    by (auto simp: verify_secret_def hash_secret_def split: sum.splits if_splits)
  with who rq' active_key_named_Some [OF k] split_full_key_Some(1) [OF sp] show ?thesis
    by (auto simp: ApiKeyPrincipal_def)
qed

text \<open>
  Who gets in. A request is authenticated as an API key only if its header carries the
  id of a key that is active and not revoked and a secret whose HMAC under the pepper is
  the stored one; the principal is that key's and is never staff. A request with a header
  that does not resolve is refused; one without the header is left to the other
  authentication classes.
\<close>

theorem authenticate_sound:
  assumes "rq_resolved rq = None" and "authenticate pepper d rq = Inr (who, rq')"
  shows "(who = None \<and> META_get API_KEY_HEADER_META rq = []) \<or>
     (\<exists>k secret. who = Some (ApiKeyPrincipal k, k) \<and> k \<in> set (api_keys d) \<and> ak_is_active k \<and>
        ak_revoked_at k = None \<and> \<not> pr_is_staff (ApiKeyPrincipal k) \<and>
        META_get API_KEY_HEADER_META rq = ak_key_id k @ ''_'' @ secret \<and>
        pepper \<noteq> [] \<and> ak_hashed_secret k = hmac_sha256 (utf8 pepper) (utf8 secret) \<and>
        rq_resolved rq' = Some (Some k))"
  using assms by (rule authenticate_cases)

section \<open>The header the API names\<close>

definition API_KEY_HEADER_NAME :: pystr where "API_KEY_HEADER_NAME = ''X-API-Key''"

text \<open>The \<open>WWW-Authenticate\<close> of a 401.\<close>

definition authenticate_header :: pystr where "authenticate_header = API_KEY_HEADER_NAME"

definition get_security_definition :: "(pystr \<times> pystr) list" where
  "get_security_definition = [(''type'', ''apiKey''), (''in'', ''header''), (''name'', API_KEY_HEADER_NAME)]"

text \<open>The name under which WSGI passes a header on: capitals, underscores for hyphens.\<close>

definition ascii_upper :: "char \<Rightarrow> char" where
  "ascii_upper c = (if 97 \<le> code_point c \<and> code_point c \<le> 122 then char_of (code_point c - 32) else c)"

definition wsgi_key :: "pystr \<Rightarrow> pystr" where
  "wsgi_key name = ''HTTP_'' @ map (\<lambda>c. if c = CHR ''-'' then CHR ''_'' else ascii_upper c) name"

text \<open>The header the API's description and its challenge name is the one the key is read from.\<close>

lemma described_header_is_read:
  "map_option wsgi_key (map_of get_security_definition ''name'') = Some API_KEY_HEADER_META"
  "wsgi_key authenticate_header = API_KEY_HEADER_META"
  by code_simp+

end
