(* ===== verification/Relay_Api_Keys.thy ===== *)
theory Relay_Api_Keys
  imports Relay_Security
begin

text \<open>
  \<open>apps/core/views.py\<close> and \<open>apps/core/serializers.py\<close>: managing API keys. Only staff
  may call these views. The full key and the webhook secret are in the answer to the
  creation and in no other.
\<close>

record api_key_view =
  akv_id :: nat
  akv_name :: pystr
  akv_key_id :: pystr
  akv_rate_limit_per_min :: nat
  akv_burst :: nat
  akv_is_active :: bool
  akv_is_revoked :: bool
  akv_created_at :: timestamp
  akv_revoked_at :: "timestamp option"

definition ApiKeyReadSerializer :: "api_key \<Rightarrow> api_key_view" where
  "ApiKeyReadSerializer k =
     \<lparr>akv_id = ak_id k, akv_name = ak_name k, akv_key_id = ak_key_id k,
      akv_rate_limit_per_min = ak_rate_limit_per_min k, akv_burst = ak_burst k,
      akv_is_active = ak_is_active k, akv_is_revoked = is_revoked k,
      akv_created_at = ak_created_at k, akv_revoked_at = ak_revoked_at k\<rparr>"

record api_key_created = api_key_view +
  akc_key :: pystr
  akc_webhook_secret :: pystr

definition positive_int :: "drf_fields \<Rightarrow> nat \<Rightarrow> json option \<Rightarrow> nat option" where
  "positive_int drf dflt v =
     (case v of None \<Rightarrow> Some dflt
      | Some j \<Rightarrow> (case drf_int drf j of None \<Rightarrow> None | Some n \<Rightarrow> if n < 1 then None else Some (nat n)))"

definition ApiKeyCreateSerializer :: "drf_fields \<Rightarrow> (pystr \<times> json) list \<Rightarrow> (pystr \<times> nat \<times> nat) option" where
  "ApiKeyCreateSerializer drf data =
     (case char_field (drf_char drf) 128 (map_of data ''name'') of
        None \<Rightarrow> None
      | Some name \<Rightarrow>
          (case positive_int drf 100 (map_of data ''rate_limit_per_min'') of
             None \<Rightarrow> None
           | Some rate \<Rightarrow>
               (case positive_int drf 200 (map_of data ''burst'') of
                  None \<Rightarrow> None
                | Some burst \<Rightarrow> Some (name, rate, burst))))"

text \<open>
  The serializer bounds the two integers from below only; a number the column's type cannot
  hold is refused by the database, an error the view does not catch.
\<close>

definition insert_api_key :: "api_key \<Rightarrow> db \<Rightarrow> db_error + db" where
  "insert_api_key k d =
     (if ak_rate_limit_per_min k > MAX_INTEGER \<or> ak_burst k > MAX_INTEGER then Inl DataError
      else if list_ex (\<lambda>x. ak_key_id x = ak_key_id k) (api_keys d) then Inl IntegrityError
      else Inr (d\<lparr>api_keys := api_keys d @ [k], seq_api_key := Suc (seq_api_key d)\<rparr>))"

text \<open>The random bytes one creation draws, and the clock.\<close>

record key_draw =
  kd_id :: "byte list"
  kd_secret :: "byte list"
  kd_webhook :: "byte list"
  kd_now :: timestamp

datatype create_key_error = KeyDbError db_error | KeySecurityError security_error

section \<open>The views\<close>

definition api_keys_list :: "caller \<Rightarrow> db \<Rightarrow> api_key_view list reply \<times> db" where
  "api_keys_list c d = guarded is_staff c
     (Reply 200 (map ApiKeyReadSerializer (sort_key (\<lambda>k. - ak_created_at k) (api_keys d))), d) d"

definition api_keys_retrieve :: "caller \<Rightarrow> nat \<Rightarrow> db \<Rightarrow> api_key_view reply \<times> db" where
  "api_keys_retrieve c pk d = guarded is_staff c
     (case get_api_key pk d of
        None \<Rightarrow> (Refuse 404 (no_match ''ApiKey''), d)
      | Some k \<Rightarrow> (Reply 200 (ApiKeyReadSerializer k), d)) d"

definition new_api_key :: "key_draw \<Rightarrow> pystr \<Rightarrow> nat \<Rightarrow> nat \<Rightarrow> pystr \<Rightarrow> pystr \<Rightarrow> db \<Rightarrow> api_key" where
  "new_api_key r name rate burst key_id hashed d =
     \<lparr>ak_id = seq_api_key d, ak_name = name, ak_key_id = key_id, ak_hashed_secret = hashed,
      ak_webhook_secret = urlsafe_b64 (kd_webhook r), ak_rate_limit_per_min = rate, ak_burst = burst,
      ak_is_active = True, ak_created_at = kd_now r, ak_revoked_at = None\<rparr>"

definition api_keys_create ::
    "drf_fields \<Rightarrow> pystr \<Rightarrow> key_draw \<Rightarrow> caller \<Rightarrow> (pystr \<times> json) list \<Rightarrow> db
       \<Rightarrow> create_key_error + api_key_created reply \<times> db" where
  "api_keys_create drf pepper r c data d =
     (if \<not> is_staff c then Inr (guarded is_staff c (Refuse 403 [], d) d)
      else case ApiKeyCreateSerializer drf data of
        None \<Rightarrow> Inr (Refuse 400 ''invalid'', d)
      | Some (name, rate, burst) \<Rightarrow>
          (case generate_api_key (kd_id r) (kd_secret r) of (key_id, secret, full) \<Rightarrow>
           case hash_secret pepper secret of
             Inl e \<Rightarrow> Inl (KeySecurityError e)
           | Inr hashed \<Rightarrow>
               let ak = new_api_key r name rate burst key_id hashed d in
               (case insert_api_key ak d of
                  Inl e \<Rightarrow> Inl (KeyDbError e)
                | Inr d' \<Rightarrow> Inr (Reply 201 (api_key_view.extend (ApiKeyReadSerializer ak)
                     (api_key_created.fields full (ak_webhook_secret ak))), d'))))"

definition set_revoked :: "timestamp \<Rightarrow> api_key \<Rightarrow> api_key" where
  "set_revoked now k = k\<lparr>ak_is_active := False, ak_revoked_at := Some now\<rparr>"

definition api_keys_revoke :: "caller \<Rightarrow> timestamp \<Rightarrow> nat \<Rightarrow> db \<Rightarrow> api_key_view reply \<times> db" where
  "api_keys_revoke c now pk d = guarded is_staff c
     (case get_api_key pk d of
        None \<Rightarrow> (Refuse 404 (no_match ''ApiKey''), d)
      | Some k \<Rightarrow>
          if is_revoked k then (Refuse 409 ''already revoked'', d)
          else (Reply 200 (ApiKeyReadSerializer (set_revoked now k)),
                d\<lparr>api_keys := update_rows (\<lambda>x. ak_id x = pk) (set_revoked now) (api_keys d)\<rparr>)) d"

section \<open>Facts\<close>

definition keys_ok :: "db \<Rightarrow> bool" where
  "keys_ok d \<longleftrightarrow> distinct (map ak_id (api_keys d)) \<and> distinct (map ak_key_id (api_keys d)) \<and>
     (\<forall>k\<in>set (api_keys d). ak_id k < seq_api_key d)"

lemma insert_api_keyD:
  assumes "insert_api_key k d = Inr d'"
  shows "d' = d\<lparr>api_keys := api_keys d @ [k], seq_api_key := Suc (seq_api_key d)\<rparr>"
    and "ak_key_id k \<notin> ak_key_id ` set (api_keys d)"
    and "ak_rate_limit_per_min k \<le> MAX_INTEGER \<and> ak_burst k \<le> MAX_INTEGER"
  using assms by (auto simp: insert_api_key_def list_ex_iff split: if_splits)

lemma insert_api_key_ok [inv_intros]:
  assumes "keys_ok d" and "insert_api_key k d = Inr d'" and "ak_id k = seq_api_key d"
  shows "keys_ok d'"
  using assms(1,3) insert_api_keyD [OF assms(2)] by (auto simp: keys_ok_def)

lemma revoke_ok [inv_intros]: "keys_ok d \<Longrightarrow> keys_ok (snd (api_keys_revoke c now pk d))"
proof -
  let ?d = "d\<lparr>api_keys := update_rows (\<lambda>x. ak_id x = pk) (set_revoked now) (api_keys d)\<rparr>"
  assume "keys_ok d"
  then have "keys_ok ?d" by (auto simp: keys_ok_def row_simps set_revoked_def)
  with \<open>keys_ok d\<close> show ?thesis by (simp add: api_keys_revoke_def guarded_def split: option.splits)
qed

lemma active_key_named_unique:
  assumes "keys_ok d" and "k \<in> set (api_keys d)" and "ak_is_active k" and "ak_revoked_at k = None"
  shows "active_key_named (ak_key_id k) d = Some k"
proof -
  have "filter (\<lambda>x. ak_key_id x = ak_key_id k) (active_keys d) \<noteq> []"
    using assms(2-4) by (auto simp: filter_empty_conv active_keys_def)
  then have "active_key_named (ak_key_id k) d \<noteq> None"
    by (simp only: active_key_named_def first_sorted_None not_False_eq_True)
  then obtain x where x: "active_key_named (ak_key_id k) d = Some x" by blast
  then have "x = k"
    using active_key_named_Some [OF x] assms(1,2) by (auto simp: keys_ok_def dest: distinct_keys_eq)
  with x show ?thesis by simp
qed

lemma api_keys_create_201:
  assumes "api_keys_create drf pepper r c data d = Inr (Reply 201 body, d')"
  shows "\<exists>name rate burst key_id secret hashed.
     ApiKeyCreateSerializer drf data = Some (name, rate, burst) \<and> is_staff c \<and>
     generate_api_key (kd_id r) (kd_secret r) = (key_id, secret, akc_key body) \<and>
     hash_secret pepper secret = Inr hashed \<and>
     insert_api_key (new_api_key r name rate burst key_id hashed d) d = Inr d' \<and>
     akv_id body = seq_api_key d \<and> akc_webhook_secret body = urlsafe_b64 (kd_webhook r)"
  using assms
  by (auto simp: api_keys_create_def Let_def guarded_def new_api_key_def ApiKeyReadSerializer_def
      api_key_view.defs api_key_created.defs split: if_splits option.splits sum.splits prod.splits)

lemma split_generated:
  assumes "length (kd_id r) = KEY_ID_NBYTES" and "kd_secret r \<noteq> []"
    and "generate_api_key (kd_id r) (kd_secret r) = (key_id, secret, full)"
  shows "split_full_key full = Some (key_id, secret)"
proof -
  have no: "CHR ''_'' \<notin> set (hexlify (kd_id r))" using hexlify_digits hex_digits_no_underscore by blast
  have g: "key_id = KEY_PREFIX @ hexlify (kd_id r)" "secret = urlsafe_b64 (kd_secret r)"
    "full = key_id @ ''_'' @ secret"
    using assms(3) by (auto simp: generate_api_key_def Let_def)
  have "KEY_ID_RE_match key_id"
    using key_id_body_hexlify [OF assms(1)] by (simp add: KEY_ID_RE_match_def g py_startswith_iff Let_def)
  then show ?thesis
    using urlsafe_b64_nonempty [OF assms(2)] py_partition_found [OF no]
    by (simp add: split_full_key_def g py_startswith_iff Let_def)
qed

section \<open>Properties\<close>


end
