(* ===== verification/Relay_Example.thy ===== *)
theory Relay_Example
  imports Relay_Guarantees Relay_Api_Keys
begin

text \<open>
  A concrete installation and a concrete run of it, step by step: a key and a template
  are created, a message is accepted, a worker claims it, the channel answers, the
  outcome is settled. The states are used to evaluate the properties on real data.
\<close>

definition ex_key :: api_key where
  "ex_key = \<lparr>ak_id = 1, ak_name = ''shop'', ak_key_id = ''nr_000000000001'',
     ak_hashed_secret = hmac_sha256 (utf8 ''pepper'') (utf8 ''s''),
     ak_webhook_secret = ''w'', ak_rate_limit_per_min = 60, ak_burst = 10, ak_is_active = True,
     ak_created_at = 0, ak_revoked_at = None\<rparr>"

definition ex_template :: template where
  "ex_template = \<lparr>tm_id = 1, tm_name = ''welcome'', tm_channel = EMAIL, tm_is_active = True,
     tm_created_at = 0, tm_deleted_at = None\<rparr>"

definition ex_version :: template_version where
  "ex_version = \<lparr>tv_id = 1, tv_template = 1, tv_version = 1, tv_subject_template = ''Hi'',
     tv_body_template = ''Welcome'', tv_created_at = 0, tv_created_by = Some 1\<rparr>"

definition ex_db :: db where
  "ex_db = empty_db\<lparr>api_keys := [ex_key], templates := [ex_template], template_versions := [ex_version],
     seq_api_key := 2, seq_template := 2, seq_template_version := 2\<rparr>"

text \<open>A template engine that returns the source as it is: templates without placeholders.\<close>

definition ex_jinja :: jinja where "ex_jinja auto src ctx = Inr src"

definition ex_env :: create_env where
  "ex_env = \<lparr>ce_jinja = ex_jinja, ce_recursion_limit = 1000, ce_now = 100, ce_new_ulid = ''m1'',
     ce_broker_up = True, ce_task_id = ''t1'', ce_others = (\<lambda>d. d)\<rparr>"

definition ex_data :: validated_data where
  "ex_data = \<lparr>vd_channel = EMAIL, vd_recipient = ''a@b.cc'', vd_template = Some ''welcome'',
     vd_template_version = None, vd_context = None, vd_priority = None, vd_scheduled_at = None\<rparr>"

definition ex_rendered :: rendered_message where
  "ex_rendered = \<lparr>rm_subject = ''Hi'', rm_body = ''Welcome''\<rparr>"

definition ex_message :: message where
  "ex_message = new_message ex_env (Some 1) ''k1'' ex_data ex_version ex_rendered"

definition ex_task :: task where
  "ex_task = task_for ''t1'' ex_message"

definition ex_metrics :: metrics where
  "ex_metrics = \<lparr>messages_total = (\<lambda>_ _. 0), delivery_attempts_total = (\<lambda>_ _. 0)\<rparr>"

definition ex_start :: sys where
  "ex_start = \<lparr>sy_now = 100, sy_db = empty_db, sy_metrics = ex_metrics, sy_queue = [], sy_running = []\<rparr>"

definition ex_installed :: sys where
  "ex_installed = ex_start\<lparr>sy_db := ex_db\<rparr>"

definition ex_accepted :: sys where
  "ex_accepted = ex_installed\<lparr>sy_db := ex_db\<lparr>messages := [ex_message]\<rparr>, sy_queue := [ex_task]\<rparr>"

definition ex_claimed_message :: message where
  "ex_claimed_message = set_claim ''t1'' 100 ex_message"

definition ex_run :: running where
  "ex_run = \<lparr>rn_task = ex_task, rn_msg = ex_claimed_message, rn_since = 100, rn_result = None\<rparr>"

definition ex_claimed :: sys where
  "ex_claimed = ex_accepted\<lparr>sy_db := ex_db\<lparr>messages := [ex_claimed_message]\<rparr>, sy_queue := [],
     sy_running := [ex_run]\<rparr>"

definition ex_refused :: channel_result where
  "ex_refused = \<lparr>cr_success = False, cr_transient = False, cr_error_message = ''refused'',
     cr_http_status = None, cr_smtp_code = Some 550\<rparr>"

definition ex_answered_db :: db where
  "ex_answered_db = ex_db\<lparr>messages := [ex_claimed_message],
     attempts := [new_attempt ex_claimed_message ex_refused 100 100 ex_db]\<rparr>"

definition ex_answered :: sys where
  "ex_answered = ex_claimed\<lparr>sy_db := ex_answered_db,
     sy_metrics := inc_attempts_total EMAIL PERMANENT_ERROR ex_metrics,
     sy_running := [ex_run\<lparr>rn_result := Some ex_refused\<rparr>]\<rparr>"

definition ex_failed_message :: message where
  "ex_failed_message = set_status FAILED 100 ex_claimed_message"

definition ex_failed :: sys where
  "ex_failed = ex_answered\<lparr>sy_db := ex_answered_db\<lparr>messages := [ex_failed_message],
       dead_letters := [dead_letter_for ex_claimed_message ''permanent: refused'' 100]\<rparr>,
     sy_metrics := inc_messages_total EMAIL FAILED (inc_attempts_total EMAIL PERMANENT_ERROR ex_metrics),
     sy_running := []\<rparr>"

lemmas ex_rows = ex_key_def ex_template_def ex_version_def ex_db_def empty_db_def

lemmas ex_messages = ex_message_def ex_env_def ex_data_def ex_version_def ex_rendered_def new_message_def
  context_or_empty_def priority_or_default_def send_now_def

section \<open>The run\<close>

lemma ex_init: "sys_init ex_start"
  by (simp add: sys_init_def ex_start_def)

lemma ex_step_install: "sys_step ex_start ex_installed"
  unfolding ex_installed_def
  by (rule sys_step.admin) (simp add: ex_start_def ex_rows same_delivery_tables_def)

lemma ex_insert: "insert_message ex_message ex_db = Inr (ex_db\<lparr>messages := [ex_message]\<rparr>)"
  by (simp add: message_storable_def insert_message_def get_message_def get_api_key_def get_template_version_def get_row_def
      fk_ok_def ex_rows ex_messages)

lemma ex_publish:
  "insert_and_publish ex_env (Some 1) ''k1'' ex_data ex_message (ex_db, []) =
     (Inr (ex_message, True), ex_db\<lparr>messages := [ex_message]\<rparr>, [ex_task])"
  by (simp add: insert_and_publish_def ex_insert enqueue_after_commit_def enqueue_for_up ex_task_def)
     (simp add: ex_env_def ex_data_def send_now_def enqueue_for_up)

lemma ex_find: "find_existing (Some 1) ''k1'' ex_db = None"
  by (simp add: find_existing_def ex_db_def empty_db_def)

lemma ex_resolve: "resolve_template ex_data ex_db = Inr ex_version"
  by (simp add: resolve_template_def ex_data_def alive_named_def alive_def ex_rows latest_version_def
      versions_desc_def versions_of_def)

lemma ex_render: "render ex_jinja 1000 ex_version (JObj []) EMAIL = Inr ex_rendered"
  by (simp add: render_def ex_jinja_def render_subject_def ex_version_def ex_rendered_def MAX_RENDERED_CHARS_def)

lemma ex_create:
  "create_message ex_env (Some 1) ''k1'' ex_data (sy_db ex_installed, sy_queue ex_installed) =
     (Inr (ex_message, True), ex_db\<lparr>messages := [ex_message]\<rparr>, [ex_task])"
proof -
  show ?thesis
    using ex_publish ex_find ex_resolve ex_render
    by (simp add: create_message_def ex_installed_def ex_start_def ex_message_def)
       (simp add: ex_env_def ex_data_def context_or_empty_def)
qed

lemma ex_step_accept: "sys_step ex_installed ex_accepted"
  unfolding ex_accepted_def
proof (rule sys_step.accept)
  show "insert_and_publish ex_env (Some 1) ''k1'' ex_data
      (new_message ex_env (Some 1) ''k1'' ex_data ex_version ex_rendered) (sy_db ex_installed, sy_queue ex_installed)
      = (Inr (ex_message, True), ex_db\<lparr>messages := [ex_message]\<rparr>, [ex_task])"
    using ex_publish by (simp add: ex_message_def ex_installed_def ex_start_def)
qed (simp_all add: ex_installed_def ex_start_def ex_env_def live_ids_def live_tasks_def)

lemma ex_get [simp]:
  "msg_id ex_message = ''m1''" "msg_id ex_claimed_message = ''m1''" "msg_id ex_failed_message = ''m1''"
  "msg_status ex_message = QUEUED" "msg_status ex_claimed_message = SENDING" "msg_status ex_failed_message = FAILED"
  "msg_channel ex_claimed_message = EMAIL"
  by (simp_all add: ex_failed_message_def ex_claimed_message_def ex_messages set_claim_def set_status_def)

lemma ex_step_claim: "sys_step ex_accepted ex_claimed"
  unfolding ex_claimed_def ex_run_def
  using sys_step.start [of ex_accepted "[]" ex_task "[]" ex_claimed_message "ex_db\<lparr>messages := [ex_claimed_message]\<rparr>"]
  by (simp add: ex_accepted_def ex_installed_def ex_start_def ex_task_def task_for_def claim_message_def
      get_message_def get_row_def is_terminal_def ex_claimed_message_def save_message_def update_rows_def)

lemma ex_step_answer: "sys_step ex_claimed ex_answered"
proof -
  have "record_attempt (rn_msg ex_run) ex_refused 100 100 (sy_db ex_claimed) = Inr ex_answered_db"
    by (simp add: record_attempt_def insert_attempt_def ex_claimed_def ex_run_def get_message_def get_row_def
        ex_rows ex_answered_db_def new_attempt_def message_attempts_def ex_refused_def)
  from sys_step.answer [of ex_claimed "[]" ex_run "[]", OF _ _ this] show ?thesis
    unfolding ex_answered_def
    by (simp add: ex_claimed_def ex_run_def map_result_def ex_refused_def ex_accepted_def ex_installed_def ex_start_def)
qed

lemma ex_step_fail: "sys_step ex_answered ex_failed"
proof -
  have "settle (rn_msg ex_run) ex_refused (tk_retries (rn_task ex_run)) 100 (sy_db ex_answered, sy_metrics ex_answered)
      = (Returned ''failed'', sy_db ex_failed, sy_metrics ex_failed)"
    by (simp add: settle_def ex_refused_def move_to_dead_letter_def save_fields_def ex_answered_def
        ex_answered_db_def ex_run_def get_message_def get_row_def get_or_create_dead_letter_def
        get_dead_letter_def ex_rows ex_failed_def ex_failed_message_def save_message_def update_rows_def
        dead_letter_for_def set_status_def)
  from sys_step.settle [of ex_answered "[]" "ex_run\<lparr>rn_result := Some ex_refused\<rparr>" "[]" ex_refused,
      unfolded retry_tasks_def] this show ?thesis
    by (simp add: ex_failed_def ex_answered_def ex_claimed_def ex_accepted_def ex_installed_def ex_start_def)
qed

lemma ex_reachable:
  shows ex_reachable_start: "reachable ex_start" and ex_reachable_installed: "reachable ex_installed"
    and ex_reachable_accepted: "reachable ex_accepted" and ex_reachable_claimed: "reachable ex_claimed"
    and ex_reachable_answered: "reachable ex_answered" and ex_reachable_failed: "reachable ex_failed"
proof -
  show start: "reachable ex_start" using ex_init by (auto simp: reachable_def)
  show inst: "reachable ex_installed" by (rule reachable_step [OF start ex_step_install])
  show acc: "reachable ex_accepted" by (rule reachable_step [OF inst ex_step_accept])
  show cl: "reachable ex_claimed" by (rule reachable_step [OF acc ex_step_claim])
  show an: "reachable ex_answered" by (rule reachable_step [OF cl ex_step_answer])
  show "reachable ex_failed" by (rule reachable_step [OF an ex_step_fail])
qed

section \<open>The component properties on the example\<close>

definition ex_times :: run_times where
  "ex_times = \<lparr>at_claim = 100, at_started = 100, at_finished = 100, at_settle = 100\<rparr>"

lemma ex_accepted_db: "sy_db ex_accepted = ex_db\<lparr>messages := [ex_message]\<rparr>"
  by (simp add: ex_accepted_def)

lemma ex_accepted_ok: "delivery_ok (ex_db\<lparr>messages := [ex_message]\<rparr>)"
  using sys_invD(1) [OF reachable_inv [OF ex_reachable_accepted]] by (simp add: ex_accepted_db)

lemma ex_accepted_get: "get_message ''m1'' (ex_db\<lparr>messages := [ex_message]\<rparr>) = Some ex_message"
  by (simp add: get_message_def get_row_def)

lemma ex_accepted_claimable: "claimable ''t1'' ex_message"
  by (simp add: claimable_def is_terminal_def)

theorem dispatch_every_branch_witness:
  "fst (dispatch (\<lambda>_. Inr ex_refused) ''t1'' 0 ex_times ''m1''
      (ex_db\<lparr>messages := [ex_message]\<rparr>, ex_metrics)) = Returned ''failed''"
  using dispatch_every_branch [OF ex_accepted_ok, of "\<lambda>_. Inr ex_refused" "''t1''" 0 ex_times "''m1''" ex_metrics]
  by (simp add: dispatch_spec_def ex_accepted_get is_terminal_def Let_def run_result_def final_status_def
      channel_outcome_def ex_refused_def recordable_def)

theorem retry_chain_finishes_witness:
  "finished_run ''m1'' (ex_db\<lparr>messages := [ex_message]\<rparr>) 7
     (run_task (\<lambda>_ _. Inl ''timed out'') ''t1'' (\<lambda>_. ex_times) ''m1'' 0 (ex_db\<lparr>messages := [ex_message]\<rparr>, ex_metrics))"
  by (rule retry_chain_finishes [OF ex_accepted_ok ex_accepted_get ex_accepted_claimable]) simp

theorem dispatch_batch_earliest_witness:
  "length (dispatch_batch \<lparr>nulls_last = True, has_skip_locked = True, locked = (\<lambda>k. k = ''m1'')\<rparr> 1000000000
     (ex_db\<lparr>messages := [ex_message]\<rparr>)) \<le> 200 \<and>
   ex_message \<notin> set (dispatch_batch \<lparr>nulls_last = True, has_skip_locked = True, locked = (\<lambda>k. k = ''m1'')\<rparr>
     1000000000 (ex_db\<lparr>messages := [ex_message]\<rparr>))"
  using dispatch_batch_earliest [of "\<lparr>nulls_last = True, has_skip_locked = True, locked = (\<lambda>k. k = ''m1'')\<rparr>"
      1000000000 "ex_db\<lparr>messages := [ex_message]\<rparr>"]
  by auto

text \<open>Another request with the same key commits its message between lookup and insert.\<close>

definition ex_race_env :: create_env where
  "ex_race_env = ex_env\<lparr>ce_new_ulid := ''m2'', ce_others := (\<lambda>d. d\<lparr>messages := [ex_message]\<rparr>)\<rparr>"

theorem create_message_race_witness:
  "create_message ex_race_env (Some 1) ''k1'' ex_data (ex_db, []) =
     (replay ex_message ex_data, ex_db\<lparr>messages := [ex_message]\<rparr>, [])"
proof -
  have "find_existing (Some 1) ''k1'' (ce_others ex_race_env ex_db) = Some ex_message"
    by (simp add: ex_race_env_def find_existing_def ex_messages)
  moreover have "message_storable (new_message ex_race_env (Some 1) ''k1'' ex_data ex_version ex_rendered)"
    by (simp add: message_storable_def new_message_def ex_rendered_def ex_data_def context_or_empty_def
        or_empty_dict_def)
  ultimately show ?thesis
    using create_message_race [OF ex_find ex_resolve _, of ex_race_env ex_rendered ex_message "[]"] ex_render
    by (simp add: ex_race_env_def ex_env_def ex_data_def context_or_empty_def)
qed

theorem create_message_outcomes_witness:
  "create_message ex_env (Some 1) ''k1'' ex_data (ex_db, []) =
     (Inr (ex_message, True), ex_db\<lparr>messages := [ex_message]\<rparr>, [ex_task]) \<and>
   [ex_task] = [task_for ''t1'' ex_message]"
proof -
  have "create_message ex_env (Some 1) ''k1'' ex_data (ex_db, []) =
     (Inr (ex_message, True), ex_db\<lparr>messages := [ex_message]\<rparr>, [ex_task])"
    using ex_create by (simp add: ex_installed_def ex_start_def)
  moreover from create_message_outcomes [OF _ this] have "\<exists>tv r. [ex_task] = [task_for ''t1'' (new_message ex_env (Some 1) ''k1'' ex_data tv r)]
      \<and> ex_message = new_message ex_env (Some 1) ''k1'' ex_data tv r"
    by (auto simp: Let_def ex_env_def ex_data_def send_now_def)
  ultimately show ?thesis by (auto simp: ex_task_def)
qed

section \<open>Keys and authentication\<close>

text \<open>A key whose stored hash is the HMAC of its secret, and a request that carries it.\<close>

definition ex_auth_key :: api_key where
  "ex_auth_key = ex_key\<lparr>ak_key_id := ''nr_0123456789ab'',
     ak_hashed_secret := hmac_sha256 (utf8 ''pepper'') (utf8 ''s_x'')\<rparr>"

definition ex_request :: request where
  "ex_request = \<lparr>rq_method = POST, rq_path = ''/api/v1/messages/'',
     rq_meta = [''HTTP_X_API_KEY'' \<mapsto> ''nr_0123456789ab_s_x''], rq_resolved = None, rq_request_id = None\<rparr>"

lemma ex_split: "split_full_key ''nr_0123456789ab_s_x'' = Some (''nr_0123456789ab'', ''s_x'')"
  by code_simp

theorem authenticate_sound_witness:
  "ak_is_active ex_auth_key \<and> authenticate ''pepper'' (ex_db\<lparr>api_keys := [ex_auth_key]\<rparr>) ex_request =
     Inr (Some (ApiKeyPrincipal ex_auth_key, ex_auth_key), ex_request\<lparr>rq_resolved := Some (Some ex_auth_key)\<rparr>)"
proof -
  have eq: "authenticate ''pepper'' (ex_db\<lparr>api_keys := [ex_auth_key]\<rparr>) ex_request =
     Inr (Some (ApiKeyPrincipal ex_auth_key, ex_auth_key), ex_request\<lparr>rq_resolved := Some (Some ex_auth_key)\<rparr>)"
    by (simp add: authenticate_def resolve_api_key_def ex_request_def META_get_def API_KEY_HEADER_META_def
        lookup_api_key_def ex_split active_key_named_def active_keys_def ex_auth_key_def ex_key_def
        verify_secret_def hash_secret_def)
  have "rq_resolved ex_request = None" by (simp add: ex_request_def)
  from authenticate_sound [OF this eq] eq show ?thesis by auto
qed

definition ex_drf :: drf_fields where
  "ex_drf = \<lparr>drf_char = (\<lambda>j. case j of JStr s \<Rightarrow> if py_strip s = [] then None else Some (py_strip s) | _ \<Rightarrow> None),
     drf_char_blank = (\<lambda>j. case j of JStr s \<Rightarrow> Some (py_strip s) | _ \<Rightarrow> None),
     drf_choice = (\<lambda>j. case j of JStr s \<Rightarrow> Some s | _ \<Rightarrow> None),
     drf_int = (\<lambda>j. case j of JInt n \<Rightarrow> Some n | _ \<Rightarrow> None),
     drf_datetime = (\<lambda>j. case j of JInt n \<Rightarrow> Some n | _ \<Rightarrow> None)\<rparr>"

definition ex_draw :: key_draw where
  "ex_draw = \<lparr>kd_id = replicate 6 0, kd_secret = replicate 24 0, kd_webhook = replicate 32 0, kd_now = 5\<rparr>"


theorem created_message_snapshot_witness:
  "\<exists>v. v \<in> set (template_versions ex_db) \<and> msg_template_version ex_message = Some (tv_id v) \<and>
     msg_rendered_body ex_message = ''Welcome''"
proof -
  have "templates_ok ex_db" by (simp add: templates_ok_def alive_def versions_numbered_def versions_of_def ex_rows)
  moreover have "ce_others ex_env ex_db = ex_db" by (simp add: ex_env_def)
  moreover have "create_message ex_env (Some 1) ''k1'' ex_data (ex_db, []) =
      (Inr (ex_message, True), ex_db\<lparr>messages := [ex_message]\<rparr>, [ex_task])"
    using ex_create by (simp add: ex_installed_def ex_start_def)
  ultimately obtain t v where "v \<in> set (versions_of t ex_db)" "msg_template_version ex_message = Some (tv_id v)"
    using created_message_snapshot by blast
  then show ?thesis by (auto simp: versions_of_def ex_messages)
qed

end
