(* ===== verification/Relay_Ipaddress.thy ===== *)
theory Relay_Ipaddress
  imports Relay_Bytes
begin

text \<open>
  What the program uses of Python's \<open>ipaddress\<close>: parsing addresses and networks, the
  membership test, \<open>is_global\<close>, \<open>is_multicast\<close>, \<open>ipv4_mapped\<close>, and printing. Addresses
  are \<open>32 word\<close> and \<open>128 word\<close>; a parse error is \<open>None\<close>. The tables of special ranges
  are those of Python 3.12, where the properties of an IPv4-mapped address are those of
  the IPv4 address inside it.
\<close>

datatype ip = V4 "32 word" | V6 "128 word" "pystr option"

datatype ipnet = Net4 "32 word" nat | Net6 "128 word" nat

section \<open>Parsing addresses\<close>

definition parse_octet :: "pystr \<Rightarrow> byte option" where
  "parse_octet s =
     (if s = [] \<or> \<not> list_all ascii_digit s \<or> length s > 3 \<or> (s \<noteq> ''0'' \<and> hd s = CHR ''0'') then None
      else let n = nat_of_digits s in if n > 255 then None else Some (word_of_nat n))"

definition word_of_octets :: "byte \<Rightarrow> byte \<Rightarrow> byte \<Rightarrow> byte \<Rightarrow> 32 word" where
  "word_of_octets a b c d = push_bit 24 (ucast a) OR push_bit 16 (ucast b) OR push_bit 8 (ucast c) OR ucast d"

definition parse_ipv4 :: "pystr \<Rightarrow> 32 word option" where
  "parse_ipv4 s =
     (case map parse_octet (py_split (CHR ''.'') s) of
        [Some a, Some b, Some c, Some d] \<Rightarrow> Some (word_of_octets a b c d)
      | _ \<Rightarrow> None)"

definition hex_value :: "char \<Rightarrow> nat option" where
  "hex_value c = (let n = code_point c in
     if 48 \<le> n \<and> n \<le> 57 then Some (n - 48)
     else if 65 \<le> n \<and> n \<le> 70 then Some (n - 55)
     else if 97 \<le> n \<and> n \<le> 102 then Some (n - 87) else None)"

fun hex_word :: "16 word \<Rightarrow> pystr \<Rightarrow> 16 word option" where
  "hex_word acc [] = Some acc"
| "hex_word acc (c # cs) =
     (case hex_value c of None \<Rightarrow> None | Some n \<Rightarrow> hex_word (push_bit 4 acc OR word_of_nat n) cs)"

definition parse_hextet :: "pystr \<Rightarrow> 16 word option" where
  "parse_hextet s = (if s = [] \<or> length s > 4 then None else hex_word 0 s)"

text \<open>Parts are parsed one by one; a dotted-quad suffix stands for two of them.\<close>

datatype part = Gap | Hextet "16 word" | BadPart

definition parse_part :: "pystr \<Rightarrow> part" where
  "parse_part s = (if s = [] then Gap else case parse_hextet s of None \<Rightarrow> BadPart | Some h \<Rightarrow> Hextet h)"

definition v6_parts :: "pystr \<Rightarrow> part list option" where
  "v6_parts s =
     (let ps = py_split (CHR '':'') s in
      if length ps < 3 then None
      else if CHR ''.'' \<in> set (last ps) then
        (case parse_ipv4 (last ps) of
           None \<Rightarrow> None
         | Some w \<Rightarrow> Some (map parse_part (butlast ps) @ [Hextet (ucast (drop_bit 16 w)), Hextet (ucast w)]))
      else Some (map parse_part ps))"

definition join_hextets :: "16 word list \<Rightarrow> 128 word" where
  "join_hextets hs = foldl (\<lambda>acc h. push_bit 16 acc OR ucast h) 0 hs"

fun hextets_of :: "part list \<Rightarrow> 16 word list option" where
  "hextets_of [] = Some []"
| "hextets_of (Hextet h # ps) = map_option ((#) h) (hextets_of ps)"
| "hextets_of _ = None"

text \<open>The indices strictly inside the list whose part is empty: the candidates for \<open>::\<close>.\<close>

definition inner_gaps :: "part list \<Rightarrow> nat list" where
  "inner_gaps ps = filter (\<lambda>i. ps ! i = Gap) [1..<length ps - 1]"

definition v6_of_parts :: "part list \<Rightarrow> 128 word option" where
  "v6_of_parts ps =
     (if length ps > 9 then None
      else case inner_gaps ps of
        [] \<Rightarrow> if length ps \<noteq> 8 then None else map_option join_hextets (hextets_of ps)
      | [i] \<Rightarrow>
          let hi = take i ps; lo = drop (i + 1) ps;
              hi' = (if hd ps = Gap then [] else hi);
              lo' = (if last ps = Gap then [] else lo)
          in if hd ps = Gap \<and> i \<noteq> 1 \<or> last ps = Gap \<and> length lo \<noteq> 1 \<or> length hi' + length lo' > 7 then None
             else (case (hextets_of hi', hextets_of lo') of
                     (Some a, Some b) \<Rightarrow>
                       Some (join_hextets (a @ replicate (8 - (length a + length b)) 0 @ b))
                   | _ \<Rightarrow> None)
      | _ \<Rightarrow> None)"

definition parse_ipv6_int :: "pystr \<Rightarrow> 128 word option" where
  "parse_ipv6_int s = (case v6_parts s of None \<Rightarrow> None | Some ps \<Rightarrow> v6_of_parts ps)"

text \<open>An IPv6 string may carry a zone id after \<open>%\<close>.\<close>

definition parse_ipv6 :: "pystr \<Rightarrow> ip option" where
  "parse_ipv6 s =
     (if CHR ''/'' \<in> set s then None
      else case py_partition (CHR ''%'') s of
        (addr, sep, scope) \<Rightarrow>
          if sep \<and> (scope = [] \<or> CHR ''%'' \<in> set scope) then None
          else map_option (\<lambda>w. V6 w (if sep then Some scope else None)) (parse_ipv6_int addr))"

definition ip_address :: "pystr \<Rightarrow> ip option" where
  "ip_address s = (case if CHR ''/'' \<in> set s then None else parse_ipv4 s of
      Some w \<Rightarrow> Some (V4 w) | None \<Rightarrow> parse_ipv6 s)"

section \<open>Networks\<close>

definition netmask :: "nat \<Rightarrow> 'a::len word" where
  "netmask p = (- 1) XOR drop_bit p (- 1)"

definition in_net :: "ip \<Rightarrow> ipnet \<Rightarrow> bool" where
  "in_net a net = (case (a, net) of
      (V4 w, Net4 base p) \<Rightarrow> w AND netmask p = base
    | (V6 w _, Net6 base p) \<Rightarrow> w AND netmask p = base
    | _ \<Rightarrow> False)"

definition prefix_of_string :: "nat \<Rightarrow> pystr \<Rightarrow> nat option" where
  "prefix_of_string width s =
     (if s = [] \<or> \<not> list_all ascii_digit s then None
      else let n = nat_of_digits s in if n > width then None else Some n)"

text \<open>A dotted-quad netmask (ones then zeroes), or a hostmask (zeroes then ones).\<close>

definition prefix_of_mask :: "32 word \<Rightarrow> nat option" where
  "prefix_of_mask w = find (\<lambda>p. w = netmask p) [0..<33]"

definition prefix_of_ip_string :: "pystr \<Rightarrow> nat option" where
  "prefix_of_ip_string s =
     (case parse_ipv4 s of
        None \<Rightarrow> None
      | Some w \<Rightarrow> (case prefix_of_mask w of Some p \<Rightarrow> Some p | None \<Rightarrow> prefix_of_mask (NOT w)))"

text \<open>\<open>ip_network(s, strict=False)\<close>: host bits of the given address are cleared.\<close>

definition ipv4_network :: "pystr \<Rightarrow> ipnet option" where
  "ipv4_network s =
     (case py_split (CHR ''/'') s of
        [a] \<Rightarrow> map_option (\<lambda>w. Net4 w 32) (parse_ipv4 a)
      | [a, m] \<Rightarrow>
          (case (parse_ipv4 a, case prefix_of_string 32 m of Some p \<Rightarrow> Some p | None \<Rightarrow> prefix_of_ip_string m) of
             (Some w, Some p) \<Rightarrow> Some (Net4 (w AND netmask p) p)
           | _ \<Rightarrow> None)
      | _ \<Rightarrow> None)"

definition ipv6_network :: "pystr \<Rightarrow> ipnet option" where
  "ipv6_network s =
     (case py_split (CHR ''/'') s of
        [a] \<Rightarrow> (case parse_ipv6 a of Some (V6 w _) \<Rightarrow> Some (Net6 w 128) | _ \<Rightarrow> None)
      | [a, m] \<Rightarrow>
          (case (parse_ipv6 a, prefix_of_string 128 m) of
             (Some (V6 w _), Some p) \<Rightarrow> Some (Net6 (w AND netmask p) p)
           | _ \<Rightarrow> None)
      | _ \<Rightarrow> None)"

definition ip_network :: "pystr \<Rightarrow> ipnet option" where
  "ip_network s = (case ipv4_network s of Some n \<Rightarrow> Some n | None \<Rightarrow> ipv6_network s)"

section \<open>Special ranges\<close>

definition v4_public_network :: ipnet where "v4_public_network = Net4 0x64400000 10"
definition v4_multicast :: ipnet where "v4_multicast = Net4 0xe0000000 4"

definition v4_private :: "ipnet list" where
  "v4_private =
     [Net4 0x00000000 8, Net4 0x0a000000 8, Net4 0x7f000000 8, Net4 0xa9fe0000 16, Net4 0xac100000 12,
      Net4 0xc0000000 24, Net4 0xc00000aa 31, Net4 0xc0000200 24, Net4 0xc0a80000 16, Net4 0xc6120000 15,
      Net4 0xc6336400 24, Net4 0xcb007100 24, Net4 0xf0000000 4, Net4 0xffffffff 32]"

definition v4_private_exceptions :: "ipnet list" where
  "v4_private_exceptions = [Net4 0xc0000009 32, Net4 0xc000000a 32]"

definition v6_multicast :: ipnet where "v6_multicast = Net6 0xff000000000000000000000000000000 8"

definition v6_private :: "ipnet list" where
  "v6_private =
     [Net6 1 128, Net6 0 128, Net6 0xffff00000000 96, Net6 0x0064ff9b000100000000000000000000 48,
      Net6 0x01000000000000000000000000000000 64, Net6 0x20010000000000000000000000000000 23,
      Net6 0x20010db8000000000000000000000000 32, Net6 0x20020000000000000000000000000000 16,
      Net6 0x3fff0000000000000000000000000000 20,
      Net6 0xfc000000000000000000000000000000 7, Net6 0xfe800000000000000000000000000000 10]"

definition v6_private_exceptions :: "ipnet list" where
  "v6_private_exceptions =
     [Net6 0x20010001000000000000000000000001 128, Net6 0x20010001000000000000000000000002 128,
      Net6 0x20010003000000000000000000000000 32, Net6 0x20010004011200000000000000000000 48,
      Net6 0x20010020000000000000000000000000 28, Net6 0x20010030000000000000000000000000 28]"

definition ipv4_mapped :: "128 word \<Rightarrow> 32 word option" where
  "ipv4_mapped w = (if drop_bit 32 w = 0xffff then Some (ucast w) else None)"

definition v4_is_global :: "32 word \<Rightarrow> bool" where
  "v4_is_global w \<longleftrightarrow> \<not> in_net (V4 w) v4_public_network \<and>
     \<not> (list_ex (in_net (V4 w)) v4_private \<and> \<not> list_ex (in_net (V4 w)) v4_private_exceptions)"

fun is_global :: "ip \<Rightarrow> bool" where
  "is_global (V4 w) = v4_is_global w"
| "is_global (V6 w z) = (case ipv4_mapped w of
      Some x \<Rightarrow> v4_is_global x
    | None \<Rightarrow> \<not> (list_ex (in_net (V6 w z)) v6_private \<and> \<not> list_ex (in_net (V6 w z)) v6_private_exceptions))"

fun is_multicast :: "ip \<Rightarrow> bool" where
  "is_multicast (V4 w) = in_net (V4 w) v4_multicast"
| "is_multicast (V6 w z) = (case ipv4_mapped w of
      Some x \<Rightarrow> in_net (V4 x) v4_multicast
    | None \<Rightarrow> in_net (V6 w z) v6_multicast)"

section \<open>Printing\<close>

definition str_ipv4 :: "32 word \<Rightarrow> pystr" where
  "str_ipv4 w = py_join ''.'' (map (\<lambda>i. str_nat (unat (drop_bit i w AND 0xff))) [24, 16, 8, 0])"

definition hex_strip :: "pystr \<Rightarrow> pystr" where
  "hex_strip s = (case dropWhile (\<lambda>c. c = CHR ''0'') s of [] \<Rightarrow> ''0'' | t \<Rightarrow> t)"

text \<open>\<open>"%x" % n\<close> for the 16 bits at position \<open>i\<close>.\<close>

definition hextet_str :: "128 word \<Rightarrow> nat \<Rightarrow> pystr" where
  "hextet_str w i = hex_strip (hexlify [ucast (drop_bit (i + 8) w), ucast (drop_bit i w)])"

text \<open>The longest run of \<open>0\<close> parts, the first of equals: its start and length.\<close>

fun zero_runs :: "nat \<Rightarrow> nat \<Rightarrow> nat \<times> nat \<Rightarrow> pystr list \<Rightarrow> nat \<times> nat" where
  "zero_runs i len best [] = best"
| "zero_runs i len best (h # hs) =
     (if h = ''0'' then
        zero_runs (i + 1) (len + 1) (if len + 1 > snd best then (i - len, len + 1) else best) hs
      else zero_runs (i + 1) 0 best hs)"

definition compress_hextets :: "pystr list \<Rightarrow> pystr list" where
  "compress_hextets hs =
     (case zero_runs 0 0 (0, 0) hs of (start, len) \<Rightarrow>
        if len > 1 then
          (if start = 0 then [[]] else []) @ take start hs @ [[]] @ drop (start + len) hs
            @ (if start + len = length hs then [[]] else [])
        else hs)"

definition str_ipv6 :: "128 word \<Rightarrow> pystr" where
  "str_ipv6 w = py_join '':'' (compress_hextets (map (hextet_str w) [112, 96, 80, 64, 48, 32, 16, 0]))"

section \<open>Networks as ranges of numbers\<close>

lemma and_netmask: 
  fixes w :: "'a::len word"
  shows "w AND netmask p = push_bit (LENGTH('a) - p) (drop_bit (LENGTH('a) - p) w)"
  by (rule bit_word_eqI) (auto simp: netmask_def bit_simps)

lemma uint_and_netmask:
  fixes w :: "'a::len word"
  shows "uint (w AND netmask p) = uint w div 2 ^ (LENGTH('a) - p) * 2 ^ (LENGTH('a) - p)"
proof -
  let ?k = "LENGTH('a) - p"
  have le: "uint w div 2 ^ ?k * 2 ^ ?k \<le> uint w" by (simp add: minus_mod_eq_div_mult [symmetric])
  have "uint (push_bit ?k (drop_bit ?k w)) = take_bit LENGTH('a) (push_bit ?k (uint (drop_bit ?k w)))"
    by (simp add: unsigned_push_bit_eq)
  also have "\<dots> = take_bit LENGTH('a) (uint w div 2 ^ ?k * 2 ^ ?k)"
    by (simp only: unsigned_drop_bit_eq push_bit_eq_mult drop_bit_eq_div [where ?'a = int] take_bit_length_eq)
       (simp add: take_bit_int_eq_self)
  also have "\<dots> = uint w div 2 ^ ?k * 2 ^ ?k"
    using le unsigned_less [of w, where ?'a = int]
    by (intro take_bit_int_eq_self) (simp add: pos_imp_zdiv_nonneg_iff, linarith)
  finally show ?thesis by (simp add: and_netmask)
qed

text \<open>A network is the range of addresses from its base on.\<close>

lemma netmask_range:
  fixes w base :: "'a::len word"
  assumes "base AND netmask p = base"
  shows "w AND netmask p = base \<longleftrightarrow> uint base \<le> uint w \<and> uint w < uint base + 2 ^ (LENGTH('a) - p)"
proof -
  let ?K = "2 ^ (LENGTH('a) - p) :: int"
  obtain q where q: "uint base = q * ?K"
    using uint_and_netmask [of base p] assms by metis
  have "w AND netmask p = base \<longleftrightarrow> uint w div ?K * ?K = q * ?K"
    by (simp add: word_uint_eq_iff uint_and_netmask q)
  also have "\<dots> \<longleftrightarrow> uint w div ?K = q" by simp
  also have "\<dots> \<longleftrightarrow> q * ?K \<le> uint w \<and> uint w < q * ?K + ?K"
  proof
    assume d: "uint w div ?K = q"
    have "q * ?K + uint w mod ?K = uint w" using div_mult_mod_eq [of "uint w" ?K] d by simp
    moreover have "0 \<le> uint w mod ?K" "uint w mod ?K < ?K" by simp_all
    ultimately show "q * ?K \<le> uint w \<and> uint w < q * ?K + ?K" by linarith
  next
    assume b: "q * ?K \<le> uint w \<and> uint w < q * ?K + ?K"
    then show "uint w div ?K = q"
      by (intro int_div_pos_eq [of _ _ _ "uint w - q * ?K"]) (auto simp: mult.commute)
  qed
  finally show ?thesis by (simp add: q)
qed

definition aligned :: "ipnet \<Rightarrow> bool" where
  "aligned net = (case net of Net4 b p \<Rightarrow> b AND netmask p = b | Net6 b p \<Rightarrow> b AND netmask p = b)"

definition in_range :: "int \<Rightarrow> nat \<Rightarrow> int \<Rightarrow> bool" where
  "in_range base bits n \<longleftrightarrow> base \<le> n \<and> n < base + 2 ^ bits"

lemma in_net4_range: "aligned (Net4 b p) \<Longrightarrow> in_net (V4 w) (Net4 b p) \<longleftrightarrow> in_range (uint b) (32 - p) (uint w)"
  using netmask_range [of b p w] by (simp add: aligned_def in_net_def in_range_def)

lemma in_net6_range: "aligned (Net6 b p) \<Longrightarrow> in_net (V6 w z) (Net6 b p) \<longleftrightarrow> in_range (uint b) (128 - p) (uint w)"
  using netmask_range [of b p w] by (simp add: aligned_def in_net_def in_range_def)

lemma special_ranges_aligned:
  "list_all aligned ([v4_public_network, v4_multicast, v6_multicast] @ v4_private @ v4_private_exceptions
     @ v6_private @ v6_private_exceptions)"
  by code_simp

end
