(* ===== verification/Relay_Validators.thy ===== *)
theory Relay_Validators
  imports Relay_Ipaddress Relay_Models
begin

text \<open>
  \<open>apps/messages_api/validators.py\<close>: the checks of a recipient, above all the guard that
  keeps webhooks away from internal addresses. The URL parser (httpx), the resolver and
  Django's email validator are not part of the repository: they are fields of the
  environment, as are the free resolver slots and whether a lookup is late.
\<close>

record url_parts =
  up_scheme :: pystr
  up_host :: pystr
  up_name :: pystr
  up_port :: "int option"
  up_netloc :: pystr

datatype networks_setting = NetList "pystr list" | NetString pystr

record web_env =
  we_url :: "pystr \<Rightarrow> pystr + url_parts"
  we_gai :: "pystr \<Rightarrow> int option \<Rightarrow> pystr + pystr list"
  we_slot_free :: bool
  we_late :: bool
  we_networks :: networks_setting
  we_email :: "pystr \<Rightarrow> bool"

datatype refusal =
    Malformed pystr | BadScheme | NoHost | BadPort | ZoneId | BlockedAddress
  | NoResolve pystr | ResolvesBlocked | NotEmail | UnknownChannel pystr

text \<open>
  The parts of a parsed URL: \<open>raw_host\<close> (the A-label form), \<open>host\<close> (the displayed name),
  port and \<open>netloc\<close>. The message of each refusal is the text the source raises it with.
\<close>

fun refusal_message :: "refusal \<Rightarrow> pystr" where
  "refusal_message (Malformed msg) = ''webhook URL is malformed: '' @ msg"
| "refusal_message BadScheme = ''webhook URL must use http(s)''"
| "refusal_message NoHost = ''webhook URL must include a hostname''"
| "refusal_message BadPort = ''webhook URL port is out of range''"
| "refusal_message ZoneId = ''webhook URL must not carry an IPv6 zone id''"
| "refusal_message BlockedAddress = ''webhook URL points to a blocked address range''"
| "refusal_message (NoResolve exc) = ''webhook URL hostname does not resolve'' @ exc"
| "refusal_message ResolvesBlocked = ''webhook URL resolves to a blocked address range''"
| "refusal_message NotEmail = ''Enter a valid email address.''"
| "refusal_message (UnknownChannel c) = ''unknown channel: '' @ c"

text \<open>A \<open>ValidationError\<close>, or the \<open>ValueError\<close> of a malformed \<open>WEBHOOK_BLOCKED_NETWORKS\<close>.\<close>

datatype web_error = Invalid refusal | BadNetworks

section \<open>Blocked addresses\<close>

text \<open>\<open>_TUNNEL_NETWORKS\<close>, as the strings of the source.\<close>

definition TUNNEL_NAMES :: "pystr list" where
  "TUNNEL_NAMES = [''64:ff9b::/96'', ''64:ff9b:1::/48'', ''2002::/16'', ''2001::/32'', ''::/96'',
     ''::ffff:0:0:0/96'', ''fec0::/10'']"

definition TUNNEL_NETWORKS :: "ipnet list" where
  "TUNNEL_NETWORKS =
     [Net6 0x0064ff9b000000000000000000000000 96, Net6 0x0064ff9b000100000000000000000000 48,
      Net6 0x20020000000000000000000000000000 16, Net6 0x20010000000000000000000000000000 32,
      Net6 0 96, Net6 0xffff000000000000 96, Net6 0xfec00000000000000000000000000000 10]"

definition blocked_networks :: "networks_setting \<Rightarrow> ipnet list option" where
  "blocked_networks raw =
     (let names = (case raw of NetList ns \<Rightarrow> ns | NetString s \<Rightarrow> if s = [] then [] else py_split (CHR '','') s);
          nets = map (\<lambda>n. ip_network (py_strip n)) (filter (\<lambda>n. py_strip n \<noteq> []) names)
      in if list_ex (\<lambda>n. n = None) nets then None else Some (map the nets))"

definition is_blocked_ip :: "networks_setting \<Rightarrow> pystr \<Rightarrow> web_error + bool" where
  "is_blocked_ip raw addr =
     (case ip_address addr of
        None \<Rightarrow> Inr True
      | Some a \<Rightarrow>
          if \<not> is_global a \<or> is_multicast a then Inr True
          else if list_ex (in_net a) TUNNEL_NETWORKS then Inr True
          else case blocked_networks raw of
            None \<Rightarrow> Inl BadNetworks
          | Some nets \<Rightarrow> Inr (list_ex (in_net a) nets))"

definition looks_like_ip :: "pystr \<Rightarrow> bool" where
  "looks_like_ip host \<longleftrightarrow> ip_address (strip_by (\<lambda>c. c = CHR ''['' \<or> c = CHR '']'') host) \<noteq> None"

section \<open>Resolving and validating\<close>

text \<open>\<open>None\<close>: no free slot, or no answer in time.\<close>

definition getaddrinfo :: "web_env \<Rightarrow> pystr \<Rightarrow> int option \<Rightarrow> bool \<Rightarrow> (pystr + pystr list) option" where
  "getaddrinfo e host port bounded =
     (if \<not> bounded then Some (we_gai e host port)
      else if \<not> we_slot_free e then None
      else if we_late e then None
      else Some (we_gai e host port))"

fun vet_addresses :: "networks_setting \<Rightarrow> pystr list \<Rightarrow> pystr list \<Rightarrow> web_error + pystr list" where
  "vet_addresses raw acc [] = (if acc = [] then Inl (Invalid (NoResolve [])) else Inr acc)"
| "vet_addresses raw acc (a # as) =
     (case is_blocked_ip raw a of
        Inl e \<Rightarrow> Inl e
      | Inr True \<Rightarrow> Inl (Invalid ResolvesBlocked)
      | Inr False \<Rightarrow> vet_addresses raw (if a \<in> set acc then acc else acc @ [a]) as)"

definition validate_webhook_url :: "web_env \<Rightarrow> pystr \<Rightarrow> bool \<Rightarrow> web_error + pystr list" where
  "validate_webhook_url e url bounded =
     (case we_url e url of
        Inl msg \<Rightarrow> Inl (Invalid (Malformed msg))
      | Inr u \<Rightarrow>
          if up_scheme u \<noteq> ''http'' \<and> up_scheme u \<noteq> ''https'' then Inl (Invalid BadScheme)
          else if up_host u = [] then Inl (Invalid NoHost)
          else if (case up_port u of None \<Rightarrow> False | Some p \<Rightarrow> \<not> (0 < p \<and> p < 65536)) then Inl (Invalid BadPort)
          else if CHR ''%'' \<in> set (up_host u) then Inl (Invalid ZoneId)
          else if looks_like_ip (up_host u) then
            (case is_blocked_ip (we_networks e) (up_host u) of
               Inl err \<Rightarrow> Inl err
             | Inr True \<Rightarrow> Inl (Invalid BlockedAddress)
             | Inr False \<Rightarrow> Inr [up_host u])
          else (case getaddrinfo e (up_host u) (up_port u) bounded of
                  None \<Rightarrow> Inr []
                | Some (Inl exc) \<Rightarrow> Inl (Invalid (NoResolve ('': '' @ exc)))
                | Some (Inr infos) \<Rightarrow> vet_addresses (we_networks e) [] infos))"

definition validate_recipient :: "web_env \<Rightarrow> pystr \<Rightarrow> pystr \<Rightarrow> web_error option" where
  "validate_recipient e channel recipient =
     (if channel = ''email'' then (if we_email e recipient then None else Some (Invalid NotEmail))
      else if channel = ''webhook'' then
        (case validate_webhook_url e recipient True of Inl err \<Rightarrow> Some err | Inr _ \<Rightarrow> None)
      else Some (Invalid (UnknownChannel channel)))"

section \<open>Which addresses pass\<close>

text \<open>
  Ranges no webhook may reach, stated as numbers: IPv4 ranges by first address and prefix
  length, IPv6 ranges by the leading hextets.
\<close>

definition dotted :: "int \<Rightarrow> int \<Rightarrow> int \<Rightarrow> int \<Rightarrow> int" where
  "dotted a b c d = ((a * 256 + b) * 256 + c) * 256 + d"

definition v4_never :: "(int \<times> nat) list" where
  "v4_never =
     [(dotted 0 0 0 0, 8), (dotted 10 0 0 0, 8), (dotted 100 64 0 0, 10), (dotted 127 0 0 0, 8),
      (dotted 169 254 0 0, 16), (dotted 172 16 0 0, 12), (dotted 192 0 2 0, 24), (dotted 192 168 0 0, 16),
      (dotted 198 18 0 0, 15), (dotted 198 51 100 0, 24), (dotted 203 0 113 0, 24),
      (dotted 224 0 0 0, 4), (dotted 240 0 0 0, 4)]"

definition v6_never :: "(int \<times> nat) list" where
  "v6_never =
     [(0, 96), (0xffff * 2 ^ 48, 96), (0x64ff9b * 2 ^ 96, 96), (0x64ff9b0001 * 2 ^ 80, 48),
      (0x0100 * 2 ^ 112, 64), (0x20010000 * 2 ^ 96, 32), (0x20010db8 * 2 ^ 96, 32), (0x2002 * 2 ^ 112, 16),
      (0x3fff * 2 ^ 112, 20), (0xfc00 * 2 ^ 112, 7), (0xfe80 * 2 ^ 112, 10), (0xfec0 * 2 ^ 112, 10),
      (0xff00 * 2 ^ 112, 8)]"

definition outside :: "nat \<Rightarrow> (int \<times> nat) list \<Rightarrow> int \<Rightarrow> bool" where
  "outside width ranges n \<longleftrightarrow> list_all (\<lambda>(base, p). \<not> in_range base (width - p) n) ranges"

fun public_ip :: "ip \<Rightarrow> bool" where
  "public_ip (V4 w) = outside 32 v4_never (uint w)"
| "public_ip (V6 w z) = (case ipv4_mapped w of
      Some x \<Rightarrow> outside 32 v4_never (uint x)
    | None \<Rightarrow> outside 128 v6_never (uint w))"

lemma tunnel_names: "map ip_network TUNNEL_NAMES = map Some TUNNEL_NETWORKS"
  by code_simp

lemma tunnels_aligned: "list_all aligned TUNNEL_NETWORKS"
  by code_simp

text \<open>The exceptions inside private ranges are outside the forbidden ones.\<close>

lemma v4_exceptions_outside:
  assumes "list_ex (in_net (V4 w)) v4_private_exceptions"
  shows "outside 32 v4_never (uint w)"
proof -
  have "list_all aligned v4_private_exceptions" using special_ranges_aligned by simp
  with assms have "uint w = 3221225481 \<or> uint w = 3221225482"
    by (auto simp: v4_private_exceptions_def in_net4_range in_range_def)
  then show ?thesis by (elim disjE) (simp_all add: outside_def v4_never_def dotted_def in_range_def)
qed

lemma v4_global_ranges:
  assumes "v4_is_global w" and "\<not> in_net (V4 w) v4_multicast"
  shows "outside 32 v4_never (uint w)"
proof (cases "list_ex (in_net (V4 w)) v4_private_exceptions")
  case False
  have "list_all aligned v4_private" "aligned v4_public_network" "aligned v4_multicast"
    using special_ranges_aligned by simp_all
  with False assms show ?thesis
    by (simp add: v4_is_global_def outside_def v4_never_def dotted_def v4_private_def
        v4_public_network_def v4_multicast_def in_net4_range)
qed (rule v4_exceptions_outside)

lemma v6_exceptions_in_2001:
  assumes "list_ex (in_net (V6 w z)) v6_private_exceptions"
  shows "0x20010001 * 2 ^ 96 \<le> uint w \<and> uint w < 0x20010040 * 2 ^ 96"
proof -
  have "list_all aligned v6_private_exceptions" using special_ranges_aligned by simp
  with assms show ?thesis
    by (auto simp: v6_private_exceptions_def in_net6_range in_range_def)
qed

lemma v6_global_ranges:
  assumes "is_global (V6 w z)" and "\<not> is_multicast (V6 w z)" and "ipv4_mapped w = None"
    and "\<not> list_ex (in_net (V6 w z)) TUNNEL_NETWORKS"
  shows "outside 128 v6_never (uint w)"
proof -
  have al: "list_all aligned v6_private" "aligned v6_multicast"
    using special_ranges_aligned by simp_all
  have tun: "\<not> in_range 0 32 (uint w)" "\<not> in_range 0xffff000000000000 32 (uint w)"
    using assms(4) tunnels_aligned by (simp_all add: TUNNEL_NETWORKS_def in_net6_range)
  show ?thesis
  proof (cases "list_ex (in_net (V6 w z)) v6_private_exceptions")
    case True
    from v6_exceptions_in_2001 [OF this] show ?thesis
      by (simp add: outside_def v6_never_def in_range_def)
  next
    case False
    with assms al tunnels_aligned show ?thesis
      by (simp add: outside_def v6_never_def v6_private_def v6_multicast_def TUNNEL_NETWORKS_def in_net6_range)
  qed
qed

lemma not_blocked_public:
  assumes "is_blocked_ip raw addr = Inr False"
  shows "\<exists>a nets. ip_address addr = Some a \<and> public_ip a \<and> blocked_networks raw = Some nets \<and>
     (\<forall>net\<in>set nets. \<not> in_net a net)"
proof -
  obtain a nets where a: "ip_address addr = Some a" "is_global a" "\<not> is_multicast a"
    "\<not> list_ex (in_net a) TUNNEL_NETWORKS" "blocked_networks raw = Some nets" "\<not> list_ex (in_net a) nets"
    using assms by (auto simp: is_blocked_ip_def split: option.splits if_splits)
  have "public_ip a"
  proof (cases a)
    case (V4 w)
    with a show ?thesis by (simp add: v4_global_ranges)
  next
    case (V6 w z)
    with a show ?thesis
      by (cases "ipv4_mapped w") (simp_all add: v4_global_ranges v6_global_ranges [of w z])
  qed
  with a show ?thesis by (auto simp: list_ex_iff)
qed

lemma vet_addresses_sound:
  assumes "vet_addresses raw acc as = Inr out" and "\<forall>a\<in>set acc. is_blocked_ip raw a = Inr False" and "distinct acc"
  shows "out \<noteq> [] \<and> distinct out \<and> set out = set acc \<union> set as \<and> (\<forall>a\<in>set out. is_blocked_ip raw a = Inr False)"
  using assms
proof (induction raw acc as rule: vet_addresses.induct)
  case (2 raw acc a as)
  from "2.prems"(1) have ok: "is_blocked_ip raw a = Inr False"
    and rec: "vet_addresses raw (if a \<in> set acc then acc else acc @ [a]) as = Inr out"
    by (auto split: sum.splits bool.splits)
  let ?acc = "if a \<in> set acc then acc else acc @ [a]"
  have "out \<noteq> [] \<and> distinct out \<and> set out = set ?acc \<union> set as \<and>
      (\<forall>a\<in>set out. is_blocked_ip raw a = Inr False)"
    by (rule "2.IH" [OF ok _ rec]) (use ok "2.prems"(2,3) in auto)
  then show ?case by (simp split: if_splits) blast
qed (auto split: if_splits)

lemma validate_webhook_url_cases:
  assumes "validate_webhook_url e url bounded = Inr addrs"
  shows "(\<exists>host. addrs = [host] \<and> is_blocked_ip (we_networks e) host = Inr False) \<or> (addrs = [] \<and> bounded) \<or>
     (\<exists>infos. vet_addresses (we_networks e) [] infos = Inr addrs)"
proof -
  obtain u where u: "we_url e url = Inr u" using assms by (cases "we_url e url") (simp_all add: validate_webhook_url_def)
  show ?thesis
  proof (cases "looks_like_ip (up_host u)")
    case True
    with assms u have "is_blocked_ip (we_networks e) (up_host u) = Inr False \<and> addrs = [up_host u]"
      by (cases "is_blocked_ip (we_networks e) (up_host u)")
         (simp_all add: validate_webhook_url_def split: if_splits bool.splits)
    then show ?thesis by simp
  next
    case False
    with assms u have "case getaddrinfo e (up_host u) (up_port u) bounded of None \<Rightarrow> addrs = []
        | Some (Inl _) \<Rightarrow> False | Some (Inr infos) \<Rightarrow> vet_addresses (we_networks e) [] infos = Inr addrs"
      by (simp add: validate_webhook_url_def split: if_splits option.splits sum.splits)
    then show ?thesis by (auto simp: getaddrinfo_def split: if_splits sum.splits)
  qed
qed

lemma validated_not_blocked:
  assumes "validate_webhook_url e url bounded = Inr addrs"
  shows "distinct addrs \<and> (\<forall>addr\<in>set addrs. is_blocked_ip (we_networks e) addr = Inr False) \<and>
      (\<not> bounded \<longrightarrow> addrs \<noteq> [])"
  using validate_webhook_url_cases [OF assms]
proof (elim disjE exE conjE)
  fix infos assume "vet_addresses (we_networks e) [] infos = Inr addrs"
  from vet_addresses_sound [OF this] show ?thesis by simp
qed simp_all

section \<open>Properties\<close>

text \<open>
  C18: the guard against requests to internal addresses. Whatever the URL parser and the
  resolver answer, every address \<open>validate_webhook_url\<close> returns is an IP address outside
  all forbidden ranges (this network, private, shared, loopback, link-local,
  documentation, benchmarking, multicast, reserved; unique-local and site-local IPv6 and
  the IPv6 ranges that embed IPv4; for an IPv4-mapped address, the address inside) and
  outside every network the operator blocks. Without a time bound, as the sender calls
  it, at least one address is returned.
\<close>

theorem webhook_addresses_are_public:
  assumes "validate_webhook_url e url bounded = Inr addrs"
  shows "(\<forall>addr\<in>set addrs. \<exists>a nets. ip_address addr = Some a \<and> public_ip a \<and>
        blocked_networks (we_networks e) = Some nets \<and> (\<forall>net\<in>set nets. \<not> in_net a net)) \<and>
     distinct addrs \<and> (\<not> bounded \<longrightarrow> addrs \<noteq> [])"
proof -
  note validated_not_blocked [OF assms]
  then show ?thesis using not_blocked_public by blast
qed

text \<open>An environment in which one name resolves to a public address.\<close>

definition ex_url :: url_parts where
  "ex_url = \<lparr>up_scheme = ''https'', up_host = ''a.example'', up_name = ''a.example'', up_port = None,
     up_netloc = ''a.example''\<rparr>"

definition ex_web :: web_env where
  "ex_web = \<lparr>we_url = (\<lambda>_. Inr ex_url), we_gai = (\<lambda>_ _. Inr [''8.8.8.8'', ''8.8.8.8'']), we_slot_free = True,
     we_late = False, we_networks = NetString ''9.9.9.0/24, fd00::/8'', we_email = (\<lambda>_. True)\<rparr>"

lemma ex_name: "\<not> looks_like_ip ''a.example''" by code_simp

lemma ex_validate: "validate_webhook_url ex_web url False = Inr [''8.8.8.8'']"
proof -
  have "is_blocked_ip (NetString ''9.9.9.0/24, fd00::/8'') ''8.8.8.8'' = Inr False" by code_simp
  then show ?thesis
    by (simp add: validate_webhook_url_def getaddrinfo_def ex_web_def ex_url_def ex_name)
qed

theorem webhook_addresses_are_public_witness:
  "\<exists>a. ip_address ''8.8.8.8'' = Some a \<and> public_ip a"
  using webhook_addresses_are_public [OF ex_validate] by auto

text \<open>
  One bad address is enough. If a host name resolves to several addresses and any of
  them is forbidden or not an address at all, the sender's check refuses the URL, however
  many of the others are public.
\<close>

theorem one_forbidden_address_refuses:
  assumes "we_url e url = Inr u" and "\<not> looks_like_ip (up_host u)"
    and "we_gai e (up_host u) (up_port u) = Inr infos" and "addr \<in> set infos"
    and "case ip_address addr of None \<Rightarrow> True | Some a \<Rightarrow> \<not> public_ip a"
  shows "\<exists>err. validate_webhook_url e url False = Inl err"
proof (cases "validate_webhook_url e url False")
  case (Inr addrs)
  with assms(1-3) have "vet_addresses (we_networks e) [] infos = Inr addrs"
    by (simp add: validate_webhook_url_def getaddrinfo_def split: if_splits)
  from vet_addresses_sound [OF this] assms(4) have "is_blocked_ip (we_networks e) addr = Inr False" by simp
  from not_blocked_public [OF this] assms(5) show ?thesis by auto
qed simp

theorem one_forbidden_address_refuses_witness:
  "\<exists>err. validate_webhook_url (ex_web\<lparr>we_gai := (\<lambda>_ _. Inr [''8.8.8.8'', ''::ffff:10.0.0.1''])\<rparr>)
     ''https://a.example/x'' False = Inl err"
proof -
  have bad: "case ip_address ''::ffff:10.0.0.1'' of None \<Rightarrow> True | Some a \<Rightarrow> \<not> public_ip a" by code_simp
  show ?thesis
    by (rule one_forbidden_address_refuses [OF _ _ _ _ bad, where u = ex_url
          and infos = "[''8.8.8.8'', ''::ffff:10.0.0.1'']"])
       (simp_all add: ex_web_def ex_url_def ex_name)
qed

end
