(* ===== verification/Relay_Message_Views.thy ===== *)
theory Relay_Message_Views
  imports Relay_Services Relay_Validators Relay_Http
begin

text \<open>
  \<open>apps/messages_api/serializers.py\<close> and \<open>apps/messages_api/views.py\<close>: the message API.
  A request body is a JSON value; the fields of the REST framework are \<open>drf_fields\<close>. The
  end of the theory states what keeps the users of two API keys apart.
\<close>

section \<open>Serializers\<close>

definition priority_choice :: "drf_fields \<Rightarrow> json \<Rightarrow> priority option" where
  "priority_choice drf j = choice_field priority_value drf j"

text \<open>
  A field with \<open>required=False\<close>: a missing key gives no value, \<open>null\<close> gives none when the
  field allows it and an error otherwise. The outer \<open>None\<close> is the error.
\<close>

definition optional_field :: "bool \<Rightarrow> (json \<Rightarrow> 'a option) \<Rightarrow> json option \<Rightarrow> 'a option option" where
  "optional_field allow_null parse v =
     (case v of None \<Rightarrow> Some None
      | Some JNull \<Rightarrow> if allow_null then Some None else None
      | Some j \<Rightarrow> map_option Some (parse j))"

definition min_int :: "drf_fields \<Rightarrow> json \<Rightarrow> int option" where
  "min_int drf j = (case drf_int drf j of None \<Rightarrow> None | Some n \<Rightarrow> if n < 1 then None else Some n)"

definition validate_context :: "json option \<Rightarrow> json option" where
  "validate_context v = (case v of None \<Rightarrow> Some (JObj []) | Some (JObj kvs) \<Rightarrow> Some (JObj kvs) | Some _ \<Rightarrow> None)"

definition message_fields :: "drf_fields \<Rightarrow> (pystr \<times> json) list \<Rightarrow> validated_data option" where
  "message_fields drf data =
     (case (channel_choice drf (map_of data ''channel''),
            char_field (drf_char drf) 2048 (map_of data ''recipient''),
            optional_field False (drf_char drf) (map_of data ''template''),
            optional_field True (min_int drf) (map_of data ''template_version''),
            validate_context (map_of data ''context''),
            optional_field False (priority_choice drf) (map_of data ''priority''),
            optional_field True (drf_datetime drf) (map_of data ''scheduled_at'')) of
        (Some ch, Some recipient, Some template, Some version, Some context, Some prio, Some sched) \<Rightarrow>
          Some \<lparr>vd_channel = ch, vd_recipient = recipient, vd_template = template,
                vd_template_version = version, vd_context = Some context,
                vd_priority = Some (priority_or_default prio), vd_scheduled_at = sched\<rparr>
      | _ \<Rightarrow> None)"

text \<open>
  \<open>Inr None\<close>: \<open>is_valid()\<close> is false. A malformed \<open>WEBHOOK_BLOCKED_NETWORKS\<close> raises
  \<open>ValueError\<close>, which the serializer does not catch.
\<close>

definition MessageCreateSerializer :: "drf_fields \<Rightarrow> web_env \<Rightarrow> json \<Rightarrow> web_error + validated_data option" where
  "MessageCreateSerializer drf w data =
     (case data of
        JObj kvs \<Rightarrow>
          (case message_fields drf kvs of
             None \<Rightarrow> Inr None
           | Some v \<Rightarrow>
               (case validate_recipient w (channel_value (vd_channel v)) (vd_recipient v) of
                  None \<Rightarrow> Inr (Some v)
                | Some (Invalid _) \<Rightarrow> Inr None
                | Some BadNetworks \<Rightarrow> Inl BadNetworks))
      | _ \<Rightarrow> Inr None)"

text \<open>
  What a client reads of a message. \<open>template_name\<close> is null without a template version;
  then \<open>template_version\<close> is left out of the answer, here \<open>None\<close> too.
\<close>

record message_view =
  mv_id :: pystr
  mv_idempotency_key :: pystr
  mv_channel :: channel
  mv_recipient :: pystr
  mv_template_name :: "pystr option"
  mv_template_version :: "nat option"
  mv_rendered_subject :: pystr
  mv_rendered_body :: pystr
  mv_context :: json
  mv_priority :: priority
  mv_status :: message_status
  mv_scheduled_at :: "timestamp option"
  mv_created_at :: timestamp
  mv_updated_at :: timestamp

definition message_version :: "db \<Rightarrow> message \<Rightarrow> template_version option" where
  "message_version d m = (case msg_template_version m of None \<Rightarrow> None | Some k \<Rightarrow> get_template_version k d)"

definition get_template_name :: "db \<Rightarrow> message \<Rightarrow> pystr option" where
  "get_template_name d m =
     (case message_version d m of None \<Rightarrow> None
      | Some v \<Rightarrow> map_option tm_name (get_row tm_id (tv_template v) (templates d)))"

definition MessageReadSerializer :: "db \<Rightarrow> message \<Rightarrow> message_view" where
  "MessageReadSerializer d m =
     \<lparr>mv_id = msg_id m, mv_idempotency_key = msg_idempotency_key m, mv_channel = msg_channel m,
      mv_recipient = msg_recipient m, mv_template_name = get_template_name d m,
      mv_template_version = map_option tv_version (message_version d m),
      mv_rendered_subject = msg_rendered_subject m, mv_rendered_body = msg_rendered_body m,
      mv_context = msg_context m, mv_priority = msg_priority m, mv_status = msg_status m,
      mv_scheduled_at = msg_scheduled_at m, mv_created_at = msg_created_at m,
      mv_updated_at = msg_updated_at m\<rparr>"

section \<open>Views\<close>

definition IDEMPOTENCY_HEADER_META :: pystr where "IDEMPOTENCY_HEADER_META = ''HTTP_IDEMPOTENCY_KEY''"
definition IDEMPOTENCY_KEY_MAX_LENGTH :: nat where "IDEMPOTENCY_KEY_MAX_LENGTH = 128"

text \<open>
  Bodies of answers. \<open>ValidationErrors\<close> stands for \<open>ser.errors\<close>, whose texts are the REST
  framework's. A view that raises anything else ends as a server error: \<open>view_crash\<close>.
\<close>

datatype message_body =
    MessageData message_view
  | CodeDetail pystr pystr
  | ValidationErrors
  | Detail pystr

type_synonym message_answer = "nat \<times> message_body"

datatype view_crash = CrashNetworks | CrashDatabase db_error | CrashRecursion

definition error_answer :: "pystr \<Rightarrow> pystr \<Rightarrow> nat \<Rightarrow> message_answer" where
  "error_answer code msg st = (st, CodeDetail code msg)"

definition quoted :: "pystr \<Rightarrow> pystr" where "quoted s = [CHR 0x27] @ s @ [CHR 0x27]"

definition not_found_text :: "validated_data \<Rightarrow> not_found \<Rightarrow> pystr" where
  "not_found_text data why =
     (let name = (case vd_template data of None \<Rightarrow> [] | Some n \<Rightarrow> n) in
      case why of
        NameRequired \<Rightarrow> ''template name is required''
      | NoSuchTemplate \<Rightarrow> ''template '' @ quoted name @ '' not found for channel '' @
                           quoted (channel_value (vd_channel data))
      | NoSuchVersion \<Rightarrow> ''version '' @ (case vd_template_version data of None \<Rightarrow> [] | Some n \<Rightarrow> str_int n) @
                          '' not found for template '' @ quoted name
      | NoVersions \<Rightarrow> ''template '' @ quoted name @ '' has no versions'')"

text \<open>The parser's own message after ``not valid JSON'' is left out.\<close>

definition render_error_text :: "render_cause \<Rightarrow> pystr" where
  "render_error_text c =
     (case c of JinjaError e \<Rightarrow> e
      | TooLong \<Rightarrow> ''rendered message exceeds '' @ str_int (int MAX_RENDERED_CHARS) @ '' characters''
      | NotJson \<Rightarrow> ''webhook body is not valid JSON: '')"

definition create_error_answer :: "validated_data \<Rightarrow> create_error \<Rightarrow> view_crash + message_answer" where
  "create_error_answer data err =
     (case err of
        IdempotencyConflict \<Rightarrow>
          Inr (error_answer ''idempotency_conflict'' ''Idempotency-Key reused with different payload'' 409)
      | TemplateNotFound why \<Rightarrow> Inr (error_answer ''template_not_found'' (not_found_text data why) 422)
      | RenderFailed (RenderError c) \<Rightarrow>
          Inr (error_answer ''template_render_failed'' (''template render failed: '' @ render_error_text c) 422)
      | RenderFailed RecursionError \<Rightarrow> Inl CrashRecursion
      | Unresolved e \<Rightarrow> Inl (CrashDatabase e))"

definition messages_create ::
    "drf_fields \<Rightarrow> web_env \<Rightarrow> create_env \<Rightarrow> caller \<Rightarrow> request \<Rightarrow> json \<Rightarrow> db \<times> task list
       \<Rightarrow> (view_crash + message_answer) \<times> db \<times> task list" where
  "messages_create drf w e c rq data s =
     (case c of
        Anonymous \<Rightarrow> (Inr (401, Detail ''Authentication credentials were not provided.''), s)
      | ByUser _ \<Rightarrow>
          (Inr (error_answer ''api_key_required'' ''messages can only be created with an X-API-Key'' 403), s)
      | ByKey k \<Rightarrow>
          (let idem = py_strip (META_get IDEMPOTENCY_HEADER_META rq) in
           if idem = [] then
             (Inr (error_answer ''idempotency_key_missing'' ''Idempotency-Key header is required'' 400), s)
           else if length idem > IDEMPOTENCY_KEY_MAX_LENGTH then
             (Inr (error_answer ''idempotency_key_too_long''
                (''Idempotency-Key is longer than '' @ str_int (int IDEMPOTENCY_KEY_MAX_LENGTH) @ '' characters'') 400), s)
           else case MessageCreateSerializer drf w data of
             Inl _ \<Rightarrow> (Inl CrashNetworks, s)
           | Inr None \<Rightarrow> (Inr (422, ValidationErrors), s)
           | Inr (Some v) \<Rightarrow>
               (case create_message e (Some (ak_id k)) idem v s of
                  (Inl err, s') \<Rightarrow> (create_error_answer v err, s')
                | (Inr (m, _), s') \<Rightarrow> (Inr (202, MessageData (MessageReadSerializer (fst s') m)), s'))))"

definition messages_queryset :: "caller \<Rightarrow> db \<Rightarrow> message list" where
  "messages_queryset c d =
     (case c of
        ByKey k \<Rightarrow> filter (\<lambda>m. msg_api_key m = Some (ak_id k)) (messages d)
      | ByUser u \<Rightarrow> if us_is_staff u then messages d else []
      | Anonymous \<Rightarrow> [])"

definition messages_retrieve :: "caller \<Rightarrow> pystr \<Rightarrow> db \<Rightarrow> message_answer" where
  "messages_retrieve c pk d =
     (if c = Anonymous then (401, Detail ''Authentication credentials were not provided.'')
      else case get_row msg_id pk (messages_queryset c d) of
        None \<Rightarrow> (404, Detail (no_match ''Message''))
      | Some m \<Rightarrow> (200, MessageData (MessageReadSerializer d m)))"

section \<open>What an answer means\<close>

lemma create_message_stored:
  assumes "db_ok d" and "ce_others e d = d" and "create_message e ak idem v (d, q) = (Inr (m, b), d', q')"
  shows "db_ok d' \<and> m \<in> set (messages d') \<and> msg_api_key m = ak \<and> msg_idempotency_key m = idem"
  using create_message_cases [OF assms(2,3)] assms(1) insert_message_ok
  by (auto simp: Let_def new_message_def)

lemma create_message_refused:
  assumes "ce_others e d = d" and "create_message e ak idem v (d, q) = (Inl err, d', q')"
  shows "d' = d \<and> q' = q"
  using create_message_cases [OF assms] by (auto simp: Let_def)

lemma create_message_unresolved:
  "create_message e ak idem v (d, q) = (Inl (Unresolved x), s) \<Longrightarrow> x = IntegrityError \<or> x = DataError"
  by (auto simp: create_message_def insert_and_publish_def insert_message_def replay_def
      split: option.splits sum.splits if_splits)

lemma get_row_own:
  assumes "db_ok d" and "m \<in> set (messages d)" and "P m"
  shows "get_row msg_id (msg_id m) (filter P (messages d)) = Some m"
  using assms by (simp add: db_ok_def get_row_Some_iff distinct_keys_filter)

text \<open>
  C25: posting and reading back. After a 202 the message is stored under the caller's key and
  the idempotency key of the request, and a GET by the same key for its id answers 200 with
  the body the POST answered.
\<close>

theorem posted_message_is_readable:
  assumes "db_ok d" and "ce_others e d = d"
    and "messages_create drf w e (ByKey k) rq data (d, q) = (Inr (202, body), d', q')"
  shows "\<exists>m. m \<in> set (messages d') \<and> msg_api_key m = Some (ak_id k) \<and>
     msg_idempotency_key m = py_strip (META_get IDEMPOTENCY_HEADER_META rq) \<and>
     messages_retrieve (ByKey k) (msg_id m) d' = (200, body)"
proof -
  let ?idem = "py_strip (META_get IDEMPOTENCY_HEADER_META rq)"
  obtain v m b where "create_message e (Some (ak_id k)) ?idem v (d, q) = (Inr (m, b), d', q')"
    and body: "body = MessageData (MessageReadSerializer d' m)"
    using assms(3)
    by (auto simp: messages_create_def Let_def error_answer_def create_error_answer_def
        split: if_splits sum.splits option.splits prod.splits create_error.splits render_exn.splits)
  then have m: "db_ok d'" "m \<in> set (messages d')" "msg_api_key m = Some (ak_id k)" "msg_idempotency_key m = ?idem"
    using create_message_stored [OF assms(1,2)] by blast+
  then have "messages_retrieve (ByKey k) (msg_id m) d' = (200, body)"
    by (simp add: messages_retrieve_def messages_queryset_def get_row_own body)
  with m show ?thesis by blast
qed

text \<open>What a POST by a key comes to, up to the outcome of the creation.\<close>

lemma messages_create_key_cases:
  assumes "messages_create drf w e (ByKey k) rq data (d, q) = (r, d', q')"
  shows "(\<exists>body. r = Inr (400, body) \<and> d' = d \<and> q' = q) \<or>
     (r = Inl CrashNetworks \<and> MessageCreateSerializer drf w data = Inl BadNetworks \<and> d' = d \<and> q' = q) \<or>
     (r = Inr (422, ValidationErrors) \<and> d' = d \<and> q' = q) \<or>
     (\<exists>v res. MessageCreateSerializer drf w data = Inr (Some v) \<and>
        create_message e (Some (ak_id k)) (py_strip (META_get IDEMPOTENCY_HEADER_META rq)) v (d, q) = (res, d', q') \<and>
        (case res of Inl err \<Rightarrow> r = create_error_answer v err | Inr _ \<Rightarrow> \<exists>body. r = Inr (202, body)))"
proof -
  have "err = BadNetworks" if "MessageCreateSerializer drf w data = Inl err" for err
    using that by (auto simp: MessageCreateSerializer_def split: json.splits option.splits web_error.splits)
  then show ?thesis
    using assms
    by (auto simp: messages_create_def Let_def error_answer_def split: if_splits sum.splits option.splits prod.splits)
qed

text \<open>
  C26: refusals. Whatever the caller, header and body, a POST that is not answered 202 leaves
  database and task queue as they were; it is answered 400, 401, 403, 409 or 422, and it ends as
  a server error only for a malformed blocked-networks setting, an insert refused without a
  stored message of that key, a value the columns cannot hold, or rendered JSON nested beyond
  the recursion limit.
\<close>

theorem refused_post_changes_nothing:
  assumes "ce_others e d = d" and "messages_create drf w e c rq data (d, q) = (r, d', q')"
    and "\<And>body. r \<noteq> Inr (202, body)"
  shows "d' = d \<and> q' = q \<and>
     ((\<exists>st body. r = Inr (st, body) \<and> st \<in> {400, 401, 403, 409, 422}) \<or>
      (r = Inl CrashNetworks \<and> MessageCreateSerializer drf w data = Inl BadNetworks) \<or>
      (\<exists>v. MessageCreateSerializer drf w data = Inr (Some v) \<and> r \<in> {Inl CrashRecursion, Inl (CrashDatabase IntegrityError), Inl (CrashDatabase DataError)}))"
proof (cases c)
  case (ByKey k)
  have "d' = d \<and> q' = q" "r = create_error_answer v err \<Longrightarrow>
      (\<exists>st body. r = Inr (st, body) \<and> st \<in> {400, 401, 403, 409, 422}) \<or>
      r \<in> {Inl CrashRecursion, Inl (CrashDatabase IntegrityError), Inl (CrashDatabase DataError)}"
    if "create_message e ak idem v (d, q) = (Inl err, d', q')" for ak idem v err
    using create_message_refused [OF assms(1) that] create_message_unresolved [of e ak idem v d q _ "(d', q')"] that
    by (auto simp: create_error_answer_def error_answer_def split: create_error.splits render_exn.splits)
  with messages_create_key_cases [OF assms(2) [unfolded ByKey]] assms(3) show ?thesis
    by (fastforce split: sum.splits)
qed (use assms(2) in \<open>auto simp: messages_create_def error_answer_def\<close>)

end
