(* ===== verification/Relay_Tenants.thy ===== *)
theory Relay_Tenants
  imports Relay_Message_Views
begin

text \<open>
  Separation of tenants. Each API key is a tenant of the message API; what one tenant sees
  must not depend on what the others store or send. The argument is the classical one: a
  view of the state per tenant, a step that answers from its own tenant's view and leaves
  the other views alone, and hence a run whose answers to one tenant are those of the run
  with all other tenants' requests and rows removed.
\<close>

text \<open>All requests of a run, in order, with the key of each; the answers likewise.\<close>

fun answers :: "('owner \<Rightarrow> 'req \<Rightarrow> 's \<Rightarrow> 'ans \<times> 's) \<Rightarrow> ('owner \<times> 'req) list \<Rightarrow> 's \<Rightarrow> ('owner \<times> 'ans) list" where
  "answers step [] s = []"
| "answers step ((k, r) # rs) s = (k, fst (step k r s)) # answers step rs (snd (step k r s))"

fun all_fair ::
    "('req \<Rightarrow> 's \<Rightarrow> bool) \<Rightarrow> ('owner \<Rightarrow> 'req \<Rightarrow> 's \<Rightarrow> 'ans \<times> 's) \<Rightarrow> ('owner \<times> 'req) list \<Rightarrow> 's \<Rightarrow> bool" where
  "all_fair fair step [] s = True"
| "all_fair fair step ((k, r) # rs) s = (fair r s \<and> all_fair fair step rs (snd (step k r s)))"

locale tenant_steps =
  fixes tenant :: "'owner \<Rightarrow> 'id"
    and view :: "'id \<Rightarrow> 's \<Rightarrow> 's"
    and serve :: "'owner \<Rightarrow> 'req \<Rightarrow> 's \<Rightarrow> 'ans \<times> 's"
    and fair :: "'req \<Rightarrow> 's \<Rightarrow> bool"
  assumes answer_local: "fair r s \<Longrightarrow> fst (serve k r (view (tenant k) s)) = fst (serve k r s)"
    and state_local: "fair r s \<Longrightarrow> snd (serve k r (view (tenant k) s)) = view (tenant k) (snd (serve k r s))"
    and others_untouched: "fair r s \<Longrightarrow> tenant k \<noteq> i \<Longrightarrow> view i (snd (serve k r s)) = view i s"
begin

lemma purge_others:
  "all_fair fair serve rs s \<Longrightarrow>
     filter (\<lambda>(k, _). tenant k = i) (answers serve rs s) =
       answers serve (filter (\<lambda>(k, _). tenant k = i) rs) (view i s)"
proof (induction rs arbitrary: s)
  case (Cons q rs)
  obtain k r where q: "q = (k, r)" by fastforce
  then have IH: "filter (\<lambda>(k, _). tenant k = i) (answers serve rs (snd (serve k r s))) =
      answers serve (filter (\<lambda>(k, _). tenant k = i) rs) (view i (snd (serve k r s)))" and "fair r s"
    using Cons by simp_all
  then show ?case
    using q answer_local state_local others_untouched by (cases "tenant k = i") auto
qed simp

end

section \<open>The message API as such a system\<close>

text \<open>
  One request, with what it meets outside the database. Requests are served one after the
  other, so nothing commits in the middle of one.
\<close>

datatype api_request =
    PostMessage drf_fields web_env create_env request json
  | GetMessage pystr

definition serve :: "api_key \<Rightarrow> api_request \<Rightarrow> db \<Rightarrow> (view_crash + message_answer) \<times> db" where
  "serve k r d =
     (case r of
        PostMessage drf w e rq data \<Rightarrow>
          (case messages_create drf w e (ByKey k) rq data (d, []) of (a, d', _) \<Rightarrow> (a, d'))
      | GetMessage pk \<Rightarrow> (Inr (messages_retrieve (ByKey k) pk d), d))"

definition own :: "nat \<Rightarrow> db \<Rightarrow> db" where
  "own i d = d\<lparr>messages := filter (\<lambda>m. msg_api_key m = Some i) (messages d)\<rparr>"

text \<open>The ULID drawn for a new message is not in use.\<close>

definition fresh_id :: "api_request \<Rightarrow> db \<Rightarrow> bool" where
  "fresh_id r d =
     (case r of
        PostMessage drf w e rq data \<Rightarrow>
          ce_others e = (\<lambda>x. x) \<and> ce_new_ulid e \<notin> msg_id ` set (messages d)
      | GetMessage pk \<Rightarrow> True)"

lemma own_tables [simp]:
  "templates (own i d) = templates d" "template_versions (own i d) = template_versions d"
  "api_keys (own i d) = api_keys d"
  "messages (own i d) = filter (\<lambda>m. msg_api_key m = Some i) (messages d)"
  by (simp_all add: own_def)

lemma own_template_lookups [simp]:
  "alive (own i d) = alive d" "versions_of t (own i d) = versions_of t d"
  "get_template_version n (own i d) = get_template_version n d" "get_api_key n (own i d) = get_api_key n d"
  by (simp_all add: alive_def versions_of_def get_template_version_def get_api_key_def)

lemma own_resolve [simp]: "resolve_template v (own i d) = resolve_template v d"
  by (simp add: resolve_template_def alive_named_def latest_version_def versions_desc_def version_numbered_def
      cong: option.case_cong if_cong)

lemma own_read [simp]: "MessageReadSerializer (own i d) m = MessageReadSerializer d m"
  by (simp add: MessageReadSerializer_def get_template_name_def message_version_def cong: option.case_cong)

lemma own_find [simp]: "find_existing (Some i) idem (own i d) = find_existing (Some i) idem d"
  by (simp add: find_existing_def filter_filter conj_commute cong: conj_cong)

lemma own_clash:
  assumes "msg_api_key m = Some i"
  shows "list_ex (idempotency_clash m) (filter (\<lambda>m. msg_api_key m = Some i) ms) = list_ex (idempotency_clash m) ms"
  using assms by (induction ms) (auto simp: idempotency_clash_def)

lemma own_insert:
  assumes "msg_api_key m = Some i" and "msg_id m \<notin> msg_id ` set (messages d)"
  shows "insert_message m (own i d) = map_sum id (own i) (insert_message m d)"
proof -
  have "get_message (msg_id m) (own i d) = None" "get_message (msg_id m) d = None"
    using assms(2) by (auto simp: get_message_def get_row_None_iff)
  then show ?thesis using assms(1) by (simp add: insert_message_def own_clash) (simp add: own_def)
qed

lemma other_insert:
  assumes "insert_message m d = Inr d'" and "msg_api_key m \<noteq> Some i" shows "own i d' = own i d"
  using insert_messageD(1) [OF assms(1)] assms(2) by (simp add: own_def)

lemma create_own:
  assumes "ce_others e = (\<lambda>x. x)" and "ce_new_ulid e \<notin> msg_id ` set (messages d)"
  shows "create_message e (Some i) idem v (own i d, q) =
     (case create_message e (Some i) idem v (d, q) of (r, d', q') \<Rightarrow> (r, own i d', q'))"
proof -
  have "insert_message (new_message e (Some i) idem v tv r) (own i d) =
      map_sum id (own i) (insert_message (new_message e (Some i) idem v tv r) d)" for tv r
    by (rule own_insert) (use assms(2) in \<open>simp_all add: new_message_def\<close>)
  then show ?thesis
    by (simp add: create_message_def insert_and_publish_def assms(1) split: option.split sum.split)
qed

lemma create_other:
  assumes "ce_others e = (\<lambda>x. x)" and "a \<noteq> i" and "create_message e (Some a) idem v (d, q) = (r, d', q')"
  shows "own i d' = own i d"
  using create_message_cases [of e d "Some a" idem v q r d' q'] assms other_insert [of _ d d' i]
  by (auto simp: Let_def new_message_def)

lemma post_own:
  assumes "ce_others e = (\<lambda>x. x)" and "ce_new_ulid e \<notin> msg_id ` set (messages d)"
  shows "messages_create drf w e (ByKey k) rq data (own (ak_id k) d, q) =
     (case messages_create drf w e (ByKey k) rq data (d, q) of (a, d', q') \<Rightarrow> (a, own (ak_id k) d', q'))"
  by (simp add: messages_create_def Let_def create_own [OF assms] split: option.split sum.split prod.split)

lemma post_other:
  assumes "ce_others e = (\<lambda>x. x)" and "ak_id k \<noteq> i"
    and "messages_create drf w e (ByKey k) rq data (d, q) = (a, d', q')"
  shows "own i d' = own i d"
  using assms(3) create_other [OF assms(1,2)]
  by (fastforce simp: messages_create_def Let_def split: if_splits option.splits sum.splits prod.splits)

lemma get_own: "messages_retrieve (ByKey k) pk (own (ak_id k) d) = messages_retrieve (ByKey k) pk d"
  by (simp add: messages_retrieve_def messages_queryset_def cong: option.case_cong)

interpretation api: tenant_steps ak_id own serve fresh_id
proof unfold_locales
  fix r :: api_request and d :: db and k :: api_key and i :: nat
  assume fair: "fresh_id r d"
  show "fst (serve k r (own (ak_id k) d)) = fst (serve k r d)"
    using fair by (cases r) (auto simp: serve_def fresh_id_def post_own get_own split: prod.split)
  show "snd (serve k r (own (ak_id k) d)) = own (ak_id k) (snd (serve k r d))"
    using fair by (cases r) (auto simp: serve_def fresh_id_def post_own get_own split: prod.split)
  show "own i (snd (serve k r d)) = own i d" if "ak_id k \<noteq> i"
    using fair that post_other by (cases r) (auto simp: serve_def fresh_id_def split: prod.split)
qed

text \<open>
  C8: tenants do not interfere. Take any sequence of POST and GET requests of any keys, each
  POST drawing an unused ULID. The answers one key's owner gets, in order, are exactly those
  of the run that contains only that owner's requests on a database without the other keys'
  messages: neither stored messages nor requests of others, their idempotency keys and
  their failures included, can be observed.
\<close>

theorem tenants_do_not_interfere:
  assumes "all_fair fresh_id serve rs d"
  shows "filter (\<lambda>(k, _). ak_id k = i) (answers serve rs d) =
     answers serve (filter (\<lambda>(k, _). ak_id k = i) rs) (own i d)"
  using assms by (rule api.purge_others)

end
