(* ===== verification/Relay_Bucket.thy ===== *)
theory Relay_Bucket
  imports Relay_Prelude Complex_Main
begin

text \<open>
  \<open>apps/ratelimit/bucket.py\<close> and its Lua script: the token bucket. Redis runs the script
  as one step. Lua's numbers are taken as rational numbers; what is written to the hash
  goes through \<open>tostring\<close>, which keeps 14 significant digits, and is the argument \<open>tos\<close>.
  Times are Redis's clock in milliseconds. A hash that has expired reads as missing.
\<close>

record bucket =
  bk_tokens :: rat
  bk_last :: int
  bk_expires :: int

record script_reply =
  sr_allowed :: bool
  sr_tokens :: rat
  sr_retry_after_ms :: int

definition live_bucket :: "int \<Rightarrow> bucket option \<Rightarrow> bucket option" where
  "live_bucket now b = (case b of None \<Rightarrow> None | Some x \<Rightarrow> if bk_expires x \<le> now then None else Some x)"

definition refill :: "rat \<Rightarrow> rat \<Rightarrow> int \<Rightarrow> bucket option \<Rightarrow> rat" where
  "refill rate burst now b =
     (let tokens = (case b of None \<Rightarrow> burst | Some x \<Rightarrow> bk_tokens x);
          last = (case b of None \<Rightarrow> now | Some x \<Rightarrow> bk_last x);
          elapsed = (if now - last < 0 then 0 else now - last);
          tokens' = tokens + (of_int elapsed * rate) / 1000
      in if tokens' > burst then burst else tokens')"

definition ttl_s :: "rat \<Rightarrow> rat \<Rightarrow> int" where
  "ttl_s rate burst = \<lceil>burst / rate\<rceil> + 1"

text \<open>The script on a hash that is there or missing.\<close>

definition script_on ::
    "(rat \<Rightarrow> rat) \<Rightarrow> rat \<Rightarrow> rat \<Rightarrow> rat \<Rightarrow> int \<Rightarrow> bucket option \<Rightarrow> script_reply \<times> bucket" where
  "script_on tos rate burst req now b =
     (let tokens = refill rate burst now b;
          allowed = (tokens \<ge> req);
          tokens' = (if allowed then tokens - req else tokens);
          retry = (if allowed then 0 else \<lceil>(req - tokens) * 1000 / rate\<rceil>)
      in (\<lparr>sr_allowed = allowed, sr_tokens = tos tokens', sr_retry_after_ms = retry\<rparr>,
          \<lparr>bk_tokens = tos tokens', bk_last = now, bk_expires = now + 1000 * ttl_s rate burst\<rparr>))"

definition token_bucket ::
    "(rat \<Rightarrow> rat) \<Rightarrow> rat \<Rightarrow> rat \<Rightarrow> rat \<Rightarrow> int \<Rightarrow> bucket option \<Rightarrow> script_reply \<times> bucket" where
  "token_bucket tos rate burst req now b = script_on tos rate burst req now (live_bucket now b)"

section \<open>The client\<close>

record bucket_result =
  br_allowed :: bool
  br_remaining :: rat
  br_retry_after_ms :: int

definition retry_after_seconds :: "bucket_result \<Rightarrow> int" where
  "retry_after_seconds r =
     (if \<not> br_allowed r then max 1 ((br_retry_after_ms r + 999) div 1000) else 0)"

text \<open>
  The Redis server: the hashes by key, and whether the script is in its script cache,
  which a flush or restart empties. The client object remembers whether it loaded the
  script. \<open>up\<close> says whether the server answers.
\<close>

record redis =
  rd_hashes :: "pystr \<rightharpoonup> bucket"
  rd_script :: bool

datatype bucket_error = BucketValueError | RedisError | NoScriptError

definition load_script :: "redis \<Rightarrow> redis" where
  "load_script rd = rd\<lparr>rd_script := True\<rparr>"

definition evalsha ::
    "(rat \<Rightarrow> rat) \<Rightarrow> int \<Rightarrow> pystr \<Rightarrow> rat \<Rightarrow> rat \<Rightarrow> rat \<Rightarrow> redis \<Rightarrow> bucket_error + script_reply \<times> redis" where
  "evalsha tos now key rate burst req rd =
     (if \<not> rd_script rd then Inl NoScriptError
      else case token_bucket tos rate burst req now (rd_hashes rd key) of
        (r, b) \<Rightarrow> Inr (r, rd\<lparr>rd_hashes := (rd_hashes rd)(key \<mapsto> b)\<rparr>))"

definition parse_reply :: "script_reply \<Rightarrow> bucket_result" where
  "parse_reply r = \<lparr>br_allowed = sr_allowed r, br_remaining = sr_tokens r,
     br_retry_after_ms = sr_retry_after_ms r\<rparr>"

text \<open>\<open>sha\<close>: the client has a script id. Returns the new flag with the result.\<close>

definition consume ::
    "(rat \<Rightarrow> rat) \<Rightarrow> bool \<Rightarrow> int \<Rightarrow> pystr \<Rightarrow> int \<Rightarrow> int \<Rightarrow> int \<Rightarrow> bool \<times> redis
       \<Rightarrow> bucket_error + bucket_result \<times> bool \<times> redis" where
  "consume tos up now identity rate_per_min burst tokens st =
     (case st of (sha, rd) \<Rightarrow>
      if rate_per_min \<le> 0 \<or> burst \<le> 0 \<or> tokens \<le> 0 then Inl BucketValueError
      else if \<not> up then Inl RedisError
      else let rate = of_int rate_per_min / 60; key = ''rl:'' @ identity;
               rd1 = (if sha then rd else load_script rd)
           in case evalsha tos now key rate (of_int burst) (of_int tokens) rd1 of
                Inr (r, rd2) \<Rightarrow> Inr (parse_reply r, True, rd2)
              | Inl NoScriptError \<Rightarrow>
                  (case evalsha tos now key rate (of_int burst) (of_int tokens) (load_script rd1) of
                     Inr (r, rd2) \<Rightarrow> Inr (parse_reply r, True, rd2)
                   | Inl e \<Rightarrow> Inl e)
              | Inl e \<Rightarrow> Inl e)"

text \<open>The client object: the Redis client it was made with, and whether it has a script id.\<close>

datatype redis_client = FromFactory | Pooled pystr

record bucket_client =
  bc_client :: redis_client
  bc_script_sha :: bool

definition TokenBucket :: "redis_client \<Rightarrow> bucket_client" where
  "TokenBucket client = \<lparr>bc_client = client, bc_script_sha = False\<rparr>"

section \<open>Facts on one call\<close>

lemma refill_le: "refill rate burst now b \<le> burst"
  by (simp add: refill_def Let_def)

lemma refill_nonneg:
  assumes "0 < rate" and "0 < burst" and "\<And>x. b = Some x \<Longrightarrow> 0 \<le> bk_tokens x"
  shows "0 \<le> refill rate burst now b"
  using assms by (cases b) (auto simp: refill_def Let_def intro!: add_nonneg_nonneg)

text \<open>By the time a hash expires its bucket would be full again.\<close>

lemma refill_expired:
  assumes "0 < rate" and "0 < burst" and "0 \<le> bk_tokens x"
    and "bk_expires x = bk_last x + 1000 * ttl_s rate burst" and "bk_expires x \<le> now"
  shows "refill rate burst now (Some x) = burst"
proof -
  have "burst / rate \<le> of_int (ttl_s rate burst)" by (simp add: ttl_s_def) linarith
  then have "burst \<le> of_int (ttl_s rate burst) * rate"
    using assms(1) by (simp add: pos_divide_le_eq)
  moreover have "1000 * ttl_s rate burst \<le> now - bk_last x" using assms(4,5) by simp
  then have t: "1000 * of_int (ttl_s rate burst) \<le> (of_int (now - bk_last x) :: rat)"
    by (metis of_int_le_iff of_int_mult of_int_numeral)
  then have "1000 * (of_int (ttl_s rate burst) * rate) \<le> of_int (now - bk_last x) * rate"
    using assms(1) by (metis less_imp_le mult.assoc mult_right_mono)
  ultimately have full: "burst \<le> bk_tokens x + of_int (now - bk_last x) * rate / 1000"
    using assms(3) by simp
  have "0 < burst / rate" using assms(1,2) by simp
  then have "0 \<le> ttl_s rate burst" by (simp add: ttl_s_def)
  with assms(4,5) have "\<not> now - bk_last x < 0" by simp
  with full show ?thesis by (simp add: refill_def Let_def)
qed

definition wf_bucket :: "rat \<Rightarrow> rat \<Rightarrow> bucket option \<Rightarrow> bool" where
  "wf_bucket rate burst b = (case b of None \<Rightarrow> True
     | Some x \<Rightarrow> 0 \<le> bk_tokens x \<and> bk_expires x = bk_last x + 1000 * ttl_s rate burst)"

lemma token_bucket_no_expiry:
  assumes "0 < rate" and "0 < burst" and "wf_bucket rate burst b"
  shows "token_bucket tos rate burst req now b = script_on tos rate burst req now b"
proof (cases "live_bucket now b = b")
  case False
  then obtain x where b: "b = Some x" and "live_bucket now b = None" "bk_expires x \<le> now"
    by (auto simp: live_bucket_def split: option.splits if_splits)
  moreover have "refill rate burst now (Some x) = burst"
    using assms b \<open>bk_expires x \<le> now\<close> by (intro refill_expired) (auto simp: wf_bucket_def)
  moreover have "refill rate burst now None = burst" by (simp add: refill_def)
  ultimately show ?thesis by (simp add: token_bucket_def script_on_def Let_def)
qed (simp add: token_bucket_def)

text \<open>\<open>tos\<close> keeps tokens non-negative and adds at most \<open>eps\<close>.\<close>

definition rounds :: "rat \<Rightarrow> (rat \<Rightarrow> rat) \<Rightarrow> bool" where
  "rounds eps tos \<longleftrightarrow> 0 \<le> eps \<and> (\<forall>x. 0 \<le> x \<longrightarrow> 0 \<le> tos x \<and> tos x \<le> x + eps)"

lemma script_on_step:
  assumes "0 < rate" and "0 < burst" and "wf_bucket rate burst b" and "rounds eps tos"
    and "script_on tos rate burst req now b = (r, x)"
  shows "wf_bucket rate burst (Some x)" and "bk_last x = now"
    and "bk_tokens x + (if sr_allowed r then req else 0) \<le> refill rate burst now b + eps"
proof -
  let ?t = "refill rate burst now b"
  let ?left = "if req \<le> ?t then ?t - req else ?t"
  have "0 \<le> ?t" using assms(3) by (intro refill_nonneg [OF assms(1,2)]) (auto simp: wf_bucket_def)
  then have "0 \<le> ?left" by simp
  then have "0 \<le> tos ?left" and "tos ?left \<le> ?left + eps" using assms(4) unfolding rounds_def by blast+
  moreover have "x = \<lparr>bk_tokens = tos ?left, bk_last = now, bk_expires = now + 1000 * ttl_s rate burst\<rparr>"
    and "sr_allowed r \<longleftrightarrow> req \<le> ?t"
    using assms(5) by (auto simp: script_on_def Let_def)
  ultimately show "wf_bucket rate burst (Some x)" and "bk_last x = now"
    and "bk_tokens x + (if sr_allowed r then req else 0) \<le> ?t + eps"
    by (simp_all add: wf_bucket_def split: if_splits)
qed

section \<open>Sequences of calls\<close>

text \<open>The tokens granted by a sequence of calls on one bucket, each at its time for its request.\<close>

fun granted :: "(rat \<Rightarrow> rat) \<Rightarrow> rat \<Rightarrow> rat \<Rightarrow> bucket option \<Rightarrow> (int \<times> rat) list \<Rightarrow> rat" where
  "granted tos rate burst b [] = 0"
| "granted tos rate burst b ((now, req) # calls) =
     (case token_bucket tos rate burst req now b of
        (r, x) \<Rightarrow> (if sr_allowed r then req else 0) + granted tos rate burst (Some x) calls)"

lemma refill_bound:
  "0 < rate \<Longrightarrow> bk_last x \<le> now \<Longrightarrow> refill rate burst now (Some x) \<le> bk_tokens x + of_int (now - bk_last x) * rate / 1000"
  by (simp add: refill_def Let_def)

lemma granted_from:
  assumes "0 < rate" and "0 < burst" and "rounds eps tos"
  shows "wf_bucket rate burst (Some x) \<Longrightarrow> sorted (map fst calls) \<Longrightarrow> \<forall>c\<in>set calls. bk_last x \<le> fst c \<Longrightarrow>
     calls \<noteq> [] \<Longrightarrow>
     granted tos rate burst (Some x) calls \<le>
       bk_tokens x + of_int (fst (last calls) - bk_last x) * rate / 1000 + of_nat (length calls) * eps"
proof (induction calls arbitrary: x)
  case (Cons c calls)
  obtain now req where c: "c = (now, req)" by fastforce
  obtain r y where s: "script_on tos rate burst req now (Some x) = (r, y)" by fastforce
  note st = script_on_step [OF assms(1,2) Cons.prems(1) assms(3) s]
  have g: "granted tos rate burst (Some x) (c # calls) =
      (if sr_allowed r then req else 0) + granted tos rate burst (Some y) calls"
    using token_bucket_no_expiry [OF assms(1,2) Cons.prems(1)] s by (simp add: c)
  have now: "bk_last x \<le> now" using Cons.prems(3) c by simp
  have step: "(if sr_allowed r then req else 0) + bk_tokens y \<le>
      bk_tokens x + of_int (now - bk_last x) * rate / 1000 + eps"
    using st(3) refill_bound [OF assms(1) now, of burst] by linarith
  show ?case
  proof (cases "calls = []")
    case True
    moreover have "0 \<le> bk_tokens y" using st(1) by (simp add: wf_bucket_def)
    ultimately show ?thesis using g step c by simp
  next
    case False
    have "granted tos rate burst (Some y) calls \<le>
        bk_tokens y + of_int (fst (last calls) - now) * rate / 1000 + of_nat (length calls) * eps"
      using Cons.IH [OF st(1)] Cons.prems(2) c False st(2) by auto
    with g step False show ?thesis by (simp add: c algebra_simps diff_divide_distrib add_divide_distrib)
  qed
qed simp

lemma granted_bound:
  assumes "0 < rate" and "0 < burst" and "rounds eps tos" and "wf_bucket rate burst b"
    and "sorted (map fst calls)" and "calls \<noteq> []"
  shows "granted tos rate burst b calls \<le>
     burst + of_int (fst (last calls) - fst (hd calls)) * rate / 1000 + of_nat (length calls) * eps"
proof -
  obtain now req rest where c: "calls = (now, req) # rest" using assms(6) by (cases calls) auto
  obtain r y where s: "script_on tos rate burst req now b = (r, y)" by fastforce
  note st = script_on_step [OF assms(1,2,4,3) s]
  have g: "granted tos rate burst b calls = (if sr_allowed r then req else 0) + granted tos rate burst (Some y) rest"
    using token_bucket_no_expiry [OF assms(1,2,4)] s by (simp add: c)
  have first: "(if sr_allowed r then req else 0) + bk_tokens y \<le> burst + eps"
    using st(3) refill_le [of rate burst now b] by linarith
  show ?thesis
  proof (cases "rest = []")
    case True
    moreover have "0 \<le> bk_tokens y" using st(1) by (simp add: wf_bucket_def)
    ultimately show ?thesis using g first c by simp
  next
    case False
    have "granted tos rate burst (Some y) rest \<le>
        bk_tokens y + of_int (fst (last rest) - now) * rate / 1000 + of_nat (length rest) * eps"
      using granted_from [OF assms(1-3) st(1), of rest] assms(5) c False st(2) by auto
    with g first False show ?thesis by (simp add: c algebra_simps)
  qed
qed

section \<open>Properties\<close>

text \<open>
  The limit holds. For any sequence of calls on one bucket in the order of Redis's
  clock, whatever the requests and however often the hash expires in between, the tokens
  granted are at most the burst plus the rate times the time from the first call to the
  last, up to the rounding of the stored number per call.
\<close>

theorem bucket_limits_rate:
  assumes "0 < rate" and "0 < burst" and "rounds eps tos" and "wf_bucket rate burst b"
    and "sorted (map fst calls)" and "calls \<noteq> []"
  shows "granted tos rate burst b calls \<le>
     burst + of_int (fst (last calls) - fst (hd calls)) * rate / 1000 + of_nat (length calls) * eps"
  by (rule granted_bound [OF assms])

theorem bucket_limits_rate_witness:
  "granted (\<lambda>x. x) (1/2) 2 None [(0, 1), (0, 1), (0, 1), (3000, 1), (3000, 1)] \<le> 2 + 3000 * (1/2) / 1000 + 5 * 0"
  using bucket_limits_rate [of "1/2" 2 0 "\<lambda>x. x" None "[(0, 1), (0, 1), (0, 1), (3000, 1), (3000, 1)]"]
  by (simp add: rounds_def wf_bucket_def)

text \<open>
  The wait a client is told is long enough. With exact stored numbers, a refused
  request (for no more than the burst) that is repeated after \<open>retry_after_seconds\<close>, or
  any later, with no other call on the bucket in between, is allowed.
\<close>

theorem retry_after_is_enough:
  assumes "0 < rate" and "0 < burst" and "req \<le> burst" and "wf_bucket rate burst b"
    and "token_bucket (\<lambda>x. x) rate burst req now b = (r, x)" and "\<not> sr_allowed r"
    and "now + 1000 * retry_after_seconds (parse_reply r) \<le> later"
  shows "sr_allowed (fst (token_bucket (\<lambda>x. x) rate burst req later (Some x)))"
proof -
  let ?t = "refill rate burst now b"
  have s: "script_on (\<lambda>x. x) rate burst req now b = (r, x)"
    using assms(5) token_bucket_no_expiry [OF assms(1,2,4)] by simp
  then have deny: "?t < req" and retry: "sr_retry_after_ms r = \<lceil>(req - ?t) * 1000 / rate\<rceil>"
    and x: "bk_tokens x = ?t" "bk_last x = now"
    using assms(6) by (auto simp: script_on_def Let_def)
  have wf: "wf_bucket rate burst (Some x)"
    by (rule script_on_step(1) [OF assms(1,2,4) _ s, of 0]) (simp add: rounds_def)
  have "sr_retry_after_ms r \<le> 1000 * retry_after_seconds (parse_reply r)"
    using assms(6) by (simp add: retry_after_seconds_def parse_reply_def)
  with assms(7) have wait: "sr_retry_after_ms r \<le> later - now" by simp
  have "(req - ?t) * 1000 / rate \<le> of_int (sr_retry_after_ms r)" by (simp add: retry)
  also have "\<dots> \<le> of_int (later - now)" using wait by (simp only: of_int_le_iff)
  finally have enough: "req \<le> ?t + of_int (later - now) * rate / 1000"
    using assms(1) by (simp add: pos_divide_le_eq)
  have "0 < (req - ?t) * 1000 / rate" using deny assms(1) by simp
  then have "0 \<le> sr_retry_after_ms r" unfolding retry by linarith
  with wait have "\<not> later - now < 0" by simp
  with enough assms(3) x have "req \<le> refill rate burst later (Some x)" by (simp add: refill_def Let_def)
  then show ?thesis using token_bucket_no_expiry [OF assms(1,2) wf] by (simp add: script_on_def Let_def)
qed

theorem retry_after_is_enough_witness:
  "sr_allowed (fst (token_bucket (\<lambda>x. x) (1/2) 1 1 2000
     (Some \<lparr>bk_tokens = 0, bk_last = 0, bk_expires = 3000\<rparr>)))"
proof -
  let ?b = "Some \<lparr>bk_tokens = 0, bk_last = 0, bk_expires = 3000\<rparr> :: bucket option"
  have t: "ttl_s (1/2) 1 = 3" by code_simp
  have "token_bucket (\<lambda>x. x) (1/2) 1 1 0 ?b =
     (\<lparr>sr_allowed = False, sr_tokens = 0, sr_retry_after_ms = 2000\<rparr>, \<lparr>bk_tokens = 0, bk_last = 0, bk_expires = 3000\<rparr>)"
    by (simp add: token_bucket_def live_bucket_def script_on_def refill_def Let_def t)
  from retry_after_is_enough [OF _ _ _ _ this, of 2000] show ?thesis
    by (simp add: wf_bucket_def t retry_after_seconds_def parse_reply_def)
qed

text \<open>
  An expired hash makes no difference, and neither does an empty script cache. For
  positive arguments and a server that answers, \<open>consume\<close> returns a result whether or not
  the client has a script id and whether or not the server still has the script; the
  result is that of the script on the stored hash as if it never expired.
\<close>

lemma consume_always_answers:
  assumes "0 < rate_per_min" and "0 < burst" and "0 < tokens"
    and "wf_bucket (of_int rate_per_min / 60) (of_int burst) (rd_hashes rd (''rl:'' @ identity))"
  shows "\<exists>r x. script_on tos (of_int rate_per_min / 60) (of_int burst) (of_int tokens) now
        (rd_hashes rd (''rl:'' @ identity)) = (r, x) \<and>
     consume tos True now identity rate_per_min burst tokens (sha, rd) =
       Inr (parse_reply r, True,
            \<lparr>rd_hashes = (rd_hashes rd)(''rl:'' @ identity \<mapsto> x), rd_script = True\<rparr>)"
proof -
  let ?rate = "of_int rate_per_min / 60 :: rat" and ?key = "''rl:'' @ identity"
  obtain r x where s: "script_on tos ?rate (of_int burst) (of_int tokens) now (rd_hashes rd ?key) = (r, x)"
    by fastforce
  have "token_bucket tos ?rate (of_int burst) (of_int tokens) now (rd_hashes rd ?key) = (r, x)"
    using token_bucket_no_expiry [OF _ _ assms(4)] assms(1,2) s by simp
  then show ?thesis
    using assms(1-3) s by (cases rd) (auto simp: consume_def evalsha_def load_script_def Let_def)
qed

end
