(* ===== verification/Relay_Ip_Printing.thy ===== *)
theory Relay_Ip_Printing
  imports Relay_Ipaddress
begin

text \<open>
  Printing addresses is injective: a compressed IPv6 text can be expanded again, and its
  eight parts give back the sixteen bytes.
\<close>

section \<open>Compression\<close>

text \<open>A run of \<open>0\<close> parts in a list of parts: its start and length.\<close>

definition zero_run :: "pystr list \<Rightarrow> nat \<times> nat \<Rightarrow> bool" where
  "zero_run hs r \<longleftrightarrow> fst r + snd r \<le> length hs \<and> take (snd r) (drop (fst r) hs) = replicate (snd r) ''0''"

lemma zero_runs_ok:
  "length pre = i \<Longrightarrow> zero_run pre (i - len, len) \<Longrightarrow> len \<le> i \<Longrightarrow> zero_run pre best \<Longrightarrow>
     zero_run (pre @ hs) (zero_runs i len best hs)"
proof (induction i len best hs arbitrary: pre rule: zero_runs.induct)
  case (2 i len best h hs)
  have ext: "zero_run (pre @ [h]) r" if "zero_run pre r" for r
    using that by (auto simp: zero_run_def)
  show ?case
  proof (cases "h = ''0''")
    case True
    have run: "zero_run (pre @ [h]) (i - len, len + 1)"
      using 2(3-5) True by (auto simp: zero_run_def replicate_append_same)
    then show ?thesis using 2(1) [OF True, of "pre @ [h]"] 2(3-6) True ext [OF 2(6)] by (auto split: if_splits)
  next
    case False
    have "zero_run (pre @ [h]) (i + 1, 0)" using 2(3) by (simp add: zero_run_def)
    then show ?thesis using 2(2) [OF False, of "pre @ [h]"] 2(3) False ext [OF 2(6)] by simp
  qed
qed simp

definition expand :: "pystr list \<Rightarrow> pystr list" where
  "expand ps =
     (let front = takeWhile (\<lambda>p. p \<noteq> []) ps; back = rev (takeWhile (\<lambda>p. p \<noteq> []) (rev ps)) in
      if [] \<notin> set ps then ps else front @ replicate (8 - (length front + length back)) ''0'' @ back)"

lemma expand_compress:
  assumes "length hs = 8" and "[] \<notin> set hs"
  shows "expand (compress_hextets hs) = hs"
proof -
  obtain start len where z: "zero_runs 0 0 (0, 0) hs = (start, len)" by fastforce
  have ok: "zero_run hs (start, len)"
    using zero_runs_ok [of "[]" 0 0 "(0, 0)" hs] z by (simp add: zero_run_def)
  show ?thesis
  proof (cases "len > 1")
    case False
    with z assms show ?thesis by (simp add: compress_hextets_def expand_def)
  next
    case True
    let ?a = "take start hs" and ?b = "drop (start + len) hs"
    let ?pre = "if start = 0 then [[]] else []" and ?suf = "if start + len = length hs then [[]] else []"
    have c: "compress_hextets hs = ?pre @ ?a @ [[]] @ ?b @ ?suf" using z True by (simp add: compress_hextets_def)
    have a: "\<forall>p\<in>set ?a. p \<noteq> []" and b: "\<forall>p\<in>set ?b. p \<noteq> []"
      using assms(2) by (metis in_set_takeD) (metis assms(2) in_set_dropD)
    have front: "takeWhile (\<lambda>p. p \<noteq> []) (compress_hextets hs) = ?a"
      using a by (auto simp: c takeWhile_append)
    have "takeWhile (\<lambda>p. p \<noteq> []) (rev (compress_hextets hs)) = rev ?b"
      using b by (auto simp: c takeWhile_append)
    then have rear: "rev (takeWhile (\<lambda>p. p \<noteq> []) (rev (compress_hextets hs))) = ?b" by simp
    have "hs = ?a @ take len (drop start hs) @ ?b" by (metis append_take_drop_id drop_drop add.commute)
    moreover have "length ?a + length ?b = 8 - len" using ok assms(1) by (simp add: zero_run_def)
    ultimately have "hs = ?a @ replicate (8 - (length ?a + length ?b)) ''0'' @ ?b"
      using ok assms(1) by (auto simp: zero_run_def)
    moreover have "[] \<in> set (compress_hextets hs)" by (simp add: c)
    ultimately show ?thesis unfolding expand_def front rear Let_def by simp
  qed
qed


section \<open>Parts\<close>

lemma hex_strip_fill: "replicate (length s - length (hex_strip s)) CHR ''0'' @ hex_strip s = s" if "s \<noteq> []"
proof (cases "dropWhile (\<lambda>c. c = CHR ''0'') s")
  case Nil
  then have "\<forall>c\<in>set s. c = CHR ''0''" by (simp add: dropWhile_eq_Nil_conv)
  then have s: "s = replicate (length s) CHR ''0''" by (simp add: replicate_length_same)
  have "replicate (length s - 1) CHR ''0'' @ ''0'' = replicate (length s) CHR ''0''"
    using that by (cases s) (simp_all add: replicate_append_same)
  moreover have "hex_strip s = ''0''" unfolding hex_strip_def Nil by simp
  ultimately show ?thesis using s by simp
next
  case (Cons c t)
  let ?z = "takeWhile (\<lambda>c. c = CHR ''0'') s"
  have split: "?z @ hex_strip s = s" using takeWhile_dropWhile_id [of "\<lambda>c. c = CHR ''0''" s] unfolding hex_strip_def Cons by simp
  have "?z = replicate (length ?z) CHR ''0''" using set_takeWhileD by (intro replicate_length_same [symmetric]) fast
  moreover have "length s - length (hex_strip s) = length ?z"
    using arg_cong [where f = length, OF split] by simp
  ultimately show ?thesis using split by simp
qed

lemma hex_byte_eq: "hex_byte b = hex_byte c \<longleftrightarrow> b = c"
proof -
  have d: "distinct hex_digits" "length hex_digits = 16" by (simp_all add: hex_digits_def)
  have lt: "unat b < 256" "unat c < 256" using unsigned_less [of b, where ?'a = nat] unsigned_less [of c, where ?'a = nat] by simp_all
  have "unat b = unat c" if "hex_byte b = hex_byte c"
  proof -
    have "unat b div 16 = unat c div 16" "unat b mod 16 = unat c mod 16"
      using that lt d by (simp_all add: hex_byte_def nth_eq_iff_index_eq)
    then show ?thesis by (metis div_mult_mod_eq)
  qed
  then show ?thesis using word_unat_eq_iff by blast
qed

lemma hextet_str_eq:
  assumes "hextet_str w i = hextet_str v i"
  shows "(ucast (drop_bit (i + 8) w) :: byte) = ucast (drop_bit (i + 8) v) \<and> (ucast (drop_bit i w) :: byte) = ucast (drop_bit i v)"
proof -
  let ?h = "\<lambda>w :: 128 word. hexlify [ucast (drop_bit (i + 8) w), ucast (drop_bit i w)]"
  have h: "length (?h w) = 4" "?h w \<noteq> []" for w by (simp_all add: hexlify_def hex_byte_def)
  have "hex_strip (?h w) = hex_strip (?h v)" using assms by (simp add: hextet_str_def)
  then have "?h w = ?h v"
    using hex_strip_fill [OF h(2), of w] hex_strip_fill [OF h(2), of v] h(1) by metis
  then show ?thesis by (simp add: hexlify_def hex_byte_eq [symmetric]) (simp add: hex_byte_def)
qed

lemma hex_digits_no_colon: "CHR '':'' \<notin> set hex_digits"
  by (simp add: hex_digits_def)

lemma hextet_str_chars: "hextet_str w i \<noteq> []" "CHR '':'' \<notin> set (hextet_str w i)"
proof -
  show "hextet_str w i \<noteq> []" by (simp add: hextet_str_def hex_strip_def split: list.split)
  have "set (hex_byte b) \<subseteq> set hex_digits" for b
   
  proof -
    have "unat b div 16 < length hex_digits" "unat b mod 16 < length hex_digits"
      using unsigned_less [of b, where ?'a = nat] by (simp_all add: hex_digits_def)
    then show ?thesis unfolding hex_byte_def by simp
  qed
  then have "set (hexlify bs) \<subseteq> set hex_digits" for bs by (auto simp: hexlify_def)
  moreover have "set (hex_strip s) \<subseteq> set s \<union> {CHR ''0''}" for s
  proof (cases "dropWhile (\<lambda>c. c = CHR ''0'') s")
    case (Cons c t)
    have "set (dropWhile (\<lambda>c. c = CHR ''0'') s) \<subseteq> set s" using set_dropWhileD by fast
    with Cons show ?thesis by (auto simp: hex_strip_def)
  next
    case Nil
    show ?thesis unfolding hex_strip_def Nil by simp
  qed
  moreover have "CHR ''0'' \<in> set hex_digits" by (simp add: hex_digits_def)
  ultimately have "set (hextet_str w i) \<subseteq> set hex_digits" unfolding hextet_str_def by blast
  then show "CHR '':'' \<notin> set (hextet_str w i)" using hex_digits_no_colon by blast
qed

lemma compress_hextets_chars:
  "\<forall>h\<in>set hs. c \<notin> set h \<Longrightarrow> \<forall>p\<in>set (compress_hextets hs). c \<notin> set p" "hs \<noteq> [] \<Longrightarrow> compress_hextets hs \<noteq> []"
  by (auto simp: compress_hextets_def split: prod.splits dest: in_set_takeD in_set_dropD)

section \<open>Addresses\<close>

text \<open>Different addresses are printed differently.\<close>

lemma word128_bytes:
  fixes w v :: "128 word"
  assumes "\<And>i. i \<in> set [112, 96, 80, 64, 48, 32, 16, 0] \<Longrightarrow>
     (ucast (drop_bit (i + 8) w) :: byte) = ucast (drop_bit (i + 8) v) \<and> (ucast (drop_bit i w) :: byte) = ucast (drop_bit i v)"
  shows "w = v"
proof (rule bit_word_eqI)
  fix n assume n: "n < LENGTH(128)"
  have b: "bit w (i + k) = bit v (i + k)" if "(ucast (drop_bit i w) :: byte) = ucast (drop_bit i v)" "k < 8" for i k
    using arg_cong [where f = "\<lambda>x. bit x k", OF that(1)] that(2) by (simp add: bit_simps)
  let ?i = "16 * (n div 16)"
  have "n div 16 < 8" using n by simp
  then have "n div 16 \<in> set [0..<8]" by simp
  then have i: "?i \<in> set [112, 96, 80, 64, 48, 32, 16, 0]" by (auto simp: upt_rec)
  have n': "n = ?i + n mod 16" by simp
  show "bit w n = bit v n"
  proof (cases "n mod 16 < 8")
    case True
    then show ?thesis using b [of ?i "n mod 16"] assms [OF i] n' by simp
  next
    case False
    then have "n mod 16 - 8 < 8" "?i + 8 + (n mod 16 - 8) = n" by simp_all
    then show ?thesis using b [of "?i + 8" "n mod 16 - 8"] assms [OF i] by metis
  qed
qed

lemma str_ipv6_inject: "str_ipv6 w = str_ipv6 v \<longleftrightarrow> w = v"
proof
  assume eq: "str_ipv6 w = str_ipv6 v"
  let ?is = "[112, 96, 80, 64, 48, 32, 16, 0] :: nat list"
  let ?f = "\<lambda>w. map (hextet_str w) ?is"
  have parts: "py_split (CHR '':'') (str_ipv6 w) = compress_hextets (?f w)" for w
    unfolding str_ipv6_def
    by (intro py_split_join compress_hextets_chars) (auto simp: hextet_str_chars)
  have "expand (compress_hextets (?f w)) = ?f w" for w
    by (intro expand_compress) (auto simp: hextet_str_chars dest: sym [of "[]"])
  with parts eq have "?f w = ?f v" by metis
  then have "hextet_str w i = hextet_str v i" if "i \<in> set ?is" for i using that by auto
  then show "w = v" by (intro word128_bytes hextet_str_eq)
qed simp

lemma and_ff_octets:
  fixes w v :: "32 word"
  assumes "\<forall>i\<in>{24, 16, 8, 0}. drop_bit i w AND 0xff = drop_bit i v AND 0xff"
  shows "w = v"
proof (rule bit_word_eqI)
  fix n assume n: "n < LENGTH(32)"
  have m: "(0xff :: 32 word) = mask 8" by (simp add: mask_eq_exp_minus_1)
  have oct: "bit (drop_bit i w AND 0xff) k = bit (drop_bit i v AND 0xff) k" if "i \<in> {24, 16, 8, 0}" for i k
    using assms that by metis
  have *: "bit w (i + k) = bit v (i + k)" if "i \<in> {24, 16, 8, 0}" "k < 8" for i k
    using oct [OF that(1), of k] that(2) by (simp add: m bit_and_iff bit_drop_bit_eq bit_mask_iff)
  consider "n < 8" | "8 \<le> n" "n < 16" | "16 \<le> n" "n < 24" | "24 \<le> n" "n < 32" using n by force
  then show "bit w n = bit v n"
    using * [of 0 n] * [of 8 "n - 8"] * [of 16 "n - 16"] * [of 24 "n - 24"] by cases auto
qed

lemma str_ipv4_inject: "str_ipv4 w = str_ipv4 v \<longleftrightarrow> w = v"
proof
  assume eq: "str_ipv4 w = str_ipv4 v"
  let ?f = "\<lambda>w::32 word. map (\<lambda>i. str_nat (unat (drop_bit i w AND 0xff))) [24, 16, 8, 0]"
  have dotfree: "\<forall>s\<in>set (?f w). CHR ''.'' \<notin> set s" for w
    using str_nat_digits by (auto simp: ascii_digit_def code_point_def dest!: str_nat_digits)
  have "py_split (CHR ''.'') (str_ipv4 w) = ?f w" for w
    unfolding str_ipv4_def using py_split_join [of "?f w" "CHR ''.''"] dotfree by simp
  with eq have "?f w = ?f v" by metis
  then show "w = v" by (intro and_ff_octets) (simp add: word_unat_eq_iff)
qed simp

end
