(* ===== verification/Relay_Middleware.thy ===== *)
theory Relay_Middleware
  imports Relay_Security Relay_Bucket Relay_Ip_Printing
begin

text \<open>
  \<open>apps/core/middleware.py\<close> and \<open>apps/core/health.py\<close>: request ids, rate limiting and
  health probes. The rest of the chain is an argument: a function from the request and the
  rest of the program's state to a response, or the exception it raises, and the state after.
\<close>

type_synonym ('e, 'w) handler = "request \<Rightarrow> 'w \<Rightarrow> ('e + response) \<times> 'w"

section \<open>Request ids\<close>

definition REQUEST_ID_HEADER :: pystr where "REQUEST_ID_HEADER = ''X-Request-ID''"
definition MAX_ID_LENGTH :: nat where "MAX_ID_LENGTH = 64"

text \<open>\<open>str.isalnum\<close> on one character below U+0100.\<close>

definition isalnum :: "char \<Rightarrow> bool" where
  "isalnum c = (let n = code_point c in
     48 \<le> n \<and> n \<le> 57 \<or> 65 \<le> n \<and> n \<le> 90 \<or> 97 \<le> n \<and> n \<le> 122 \<or>
     n \<in> {0xaa, 0xb2, 0xb3, 0xb5, 0xb9, 0xba, 0xbc, 0xbd, 0xbe} \<or> 0xc0 \<le> n \<and> n \<noteq> 0xd7 \<and> n \<noteq> 0xf7)"

definition coerce_incoming :: "pystr \<Rightarrow> pystr option" where
  "coerce_incoming raw =
     (let value = py_strip raw in
      if value = [] \<or> length value > MAX_ID_LENGTH then None
      else if \<not> list_all (\<lambda>c. isalnum c \<or> c \<in> set ''-_'') value then None
      else Some value)"

text \<open>
  The context variable of \<open>core/logging.py\<close>: the id bound at the moment, if any. Binding
  returns the token that restores the previous value.
\<close>

definition get_request_id :: "pystr option \<Rightarrow> pystr option" where
  "get_request_id ctx = ctx"

definition set_request_id :: "pystr \<Rightarrow> pystr option \<Rightarrow> pystr option \<times> pystr option" where
  "set_request_id v ctx = (ctx, Some v)"

definition reset_request_id :: "pystr option \<Rightarrow> pystr option \<Rightarrow> pystr option" where
  "reset_request_id token ctx = token"

text \<open>
  The handler runs with the request id bound. An answer of 400 or more is logged, with the
  id that is bound then; the log is returned. The binding is undone whether the handler
  returns or raises.
\<close>

definition request_id_middleware ::
    "pystr \<Rightarrow> (pystr option \<Rightarrow> ('e, 'w) handler) \<Rightarrow> request \<Rightarrow> 'w \<Rightarrow> pystr option
       \<Rightarrow> ('e + response) \<times> 'w \<times> (pystr option \<times> nat) list \<times> pystr option" where
  "request_id_middleware new_ulid get_response rq w ctx =
     (let incoming = META_get ''HTTP_X_REQUEST_ID'' rq;
          request_id = (case coerce_incoming incoming of None \<Rightarrow> new_ulid | Some v \<Rightarrow> v);
          rq' = rq\<lparr>rq_request_id := Some request_id\<rparr>
      in case set_request_id request_id ctx of (token, ctx1) \<Rightarrow>
         case get_response ctx1 rq' w of
           (Inl e, w') \<Rightarrow> (Inl e, w', [], reset_request_id token ctx1)
         | (Inr rs, w') \<Rightarrow>
             (Inr (set_header REQUEST_ID_HEADER request_id rs), w',
              if rs_status rs \<ge> 400 then [(get_request_id ctx1, rs_status rs)] else [],
              reset_request_id token ctx1))"

section \<open>Client addresses\<close>

definition bucket_address :: "pystr \<Rightarrow> pystr option" where
  "bucket_address raw =
     (case ip_address (fst (py_partition (CHR ''%'') raw)) of
        None \<Rightarrow> None
      | Some (V4 w) \<Rightarrow> Some (str_ipv4 w)
      | Some (V6 w _) \<Rightarrow>
          (case ipv4_mapped w of
             Some x \<Rightarrow> Some (str_ipv4 x)
           | None \<Rightarrow> Some (str_ipv6 (w AND netmask 64) @ ''/64'')))"

definition forwarded_chain :: "pystr \<Rightarrow> pystr list" where
  "forwarded_chain forwarded = filter (\<lambda>p. p \<noteq> []) (map py_strip (py_split (CHR '','') forwarded))"

definition remote_bucket :: "request \<Rightarrow> pystr" where
  "remote_bucket rq =
     (let remote = META_get ''REMOTE_ADDR'' rq in
      case bucket_address remote of
        Some b \<Rightarrow> if b \<noteq> [] then b else if remote \<noteq> [] then remote else ''unknown''
      | None \<Rightarrow> if remote \<noteq> [] then remote else ''unknown'')"

definition client_ip :: "int \<Rightarrow> request \<Rightarrow> pystr" where
  "client_ip hops rq =
     (if hops > 0 then
        (let chain = forwarded_chain (META_get ''HTTP_X_FORWARDED_FOR'' rq) in
         if int (length chain) \<ge> hops then
           (case bucket_address (chain ! (length chain - nat hops)) of
              Some b \<Rightarrow> b
            | None \<Rightarrow> remote_bucket rq)
         else remote_bucket rq)
      else remote_bucket rq)"

section \<open>Rate limiting\<close>

record limits =
  lm_enabled :: bool
  lm_default_per_min :: int
  lm_default_burst :: int
  lm_auth_per_min :: int
  lm_auth_burst :: int
  lm_num_proxies :: int

text \<open>The settings of \<open>settings/base.py\<close>; \<open>env_bool\<close> and \<open>env_int\<close> read the environment.\<close>

definition base_limits :: "(pystr \<Rightarrow> bool \<Rightarrow> bool) \<Rightarrow> (pystr \<Rightarrow> int \<Rightarrow> int) \<Rightarrow> limits" where
  "base_limits env_bool env_int =
     \<lparr>lm_enabled = env_bool ''RATE_LIMIT_ENABLED'' True,
      lm_default_per_min = env_int ''RATE_LIMIT_DEFAULT_PER_MIN'' 100,
      lm_default_burst = env_int ''RATE_LIMIT_DEFAULT_BURST'' 200,
      lm_auth_per_min = env_int ''RATE_LIMIT_AUTH_PER_MIN'' 10,
      lm_auth_burst = env_int ''RATE_LIMIT_AUTH_BURST'' 10,
      lm_num_proxies = env_int ''NUM_PROXIES'' 0\<rparr>"

definition AUTH_PATHS :: "pystr list" where
  "AUTH_PATHS = [''/api/v1/auth/'', ''/admin/login/'']"

definition derive ::
    "limits \<Rightarrow> pystr \<Rightarrow> db \<Rightarrow> request \<Rightarrow> security_error + (pystr \<times> int \<times> int) option \<times> request" where
  "derive lm pepper d rq =
     (let path = rq_path rq; ip = client_ip (lm_num_proxies lm) rq in
      if list_ex (py_startswith path) AUTH_PATHS then
        Inr (Some (''auth-ip:'' @ ip, lm_auth_per_min lm, lm_auth_burst lm), rq)
      else if \<not> py_startswith path ''/api/v1/'' then Inr (None, rq)
      else case resolve_api_key pepper d rq of
        Inl e \<Rightarrow> Inl e
      | Inr (Some k, rq') \<Rightarrow>
          Inr (Some (''key:'' @ str_nat (ak_id k), int (ak_rate_limit_per_min k), int (ak_burst k)), rq')
      | Inr (None, rq') \<Rightarrow>
          Inr (Some (''ip:'' @ ip, lm_default_per_min lm, lm_default_burst lm), rq'))"

definition too_many_requests :: "bucket_result \<Rightarrow> response" where
  "too_many_requests r =
     set_header ''X-RateLimit-Remaining'' ''0''
       (set_header ''Retry-After'' (str_int (retry_after_seconds r))
         (json_response 429 (JObj [(''code'', JStr ''rate_limited''), (''detail'', JStr ''rate limit exceeded'')])))"

datatype 'e limit_error = HandlerRaised 'e | LimitValueError | LimitSecurity security_error

text \<open>
  The limiter's surroundings: rounding of stored numbers, whether Redis answers, its clock;
  whether a client factory is configured, the Redis URL and which URLs \<open>redis.from_url\<close>
  accepts (on others it raises \<open>ValueError\<close>).
\<close>

record limiter_env =
  le_tos :: "rat \<Rightarrow> rat"
  le_up :: bool
  le_now :: int
  le_factory :: bool
  le_redis_url :: pystr
  le_from_url :: "pystr \<Rightarrow> bool"

text \<open>The state kept by the middleware object and Redis: the bucket is made on first use.\<close>

type_synonym limiter = "bucket_client option \<times> redis"

definition make_client :: "limiter_env \<Rightarrow> redis_client option" where
  "make_client le = (if le_factory le then Some FromFactory
     else if le_from_url le (le_redis_url le) then Some (Pooled (le_redis_url le)) else None)"

definition get_bucket :: "limiter_env \<Rightarrow> bucket_client option \<Rightarrow> bucket_client option" where
  "get_bucket le bucket = (case bucket of
       None \<Rightarrow> (case make_client le of None \<Rightarrow> None | Some c \<Rightarrow> Some (TokenBucket c))
     | Some b \<Rightarrow> Some b)"

definition get_and_consume :: "limiter_env \<Rightarrow> pystr \<Rightarrow> int \<Rightarrow> int \<Rightarrow> limiter \<Rightarrow> (bucket_error + bucket_result) \<times> limiter" where
  "get_and_consume le identity rate burst st =
     (case st of (bucket, rd) \<Rightarrow>
      case get_bucket le bucket of
        None \<Rightarrow> (Inl BucketValueError, st)
      | Some b \<Rightarrow>
          (case consume (le_tos le) (le_up le) (le_now le) identity rate burst 1 (bc_script_sha b, rd) of
             Inl err \<Rightarrow> (Inl err, Some b, rd)
           | Inr (r, sha, rd') \<Rightarrow> (Inr r, Some (b\<lparr>bc_script_sha := sha\<rparr>), rd')))"

definition run_handler :: "('e, 'w) handler \<Rightarrow> ('e limit_error, 'w) handler" where
  "run_handler h rq w = (case h rq w of (Inl e, w') \<Rightarrow> (Inl (HandlerRaised e), w') | (Inr rs, w') \<Rightarrow> (Inr rs, w'))"

definition truncate_rat :: "rat \<Rightarrow> int" where
  "truncate_rat x = (if x < 0 then \<lceil>x\<rceil> else \<lfloor>x\<rfloor>)"

definition rate_limit_middleware ::
    "limits \<Rightarrow> limiter_env \<Rightarrow> pystr \<Rightarrow> db \<Rightarrow> ('e, 'w) handler \<Rightarrow> request \<Rightarrow> limiter \<Rightarrow> 'w
       \<Rightarrow> (('e limit_error + response) \<times> 'w) \<times> limiter" where
  "rate_limit_middleware lm le pepper d get_response rq st w =
     (if \<not> lm_enabled lm then (run_handler get_response rq w, st)
      else case derive lm pepper d rq of
        Inl e \<Rightarrow> ((Inl (LimitSecurity e), w), st)
      | Inr (None, rq') \<Rightarrow> (run_handler get_response rq' w, st)
      | Inr (Some (identity, rate, burst), rq') \<Rightarrow>
          (case get_and_consume le identity rate burst st of
             (Inl BucketValueError, st') \<Rightarrow> ((Inl LimitValueError, w), st')
           | (Inl _, st') \<Rightarrow> (run_handler get_response rq' w, st')
           | (Inr result, st') \<Rightarrow>
               if \<not> br_allowed result then ((Inr (too_many_requests result), w), st')
               else case run_handler get_response rq' w of
                 (Inl e, w') \<Rightarrow> ((Inl e, w'), st')
               | (Inr rs, w') \<Rightarrow>
                   ((Inr (set_header ''X-RateLimit-Remaining''
                           (str_int (max 0 (truncate_rat (br_remaining result)))) rs), w'), st')))"

section \<open>Health probes\<close>

text \<open>
  What the probes meet: whether the query runs, whether a test factory is configured, the
  Redis URL, whether a client can be made for it and whether a client answers a ping. The
  clients the process keeps (\<open>_redis_clients\<close>) are the list of their URLs.
\<close>

record probe_env =
  pe_query_ok :: bool
  pe_factory :: bool
  pe_redis_url :: pystr
  pe_from_url :: "pystr \<Rightarrow> bool"
  pe_ping :: "redis_client \<Rightarrow> bool"

definition make_redis :: "probe_env \<Rightarrow> pystr list \<Rightarrow> redis_client option \<times> pystr list" where
  "make_redis e clients =
     (if pe_factory e then (Some FromFactory, clients)
      else let url = pe_redis_url e in
        if url \<notin> set clients then
          if pe_from_url e url then (Some (Pooled url), clients @ [url]) else (None, clients)
        else (Some (Pooled url), clients))"

definition check_db :: "probe_env \<Rightarrow> (pystr \<times> json) list \<Rightarrow> bool \<times> (pystr \<times> json) list" where
  "check_db e checks =
     (if pe_query_ok e then (True, checks @ [(''db'', JStr ''ok'')]) else (False, checks @ [(''db'', JStr ''error'')]))"

definition check_redis ::
    "probe_env \<Rightarrow> (pystr \<times> json) list \<Rightarrow> pystr list \<Rightarrow> bool \<times> (pystr \<times> json) list \<times> pystr list" where
  "check_redis e checks clients =
     (case make_redis e clients of
        (Some c, clients') \<Rightarrow>
          if pe_ping e c then (True, checks @ [(''redis'', JStr ''ok'')], clients')
          else (False, checks @ [(''redis'', JStr ''error'')], clients')
      | (None, clients') \<Rightarrow> (False, checks @ [(''redis'', JStr ''error'')], clients'))"

definition live :: response where
  "live = json_response 200 (JObj [(''status'', JStr ''ok'')])"

definition ready :: "probe_env \<Rightarrow> pystr list \<Rightarrow> response \<times> pystr list" where
  "ready e clients =
     (case check_db e [] of (database_ok, checks1) \<Rightarrow>
      case check_redis e checks1 clients of (redis_ok, checks, clients') \<Rightarrow>
      let overall_ok = (database_ok \<and> redis_ok) in
      (json_response (if overall_ok then 200 else 503)
         (JObj [(''status'', JStr (if overall_ok then ''ok'' else ''degraded'')), (''checks'', JObj checks)]), clients'))"

definition probe_for :: "probe_env \<Rightarrow> pystr \<Rightarrow> (pystr list \<Rightarrow> response \<times> pystr list) option" where
  "probe_for e path_info =
     (if path_info = ''/health/live'' then Some (\<lambda>clients. (live, clients))
      else if path_info = ''/health/ready'' then Some (ready e) else None)"

definition health_probe_middleware ::
    "probe_env \<Rightarrow> ('e, 'w) handler \<Rightarrow> request \<Rightarrow> 'w \<Rightarrow> pystr list \<Rightarrow> (('e + response) \<times> 'w) \<times> pystr list" where
  "health_probe_middleware e get_response rq w clients =
     (case probe_for e (rq_path rq) of
        Some probe \<Rightarrow>
          if rq_method rq = GET \<or> rq_method rq = HEAD
          then (case probe clients of (rs, clients') \<Rightarrow> ((Inr rs, w), clients'))
          else (get_response rq w, clients)
      | None \<Rightarrow> (get_response rq w, clients))"

text \<open>However many probes are answered, the process keeps at most one client per Redis URL.\<close>

lemma probes_reuse_client:
  assumes "distinct clients" and "set clients \<subseteq> {pe_redis_url e}"
  shows "length (snd (health_probe_middleware e h rq w clients)) \<le> 1 \<and>
     distinct (snd (health_probe_middleware e h rq w clients)) \<and>
     set (snd (health_probe_middleware e h rq w clients)) \<subseteq> {pe_redis_url e}"
proof -
  have "snd (ready e clients) \<in> {clients, clients @ [pe_redis_url e]} \<and>
      (snd (ready e clients) = clients @ [pe_redis_url e] \<longrightarrow> pe_redis_url e \<notin> set clients)"
    by (auto simp: ready_def check_db_def check_redis_def make_redis_def Let_def split: prod.splits option.splits)
  then have r: "distinct (snd (ready e clients)) \<and> set (snd (ready e clients)) \<subseteq> {pe_redis_url e}"
    using assms by auto
  have "length xs \<le> 1" if "distinct xs" "set xs \<subseteq> {pe_redis_url e}" for xs
    using that card_mono [of "{pe_redis_url e}" "set xs"] by (simp add: distinct_card)
  then show ?thesis
    using r assms by (auto simp: health_probe_middleware_def probe_for_def split: prod.split)
qed

section \<open>Facts\<close>

lemma forwarded_chain_append:
  "forwarded_chain (p @ CHR '','' # t) = forwarded_chain p @ forwarded_chain t"
  by (simp add: forwarded_chain_def py_split_concat)

lemma remote_bucket_forwarded:
  "remote_bucket (rq\<lparr>rq_meta := (rq_meta rq)(''HTTP_X_FORWARDED_FOR'' \<mapsto> v)\<rparr>) = remote_bucket rq"
  by (simp add: remote_bucket_def META_get_def)

lemma consume_positive:
  assumes "0 < rate" and "0 < burst" and "up"
  shows "\<exists>r st'. consume tos up now identity rate burst 1 st = Inr (r, st')"
  using assms by (cases st) (auto simp: consume_def evalsha_def load_script_def Let_def split: prod.splits)

lemma consume_down:
  "0 < rate \<Longrightarrow> 0 < burst \<Longrightarrow> consume tos False now identity rate burst 1 st = Inl RedisError"
  by (cases st) (simp add: consume_def)

section \<open>Properties\<close>

text \<open>
  The id a request runs under: the incoming one, trimmed, of at most 64 characters and with
  nothing but letters, digits, dash and underscore, or a fresh one.
\<close>

definition usable_id :: "pystr \<Rightarrow> request \<Rightarrow> pystr \<Rightarrow> bool" where
  "usable_id new_ulid rq rid \<longleftrightarrow> rid = new_ulid \<or>
     rid = py_strip (META_get ''HTTP_X_REQUEST_ID'' rq) \<and> rid \<noteq> [] \<and> length rid \<le> 64 \<and>
     (\<forall>c\<in>set rid. isalnum c \<or> c = CHR ''-'' \<or> c = CHR ''_'')"

text \<open>
  The same id is bound while the rest of the chain runs, is on the line logged for an error
  answer and on the response; the binding is undone whether the rest returned or raised.
\<close>

lemma request_id_is_safe:
  assumes "request_id_middleware new_ulid get_response rq w ctx = (out, w', logged, ctx')"
  shows "\<exists>rid r. usable_id new_ulid rq rid \<and> ctx' = ctx \<and>
     get_response (Some rid) (rq\<lparr>rq_request_id := Some rid\<rparr>) w = (r, w') \<and>
     out = (case r of Inl e \<Rightarrow> Inl e | Inr rs \<Rightarrow> Inr (set_header ''X-Request-ID'' rid rs)) \<and>
     logged = (case r of Inl e \<Rightarrow> [] | Inr rs \<Rightarrow> if rs_status rs < 400 then [] else [(Some rid, rs_status rs)])"
proof -
  define rid where "rid = (case coerce_incoming (META_get ''HTTP_X_REQUEST_ID'' rq) of None \<Rightarrow> new_ulid | Some v \<Rightarrow> v)"
  have "usable_id new_ulid rq rid"
    by (auto simp: usable_id_def rid_def coerce_incoming_def Let_def MAX_ID_LENGTH_def list_all_iff)
  moreover obtain r w1 where "get_response (Some rid) (rq\<lparr>rq_request_id := Some rid\<rparr>) w = (r, w1)" by fastforce
  ultimately show ?thesis
    using assms
    by (cases r) (auto simp: request_id_middleware_def Let_def rid_def [symmetric] REQUEST_ID_HEADER_def
        set_request_id_def get_request_id_def reset_request_id_def)
qed

text \<open>
  The forwarded header cannot be used to dodge a limit. Behind \<open>hops\<close> trusted proxies,
  whatever a client puts in front of the entries the proxies append does not change the
  address its requests are counted under.
\<close>

theorem forwarded_prefix_ignored:
  assumes "0 < hops" and "hops \<le> int (length (forwarded_chain appended))"
  shows "client_ip hops (rq\<lparr>rq_meta := (rq_meta rq)(''HTTP_X_FORWARDED_FOR'' \<mapsto> sent @ '','' @ appended)\<rparr>) =
     client_ip hops (rq\<lparr>rq_meta := (rq_meta rq)(''HTTP_X_FORWARDED_FOR'' \<mapsto> appended)\<rparr>)"
proof -
  let ?p = "forwarded_chain sent" and ?t = "forwarded_chain appended"
  have "length (?p @ ?t) - nat hops = length ?p + (length ?t - nat hops)" using assms by simp
  then have "(?p @ ?t) ! (length (?p @ ?t) - nat hops) = ?t ! (length ?t - nat hops)"
    by (simp only: nth_append_length_plus)
  then show ?thesis
    using assms
    by (simp add: client_ip_def META_get_def forwarded_chain_append remote_bucket_forwarded Let_def
        cong: option.case_cong)
qed

lemma too_many_requests_headers:
  assumes "\<not> br_allowed r"
  shows "rs_status (too_many_requests r) = 429" "1 \<le> retry_after_seconds r"
    "header ''Retry-After'' (too_many_requests r) = Some (str_int (retry_after_seconds r))"
    "header ''X-RateLimit-Remaining'' (too_many_requests r) = Some ''0''"
  using assms by (simp_all add: too_many_requests_def json_response_def retry_after_seconds_def)

text \<open>
  What tells two clients apart: the IPv4 address, also when it comes mapped into IPv6, or
  the upper 64 bits of the IPv6 address.
\<close>

definition client_net :: "ip \<Rightarrow> 32 word + 128 word" where
  "client_net x = (case x of
       V4 w \<Rightarrow> Inl w
     | V6 w _ \<Rightarrow> (case ipv4_mapped w of Some v \<Rightarrow> Inl v | None \<Rightarrow> Inr (drop_bit 64 w)))"

lemma str_ipv4_no_slash: "CHR ''/'' \<notin> set (str_ipv4 w)"
proof -
  have "CHR ''/'' \<notin> set (str_nat n)" for n
    using str_nat_digits by (auto simp: ascii_digit_def code_point_def dest!: str_nat_digits)
  then show ?thesis by (simp add: str_ipv4_def)
qed

lemma str_ipv4_not_ipv6: "str_ipv4 v \<noteq> str_ipv6 w @ ''/64''"
  using str_ipv4_no_slash [of v] by auto

lemma and_netmask_eq: "v AND netmask 64 = w AND netmask 64 \<longleftrightarrow> drop_bit 64 v = drop_bit 64 w" for v w :: "128 word"
proof -
  have "drop_bit 64 (w AND netmask 64) = drop_bit 64 w" for w :: "128 word"
    by (rule bit_word_eqI) (auto simp: and_netmask bit_simps dest: bit_imp_le_length)
  then have "drop_bit 64 v = drop_bit 64 w" if "v AND netmask 64 = w AND netmask 64" using that by metis
  then show ?thesis by (auto simp: and_netmask)
qed

text \<open>
  Addresses and buckets. Requests from two valid addresses share a bucket exactly when
  the addresses belong to the same client network: the same IPv4 address, mapped or not, or
  the same /64 of IPv6. So an IPv6 client cannot leave its bucket by changing the lower 64
  bits of its address or its zone id, and nobody else is charged for it.
\<close>

theorem bucket_address_by_network:
  assumes "ip_address (fst (py_partition (CHR ''%'') a)) = Some x"
    and "ip_address (fst (py_partition (CHR ''%'') b)) = Some y"
  shows "bucket_address a = bucket_address b \<longleftrightarrow> client_net x = client_net y"
  using assms
  by (auto simp: bucket_address_def client_net_def str_ipv4_inject str_ipv6_inject and_netmask_eq
      str_ipv4_not_ipv6 str_ipv4_not_ipv6 [symmetric] split: ip.split option.split)

section \<open>The properties on concrete requests\<close>

definition ex_get :: request where
  "ex_get = \<lparr>rq_method = GET, rq_path = ''/api/v1/messages/'',
     rq_meta = [''HTTP_X_REQUEST_ID'' \<mapsto> '' abc-1 '', ''REMOTE_ADDR'' \<mapsto> ''10.0.0.9''],
     rq_resolved = None, rq_request_id = None\<rparr>"

theorem forwarded_prefix_ignored_witness:
  "client_ip 1 (ex_get\<lparr>rq_meta := (rq_meta ex_get)(''HTTP_X_FORWARDED_FOR'' \<mapsto> ''6.6.6.6'' @ '','' @ ''8.8.4.4'')\<rparr>) =
   client_ip 1 (ex_get\<lparr>rq_meta := (rq_meta ex_get)(''HTTP_X_FORWARDED_FOR'' \<mapsto> ''8.8.4.4'')\<rparr>)"
proof -
  have "(1::int) \<le> int (length (forwarded_chain ''8.8.4.4''))" by code_simp
  then show ?thesis by (intro forwarded_prefix_ignored) simp_all
qed

definition ex_limits :: limits where
  "ex_limits = \<lparr>lm_enabled = True, lm_default_per_min = 100, lm_default_burst = 200, lm_auth_per_min = 10,
     lm_auth_burst = 10, lm_num_proxies = 0\<rparr>"

definition ex_known_key :: api_key where
  "ex_known_key = \<lparr>ak_id = 7, ak_name = ''shop'', ak_key_id = ''nr_0'', ak_hashed_secret = [],
     ak_webhook_secret = [], ak_rate_limit_per_min = 60, ak_burst = 5, ak_is_active = True, ak_created_at = 0,
     ak_revoked_at = None\<rparr>"

lemma ex_derive:
  "derive ex_limits ''p'' d (ex_get\<lparr>rq_resolved := Some (Some ex_known_key)\<rparr>) =
     Inr (Some (''key:'' @ str_nat 7, 60, 5), ex_get\<lparr>rq_resolved := Some (Some ex_known_key)\<rparr>)"
  by (simp add: derive_def ex_get_def AUTH_PATHS_def py_startswith_def resolve_api_key_def ex_known_key_def Let_def)

theorem bucket_address_by_network_witness:
  "bucket_address ''2606:4700::1'' = bucket_address ''2606:4700::2:3%eth0''"
proof -
  have "ip_address (fst (py_partition (CHR ''%'') ''2606:4700::1'')) = Some (V6 0x26064700000000000000000000000001 None)"
    and "ip_address (fst (py_partition (CHR ''%'') ''2606:4700::2:3%eth0'')) = Some (V6 0x26064700000000000000000000020003 None)"
    by code_simp+
  moreover have "ipv4_mapped 0x26064700000000000000000000000001 = None"
    "ipv4_mapped 0x26064700000000000000000000020003 = None"
    "drop_bit 64 (0x26064700000000000000000000000001 :: 128 word) = drop_bit 64 0x26064700000000000000000000020003"
    by code_simp+
  ultimately show ?thesis
    by (subst bucket_address_by_network) (assumption | simp add: client_net_def)+
qed

end
