(* ===== verification/Relay_Site.thy ===== *)
theory Relay_Site
  imports Relay_Middleware Relay_Message_Views
begin

text \<open>
  A request on its way through the site: rate limiting, authentication and the message
  view, in the order of \<open>MIDDLEWARE\<close> and \<open>DEFAULT_AUTHENTICATION_CLASSES\<close> in
  \<open>settings/base.py\<close>. Token and session authentication belong to the framework; \<open>other\<close>
  is the user they find, if any.
\<close>

definition caller_of :: "pystr \<Rightarrow> db \<Rightarrow> (request \<Rightarrow> user option) \<Rightarrow> request \<Rightarrow> auth_error + caller \<times> request" where
  "caller_of pepper d other rq =
     (case authenticate pepper d rq of
        Inl e \<Rightarrow> Inl e
      | Inr (Some (_, k), rq') \<Rightarrow> Inr (ByKey k, rq')
      | Inr (None, rq') \<Rightarrow> Inr (case other rq' of None \<Rightarrow> Anonymous | Some u \<Rightarrow> ByUser u, rq'))"

datatype site_crash = ViewCrash view_crash | NoPepper

definition post_message ::
    "pystr \<Rightarrow> (request \<Rightarrow> user option) \<Rightarrow> drf_fields \<Rightarrow> web_env \<Rightarrow> create_env \<Rightarrow> request \<Rightarrow> json \<Rightarrow> db \<times> task list
       \<Rightarrow> (site_crash + message_answer) \<times> db \<times> task list" where
  "post_message pepper other drf w e rq data s =
     (case caller_of pepper (fst s) other rq of
        Inl (AuthenticationFailed msg) \<Rightarrow> (Inr (401, Detail msg), s)
      | Inl (AuthRuntimeError _) \<Rightarrow> (Inl NoPepper, s)
      | Inr (c, rq') \<Rightarrow>
          (case messages_create drf w e c rq' data s of
             (Inl crash, s') \<Rightarrow> (Inl (ViewCrash crash), s')
           | (Inr a, s') \<Rightarrow> (Inr a, s')))"

section \<open>Properties\<close>

lemma caller_of_key:
  assumes "memo_ok pepper d rq" and "caller_of pepper d other rq = Inr (ByKey k, rq')"
  shows "\<exists>secret. k \<in> set (api_keys d) \<and> ak_is_active k \<and> ak_revoked_at k = None \<and>
     META_get API_KEY_HEADER_META rq = ak_key_id k @ ''_'' @ secret \<and>
     ak_hashed_secret k = hmac_sha256 (utf8 pepper) (utf8 secret)"
proof -
  obtain who rq'' where who: "authenticate pepper d rq = Inr (who, rq'')" "\<exists>p. who = Some (p, k)"
    using assms(2) by (auto simp: caller_of_def split: sum.splits option.splits prod.splits)
  then obtain rq1 where "authenticate pepper d (rq\<lparr>rq_resolved := None\<rparr>) = Inr (who, rq1)"
    using authenticate_memo [OF assms(1)] by blast
  from authenticate_cases [OF _ this] who(2) show ?thesis by (auto simp: META_get_def)
qed

lemma messages_create_adds:
  assumes "ce_others e d = d" and "messages_create drf w e c rq data (d, q) = (r, d', q')"
    and "m \<in> set (messages d')" and "m \<notin> set (messages d)"
  shows "\<exists>k v. c = ByKey k \<and> MessageCreateSerializer drf w data = Inr (Some v) \<and>
     msg_api_key m = Some (ak_id k) \<and> msg_status m = QUEUED \<and> msg_channel m = vd_channel v \<and>
     msg_recipient m = vd_recipient v"
proof -
  have "d' \<noteq> d" using assms(3,4) by auto
  then obtain k v res where c: "c = ByKey k" "MessageCreateSerializer drf w data = Inr (Some v)"
    "create_message e (Some (ak_id k)) (py_strip (META_get IDEMPOTENCY_HEADER_META rq)) v (d, q) = (res, d', q')"
    using assms(2)
    by (auto simp: messages_create_def Let_def split: caller.splits if_splits sum.splits option.splits prod.splits)
  from create_message_cases [OF assms(1) this(3)] \<open>d' \<noteq> d\<close> obtain tv rm where
    "d' = d\<lparr>messages := messages d @ [new_message e (Some (ak_id k))
       (py_strip (META_get IDEMPOTENCY_HEADER_META rq)) v tv rm]\<rparr>"
    by (auto simp: Let_def)
  then have "m = new_message e (Some (ak_id k)) (py_strip (META_get IDEMPOTENCY_HEADER_META rq)) v tv rm"
    using assms(3,4) by simp
  with c(1,2) show ?thesis by (simp add: new_message_def)
qed

lemma serializer_validates:
  "MessageCreateSerializer drf w data = Inr (Some v) \<Longrightarrow>
     validate_recipient w (channel_value (vd_channel v)) (vd_recipient v) = None"
  by (auto simp: MessageCreateSerializer_def split: json.splits option.splits web_error.splits)

text \<open>
  How a message gets into the database. If a POST adds a message, the request's header
  was the id of an active, unrevoked key and a secret whose keyed hash is the stored one; the
  message belongs to that key, is queued, and its recipient passed the check of its channel.
\<close>

theorem stored_message_was_authenticated:
  assumes "rq_resolved rq = None" and "ce_others e d = d"
    and "post_message pepper other drf w e rq data (d, q) = (r, d', q')"
    and "m \<in> set (messages d')" and "m \<notin> set (messages d)"
  shows "\<exists>k secret. k \<in> set (api_keys d) \<and> ak_is_active k \<and> ak_revoked_at k = None \<and>
     META_get API_KEY_HEADER_META rq = ak_key_id k @ ''_'' @ secret \<and>
     ak_hashed_secret k = hmac_sha256 (utf8 pepper) (utf8 secret) \<and>
     msg_api_key m = Some (ak_id k) \<and> msg_status m = QUEUED \<and>
     validate_recipient w (channel_value (msg_channel m)) (msg_recipient m) = None"
proof -
  obtain c rq' a where c: "caller_of pepper d other rq = Inr (c, rq')"
    and made: "messages_create drf w e c rq' data (d, q) = (a, d', q')"
    using assms(3-5) by (auto simp: post_message_def split: sum.splits auth_error.splits prod.splits)
  obtain k v where v: "c = ByKey k" "MessageCreateSerializer drf w data = Inr (Some v)"
    "msg_api_key m = Some (ak_id k)" "msg_status m = QUEUED" "msg_channel m = vd_channel v" "msg_recipient m = vd_recipient v"
    using messages_create_adds [OF assms(2) made assms(4,5)] by blast
  obtain secret where "k \<in> set (api_keys d) \<and> ak_is_active k \<and> ak_revoked_at k = None \<and>
     META_get API_KEY_HEADER_META rq = ak_key_id k @ ''_'' @ secret \<and>
     ak_hashed_secret k = hmac_sha256 (utf8 pepper) (utf8 secret)"
    using caller_of_key [OF memo_ok_unset [OF assms(1)]] c v(1) by blast
  moreover have "validate_recipient w (channel_value (msg_channel m)) (msg_recipient m) = None"
    using serializer_validates [OF v(2)] v(5,6) by simp
  ultimately show ?thesis using v(3,4) by blast
qed

text \<open>
  C28: the limiter and the view agree. For a request outside the login paths, the bucket the
  limiter charges is the bucket of the key the request is then authenticated as, with that
  key's limits, even if the key table changes in between; a request charged to an address is
  not authenticated as any key.
\<close>

theorem charged_key_is_served_key:
  assumes "rq_resolved rq = None" and "\<not> list_ex (py_startswith (rq_path rq)) AUTH_PATHS"
    and "derive lm pepper d rq = Inr (Some (identity, rate, burst), rq')"
  shows "(\<exists>k. identity = ''key:'' @ str_nat (ak_id k) \<and> rate = int (ak_rate_limit_per_min k) \<and>
        burst = int (ak_burst k) \<and> caller_of pepper later other rq' = Inr (ByKey k, rq')) \<or>
     (identity = ''ip:'' @ client_ip (lm_num_proxies lm) rq \<and>
        (\<forall>k rq''. caller_of pepper later other rq' \<noteq> Inr (ByKey k, rq'')))"
proof -
  obtain found where found: "resolve_api_key pepper d rq = Inr (found, rq')"
    and id: "(identity, rate, burst) = (case found of
        Some k \<Rightarrow> (''key:'' @ str_nat (ak_id k), int (ak_rate_limit_per_min k), int (ak_burst k))
      | None \<Rightarrow> (''ip:'' @ client_ip (lm_num_proxies lm) rq, lm_default_per_min lm, lm_default_burst lm))"
    using assms(2,3) by (auto simp: derive_def Let_def split: if_splits sum.splits option.splits prod.splits)
  then have memo: "rq_resolved rq' = Some found" and hdr: "META_get API_KEY_HEADER_META rq' = META_get API_KEY_HEADER_META rq"
    and look: "lookup_api_key pepper d (META_get API_KEY_HEADER_META rq) = Inr found"
    using assms(1) by (auto simp: resolve_api_key_def META_get_def split: sum.splits)
  show ?thesis
  proof (cases found)
    case None
    with id memo show ?thesis
      by (auto simp: caller_of_def authenticate_def resolve_api_key_def split: if_splits option.splits)
  next
    case (Some k)
    with look have "META_get API_KEY_HEADER_META rq \<noteq> []"
      by (auto simp: lookup_api_key_def split_full_key_def py_startswith_def KEY_PREFIX_def)
    with Some id memo hdr show ?thesis
      by (auto simp: caller_of_def authenticate_def resolve_api_key_def)
  qed
qed

end
