(* ===== verification/Relay_Metrics.thy ===== *)
theory Relay_Metrics
  imports Relay_Guarantees
begin

text \<open>
  \<open>DatabaseStateCollector\<close> in \<open>apps/core/metrics.py\<close>: the gauges computed from the
  database when the metrics endpoint is scraped. The text format is the library's; here a
  gauge is its name with its labelled values. The worker counters are in \<open>Relay_Delivery\<close>.
\<close>

record gauge =
  ga_name :: pystr
  ga_samples :: "(pystr list \<times> nat) list"

text \<open>\<open>values("channel").annotate(n=Count("id"))\<close>: one row per channel that occurs.\<close>

definition queued_rows :: "db \<Rightarrow> (pystr \<times> nat) list" where
  "queued_rows d =
     (let queued = filter (\<lambda>m. msg_status m = QUEUED) (messages d) in
      map (\<lambda>c. (c, length (filter (\<lambda>m. channel_value (msg_channel m) = c) queued)))
        (remdups (map (\<lambda>m. channel_value (msg_channel m)) queued)))"

text \<open>\<open>dict.fromkeys(Channel.values, 0)\<close> and \<open>update\<close>: the order of the keys is kept.\<close>

fun dict_set :: "pystr \<Rightarrow> nat \<Rightarrow> (pystr \<times> nat) list \<Rightarrow> (pystr \<times> nat) list" where
  "dict_set k v [] = [(k, v)]"
| "dict_set k v ((k', v') # ps) = (if k' = k then (k, v) # ps else (k', v') # dict_set k v ps)"

definition channel_values :: "pystr list" where
  "channel_values = map channel_value enum_class.enum"

lemma channel_values: "channel_values = [''email'', ''webhook'']"
  by (simp add: channel_values_def enum_channel_def)

definition queue_depth :: "db \<Rightarrow> (pystr \<times> nat) list" where
  "queue_depth d = fold (\<lambda>(c, n). dict_set c n) (queued_rows d) (map (\<lambda>c. (c, 0)) channel_values)"

definition collect :: "db \<Rightarrow> gauge list" where
  "collect d =
     [\<lparr>ga_name = ''notify_relay_queue_depth'', ga_samples = map (\<lambda>(c, n). ([c], n)) (queue_depth d)\<rparr>,
      \<lparr>ga_name = ''notify_relay_dlq_size'', ga_samples = [([], length (dead_letters d))]\<rparr>]"

definition count_messages :: "(message \<Rightarrow> bool) \<Rightarrow> db \<Rightarrow> nat" where
  "count_messages P d = length (filter P (messages d))"

lemma dict_set_fresh_order: "map fst (dict_set k v ps) = (if k \<in> set (map fst ps) then map fst ps else map fst ps @ [k])"
  by (induction k v ps rule: dict_set.induct) simp_all

lemma dict_set_lookup: "map_of (dict_set k v ps) = (map_of ps)(k \<mapsto> v)"
  by (induction ps) (auto simp: fun_eq_iff)

lemma fold_dict_set:
  "distinct (map fst us) \<Longrightarrow> map_of (fold (\<lambda>(c, n). dict_set c n) us ps) = map_of ps ++ map_of us"
proof (induction us arbitrary: ps)
  case (Cons u us)
  obtain k v where u: "u = (k, v)" by fastforce
  with Cons.prems have "k \<notin> dom (map_of us)" by (simp add: dom_map_of_conv_image_fst)
  then have "map_of us k = None" by (simp add: domIff)
  moreover have "map_of (fold (\<lambda>(c, n). dict_set c n) us (dict_set k v ps)) = (map_of ps)(k \<mapsto> v) ++ map_of us"
    using Cons u by (simp add: dict_set_lookup)
  ultimately show ?case using u by (auto simp: map_add_def fun_eq_iff split: option.splits)
qed simp

lemma fold_dict_set_keys:
  "fst ` set us \<subseteq> fst ` set ps \<Longrightarrow> map fst (fold (\<lambda>(c, n). dict_set c n) us ps) = map fst ps"
proof (induction us arbitrary: ps)
  case (Cons u us)
  obtain k v where "u = (k, v)" by fastforce
  with Cons.prems have "map fst (dict_set k v ps) = map fst ps" by (auto simp: dict_set_fresh_order)
  moreover from this have "fst ` set (dict_set k v ps) = fst ` set ps" by (metis set_map)
  ultimately show ?case using Cons \<open>u = (k, v)\<close> by simp
qed simp

lemma queued_rows_keys:
  "distinct (map fst (queued_rows d))" "fst ` set (queued_rows d) \<subseteq> set channel_values"
proof -
  show "distinct (map fst (queued_rows d))" by (simp add: queued_rows_def Let_def comp_def)
  have "channel_value c \<in> set channel_values" for c by (cases c) (simp_all add: channel_values)
  then show "fst ` set (queued_rows d) \<subseteq> set channel_values" by (auto simp: queued_rows_def Let_def)
qed

lemma map_of_counts: "map_of (map (\<lambda>c. (c, f c)) xs) c = (if c \<in> set xs then Some (f c) else None)"
  by (induction xs) auto

lemma queue_depth_eq:
  "queue_depth d = map (\<lambda>c. (channel_value c, count_messages (\<lambda>m. msg_status m = QUEUED \<and> msg_channel m = c) d))
     [EMAIL, WEBHOOK]"
proof -
  let ?zero = "map (\<lambda>c. (c, 0 :: nat)) channel_values"
  have keys: "map fst (queue_depth d) = channel_values"
    unfolding queue_depth_def using queued_rows_keys(2) by (subst fold_dict_set_keys) (simp_all add: comp_def image_image)
  have val: "channel_value a = channel_value b \<longleftrightarrow> a = b" for a b by (cases a; cases b) simp_all
  have look: "map_of (queue_depth d) (channel_value c) =
      Some (count_messages (\<lambda>m. msg_status m = QUEUED \<and> msg_channel m = c) d)" for c
  proof -
    let ?q = "filter (\<lambda>m. msg_status m = QUEUED) (messages d)"
    have "map_of (queued_rows d) (channel_value c) =
        (if c \<in> msg_channel ` set ?q then Some (length (filter (\<lambda>m. msg_channel m = c) ?q)) else None)"
      by (auto simp: queued_rows_def Let_def map_of_counts val)
    moreover have "filter (\<lambda>m. msg_channel m = c) ?q = []" if "c \<notin> msg_channel ` set ?q"
      using that by (auto simp: filter_empty_conv)
    moreover have "map_of ?zero (channel_value c) = Some 0"
      by (cases c) (simp_all add: channel_values)
    ultimately show ?thesis
      unfolding queue_depth_def fold_dict_set [OF queued_rows_keys(1)] count_messages_def
      by (auto simp: map_add_def conj_commute)
  qed
  obtain x y where "queue_depth d = [(channel_value EMAIL, x), (channel_value WEBHOOK, y)]"
    using keys by (auto simp: channel_values map_eq_Cons_conv)
  with look [of EMAIL] look [of WEBHOOK] show ?thesis by (simp add: val)
qed

lemma letters_count:
  assumes "delivery_ok d"
  shows "length (dead_letters d) = count_messages (\<lambda>m. gave_up (msg_status m)) d"
proof -
  let ?gone = "filter (\<lambda>m. gave_up (msg_status m)) (messages d)"
  have ok: "db_ok d" and match: "letters_match d" using assms by (simp_all add: delivery_ok_def)
  have row: "get_message (msg_id m) d = Some m" if "m \<in> set (messages d)" for m
    using ok that by (simp add: get_message_def db_ok_def get_row_Some_iff)
  have "dl_message ` set (dead_letters d) = msg_id ` set ?gone"
  proof (intro equalityI subsetI)
    fix k assume "k \<in> dl_message ` set (dead_letters d)"
    then have letter: "get_dead_letter k d \<noteq> None" by (simp add: get_dead_letter_def get_row_None_iff)
    from \<open>k \<in> _\<close> ok have "k \<in> msg_id ` set (messages d)" by (auto simp: db_ok_def)
    then obtain m where "m \<in> set (messages d)" "msg_id m = k" by auto
    with row letter match show "k \<in> msg_id ` set ?gone" by (force simp: letters_match_def)
  next
    fix k assume "k \<in> msg_id ` set ?gone"
    then obtain m where "m \<in> set (messages d)" "gave_up (msg_status m)" "msg_id m = k" by auto
    with row match have "get_dead_letter k d \<noteq> None" by (auto simp: letters_match_def)
    then show "k \<in> dl_message ` set (dead_letters d)" by (simp add: get_dead_letter_def get_row_None_iff)
  qed
  moreover have "distinct (map dl_message (dead_letters d))" "distinct (map msg_id ?gone)"
    using ok by (simp_all add: db_ok_def distinct_keys_filter)
  ultimately show ?thesis
    unfolding count_messages_def by (metis distinct_card length_map set_map)
qed

text \<open>
  C36: what the gauges say. In every state the running system can reach, the scrape reports
  for each of the two channels the number of its queued messages, zero included, and as
  dead-letter size exactly the number of failed and dead messages in the database.
\<close>

theorem gauges_report_state:
  assumes "reachable s"
  shows "collect (sy_db s) =
     [\<lparr>ga_name = ''notify_relay_queue_depth'', ga_samples =
         [([''email''], count_messages (\<lambda>m. msg_status m = QUEUED \<and> msg_channel m = EMAIL) (sy_db s)),
          ([''webhook''], count_messages (\<lambda>m. msg_status m = QUEUED \<and> msg_channel m = WEBHOOK) (sy_db s))]\<rparr>,
      \<lparr>ga_name = ''notify_relay_dlq_size'', ga_samples =
         [([], count_messages (\<lambda>m. msg_status m = FAILED \<or> msg_status m = DEAD) (sy_db s))]\<rparr>]"
  using letters_count [OF sys_invD(1) [OF reachable_inv [OF assms]]]
  by (simp add: collect_def queue_depth_eq gave_up_def)

end
