(* ===== verification/Relay_Api_Example.thy ===== *)
theory Relay_Api_Example
  imports Relay_Example Relay_Tenants Relay_Site Relay_Metrics
begin

text \<open>
  The message API on concrete requests: two keys, a template, a POST and some GETs.
\<close>

definition ex_drf :: drf_fields where
  "ex_drf = \<lparr>drf_char = (\<lambda>j. case j of JStr s \<Rightarrow> if s = [] \<or> \<not> storable_text s then None else Some s | _ \<Rightarrow> None),
     drf_char_blank = (\<lambda>j. case j of JStr s \<Rightarrow> if storable_text s then Some s else None | _ \<Rightarrow> None),
     drf_choice = (\<lambda>j. case j of JStr s \<Rightarrow> Some s | _ \<Rightarrow> None),
     drf_int = (\<lambda>j. None), drf_datetime = (\<lambda>j. None)\<rparr>"

definition ex_key2 :: api_key where
  "ex_key2 = ex_key\<lparr>ak_id := 2, ak_key_id := ''nr_000000000002''\<rparr>"

definition ex_post :: request where
  "ex_post = \<lparr>rq_method = POST, rq_path = ''/api/v1/messages/'',
     rq_meta = [''HTTP_IDEMPOTENCY_KEY'' \<mapsto> '' k1 ''], rq_resolved = None, rq_request_id = None\<rparr>"

definition ex_body :: json where
  "ex_body = JObj [(''channel'', JStr ''email''), (''recipient'', JStr ''a@b.cc''), (''template'', JStr ''welcome'')]"

lemma ex_fields: "message_fields ex_drf [(''channel'', JStr ''email''), (''recipient'', JStr ''a@b.cc''),
     (''template'', JStr ''welcome'')] = Some (ex_data\<lparr>vd_context := Some (JObj []), vd_priority := Some DEFAULT\<rparr>)"
  by (simp add: message_fields_def channel_choice_def choice_field_def enum_channel_def char_field_def optional_field_def validate_context_def
      priority_or_default_def ex_drf_def ex_data_def)

lemma ex_serializer: "MessageCreateSerializer ex_drf ex_web ex_body =
    Inr (Some (ex_data\<lparr>vd_context := Some (JObj []), vd_priority := Some DEFAULT\<rparr>))"
  by (simp add: MessageCreateSerializer_def ex_body_def ex_fields validate_recipient_def ex_web_def)
    (simp add: ex_data_def)

lemma ex_idem: "py_strip (META_get IDEMPOTENCY_HEADER_META ex_post) = ''k1''"
  by (simp add: META_get_def IDEMPOTENCY_HEADER_META_def ex_post_def) code_simp

definition ex_valid :: validated_data where
  "ex_valid = ex_data\<lparr>vd_context := Some (JObj []), vd_priority := Some DEFAULT\<rparr>"

lemma ex_create_valid:
  "create_message ex_env (Some 1) ''k1'' ex_valid (ex_db, q) =
     (Inr (ex_message, True), ex_db\<lparr>messages := [ex_message]\<rparr>, q @ [ex_task])"
proof -
  have m: "new_message ex_env (Some 1) ''k1'' ex_valid ex_version ex_rendered = ex_message"
    by (simp add: ex_valid_def ex_messages or_empty_dict_def)
  have "resolve_template ex_valid ex_db = Inr ex_version"
    using ex_resolve by (simp add: resolve_template_def ex_valid_def cong: option.case_cong if_cong)
  moreover have "insert_and_publish ex_env (Some 1) ''k1'' ex_valid ex_message (ex_db, q) =
      (Inr (ex_message, True), ex_db\<lparr>messages := [ex_message]\<rparr>, q @ [ex_task])"
    by (simp add: insert_and_publish_def ex_insert enqueue_after_commit_def ex_task_def)
       (simp add: ex_env_def ex_valid_def ex_data_def send_now_def enqueue_for_up)
  moreover have "render (ce_jinja ex_env) (ce_recursion_limit ex_env) ex_version
      (context_or_empty (vd_context ex_valid)) (vd_channel ex_valid) = Inr ex_rendered"
    using ex_render by (simp add: ex_env_def ex_valid_def ex_data_def context_or_empty_def or_empty_dict_def)
  moreover have "ce_others ex_env = (\<lambda>d. d)" by (simp add: ex_env_def)
  ultimately show ?thesis using ex_find m by (simp add: create_message_def)
qed

lemma ex_posted:
  "messages_create ex_drf ex_web ex_env (ByKey ex_key) ex_post ex_body (ex_db, q) =
     (Inr (202, MessageData (MessageReadSerializer (ex_db\<lparr>messages := [ex_message]\<rparr>) ex_message)),
      ex_db\<lparr>messages := [ex_message]\<rparr>, q @ [ex_task])"
  using ex_create_valid
  by (simp add: messages_create_def ex_idem ex_serializer IDEMPOTENCY_KEY_MAX_LENGTH_def ex_key_def
      flip: ex_valid_def)

lemma ex_db_ok: "db_ok ex_db"
  by (simp add: db_ok_def idempotency_unique_def ex_rows)

theorem posted_message_is_readable_witness:
  "\<exists>body d' q' m. messages_create ex_drf ex_web ex_env (ByKey ex_key) ex_post ex_body (ex_db, []) =
       (Inr (202, body), d', q') \<and> m \<in> set (messages d') \<and>
     messages_retrieve (ByKey ex_key) (msg_id m) d' = (200, body)"
  using posted_message_is_readable [OF ex_db_ok _ ex_posted [of "[]"]] ex_posted [of "[]"]
  by (auto simp: ex_env_def)

theorem refused_post_changes_nothing_witness:
  "\<exists>st body. messages_create ex_drf ex_web ex_env (ByKey ex_key) ex_post (JObj []) (ex_db, []) =
     (Inr (st, body), ex_db, []) \<and> st \<in> {400, 401, 403, 409, 422}"
proof -
  have "message_fields ex_drf [] = None" by (simp add: message_fields_def channel_choice_def)
  then have "messages_create ex_drf ex_web ex_env (ByKey ex_key) ex_post (JObj []) (ex_db, []) =
      (Inr (422, ValidationErrors), ex_db, [])"
    by (simp add: messages_create_def ex_idem MessageCreateSerializer_def IDEMPOTENCY_KEY_MAX_LENGTH_def)
  from refused_post_changes_nothing [OF _ this] this show ?thesis by (simp add: ex_env_def)
qed

definition ex_requests :: "(api_key \<times> api_request) list" where
  "ex_requests = [(ex_key, PostMessage ex_drf ex_web ex_env ex_post ex_body),
     (ex_key2, GetMessage ''m1''), (ex_key, GetMessage ''m1'')]"

theorem tenants_do_not_interfere_witness:
  "filter (\<lambda>(k, _). ak_id k = 2) (answers serve ex_requests ex_db) =
     [(ex_key2, Inr (404, Detail (no_match ''Message'')))]"
proof -
  have "all_fair fresh_id serve ex_requests ex_db"
    by (simp add: ex_requests_def fresh_id_def ex_env_def ex_rows)
  from tenants_do_not_interfere [OF this, of 2] show ?thesis
    by (simp add: ex_requests_def ex_key2_def ex_key_def serve_def messages_retrieve_def messages_queryset_def
        ex_db_def empty_db_def get_row_def)
qed

text \<open>The same POST with its key in the header.\<close>

definition ex_signed_post :: request where
  "ex_signed_post = ex_post\<lparr>rq_meta := [''HTTP_IDEMPOTENCY_KEY'' \<mapsto> '' k1 '', ''HTTP_X_API_KEY'' \<mapsto> ''nr_000000000001_s'']\<rparr>"

definition ex_limited_post :: request where
  "ex_limited_post = ex_signed_post\<lparr>rq_resolved := Some (Some ex_key)\<rparr>"

lemma ex_header: "META_get API_KEY_HEADER_META ex_signed_post = ''nr_000000000001_s''" "rq_resolved ex_signed_post = None"
  by (simp_all add: META_get_def API_KEY_HEADER_META_def ex_signed_post_def ex_post_def)

lemma ex_sent_split: "split_full_key ''nr_000000000001_s'' = Some (''nr_000000000001'', ''s'')"
  by code_simp

lemma ex_lookup: "lookup_api_key ''pepper'' ex_db ''nr_000000000001_s'' = Inr (Some ex_key)"
  by (simp add: lookup_api_key_def ex_sent_split active_key_named_def active_keys_def ex_db_def)
     (simp add: ex_key_def verify_secret_def hash_secret_def)

lemma ex_resolve_key: "resolve_api_key ''pepper'' ex_db ex_signed_post = Inr (Some ex_key, ex_limited_post)"
  by (simp add: resolve_api_key_def ex_header ex_lookup ex_limited_post_def)

lemma ex_caller: "caller_of ''pepper'' ex_db other ex_signed_post = Inr (ByKey ex_key, ex_limited_post)"
  by (simp add: caller_of_def authenticate_def ex_header ex_resolve_key)

lemma ex_limited_idem: "py_strip (META_get IDEMPOTENCY_HEADER_META ex_limited_post) = ''k1''"
  by (simp add: META_get_def IDEMPOTENCY_HEADER_META_def ex_limited_post_def ex_signed_post_def) code_simp

theorem stored_message_was_authenticated_witness:
  "\<exists>r d' q' k. post_message ''pepper'' (\<lambda>_. None) ex_drf ex_web ex_env ex_signed_post ex_body (ex_db, []) = (r, d', q') \<and>
     ex_message \<in> set (messages d') \<and> k \<in> set (api_keys ex_db) \<and> msg_api_key ex_message = Some (ak_id k)"
proof -
  have "\<exists>r. post_message ''pepper'' (\<lambda>_. None) ex_drf ex_web ex_env ex_signed_post ex_body (ex_db, []) =
      (r, ex_db\<lparr>messages := [ex_message]\<rparr>, [ex_task])"
    using ex_create_valid [of "[]"]
    by (simp add: post_message_def ex_caller messages_create_def ex_limited_idem ex_serializer
        IDEMPOTENCY_KEY_MAX_LENGTH_def flip: ex_valid_def) (simp add: ex_key_def)
  then obtain r where post: "post_message ''pepper'' (\<lambda>_. None) ex_drf ex_web ex_env ex_signed_post ex_body (ex_db, []) =
      (r, ex_db\<lparr>messages := [ex_message]\<rparr>, [ex_task])" ..
  have "ex_message \<notin> set (messages ex_db)" "ce_others ex_env ex_db = ex_db"
    by (simp_all add: ex_db_def empty_db_def ex_env_def)
  with stored_message_was_authenticated [OF ex_header(2) _ post, of ex_message] post show ?thesis by auto
qed

theorem charged_key_is_served_key_witness:
  "\<exists>k. derive ex_limits ''pepper'' ex_db ex_signed_post =
       Inr (Some (''key:'' @ str_nat (ak_id k), 60, 10), ex_limited_post) \<and>
     caller_of ''pepper'' empty_db (\<lambda>_. None) ex_limited_post = Inr (ByKey k, ex_limited_post)"
proof -
  have paths: "\<not> list_ex (py_startswith (rq_path ex_signed_post)) AUTH_PATHS"
    by (simp add: ex_signed_post_def ex_post_def AUTH_PATHS_def py_startswith_def)
  have "derive ex_limits ''pepper'' ex_db ex_signed_post =
      Inr (Some (''key:'' @ str_nat (ak_id ex_key), 60, 10), ex_limited_post)"
    using paths by (simp add: derive_def Let_def ex_resolve_key)
      (simp add: ex_signed_post_def ex_post_def py_startswith_def ex_key_def)
  with charged_key_is_served_key [OF ex_header(2) paths this, of empty_db "\<lambda>_. None"] show ?thesis by auto
qed

theorem gauges_report_state_witness:
  "collect (sy_db ex_failed) =
     [\<lparr>ga_name = ''notify_relay_queue_depth'', ga_samples = [([''email''], 0), ([''webhook''], 0)]\<rparr>,
      \<lparr>ga_name = ''notify_relay_dlq_size'', ga_samples = [([], 1)]\<rparr>]"
  using gauges_report_state [OF ex_reachable_failed]
  by (simp add: count_messages_def ex_failed_def ex_failed_message_def set_status_def)

end
