(* ===== verification/Relay_Stack.thy ===== *)
theory Relay_Stack
  imports Relay_Site Relay_Lifecycle
begin

text \<open>
  The program's three middlewares stacked in the order of \<open>MIDDLEWARE\<close> in
  \<open>settings/base.py\<close>: health probes, request ids, rate limiting, then the rest of the
  chain, which is an argument. The framework turns an exception that leaves a layer into a
  response before the layer around it sees it; \<open>se_answer\<close> is that response.
\<close>

section \<open>One request\<close>

record 'e site_env =
  se_limits :: limits
  se_pepper :: pystr
  se_limiter :: limiter_env
  se_probe :: probe_env
  se_ulid :: pystr
  se_answer :: "'e limit_error \<Rightarrow> response"
  se_rest :: "pystr option \<Rightarrow> ('e, db \<times> task list) handler"

text \<open>
  The state a request meets: database and task queue, the limiter's client and Redis, the
  probes' clients, the log, and the request id bound in the serving context.
\<close>

record site_state =
  ss_data :: "db \<times> task list"
  ss_limiter :: limiter
  ss_clients :: "pystr list"
  ss_log :: "(pystr option \<times> nat) list"
  ss_bound :: "pystr option"

text \<open>\<open>convert_exception_to_response\<close>, which the framework puts around every layer.\<close>

definition convert_exceptions :: "('x \<Rightarrow> response) \<Rightarrow> ('x, 'w) handler \<Rightarrow> ('y, 'w) handler" where
  "convert_exceptions answer h rq w =
     (case h rq w of (Inl x, w') \<Rightarrow> (Inr (answer x), w') | (Inr rs, w') \<Rightarrow> (Inr rs, w'))"

definition answered_rest :: "'e site_env \<Rightarrow> pystr option \<Rightarrow> ('e, db \<times> task list) handler" where
  "answered_rest e bound = convert_exceptions (se_answer e \<circ> HandlerRaised) (se_rest e bound)"

definition limited_rest ::
    "'e site_env \<Rightarrow> pystr option \<Rightarrow> (unit, (db \<times> task list) \<times> limiter) handler" where
  "limited_rest e bound rq w =
     (case w of (data, lr) \<Rightarrow>
      case rate_limit_middleware (se_limits e) (se_limiter e) (se_pepper e) (fst data) (answered_rest e bound) rq lr data of
        ((Inl x, data'), lr') \<Rightarrow> (Inr (se_answer e x), data', lr')
      | ((Inr rs, data'), lr') \<Rightarrow> (Inr rs, data', lr'))"

definition tagged_rest ::
    "'e site_env \<Rightarrow> (unit, site_state) handler" where
  "tagged_rest e rq s =
     (case request_id_middleware (se_ulid e) (limited_rest e) rq (ss_data s, ss_limiter s) (ss_bound s) of
        (out, (data', lr'), logged, bound') \<Rightarrow>
          (out, s\<lparr>ss_data := data', ss_limiter := lr', ss_log := ss_log s @ logged, ss_bound := bound'\<rparr>))"

definition site :: "'e site_env \<Rightarrow> (unit, site_state) handler" where
  "site e rq s =
     (case health_probe_middleware (se_probe e) (tagged_rest e) rq s (ss_clients s) of
        ((out, s'), clients') \<Rightarrow> (out, s'\<lparr>ss_clients := clients'\<rparr>))"

text \<open>The charge of a request, if it is charged: the bucket's answer and the limiter's state after.\<close>

definition charge :: "'e site_env \<Rightarrow> db \<Rightarrow> request \<Rightarrow> limiter \<Rightarrow> (bucket_result \<times> limiter) option" where
  "charge e d rq lr =
     (if \<not> lm_enabled (se_limits e) then None
      else case derive (se_limits e) (se_pepper e) d rq of
        Inr (Some (identity, rate, burst), _) \<Rightarrow>
          (case get_and_consume (se_limiter e) identity rate burst lr of
             (Inr r, lr') \<Rightarrow> Some (r, lr')
           | (Inl _, _) \<Rightarrow> None)
      | _ \<Rightarrow> None)"

text \<open>What the limiter decides about a request: to refuse it, or to end in an error.\<close>

definition refused :: "'e site_env \<Rightarrow> request \<Rightarrow> site_state \<Rightarrow> bool" where
  "refused e rq s \<longleftrightarrow>
     (case charge e (fst (ss_data s)) rq (ss_limiter s) of Some (r, _) \<Rightarrow> \<not> br_allowed r | None \<Rightarrow> False)"

definition limiter_fails :: "'e site_env \<Rightarrow> request \<Rightarrow> site_state \<Rightarrow> bool" where
  "limiter_fails e rq s \<longleftrightarrow> lm_enabled (se_limits e) \<and>
     (case derive (se_limits e) (se_pepper e) (fst (ss_data s)) rq of
        Inl _ \<Rightarrow> True
      | Inr (None, _) \<Rightarrow> False
      | Inr (Some (_, rate, burst), _) \<Rightarrow>
          rate \<le> 0 \<or> burst \<le> 0 \<or> get_bucket (se_limiter e) (fst (ss_limiter s)) = None)"

definition probed :: "request \<Rightarrow> bool" where
  "probed rq \<longleftrightarrow> rq_path rq \<in> {''/health/live'', ''/health/ready''} \<and> rq_method rq \<in> {GET, HEAD}"

section \<open>Facts\<close>

lemma site_probed:
  assumes "probed rq"
  shows "\<exists>rs clients. site e rq s = (Inr rs, s\<lparr>ss_clients := clients\<rparr>) \<and>
     (rs, clients) = (if rq_path rq = ''/health/live'' then (live, ss_clients s) else ready (se_probe e) (ss_clients s))"
  using assms
  by (auto simp: probed_def site_def health_probe_middleware_def probe_for_def split: prod.split)

lemma site_not_probed:
  assumes "\<not> probed rq" shows "site e rq s = tagged_rest e rq s"
  using assms
  by (auto simp: probed_def site_def health_probe_middleware_def probe_for_def tagged_rest_def split: prod.split)

lemma answered_rest_state [simp]: "snd (answered_rest e bound rq w) = snd (se_rest e bound rq w)"
  by (simp add: answered_rest_def convert_exceptions_def split: prod.split sum.split)

lemma limited_rest_Inr: "\<exists>rs w'. limited_rest e bound rq w = (Inr rs, w')"
  by (auto simp: limited_rest_def split: prod.split sum.split)

lemma META_get_tagged [simp]: "META_get n (rq\<lparr>rq_request_id := x\<rparr>) = META_get n rq"
  by (simp add: META_get_def)

lemma client_ip_tagged [simp]: "client_ip n (rq\<lparr>rq_request_id := x\<rparr>) = client_ip n rq"
  by (simp add: client_ip_def remote_bucket_def Let_def cong: option.case_cong)

lemma resolve_tagged:
  "resolve_api_key pepper d (rq\<lparr>rq_request_id := x\<rparr>) =
     (case resolve_api_key pepper d rq of Inl err \<Rightarrow> Inl err | Inr (k, rq') \<Rightarrow> Inr (k, rq'\<lparr>rq_request_id := x\<rparr>))"
  by (simp add: resolve_api_key_def split: sum.split option.split)

lemma derive_tagged:
  "derive lm pepper d (rq\<lparr>rq_request_id := x\<rparr>) =
     (case derive lm pepper d rq of Inl err \<Rightarrow> Inl err | Inr (c, rq') \<Rightarrow> Inr (c, rq'\<lparr>rq_request_id := x\<rparr>))"
  by (simp add: derive_def resolve_tagged Let_def split: sum.split option.split)

text \<open>The request the limiter passes on: the same, but that its key may have been looked up.\<close>

definition passes_as :: "pystr \<Rightarrow> db \<Rightarrow> request \<Rightarrow> request \<Rightarrow> bool" where
  "passes_as pepper d rq rq' \<longleftrightarrow> rq_path rq' = rq_path rq \<and> rq_method rq' = rq_method rq \<and> rq_meta rq' = rq_meta rq \<and>
     rq_request_id rq' = rq_request_id rq \<and> (memo_ok pepper d rq \<longrightarrow> memo_ok pepper d rq')"

lemma passes_as_refl [simp]: "passes_as pepper d rq rq"
  by (simp add: passes_as_def)

lemma resolve_passes: "resolve_api_key pepper d rq = Inr (k, rq') \<Longrightarrow> passes_as pepper d rq rq'"
  using resolve_keeps_memo [of pepper d rq k rq']
  by (auto simp: passes_as_def resolve_api_key_def split: option.splits sum.splits)

lemma derive_passes: "derive lm pepper d rq = Inr (c, rq') \<Longrightarrow> passes_as pepper d rq rq'"
  by (auto simp: derive_def Let_def dest: resolve_passes split: if_splits sum.splits option.splits prod.splits)

lemma charge_tagged [simp]: "charge e d (rq\<lparr>rq_request_id := x\<rparr>) lr = charge e d rq lr"
  by (auto simp: charge_def derive_tagged split: sum.split option.split)

lemma consume_outcome:
  "consume tos up now identity rate burst 1 lr = Inl err \<Longrightarrow>
     (if rate \<le> 0 \<or> burst \<le> 0 then err = BucketValueError else \<not> up \<and> err = RedisError)"
  by (cases lr) (auto simp: consume_def evalsha_def load_script_def Let_def split: if_splits prod.splits)

lemma get_and_consume_error:
  "get_and_consume le identity rate burst lr = (Inl err, lr') \<Longrightarrow>
     snd lr' = snd lr \<and>
     (if rate \<le> 0 \<or> burst \<le> 0 \<or> get_bucket le (fst lr) = None then err = BucketValueError
      else \<not> le_up le \<and> err = RedisError)"
  using consume_outcome
  by (cases lr) (fastforce simp: get_and_consume_def split: option.splits sum.splits prod.splits if_splits)

lemma consume_succeeds: "consume tos up now identity rate burst n st = Inr x \<Longrightarrow> 0 < rate \<and> 0 < burst \<and> up"
  by (cases st) (simp add: consume_def split: if_splits)

lemma get_and_consume_result:
  assumes "get_and_consume le identity rate burst lr = (Inr r, lr')"
  shows "0 < rate \<and> 0 < burst \<and> get_bucket le (fst lr) \<noteq> None \<and> le_up le \<and>
     (\<exists>sha sha' rd'. consume (le_tos le) True (le_now le) identity rate burst 1 (sha, snd lr) = Inr (r, sha', rd') \<and>
        snd lr' = rd')"
proof -
  obtain b sha' where "get_bucket le (fst lr) = Some b"
    and c: "consume (le_tos le) (le_up le) (le_now le) identity rate burst 1 (bc_script_sha b, snd lr) = Inr (r, sha', snd lr')"
    using assms by (cases lr) (auto simp: get_and_consume_def split: option.splits sum.splits)
  with consume_succeeds [OF c] show ?thesis by auto
qed

lemma limiter_state:
  "snd (snd (rate_limit_middleware (se_limits e) (se_limiter e) (se_pepper e) d h rq lr w)) =
     (case charge e d rq lr of None \<Rightarrow> snd lr | Some (_, lr') \<Rightarrow> snd lr')"
proof (cases "lm_enabled (se_limits e)")
  case on: True
  show ?thesis
  proof (cases "derive (se_limits e) (se_pepper e) d rq")
    case (Inr y)
    show ?thesis
    proof (cases "fst y")
      case (Some t)
      obtain i rate burst where t: "t = (i, rate, burst)" by (cases t) auto
      obtain res lr' where g: "get_and_consume (se_limiter e) i rate burst lr = (res, lr')" by (metis prod.exhaust)
      show ?thesis
      proof (cases res)
        case (Inl err)
        then show ?thesis using on Inr Some t g get_and_consume_error [of _ i rate burst lr err lr']
          by (cases err; cases y) (auto simp: rate_limit_middleware_def charge_def)
      next
        case (Inr r)
        then show ?thesis using on \<open>derive _ _ _ _ = _\<close> Some t g
          by (cases y) (simp add: rate_limit_middleware_def charge_def split: prod.split sum.split)
      qed
    qed (use on Inr in \<open>cases y; simp add: rate_limit_middleware_def charge_def\<close>)
  qed (use on in \<open>simp add: rate_limit_middleware_def charge_def\<close>)
qed (simp add: rate_limit_middleware_def charge_def)

lemma run_handler_state: "snd (run_handler h r w) = snd (h r w)"
  by (simp add: run_handler_def split: prod.split sum.split)

lemma charged_runs_rest:
  assumes "rate_limit_middleware (se_limits e) (se_limiter e) (se_pepper e) (fst (ss_data s)) h rq (ss_limiter s) w =
      ((out, w'), lr')" and "lm_enabled (se_limits e)"
    and "derive (se_limits e) (se_pepper e) (fst (ss_data s)) rq = Inr (Some (identity, rate, burst), rq')"
  shows "if refused e rq s then w' = w \<and> (\<exists>r. out = Inr (too_many_requests r) \<and> \<not> br_allowed r)
     else if limiter_fails e rq s then w' = w \<and> (\<exists>x. out = Inl x)
     else w' = snd (h rq' w)"
proof -
  obtain res lr1 where c: "get_and_consume (se_limiter e) identity rate burst (ss_limiter s) = (res, lr1)" by (metis prod.exhaust)
  show ?thesis
  proof (cases res)
    case (Inl err)
    with get_and_consume_error [OF c [unfolded Inl]] assms c run_handler_state [of h rq' w] show ?thesis
      by (cases "rate \<le> 0 \<or> burst \<le> 0 \<or> get_bucket (se_limiter e) (fst (ss_limiter s)) = None")
        (auto dest: arg_cong [where f = snd] simp: rate_limit_middleware_def refused_def limiter_fails_def charge_def)
  next
    case (Inr r)
    note ok = get_and_consume_result [OF c [unfolded Inr]]
    show ?thesis
    proof (cases "br_allowed r")
      case True
      then have "w' = snd (h rq' w)"
        using assms Inr c run_handler_state [of h rq' w]
        by (auto simp: rate_limit_middleware_def split: prod.splits sum.splits)
      with assms Inr c True ok show ?thesis by (auto simp: refused_def charge_def limiter_fails_def)
    next
      case False
      with assms Inr c show ?thesis by (auto simp: rate_limit_middleware_def refused_def charge_def)
    qed
  qed
qed

text \<open>The rest of the chain is run exactly when the request is neither refused nor failed.\<close>

lemma limiter_runs_rest:
  assumes "rate_limit_middleware (se_limits e) (se_limiter e) (se_pepper e) (fst (ss_data s)) h rq (ss_limiter s) w =
      ((out, w'), lr')"
  shows "if refused e rq s then w' = w \<and> (\<exists>r. out = Inr (too_many_requests r) \<and> \<not> br_allowed r)
     else if limiter_fails e rq s then w' = w \<and> (\<exists>x. out = Inl x)
     else \<exists>rq'. passes_as (se_pepper e) (fst (ss_data s)) rq rq' \<and> w' = snd (h rq' w)"
proof (cases "lm_enabled (se_limits e)")
  case on: True
  show ?thesis
  proof (cases "derive (se_limits e) (se_pepper e) (fst (ss_data s)) rq")
    case (Inl x)
    with on assms show ?thesis
      by (auto simp: rate_limit_middleware_def refused_def limiter_fails_def charge_def)
  next
    case (Inr y)
    obtain c rq' where y: "y = (c, rq')" by fastforce
    note same = derive_passes [OF Inr [unfolded y]]
    show ?thesis
    proof (cases c)
      case None
      with on Inr y assms run_handler_state [of h rq' w] same show ?thesis
        by (auto simp: rate_limit_middleware_def refused_def limiter_fails_def charge_def)
    next
      case (Some t)
      obtain identity rate burst where "t = (identity, rate, burst)" by (cases t) auto
      with charged_runs_rest [OF assms on] Inr y Some same show ?thesis by (auto split: if_splits)
    qed
  qed
qed (use assms run_handler_state [of h rq w] in
      \<open>auto simp: rate_limit_middleware_def refused_def limiter_fails_def charge_def intro!: exI [of _ rq]\<close>)

section \<open>Properties\<close>

lemma refused_tagged [simp]: "refused e (rq\<lparr>rq_request_id := x\<rparr>) s = refused e rq s"
  by (simp add: refused_def)

lemma limiter_fails_tagged [simp]: "limiter_fails e (rq\<lparr>rq_request_id := x\<rparr>) s = limiter_fails e rq s"
  by (auto simp: limiter_fails_def derive_tagged split: sum.split option.split)

lemma tagged_rest_cases:
  assumes "tagged_rest e rq s = (out, s')"
  obtains rid r lr' data' where "usable_id (se_ulid e) rq rid"
    and "rate_limit_middleware (se_limits e) (se_limiter e) (se_pepper e) (fst (ss_data s)) (answered_rest e (Some rid))
      (rq\<lparr>rq_request_id := Some rid\<rparr>) (ss_limiter s) (ss_data s) = ((r, data'), lr')"
    and "out = Inr (set_header ''X-Request-ID'' rid (case r of Inl x \<Rightarrow> se_answer e x | Inr rs \<Rightarrow> rs))"
    and "s' = s\<lparr>ss_data := data', ss_limiter := lr', ss_log := ss_log s @
      (let st = rs_status (case r of Inl x \<Rightarrow> se_answer e x | Inr rs \<Rightarrow> rs) in if st < 400 then [] else [(Some rid, st)])\<rparr>"
proof -
  obtain out' data' lr' logged bound' where mid: "request_id_middleware (se_ulid e) (limited_rest e) rq
      (ss_data s, ss_limiter s) (ss_bound s) = (out', (data', lr'), logged, bound')" by (metis prod.exhaust)
  then have s': "out = out'" "s' = s\<lparr>ss_data := data', ss_limiter := lr', ss_log := ss_log s @ logged, ss_bound := bound'\<rparr>"
    using assms by (simp_all add: tagged_rest_def)
  from request_id_is_safe [OF mid] obtain rid a where rid: "usable_id (se_ulid e) rq rid" "bound' = ss_bound s"
    and rest: "limited_rest e (Some rid) (rq\<lparr>rq_request_id := Some rid\<rparr>) (ss_data s, ss_limiter s) = (a, data', lr')"
    and out: "out' = (case a of Inl x \<Rightarrow> Inl x | Inr rs \<Rightarrow> Inr (set_header ''X-Request-ID'' rid rs))"
      "logged = (case a of Inl x \<Rightarrow> [] | Inr rs \<Rightarrow> if rs_status rs < 400 then [] else [(Some rid, rs_status rs)])"
    by blast
  obtain r where "rate_limit_middleware (se_limits e) (se_limiter e) (se_pepper e) (fst (ss_data s)) (answered_rest e (Some rid))
      (rq\<lparr>rq_request_id := Some rid\<rparr>) (ss_limiter s) (ss_data s) = ((r, data'), lr')"
    and "a = Inr (case r of Inl x \<Rightarrow> se_answer e x | Inr rs \<Rightarrow> rs)"
    using rest by (auto simp: limited_rest_def split: prod.splits sum.splits)
  with that [OF rid(1)] s' rid(2) out show ?thesis by (simp add: Let_def)
qed

lemma site_outcome:
  assumes "site e rq s = (out, s')"
  shows "if probed rq
     then \<exists>rs clients. out = Inr rs \<and> rs_status rs \<in> {200, 503} \<and> s' = s\<lparr>ss_clients := clients\<rparr>
     else \<exists>rs rid. out = Inr rs \<and> usable_id (se_ulid e) rq rid \<and> header ''X-Request-ID'' rs = Some rid \<and>
       ss_log s' = ss_log s @ (if rs_status rs < 400 then [] else [(Some rid, rs_status rs)]) \<and>
       ss_bound s' = ss_bound s \<and> ss_clients s' = ss_clients s \<and>
       (if refused e rq s
        then ss_data s' = ss_data s \<and> rs_status rs = 429 \<and>
          (\<exists>n\<ge>1. header ''Retry-After'' rs = Some (str_int n))
        else if limiter_fails e rq s then ss_data s' = ss_data s
        else \<exists>rq'. passes_as (se_pepper e) (fst (ss_data s)) (rq\<lparr>rq_request_id := Some rid\<rparr>) rq' \<and>
          ss_data s' = snd (se_rest e (Some rid) rq' (ss_data s)))"
proof (cases "probed rq")
  case True
  obtain rs clients where "out = Inr rs" "s' = s\<lparr>ss_clients := clients\<rparr>"
    and rs: "(rs, clients) = (if rq_path rq = ''/health/live'' then (live, ss_clients s) else ready (se_probe e) (ss_clients s))"
    using site_probed [OF True, of e s] assms by auto
  moreover from rs have "rs_status rs \<in> {200, 503}"
    by (auto simp: live_def ready_def json_response_def Let_def split: if_splits prod.splits)
  ultimately show ?thesis using True by auto
next
  case False
  with assms have "tagged_rest e rq s = (out, s')" by (simp add: site_not_probed)
  then show ?thesis
  proof (cases rule: tagged_rest_cases)
    case (1 rid r lr' data')
    note runs = limiter_runs_rest [OF 1(2)]
    have wait: "\<exists>n\<ge>1. header ''Retry-After'' (too_many_requests b) = Some (str_int n)" if "\<not> br_allowed b" for b
      using too_many_requests_headers [OF that] by blast
    show ?thesis
      using runs 1(1,3,4) wait False by (auto simp: Let_def too_many_requests_headers(1))
  qed
qed

text \<open>
  C13: what every caller can rely on. A probe is answered whatever the limiter's state and
  settings, and changes nothing but the probes' own clients. Every other request is answered,
  with a request id of at most 64 safe characters (or a fresh one) on the response and on the
  line logged for an error answer, and the id is unbound afterwards. If its bucket is empty
  it is answered 429 with a wait of at least a second, and neither database nor task queue
  changes; otherwise the rest of the chain runs on it exactly once, unless the limiter itself
  fails.
\<close>

theorem site_answers:
  assumes "site e rq s = (out, s')"
  shows "if probed rq
     then \<exists>rs clients. out = Inr rs \<and> rs_status rs \<in> {200, 503} \<and> s' = s\<lparr>ss_clients := clients\<rparr>
     else \<exists>rs rid. out = Inr rs \<and> usable_id (se_ulid e) rq rid \<and> header ''X-Request-ID'' rs = Some rid \<and>
       ss_log s' = ss_log s @ (if rs_status rs < 400 then [] else [(Some rid, rs_status rs)]) \<and>
       ss_bound s' = ss_bound s \<and> ss_clients s' = ss_clients s \<and>
       (if refused e rq s
        then ss_data s' = ss_data s \<and> rs_status rs = 429 \<and>
          (\<exists>n\<ge>1. header ''Retry-After'' rs = Some (str_int n))
        else if limiter_fails e rq s then ss_data s' = ss_data s
        else \<exists>rq'. passes_as (se_pepper e) (fst (ss_data s)) (rq\<lparr>rq_request_id := Some rid\<rparr>) rq' \<and>
          ss_data s' = snd (se_rest e (Some rid) rq' (ss_data s)))"
  by (rule site_outcome [OF assms])

section \<open>Many requests\<close>

text \<open>
  A request as one of many: the process that serves it has its own bucket client, or none
  yet, with a script id or not; Redis has the script in its cache or was restarted; and the
  database is as others left it.
\<close>

record 'e visit =
  vi_env :: "'e site_env"
  vi_request :: request
  vi_data :: "db \<times> task list"
  vi_bucket :: "bucket_client option"
  vi_cached :: bool

definition arrive :: "'e visit \<Rightarrow> (pystr \<rightharpoonup> bucket) \<Rightarrow> site_state" where
  "arrive v hashes =
     \<lparr>ss_data = vi_data v, ss_limiter = (vi_bucket v, \<lparr>rd_hashes = hashes, rd_script = vi_cached v\<rparr>),
      ss_clients = [], ss_log = [], ss_bound = None\<rparr>"

definition serve :: "'e visit \<Rightarrow> (pystr \<rightharpoonup> bucket) \<Rightarrow> (pystr \<rightharpoonup> bucket)" where
  "serve v hashes = rd_hashes (snd (ss_limiter (snd (site (vi_env v) (vi_request v) (arrive v hashes)))))"

definition visit_limits :: "'e visit \<Rightarrow> (pystr \<times> int \<times> int) option" where
  "visit_limits v =
     (let e = vi_env v in
      if probed (vi_request v) \<or> \<not> lm_enabled (se_limits e) \<or> \<not> le_up (se_limiter e) \<or>
         get_bucket (se_limiter e) (vi_bucket v) = None then None
      else case derive (se_limits e) (se_pepper e) (fst (vi_data v)) (vi_request v) of
        Inr (c, _) \<Rightarrow> c | Inl _ \<Rightarrow> None)"

definition charged_to :: "pystr \<Rightarrow> 'e visit \<Rightarrow> bool" where
  "charged_to identity v \<longleftrightarrow> (case visit_limits v of Some (i, _) \<Rightarrow> i = identity | None \<Rightarrow> False)"

text \<open>The requests charged to one identity that are let through.\<close>

fun let_through :: "pystr \<Rightarrow> 'e visit list \<Rightarrow> (pystr \<rightharpoonup> bucket) \<Rightarrow> nat" where
  "let_through identity [] hashes = 0"
| "let_through identity (v # vs) hashes =
     (if charged_to identity v \<and> \<not> refused (vi_env v) (vi_request v) (arrive v hashes) then 1 else 0) +
     let_through identity vs (serve v hashes)"

abbreviation visit_time :: "'e visit \<Rightarrow> int" where
  "visit_time v \<equiv> le_now (se_limiter (vi_env v))"

lemma serve_limiter:
  "serve v hashes =
     (if probed (vi_request v) then hashes
      else case charge (vi_env v) (fst (vi_data v)) (vi_request v) (vi_bucket v, \<lparr>rd_hashes = hashes, rd_script = vi_cached v\<rparr>) of
        None \<Rightarrow> hashes | Some (_, lr') \<Rightarrow> rd_hashes (snd lr'))"
proof (cases "probed (vi_request v)")
  case True
  then show ?thesis using site_probed [OF True, of "vi_env v" "arrive v hashes"]
    by (auto simp: serve_def arrive_def)
next
  case False
  obtain out s' where t: "tagged_rest (vi_env v) (vi_request v) (arrive v hashes) = (out, s')" by fastforce
  then show ?thesis
  proof (cases rule: tagged_rest_cases)
    case (1 rid r lr' data')
    have "snd lr' = (case charge (vi_env v) (fst (vi_data v)) (vi_request v) (ss_limiter (arrive v hashes)) of
        None \<Rightarrow> snd (ss_limiter (arrive v hashes)) | Some (_, lr) \<Rightarrow> snd lr)"
      using arg_cong [where f = "\<lambda>x. snd (snd x)", OF 1(2)] unfolding limiter_state by (simp add: arrive_def)
    then show ?thesis
      using False t 1(4) by (simp add: serve_def site_not_probed) (simp add: arrive_def split: option.split)
  qed
qed

lemma consume_hashes:
  assumes "consume tos up now identity rate burst 1 (sha, rd) = Inr (r, sha', rd')"
  shows "\<exists>reply x. token_bucket tos (of_int rate / 60) (of_int burst) 1 now (rd_hashes rd (''rl:'' @ identity)) = (reply, x) \<and>
     br_allowed r = sr_allowed reply \<and> rd_hashes rd' = (rd_hashes rd)(''rl:'' @ identity \<mapsto> x)"
  using assms
  by (auto simp: consume_def evalsha_def load_script_def parse_reply_def Let_def split: if_splits prod.splits)

abbreviation visit_limiter :: "'e visit \<Rightarrow> (pystr \<rightharpoonup> bucket) \<Rightarrow> limiter" where
  "visit_limiter v hashes \<equiv> (vi_bucket v, \<lparr>rd_hashes = hashes, rd_script = vi_cached v\<rparr>)"

lemma charge_visit:
  assumes "charge (vi_env v) (fst (vi_data v)) (vi_request v) (visit_limiter v hashes) = Some (r, lr')"
    and "\<not> probed (vi_request v)"
  shows "\<exists>i rate burst. visit_limits v = Some (i, rate, burst) \<and>
     get_and_consume (se_limiter (vi_env v)) i rate burst (visit_limiter v hashes) = (Inr r, lr')"
  using assms get_and_consume_result
  by (fastforce simp: charge_def visit_limits_def Let_def split: sum.splits option.splits prod.splits if_splits)

lemma serve_uncharged:
  assumes "\<not> charged_to identity v"
  shows "serve v hashes (''rl:'' @ identity) = hashes (''rl:'' @ identity)"
proof (cases "probed (vi_request v) \<or> charge (vi_env v) (fst (vi_data v)) (vi_request v) (visit_limiter v hashes) = None")
  case False
  then obtain r lr' where c: "charge (vi_env v) (fst (vi_data v)) (vi_request v) (visit_limiter v hashes) = Some (r, lr')"
    by auto
  from charge_visit [OF c] False obtain i rate burst where i: "visit_limits v = Some (i, rate, burst)"
    and g: "get_and_consume (se_limiter (vi_env v)) i rate burst (visit_limiter v hashes) = (Inr r, lr')" by blast
  obtain sha sha' where "consume (le_tos (se_limiter (vi_env v))) True (visit_time v) i rate burst 1
      (sha, \<lparr>rd_hashes = hashes, rd_script = vi_cached v\<rparr>) = Inr (r, sha', snd lr')"
    using get_and_consume_result [OF g] by auto
  from consume_hashes [OF this] assms i
  have "rd_hashes (snd lr') (''rl:'' @ identity) = hashes (''rl:'' @ identity)" by (auto simp: charged_to_def)
  then show ?thesis using c False by (simp add: serve_limiter)
qed (auto simp: serve_limiter)

lemma serve_charged:
  assumes "visit_limits v = Some (identity, rate, burst)" and "0 < rate" and "0 < burst"
  shows "\<exists>reply x. token_bucket (le_tos (se_limiter (vi_env v))) (of_int rate / 60) (of_int burst) 1 (visit_time v)
        (hashes (''rl:'' @ identity)) = (reply, x) \<and>
     serve v hashes (''rl:'' @ identity) = Some x \<and>
     (refused (vi_env v) (vi_request v) (arrive v hashes) \<longleftrightarrow> \<not> sr_allowed reply)"
proof -
  have v: "\<not> probed (vi_request v)" "le_up (se_limiter (vi_env v))" "get_bucket (se_limiter (vi_env v)) (vi_bucket v) \<noteq> None"
    using assms(1) by (auto simp: visit_limits_def Let_def split: if_splits)
  obtain res lr' where g: "get_and_consume (se_limiter (vi_env v)) identity rate burst (visit_limiter v hashes) = (res, lr')"
    by (metis prod.exhaust)
  obtain r where r: "res = Inr r"
    using get_and_consume_error [of _ _ _ _ "visit_limiter v hashes"] g v assms(2,3) by (cases res) fastforce+
  obtain sha sha' where "consume (le_tos (se_limiter (vi_env v))) True (visit_time v) identity rate burst 1
      (sha, \<lparr>rd_hashes = hashes, rd_script = vi_cached v\<rparr>) = Inr (r, sha', snd lr')"
    using get_and_consume_result [OF g [unfolded r]] by auto
  note c = consume_hashes [OF this]
  from assms(1) g r have "charge (vi_env v) (fst (vi_data v)) (vi_request v) (visit_limiter v hashes) = Some (r, lr')"
    by (auto simp: visit_limits_def charge_def Let_def split: if_splits sum.splits)
  with c v(1) show ?thesis by (auto simp: serve_limiter refused_def arrive_def)
qed

lemma let_through_granted:
  assumes "0 < rate" and "0 < burst"
  shows "\<forall>v\<in>set vs. charged_to identity v \<longrightarrow>
       visit_limits v = Some (identity, rate, burst) \<and> le_tos (se_limiter (vi_env v)) = tos \<Longrightarrow>
     of_nat (let_through identity vs hashes) =
       granted tos (of_int rate / 60) (of_int burst) (hashes (''rl:'' @ identity))
         (map (\<lambda>v. (visit_time v, 1)) (filter (charged_to identity) vs))"
proof (induction vs arbitrary: hashes)
  case (Cons v vs)
  show ?case
  proof (cases "charged_to identity v")
    case True
    with Cons.prems have "visit_limits v = Some (identity, rate, burst)" "le_tos (se_limiter (vi_env v)) = tos" by auto
    with serve_charged [OF this(1) assms, of hashes] obtain reply x where
      "token_bucket tos (of_int rate / 60) (of_int burst) 1 (visit_time v) (hashes (''rl:'' @ identity)) = (reply, x)"
      "serve v hashes (''rl:'' @ identity) = Some x"
      "refused (vi_env v) (vi_request v) (arrive v hashes) \<longleftrightarrow> \<not> sr_allowed reply" by blast
    with True Cons.prems Cons.IH [of "serve v hashes"] show ?thesis by simp
  next
    case False
    with Cons.prems Cons.IH [of "serve v hashes"] serve_uncharged [OF False, of hashes] show ?thesis by simp
  qed
qed simp

text \<open>
  C12: the limit as a client meets it. Over any sequence of requests in the order of Redis's
  clock, from whatever clients, served by whatever processes, with database and script cache
  changed by others in between, the requests charged to one identity that reach the rest of the chain
  while Redis answers number at most the burst plus the rate per minute times the length of
  the window they fall in, up to the rounding of stored numbers. (The identity's limits are
  those of its key or of the settings; they are taken not to change during the window.)
\<close>

theorem clients_rate_is_limited:
  assumes "0 < rate" and "0 < burst" and "rounds eps tos"
    and "\<forall>v\<in>set vs. charged_to identity v \<longrightarrow>
       visit_limits v = Some (identity, rate, burst) \<and> le_tos (se_limiter (vi_env v)) = tos"
    and "wf_bucket (of_int rate / 60) (of_int burst) (hashes (''rl:'' @ identity))"
    and "sorted (map visit_time vs)" and "\<forall>v\<in>set vs. t0 \<le> visit_time v \<and> visit_time v \<le> t1"
    and "t0 \<le> t1"
  shows "of_nat (let_through identity vs hashes) \<le>
     (of_int burst + of_int rate * of_int (t1 - t0) / 60000 + of_nat (length vs) * eps :: rat)"
proof -
  let ?calls = "map (\<lambda>v. (visit_time v, 1 :: rat)) (filter (charged_to identity) vs)"
  have eps: "0 \<le> eps" using assms(3) by (simp add: rounds_def)
  have count: "of_nat (let_through identity vs hashes) =
      granted tos (of_int rate / 60) (of_int burst) (hashes (''rl:'' @ identity)) ?calls"
    by (rule let_through_granted [OF assms(1,2,4)])
  show ?thesis
  proof (cases "?calls = []")
    case True
    then show ?thesis using count assms(1,2,8) eps by simp
  next
    case False
    have "sorted (map visit_time (filter (charged_to identity) vs))" by (rule sorted_filter [OF assms(6)])
    then have "granted tos (of_int rate / 60) (of_int burst) (hashes (''rl:'' @ identity)) ?calls \<le>
        of_int burst + of_int (fst (last ?calls) - fst (hd ?calls)) * (of_int rate / 60) / 1000 +
        of_nat (length ?calls) * eps"
      using granted_bound [OF _ _ assms(3,5) _ False] assms(1,2) by (simp add: comp_def)
    moreover have "fst (last ?calls) \<in> {t0..t1}" "fst (hd ?calls) \<in> {t0..t1}"
      using False assms(7) last_in_set [of ?calls] hd_in_set [of ?calls] by auto
    then have "of_int rate * of_int (fst (last ?calls) - fst (hd ?calls)) \<le> (of_int rate * of_int (t1 - t0) :: rat)"
      using assms(1) by (intro mult_left_mono) auto
    moreover have "of_nat (length ?calls) * eps \<le> of_nat (length vs) * eps"
      using eps by (intro mult_right_mono) (simp_all add: of_nat_mono)
    ultimately show ?thesis using count by (simp add: field_simps)
  qed
qed

section \<open>The properties on concrete requests\<close>

definition ex_key_get :: request where
  "ex_key_get = ex_get\<lparr>rq_resolved := Some (Some ex_known_key)\<rparr>"

definition ex_site :: "unit site_env" where
  "ex_site =
     \<lparr>se_limits = ex_limits, se_pepper = ''p'', se_limiter = \<lparr>le_tos = (\<lambda>x. x), le_up = True, le_now = 0,
        le_factory = False, le_redis_url = ''redis'', le_from_url = (\<lambda>_. True)\<rparr>,
      se_probe = \<lparr>pe_query_ok = True, pe_factory = False, pe_redis_url = ''redis'', pe_from_url = (\<lambda>_. True), pe_ping = (\<lambda>_. True)\<rparr>,
      se_ulid = ''01ULID'', se_answer = (\<lambda>_. json_response 500 JNull),
      se_rest = (\<lambda>_ rq w. (Inr (json_response 200 JNull), w))\<rparr>"

definition ex_visit :: "unit visit" where
  "ex_visit = \<lparr>vi_env = ex_site, vi_request = ex_key_get,
     vi_data = (empty_db, []),
     vi_bucket = None, vi_cached = False\<rparr>"

lemma ex_visit_limits: "visit_limits ex_visit = Some (''key:'' @ str_nat 7, 60, 5)"
  using ex_derive by (simp add: visit_limits_def ex_visit_def ex_site_def ex_key_get_def probed_def ex_limits_def Let_def
      get_bucket_def make_client_def)
    (simp add: ex_get_def)

theorem clients_rate_is_limited_witness:
  "of_nat (let_through (''key:'' @ str_nat 7) (replicate 10 ex_visit) (\<lambda>_. None)) \<le>
     (of_int 5 + of_int 60 * of_int (0 - 0) / 60000 + of_nat (length (replicate 10 ex_visit)) * 0 :: rat)"
proof (rule clients_rate_is_limited [where tos = "\<lambda>x. x"])
  show "\<forall>v\<in>set (replicate 10 ex_visit). charged_to (''key:'' @ str_nat 7) v \<longrightarrow>
      visit_limits v = Some (''key:'' @ str_nat 7, 60, 5) \<and> le_tos (se_limiter (vi_env v)) = (\<lambda>x. x)"
    by (simp add: ex_visit_limits) (simp add: ex_visit_def ex_site_def)
  show "sorted (map visit_time (replicate 10 ex_visit))" by simp
  show "\<forall>v\<in>set (replicate 10 ex_visit). 0 \<le> visit_time v \<and> visit_time v \<le> 0"
    by (simp add: ex_visit_def ex_site_def)
qed (simp_all add: rounds_def wf_bucket_def)

definition ex_empty_bucket :: site_state where
  "ex_empty_bucket = arrive ex_visit (\<lambda>_. Some \<lparr>bk_tokens = 0, bk_last = 0, bk_expires = 9000\<rparr>)"

lemma ex_refused: "refused ex_site ex_key_get ex_empty_bucket"
proof -
  obtain reply x where t: "token_bucket (\<lambda>x. x) 1 5 1 0 (Some \<lparr>bk_tokens = 0, bk_last = 0, bk_expires = 9000\<rparr>) = (reply, x)"
    and r: "refused (vi_env ex_visit) (vi_request ex_visit) ex_empty_bucket \<longleftrightarrow> \<not> sr_allowed reply"
    using serve_charged [OF ex_visit_limits, of "\<lambda>_. Some \<lparr>bk_tokens = 0, bk_last = 0, bk_expires = 9000\<rparr>"]
    by (auto simp: ex_empty_bucket_def ex_visit_def ex_site_def)
  from t have "\<not> sr_allowed reply" by (auto simp: token_bucket_def live_bucket_def script_on_def refill_def Let_def)
  with r show ?thesis by (simp add: ex_visit_def)
qed

theorem site_answers_witness:
  "\<exists>rs s'. site ex_site ex_key_get ex_empty_bucket = (Inr rs, s') \<and> rs_status rs = 429 \<and>
     ss_data s' = ss_data ex_empty_bucket \<and> (\<exists>rid. ss_log s' = [(Some rid, 429)])"
proof -
  obtain out s' where run: "site ex_site ex_key_get ex_empty_bucket = (out, s')" by fastforce
  have "\<not> probed ex_key_get" by (simp add: probed_def ex_key_get_def ex_get_def)
  with site_answers [OF run] ex_refused run show ?thesis
    by (auto simp: ex_empty_bucket_def arrive_def)
qed

end
