(* ===== verification/Relay_Profiles.thy ===== *)
theory Relay_Profiles
  imports Relay_Settings Relay_Middleware
begin

text \<open>
  The settings the program reads at run time, as the profiles \<open>dev\<close>, \<open>test\<close> and \<open>prod\<close> of
  \<open>notify_relay/settings\<close> make them from \<open>base.py\<close> and the environment. Reading and casting
  an environment variable is \<open>django-environ\<close>'s: a function of the name and a default.
\<close>

section \<open>The environment\<close>

record environ =
  ev_str :: "pystr \<Rightarrow> pystr \<Rightarrow> pystr"
  ev_bool :: "pystr \<Rightarrow> bool \<Rightarrow> bool"
  ev_int :: "pystr \<Rightarrow> int \<Rightarrow> int"
  ev_list :: "pystr \<Rightarrow> pystr list \<Rightarrow> pystr list"

text \<open>The defaults declared with \<open>environ.Env\<close>, by type; \<open>base_dir\<close> is the repository's path.\<close>

record env_scheme =
  es_bool :: "(pystr \<times> bool) list"
  es_list :: "(pystr \<times> pystr list) list"
  es_str :: "(pystr \<times> pystr) list"
  es_int :: "(pystr \<times> int) list"

definition env_defaults :: "pystr \<Rightarrow> env_scheme" where
  "env_defaults base_dir =
     \<lparr>es_bool = [(''DEBUG'', False), (''SMTP_TLS'', False)],
      es_list = [(''ALLOWED_HOSTS'', []), (''WEBHOOK_BLOCKED_NETWORKS'', [])],
      es_str =
        [(''DATABASE_URL'', ''sqlite:///'' @ base_dir @ ''/db.sqlite3''),
         (''REDIS_URL'', ''redis://localhost:6379/0''),
         (''CELERY_BROKER_URL'', ''redis://localhost:6379/1''),
         (''CELERY_RESULT_BACKEND'', ''redis://localhost:6379/2''),
         (''LOG_LEVEL'', ''INFO''),
         (''LOG_FORMAT'', ''plain''),
         (''DEFAULT_FROM_EMAIL'', ''no-reply@notify-relay.internal''),
         (''SMTP_HOST'', ''localhost''),
         (''SMTP_USER'', []),
         (''SMTP_PASSWORD'', [])],
      es_int = [(''SMTP_PORT'', 1025), (''WEBHOOK_TIMEOUT_S'', 10)]\<rparr>"

text \<open>\<open>env(name)\<close>, with the default of the scheme.\<close>

definition env_of :: "('a \<Rightarrow> 'b \<Rightarrow> 'b) \<Rightarrow> ('a \<times> 'b) list \<Rightarrow> 'a \<Rightarrow> 'b" where
  "env_of read scheme name = read name (the (map_of scheme name))"

section \<open>The settings\<close>

record simple_jwt =
  sj_algorithm :: pystr
  sj_signing_key :: pystr
  sj_access_lifetime :: int
  sj_refresh_lifetime :: int

record email_settings =
  EMAIL_HOST :: pystr
  EMAIL_PORT :: int
  EMAIL_HOST_USER :: pystr
  EMAIL_HOST_PASSWORD :: pystr
  EMAIL_USE_TLS :: bool
  DEFAULT_FROM_EMAIL :: pystr

record settings =
  st_secrets :: secrets
  st_debug :: bool
  st_allowed_hosts :: "pystr list"
  st_jwt :: simple_jwt
  st_broker_url :: pystr
  st_result_backend :: pystr
  st_email :: email_settings
  st_redis_url :: pystr
  st_webhook_timeout_s :: int
  st_blocked_networks :: "pystr list"
  st_limits :: limits
  st_log_level :: pystr
  st_log_format :: pystr
  st_console_formatter :: "pystr option"

definition base_secrets :: "environ \<Rightarrow> secrets" where
  "base_secrets ev =
     \<lparr>SECRET_KEY = ev_str ev ''SECRET_KEY'' [], JWT_SIGNING_KEY = ev_str ev ''JWT_SIGNING_KEY'' [],
      API_KEY_HASH_PEPPER = ev_str ev ''API_KEY_HASH_PEPPER'' [],
      WEBHOOK_HMAC_SECRET = ev_str ev ''WEBHOOK_HMAC_SECRET'' []\<rparr>"

definition SIMPLE_JWT :: "pystr \<Rightarrow> simple_jwt" where
  "SIMPLE_JWT signing_key =
     \<lparr>sj_algorithm = ''HS256'', sj_signing_key = signing_key,
      sj_access_lifetime = minutes 15, sj_refresh_lifetime = days 7\<rparr>"

definition base_email :: "environ \<Rightarrow> env_scheme \<Rightarrow> email_settings" where
  "base_email ev es =
     \<lparr>EMAIL_HOST = env_of (ev_str ev) (es_str es) ''SMTP_HOST'',
      EMAIL_PORT = env_of (ev_int ev) (es_int es) ''SMTP_PORT'',
      EMAIL_HOST_USER = env_of (ev_str ev) (es_str es) ''SMTP_USER'',
      EMAIL_HOST_PASSWORD = env_of (ev_str ev) (es_str es) ''SMTP_PASSWORD'',
      EMAIL_USE_TLS = env_of (ev_bool ev) (es_bool es) ''SMTP_TLS'',
      DEFAULT_FROM_EMAIL = env_of (ev_str ev) (es_str es) ''DEFAULT_FROM_EMAIL''\<rparr>"

text \<open>\<open>LOGGING\<close>: the console handler's formatter.\<close>

definition console_formatter :: "pystr \<Rightarrow> pystr" where
  "console_formatter log_format = (if log_format \<in> {''plain'', ''json''} then log_format else ''plain'')"

definition base_settings :: "environ \<Rightarrow> pystr \<Rightarrow> settings" where
  "base_settings ev base_dir =
     (let es = env_defaults base_dir; secrets = base_secrets ev; log_format = env_of (ev_str ev) (es_str es) ''LOG_FORMAT'' in
      \<lparr>st_secrets = secrets,
       st_debug = env_of (ev_bool ev) (es_bool es) ''DEBUG'',
       st_allowed_hosts = env_of (ev_list ev) (es_list es) ''ALLOWED_HOSTS'',
       st_jwt = SIMPLE_JWT (JWT_SIGNING_KEY secrets),
       st_broker_url = env_of (ev_str ev) (es_str es) ''CELERY_BROKER_URL'',
       st_result_backend = env_of (ev_str ev) (es_str es) ''CELERY_RESULT_BACKEND'',
       st_email = base_email ev es,
       st_redis_url = env_of (ev_str ev) (es_str es) ''REDIS_URL'',
       st_webhook_timeout_s = env_of (ev_int ev) (es_int es) ''WEBHOOK_TIMEOUT_S'',
       st_blocked_networks = env_of (ev_list ev) (es_list es) ''WEBHOOK_BLOCKED_NETWORKS'',
       st_limits = base_limits (ev_bool ev) (ev_int ev),
       st_log_level = env_of (ev_str ev) (es_str es) ''LOG_LEVEL'',
       st_log_format = log_format,
       st_console_formatter = Some (console_formatter log_format)\<rparr>)"

section \<open>Profiles\<close>

definition dev_settings :: "environ \<Rightarrow> pystr \<Rightarrow> settings" where
  "dev_settings ev base_dir =
     (let base = base_settings ev base_dir; secrets = dev_secrets (st_secrets base) in
      base\<lparr>st_debug := ev_bool ev ''DEBUG'' True,
           st_allowed_hosts := dev_allowed_hosts (st_allowed_hosts base),
           st_secrets := secrets,
           st_jwt := (st_jwt base)\<lparr>sj_signing_key := JWT_SIGNING_KEY secrets\<rparr>\<rparr>)"

definition test_settings :: "environ \<Rightarrow> pystr \<Rightarrow> settings" where
  "test_settings ev base_dir =
     (let base = base_settings ev base_dir;
          secrets = \<lparr>SECRET_KEY = ''test-insecure-secret-key'',
            JWT_SIGNING_KEY = ''test-insecure-jwt-signing-key-0123456789'',
            API_KEY_HASH_PEPPER = ''test-insecure-pepper'', WEBHOOK_HMAC_SECRET = ''test-insecure-webhook-secret''\<rparr> in
      base\<lparr>st_debug := False,
           st_allowed_hosts := [''testserver''],
           st_secrets := secrets,
           st_jwt := (st_jwt base)\<lparr>sj_signing_key := JWT_SIGNING_KEY secrets\<rparr>,
           st_broker_url := ''memory://'',
           st_result_backend := ''cache+memory://'',
           st_console_formatter := None,
           st_limits := (st_limits base)\<lparr>lm_enabled := False\<rparr>\<rparr>)"

record prod_settings = settings +
  SECURE_PROXY_SSL_HEADER :: "pystr \<times> pystr"
  SECURE_SSL_REDIRECT :: bool
  SECURE_REDIRECT_EXEMPT :: "pystr list"
  SECURE_HSTS_SECONDS :: nat
  SECURE_HSTS_INCLUDE_SUBDOMAINS :: bool
  SECURE_HSTS_PRELOAD :: bool
  SECURE_CONTENT_TYPE_NOSNIFF :: bool
  SECURE_REFERRER_POLICY :: pystr
  SESSION_COOKIE_SECURE :: bool
  CSRF_COOKIE_SECURE :: bool
  X_FRAME_OPTIONS :: pystr
  SERVE_PERMISSIONS :: "pystr list"

definition harden :: "environ \<Rightarrow> settings \<Rightarrow> prod_settings" where
  "harden ev base =
     settings.extend (base\<lparr>st_debug := False, st_log_format := ''json'', st_console_formatter := Some ''json''\<rparr>)
       \<lparr>SECURE_PROXY_SSL_HEADER = (''HTTP_X_FORWARDED_PROTO'', ''https''),
        SECURE_SSL_REDIRECT = ev_bool ev ''SECURE_SSL_REDIRECT'' True,
        SECURE_REDIRECT_EXEMPT = [''^health/'', ''^metrics$''],
        SECURE_HSTS_SECONDS = 31536000,
        SECURE_HSTS_INCLUDE_SUBDOMAINS = True,
        SECURE_HSTS_PRELOAD = True,
        SECURE_CONTENT_TYPE_NOSNIFF = True,
        SECURE_REFERRER_POLICY = ''strict-origin-when-cross-origin'',
        SESSION_COOKIE_SECURE = True,
        CSRF_COOKIE_SECURE = True,
        X_FRAME_OPTIONS = ''DENY'',
        SERVE_PERMISSIONS = [''rest_framework.permissions.IsAdminUser'']\<rparr>"

definition load_prod :: "environ \<Rightarrow> pystr \<Rightarrow> config_error + prod_settings" where
  "load_prod ev base_dir =
     (let base = base_settings ev base_dir in
      case prod_startup (st_secrets base) (st_allowed_hosts base) of
        Some e \<Rightarrow> Inl e
      | None \<Rightarrow> Inr (harden ev base))"

section \<open>Properties\<close>

definition exported :: "settings \<Rightarrow> environ \<Rightarrow> environ" where
  "exported st ev = ev\<lparr>ev_str := (\<lambda>name d.
     if name = ''SECRET_KEY'' then SECRET_KEY (st_secrets st)
     else if name = ''JWT_SIGNING_KEY'' then JWT_SIGNING_KEY (st_secrets st)
     else if name = ''API_KEY_HASH_PEPPER'' then API_KEY_HASH_PEPPER (st_secrets st)
     else if name = ''WEBHOOK_HMAC_SECRET'' then WEBHOOK_HMAC_SECRET (st_secrets st)
     else ev_str ev name d)\<rparr>"

lemma load_prod_None:
  "(\<exists>p. load_prod ev base_dir = Inr p) \<longleftrightarrow>
     prod_startup (base_secrets ev) (env_of (ev_list ev) (es_list (env_defaults base_dir)) ''ALLOWED_HOSTS'') = None"
  by (simp add: load_prod_def base_settings_def Let_def split: option.split)

lemma base_secrets_exported: "base_secrets (exported st ev) = st_secrets st"
  by (cases "st_secrets st") (simp add: base_secrets_def exported_def)

lemma test_secrets_weak: "prod_startup (st_secrets (test_settings ev base_dir)) hosts \<noteq> None"
  by (simp add: test_settings_def Let_def prod_startup_ok weak_secret_def py_startswith_def)

definition SECRET_NAMES :: "pystr list" where
  "SECRET_NAMES = [''SECRET_KEY'', ''JWT_SIGNING_KEY'', ''API_KEY_HASH_PEPPER'', ''WEBHOOK_HMAC_SECRET'']"

lemma prod_startup_env:
  "prod_startup (base_secrets ev) hosts = None \<longleftrightarrow>
     list_all (\<lambda>n. \<not> weak_secret (ev_str ev n [])) SECRET_NAMES \<and> hosts \<noteq> [] \<and> ''*'' \<notin> set hosts"
  by (simp add: prod_startup_ok base_secrets_def SECRET_NAMES_def)

lemma load_prod_fields:
  assumes "load_prod ev base_dir = Inr p"
  shows "\<not> st_debug p" "st_console_formatter p = Some ''json''" "SESSION_COOKIE_SECURE p" "CSRF_COOKIE_SECURE p"
    "st_secrets p = base_secrets ev" "sj_signing_key (st_jwt p) = ev_str ev ''JWT_SIGNING_KEY'' []"
    "st_limits p = base_limits (ev_bool ev) (ev_int ev)"
  using assms
  by (auto simp: load_prod_def harden_def base_settings_def settings.defs SIMPLE_JWT_def base_secrets_def Let_def
      split: option.splits)


definition ex_environ :: environ where
  "ex_environ = \<lparr>ev_str = (\<lambda>n d. if n \<in> set SECRET_NAMES then replicate 32 CHR ''k'' else d), ev_bool = (\<lambda>n d. d),
     ev_int = (\<lambda>n d. d), ev_list = (\<lambda>n d. if n = ''ALLOWED_HOSTS'' then [''relay.example''] else d)\<rparr>"


end
