(* ===== verification/Relay_Channels.thy ===== *)
theory Relay_Channels
  imports Relay_Validators Relay_Channel_Base Relay_Security
begin

text \<open>
  \<open>apps/channels/\<close>: the email and webhook adapters and the webhook signature. What the
  SMTP backend and the HTTP client answer is part of the environment; the adapters build
  the message or request and classify the answer. Both keep the contract of
  \<open>channel_contract\<close>.
\<close>

section \<open>The signature\<close>

definition SIGNATURE_PREFIX :: pystr where "SIGNATURE_PREFIX = ''sha256=''"

definition signed_payload :: "byte list \<Rightarrow> pystr \<Rightarrow> byte list" where
  "signed_payload body timestamp = utf8 timestamp @ utf8 ''.'' @ body"

definition compute_signature :: "byte list \<Rightarrow> pystr \<Rightarrow> pystr \<Rightarrow> pystr" where
  "compute_signature body secret timestamp =
     SIGNATURE_PREFIX @ hmac_sha256 (utf8 secret) (signed_payload body timestamp)"

text \<open>\<open>hmac.compare_digest\<close> refuses text that is not ASCII with a \<open>TypeError\<close>.\<close>

datatype compare_error = CompareTypeError

definition verify_signature :: "byte list \<Rightarrow> pystr \<Rightarrow> pystr \<Rightarrow> pystr \<Rightarrow> compare_error + bool" where
  "verify_signature body secret timestamp header_value =
     (if \<not> py_startswith header_value SIGNATURE_PREFIX then Inr False
      else if \<not> is_ascii header_value then Inl CompareTypeError
      else Inr (compute_signature body secret timestamp = header_value))"

section \<open>Email\<close>

record email_message =
  em_subject :: pystr
  em_body :: pystr
  em_from :: "pystr option"
  em_to :: "pystr list"
  em_subtype :: pystr

datatype smtp_outcome =
    Accepted int
  | SMTPResponseException int pystr
  | SMTPException pystr
  | OtherException pystr

record email_env =
  ee_from :: "pystr option"
  ee_send :: "email_message \<Rightarrow> smtp_outcome"

definition build_email :: "email_env \<Rightarrow> message \<Rightarrow> email_message" where
  "build_email e m =
     \<lparr>em_subject = (if msg_rendered_subject m \<noteq> [] then msg_rendered_subject m else ''(no subject)''),
      em_body = msg_rendered_body m, em_from = ee_from e, em_to = [msg_recipient m], em_subtype = ''html''\<rparr>"

definition email_send :: "email_env \<Rightarrow> message \<Rightarrow> send_outcome" where
  "email_send e m =
     (case ee_send e (build_email e m) of
        SMTPResponseException code err \<Rightarrow>
          Inr \<lparr>cr_success = False, cr_transient = (400 \<le> code \<and> code < 500), cr_error_message = err,
               cr_http_status = None, cr_smtp_code = Some code\<rparr>
      | SMTPException err \<Rightarrow>
          Inr \<lparr>cr_success = False, cr_transient = True, cr_error_message = err,
               cr_http_status = None, cr_smtp_code = None\<rparr>
      | OtherException exc \<Rightarrow> Inl exc
      | Accepted sent \<Rightarrow>
          if sent = 0 then
            Inr \<lparr>cr_success = False, cr_transient = True,
                 cr_error_message = ''email backend reported zero sent'',
                 cr_http_status = None, cr_smtp_code = None\<rparr>
          else Inr \<lparr>cr_success = True, cr_transient = False, cr_error_message = [],
                    cr_http_status = None, cr_smtp_code = None\<rparr>)"

section \<open>Webhook\<close>

text \<open>The request the HTTP client is asked to make: the URL with its host replaced.\<close>

record http_post =
  hp_url :: url_parts
  hp_connect :: pystr
  hp_body :: "byte list"
  hp_headers :: "(pystr \<times> pystr) list"
  hp_sni :: "pystr option"
  hp_timeout :: int
  hp_trust_env :: bool
  hp_follow_redirects :: bool

datatype http_outcome = Status int | Timeout pystr | RequestError pystr | HttpOther pystr

record webhook_env =
  wh_web :: web_env
  wh_db :: db
  wh_hmac_secret :: pystr
  wh_now :: int
  wh_timeout :: int
  wh_post :: "http_post \<Rightarrow> http_outcome"

definition default_secret :: "pystr \<Rightarrow> db \<Rightarrow> message \<Rightarrow> pystr" where
  "default_secret global d m =
     (case msg_api_key m of
        None \<Rightarrow> global
      | Some k \<Rightarrow> (case get_api_key k d of
                     None \<Rightarrow> global
                   | Some ak \<Rightarrow> if ak_webhook_secret ak \<noteq> [] then ak_webhook_secret ak else global))"

definition is_ip_literal :: "pystr \<Rightarrow> bool" where
  "is_ip_literal host \<longleftrightarrow> ip_address host \<noteq> None"

definition build_post :: "webhook_env \<Rightarrow> message \<Rightarrow> url_parts \<Rightarrow> pystr \<Rightarrow> http_post" where
  "build_post e m u addr =
     (let body = utf8 (msg_rendered_body m);
          timestamp = str_int (wh_now e);
          secret = default_secret (wh_hmac_secret e) (wh_db e) m
      in \<lparr>hp_url = u, hp_connect = addr, hp_body = body,
          hp_headers =
            [(''Host'', up_netloc u),
             (''Content-Type'', ''application/json''),
             (''User-Agent'', ''notify-relay/0.1''),
             (''X-Notify-Signature'', compute_signature body secret timestamp),
             (''X-Notify-Timestamp'', timestamp),
             (''X-Notify-Message-Id'', msg_id m)],
          hp_sni = (if up_scheme u = ''https'' \<and> \<not> is_ip_literal (up_name u) then Some (up_host u) else None),
          hp_timeout = wh_timeout e, hp_trust_env = False, hp_follow_redirects = False\<rparr>)"

definition classify_status :: "int \<Rightarrow> channel_result" where
  "classify_status code =
     (if 200 \<le> code \<and> code < 300 then
        \<lparr>cr_success = True, cr_transient = False, cr_error_message = [],
         cr_http_status = Some code, cr_smtp_code = None\<rparr>
      else \<lparr>cr_success = False,
            cr_transient = (code \<in> {408, 425, 429} \<or> (500 \<le> code \<and> code < 600)),
            cr_error_message = ''http '' @ str_int code,
            cr_http_status = Some code, cr_smtp_code = None\<rparr>)"

definition network_failure :: "pystr \<Rightarrow> channel_result" where
  "network_failure msg = \<lparr>cr_success = False, cr_transient = True, cr_error_message = msg,
     cr_http_status = None, cr_smtp_code = None\<rparr>"

text \<open>What is known before connecting: a result or exception already, or the request to make.\<close>

definition webhook_prepare :: "webhook_env \<Rightarrow> message \<Rightarrow> send_outcome + http_post" where
  "webhook_prepare e m =
     (case validate_webhook_url (wh_web e) (msg_recipient m) False of
        Inl BadNetworks \<Rightarrow> Inl (Inl ''ValueError'')
      | Inl (Invalid why) \<Rightarrow>
          Inl (Inr \<lparr>cr_success = False, cr_transient = False, cr_error_message = refusal_message why,
                    cr_http_status = None, cr_smtp_code = None\<rparr>)
      | Inr addresses \<Rightarrow>
          (case we_url (wh_web e) (msg_recipient m) of
             Inl msg \<Rightarrow> Inl (Inl msg)
           | Inr u \<Rightarrow>
               if addresses = [] then Inl (Inl ''IndexError'')
               else Inr (build_post e m u (hd addresses))))"

definition webhook_send :: "webhook_env \<Rightarrow> message \<Rightarrow> send_outcome" where
  "webhook_send e m =
     (case webhook_prepare e m of
        Inl out \<Rightarrow> out
      | Inr post \<Rightarrow>
          (case wh_post e post of
             Timeout exc \<Rightarrow> Inr (network_failure (''timeout: '' @ exc))
           | RequestError exc \<Rightarrow> Inr (network_failure exc)
           | HttpOther exc \<Rightarrow> Inl exc
           | Status code \<Rightarrow> Inr (classify_status code)))"

definition webhook_refused :: "webhook_env \<Rightarrow> message \<Rightarrow> bool" where
  "webhook_refused e m =
     (case validate_webhook_url (wh_web e) (msg_recipient m) False of Inl (Invalid _) \<Rightarrow> True | _ \<Rightarrow> False)"

section \<open>Both channels keep the contract\<close>

interpretation email_channel: channel_contract email_send "\<lambda>_ _. False"
  by unfold_locales (auto simp: email_send_def split: smtp_outcome.splits if_splits)

lemma webhook_send_cases:
  assumes "webhook_send e m = Inr r"
  shows "webhook_refused e m \<and> \<not> cr_success r \<and> \<not> cr_transient r \<and> cr_http_status r = None \<and> cr_smtp_code r = None \<or>
     (\<exists>msg. r = network_failure msg) \<or> (\<exists>code. r = classify_status code)"
  using assms
  by (auto simp: webhook_send_def webhook_prepare_def webhook_refused_def
      split: sum.splits web_error.splits http_outcome.splits if_splits)

lemma webhook_refused_permanent:
  "webhook_refused e m \<Longrightarrow> \<exists>r. webhook_send e m = Inr r \<and> \<not> cr_success r \<and> \<not> cr_transient r"
  by (auto simp: webhook_refused_def webhook_send_def webhook_prepare_def split: sum.splits web_error.splits)

interpretation webhook_channel: channel_contract webhook_send webhook_refused
proof unfold_locales
  fix e m r assume s: "webhook_send e m = Inr r"
  note cases = webhook_send_cases [OF s]
  show "cr_success r \<Longrightarrow> \<not> cr_transient r \<and> cr_error_message r = []"
    using cases by (auto simp: network_failure_def classify_status_def split: if_splits)
  show "cr_http_status r = None \<or> cr_smtp_code r = None"
    using cases by (auto simp: network_failure_def classify_status_def split: if_splits)
  show "\<not> cr_success r \<Longrightarrow> \<not> cr_transient r \<Longrightarrow>
      webhook_refused e m \<or> cr_http_status r \<noteq> None \<or> cr_smtp_code r \<noteq> None"
    using cases by (auto simp: network_failure_def classify_status_def split: if_splits)
qed (rule webhook_refused_permanent)

section \<open>Facts on signatures\<close>

lemma hex_digits_ascii: "c \<in> set hex_digits \<Longrightarrow> code_point c < 128"
  by (auto simp: hex_digits_def code_point_def)

lemma compute_signature_ascii: "is_ascii (compute_signature body secret ts)"
proof -
  have "is_ascii SIGNATURE_PREFIX" by code_simp
  moreover have "is_ascii (hmac_sha256 k x)" for k x
    using hexlify_digits hex_digits_ascii by (auto simp: hmac_sha256_def Let_def is_ascii_def list_all_iff)
  ultimately show ?thesis by (simp add: compute_signature_def is_ascii_def)
qed

lemma verify_computed: "verify_signature body secret ts (compute_signature body secret ts) = Inr True"
  using compute_signature_ascii by (simp add: verify_signature_def compute_signature_def)

lemma split_at_first:
  "x \<notin> set a \<Longrightarrow> x \<notin> set b \<Longrightarrow> a @ x # c = b @ x # d \<longleftrightarrow> a = b \<and> c = d"
  by (induction a arbitrary: b) (case_tac b; auto)+

lemma digit_code: "ascii_digit c \<Longrightarrow> 48 \<le> code_point c \<and> code_point c \<le> 57"
  by (simp add: ascii_digit_def)

lemma utf8_digits:
  assumes "list_all ascii_digit s" shows "utf8 s = map (\<lambda>c. word_of_nat (code_point c)) s"
  using assms by (induction s) (auto simp: utf8_def utf8_char_def Let_def dest!: digit_code)

lemma byte_inject: "m < 256 \<Longrightarrow> n < 256 \<Longrightarrow> (word_of_nat m :: byte) = word_of_nat n \<longleftrightarrow> m = n"
  by (simp add: word_of_nat_eq_iff take_bit_nat_eq_self)

lemma utf8_digits_inject:
  assumes "list_all ascii_digit s" and "list_all ascii_digit t"
  shows "utf8 s = utf8 t \<longleftrightarrow> s = t"
proof -
  have "inj (\<lambda>c. word_of_nat (code_point c) :: byte)"
    by (rule injI) (simp add: byte_inject)
  then show ?thesis by (simp add: utf8_digits assms inj_map_eq_map)
qed

lemma utf8_digits_no_dot:
  assumes "list_all ascii_digit s" shows "(46 :: byte) \<notin> set (utf8 s)"
proof -
  have "(word_of_nat (code_point c) :: byte) \<noteq> 46" if "ascii_digit c" for c
    using byte_inject [of "code_point c" 46] digit_code [OF that] by simp
  with assms show ?thesis by (auto simp: utf8_digits list_all_iff)
qed

section \<open>Properties\<close>

text \<open>
  The signature binds the timestamp and the body. The bytes under the HMAC are
  different for different pairs of timestamp (Unix seconds) and body, so a receiver that
  verifies the signature and accepts one pair has not accepted any other; and what the
  sender computes verifies.
\<close>

theorem signature_binds_timestamp_and_body:
  "(signed_payload b1 (str_int (int t1)) = signed_payload b2 (str_int (int t2)) \<longleftrightarrow> t1 = t2 \<and> b1 = b2) \<and>
   verify_signature b1 secret (str_int (int t1)) (compute_signature b1 secret (str_int (int t1))) = Inr True"
proof -
  have dig: "list_all ascii_digit (str_nat t)" for t using str_nat_digits by (auto simp: list_all_iff)
  have dot: "utf8 ''.'' = [46]" by code_simp
  have "signed_payload b1 (str_int (int t1)) = signed_payload b2 (str_int (int t2)) \<longleftrightarrow>
      utf8 (str_nat t1) @ 46 # b1 = utf8 (str_nat t2) @ 46 # b2"
    by (simp add: signed_payload_def str_int_def dot)
  also have "\<dots> \<longleftrightarrow> t1 = t2 \<and> b1 = b2"
    using split_at_first [OF utf8_digits_no_dot [OF dig] utf8_digits_no_dot [OF dig]]
    by (simp add: utf8_digits_inject dig)
  finally show ?thesis using verify_computed by simp
qed

text \<open>
  C19: where a webhook goes. A request the webhook channel makes connects to an address
  that passed the guard, keeps the original host name in \<open>Host\<close>, follows no redirect and
  reads no proxy settings; it carries the stored body unchanged, the message id, and a
  signature over timestamp and body that verifies with the sending key's secret.
\<close>

theorem webhook_request_is_safe:
  assumes "webhook_prepare e m = Inr post"
  shows "(\<exists>a. ip_address (hp_connect post) = Some a \<and> public_ip a) \<and>
     we_url (wh_web e) (msg_recipient m) = Inr (hp_url post) \<and>
     map_of (hp_headers post) ''Host'' = Some (up_netloc (hp_url post)) \<and>
     map_of (hp_headers post) ''X-Notify-Message-Id'' = Some (msg_id m) \<and>
     \<not> hp_follow_redirects post \<and> \<not> hp_trust_env post \<and> hp_body post = utf8 (msg_rendered_body m) \<and>
     (\<exists>ts sig. map_of (hp_headers post) ''X-Notify-Timestamp'' = Some ts \<and>
        map_of (hp_headers post) ''X-Notify-Signature'' = Some sig \<and>
        verify_signature (hp_body post) (default_secret (wh_hmac_secret e) (wh_db e) m) ts sig = Inr True)"
proof -
  obtain addrs u where v: "validate_webhook_url (wh_web e) (msg_recipient m) False = Inr addrs"
    and u: "we_url (wh_web e) (msg_recipient m) = Inr u" and "addrs \<noteq> []"
    and post: "post = build_post e m u (hd addrs)"
    using assms by (auto simp: webhook_prepare_def split: sum.splits web_error.splits if_splits)
  then have "is_blocked_ip (we_networks (wh_web e)) (hd addrs) = Inr False"
    using validated_not_blocked [OF v] by simp
  from not_blocked_public [OF this] u show ?thesis
    by (auto simp: post build_post_def Let_def verify_computed)
qed

theorem webhook_request_is_safe_witness:
  "\<exists>e m post. webhook_prepare e m = Inr post \<and> hp_connect post = ''8.8.8.8'' \<and>
     map_of (hp_headers post) ''Host'' = Some ''a.example'' \<and> \<not> hp_follow_redirects post"
proof -
  let ?m = "\<lparr>msg_id = ''m1'', msg_idempotency_key = ''k'', msg_api_key = None, msg_channel = WEBHOOK,
      msg_recipient = ''https://a.example/x'', msg_template_version = None, msg_rendered_subject = [],
      msg_rendered_body = ''{}'', msg_context = JObj [], msg_priority = DEFAULT, msg_status = SENDING,
      msg_scheduled_at = None, msg_enqueued_at = Some 0, msg_claimed_by = ''t'', msg_created_at = 0,
      msg_updated_at = 0\<rparr>"
  define e :: webhook_env where
    "e = \<lparr>wh_web = ex_web, wh_db = \<lparr>api_keys = [], templates = [], template_versions = [], messages = [],
        attempts = [], dead_letters = [], seq_api_key = 1, seq_template = 1, seq_template_version = 1\<rparr>,
      wh_hmac_secret = ''secret'', wh_now = 1700000000, wh_timeout = 10, wh_post = (\<lambda>_. Status 204)\<rparr>"
  have "webhook_prepare e ?m = Inr (build_post e ?m ex_url ''8.8.8.8'')"
    by (simp add: webhook_prepare_def e_def ex_validate) (simp add: ex_web_def)
  moreover from webhook_request_is_safe [OF this]
  have "map_of (hp_headers (build_post e ?m ex_url ''8.8.8.8'')) ''Host'' = Some ''a.example'' \<and>
      \<not> hp_follow_redirects (build_post e ?m ex_url ''8.8.8.8'')"
    by (simp add: e_def ex_web_def ex_url_def build_post_def Let_def)
  ultimately show ?thesis by (intro exI [of _ e] exI [of _ ?m] exI conjI) (auto simp: build_post_def Let_def)
qed

end
