(* ===== verification/Relay_Outcomes.thy ===== *)
theory Relay_Outcomes
  imports Relay_Example Relay_Channels
begin

text \<open>
  The delivery task running a real channel: which answer of a server leads to which status
  of the message. Here \<open>_dispatch\<close>, the two channel adapters and the recipient check meet.
\<close>

text \<open>Seven runs at most: the first one and six retries.\<close>

definition retry_or_dead :: "nat \<Rightarrow> message_status" where
  "retry_or_dead retries_done = (if retries_done < 6 then SENDING else DEAD)"

definition http_fate :: "int \<Rightarrow> nat \<Rightarrow> message_status" where
  "http_fate code n =
     (if 200 \<le> code \<and> code \<le> 299 then SENT
      else if code = 408 \<or> code = 425 \<or> code = 429 \<or> 500 \<le> code \<and> code \<le> 599 then retry_or_dead n
      else FAILED)"

definition smtp_fate :: "smtp_outcome \<Rightarrow> nat \<Rightarrow> message_status" where
  "smtp_fate out n =
     (case out of
        Accepted sent \<Rightarrow> if sent = 0 then retry_or_dead n else SENT
      | SMTPResponseException code _ \<Rightarrow> if 400 \<le> code \<and> code \<le> 499 then retry_or_dead n else FAILED
      | _ \<Rightarrow> retry_or_dead n)"

definition attempt_of :: "channel_result \<Rightarrow> delivery_attempt \<Rightarrow> bool" where
  "attempt_of r a \<longleftrightarrow> da_result a = map_result r \<and> da_http_status a = cr_http_status r \<and>
     da_smtp_code a = cr_smtp_code r \<and> da_error_message a = cr_error_message r"

text \<open>
  What \<open>smtplib.getreply\<close> reports for a line without a number is code -1; the text of a reply
  is whatever the server wrote, decoded.
\<close>

definition malformed_reply :: "smtp_outcome \<Rightarrow> bool" where
  "malformed_reply out =
     (case out of
        SMTPResponseException code err \<Rightarrow> code < 0 \<or> \<not> storable_text err
      | SMTPException err \<Rightarrow> \<not> storable_text err
      | OtherException exc \<Rightarrow> \<not> storable_text exc
      | Accepted _ \<Rightarrow> False)"

lemma recordable_email_send:
  "recordable (channel_outcome (email_send e m)) \<longleftrightarrow> \<not> malformed_reply (ee_send e (build_email e m))"
  by (auto simp: recordable_def email_send_def channel_outcome_def channel_raised_def malformed_reply_def
      split: smtp_outcome.splits)

lemma storable_str_int: "storable_text (str_int n)"
  using str_nat_digits [of "CHR 0x00"]
  by (auto simp: storable_text_def str_int_def ascii_digit_def code_point_def)

lemma retry_or_dead_limit: "retry_or_dead n = (if n \<ge> MAX_RETRIES then DEAD else SENDING)"
  by (simp add: retry_or_dead_def MAX_RETRIES_def)

lemma channel_run:
  assumes "delivery_ok d" and "get_message k d = Some m" and "claimable owner m"
    and "channel_outcome (send (set_claim owner (at_claim t) m)) = r" and "recordable r"
  shows "\<exists>res d' mt' m' a. dispatch send owner n t k (d, mt) = (res, d', mt') \<and> get_message k d' = Some m' \<and>
     msg_status m' = final_status r n \<and> message_attempts k d' = message_attempts k d @ [a] \<and> attempt_of r a"
proof -
  let ?a = "new_attempt (set_claim owner (at_claim t) m) r (at_started t) (at_finished t) d"
  have "message_attempts k (run_db owner n t m r d) = message_attempts k d @ [?a]"
    using run_db_attempts [OF assms(2)] get_message_id [OF assms(2)]
    by (simp add: message_attempts_def new_attempt_def set_claim_def)
  moreover have "attempt_of r ?a" by (simp add: attempt_of_def new_attempt_def)
  moreover obtain m' where "get_message k (run_db owner n t m r d) = Some m'" "msg_status m' = final_status r n"
    using run_db_message [OF assms(2), where j = k] by (simp add: set_status_def)
  moreover note dispatch_run(1) [where send = send and t = t and r = r, OF assms(1-3) assms(4) [symmetric] assms(5)]
  ultimately show ?thesis by blast
qed

text \<open>
  C17: what an HTTP answer does. If the check of the URL passes and the receiver answers with
  a status code, one run of the task records exactly one attempt with that code and leaves
  the message sent for 2xx, waiting for a retry or dead for 408, 425, 429 and 5xx, and failed
  for every other code.
\<close>

theorem http_answer_decides:
  assumes "delivery_ok d" and "get_message k d = Some m" and "claimable owner m"
    and "webhook_prepare e (set_claim owner (at_claim t) m) = Inr post" and "wh_post e post = Status code" and "0 \<le> code"
  shows "\<exists>res d' mt' m' a. dispatch (webhook_send e) owner n t k (d, mt) = (res, d', mt') \<and>
     get_message k d' = Some m' \<and> msg_status m' = http_fate code n \<and>
     message_attempts k d' = message_attempts k d @ [a] \<and> da_http_status a = Some code"
proof -
  have out: "channel_outcome (webhook_send e (set_claim owner (at_claim t) m)) = classify_status code"
    using assms(4,5) by (simp add: webhook_send_def channel_outcome_def)
  have rec: "recordable (classify_status code)"
    using assms(6) by (simp add: recordable_def classify_status_def storable_str_int)
  note channel_run [where send = "webhook_send e" and t = t and n = n and mt = mt, OF assms(1-3) out rec]
  moreover have "final_status (classify_status code) n = http_fate code n"
    by (auto simp: final_status_def classify_status_def http_fate_def retry_or_dead_limit)
  moreover have "cr_http_status (classify_status code) = Some code" by (simp add: classify_status_def)
  ultimately show ?thesis by (fastforce simp: attempt_of_def)
qed

text \<open>
  C21: what the mail server's answer does. Acceptance sends the message, a 4xx reply, another
  SMTP failure, an exception or a backend that sent nothing waits for a retry or ends dead,
  and any other reply code fails the message for good, as long as the reply can be recorded at
  all: a code that is not negative, a text without \<open>U+0000\<close>. Each such run records one
  attempt.
\<close>

theorem smtp_answer_decides:
  assumes "delivery_ok d" and "get_message k d = Some m" and "claimable owner m"
    and "\<not> malformed_reply (ee_send e (build_email e (set_claim owner (at_claim t) m)))"
  shows "\<exists>res d' mt' m' a. dispatch (email_send e) owner n t k (d, mt) = (res, d', mt') \<and>
     get_message k d' = Some m' \<and>
     msg_status m' = smtp_fate (ee_send e (build_email e (set_claim owner (at_claim t) m))) n \<and>
     message_attempts k d' = message_attempts k d @ [a]"
proof -
  let ?m = "set_claim owner (at_claim t) m"
  have "final_status (channel_outcome (email_send e ?m)) n = smtp_fate (ee_send e (build_email e ?m)) n"
    by (auto simp: final_status_def email_send_def smtp_fate_def channel_outcome_def channel_raised_def
        retry_or_dead_limit split: smtp_outcome.splits)
  moreover have "recordable (channel_outcome (email_send e ?m))"
    using assms(4) by (simp add: recordable_email_send)
  ultimately show ?thesis
    using channel_run [where send = "email_send e" and t = t and n = n and mt = mt, OF assms(1-3) refl]
    by (fastforce simp: attempt_of_def)
qed

text \<open>
  C22: a reply that cannot be recorded. \<open>smtplib\<close> reports a reply line that does not start
  with a number as code -1, and the email channel hands that to the attempt's \<open>smtp_code\<close>
  column, which refuses it, as \<open>error_message\<close> refuses a reply with the character
  \<open>U+0000\<close>. The task then ends with a database error that is not retried, no attempt
  is recorded, no status is settled and the message stays \<open>sending\<close> under the dead task;
  only the sweep for stale messages, two hours later, finds it again, and a server that
  still answers so puts it back where it was.
\<close>

theorem malformed_reply_never_finishes:
  assumes "get_message k d = Some m" and "claimable owner m"
    and "malformed_reply (ee_send e (build_email e (set_claim owner (at_claim (t 0)) m)))"
  shows "\<exists>err d' mt'. run_task (\<lambda>_. email_send e) owner t k 0 (d, mt) = (Raised (DbError err), d', mt') \<and>
     err \<in> {IntegrityError, DataError} \<and> attempts d' = attempts d \<and> dead_letters d' = dead_letters d \<and>
     get_message k d' = Some (set_claim owner (at_claim (t 0)) m)"
proof -
  have "\<not> recordable (channel_outcome (email_send e (set_claim owner (at_claim (t 0)) m)))"
    using assms(3) by (simp add: recordable_email_send)
  from dispatch_unrecordable [where send = "email_send e" and t = "t 0" and n = 0 and mt = mt, OF assms(1,2) refl this]
  show ?thesis
    using assms(1) by (simp add: run_task.simps [of _ _ _ _ 0] msgs.get_save_same keeps_keysD refusal_of_def)
qed

text \<open>
  A refused recipient. If the URL check refuses the recipient when the worker runs, the
  message fails at once with one permanent attempt, and nothing is sent: the run is the same
  whatever the network would have answered.
\<close>

theorem refused_recipient_fails_unsent:
  assumes "delivery_ok d" and "get_message k d = Some m" and "claimable owner m"
    and "webhook_refused e (set_claim owner (at_claim t) m)"
    and "recordable (channel_outcome (webhook_send e (set_claim owner (at_claim t) m)))"
  shows "\<exists>res d' mt' m' a. dispatch (webhook_send (e\<lparr>wh_post := net\<rparr>)) owner n t k (d, mt) = (res, d', mt') \<and>
     dispatch (webhook_send e) owner n t k (d, mt) = (res, d', mt') \<and>
     get_message k d' = Some m' \<and> msg_status m' = FAILED \<and>
     message_attempts k d' = message_attempts k d @ [a] \<and> da_result a = PERMANENT_ERROR"
proof -
  let ?m = "set_claim owner (at_claim t) m"
  obtain r where r: "webhook_send e ?m = Inr r" "\<not> cr_success r" "\<not> cr_transient r"
    using webhook_channel.refused_permanent [OF assms(4)] by blast
  have same: "webhook_send (e\<lparr>wh_post := net\<rparr>) ?m = Inr r"
    using r(1) assms(4)
    by (auto simp: webhook_send_def webhook_prepare_def webhook_refused_def
        split: sum.splits web_error.splits)
  have rec: "recordable r" using assms(5) r(1) by (simp add: channel_outcome_def)
  have out: "channel_outcome (webhook_send e ?m) = r" "channel_outcome (webhook_send (e\<lparr>wh_post := net\<rparr>) ?m) = r"
    using r(1) same by (simp_all add: channel_outcome_def)
  have "dispatch (webhook_send (e\<lparr>wh_post := net\<rparr>)) owner n t k (d, mt) = dispatch (webhook_send e) owner n t k (d, mt)"
    using dispatch_run(1) [OF assms(1-3)] out rec by simp
  moreover have "final_status r n = FAILED" "map_result r = PERMANENT_ERROR"
    using r(2,3) by (simp_all add: final_status_def map_result_def)
  ultimately show ?thesis
    using channel_run [where send = "webhook_send e" and t = t and n = n and mt = mt, OF assms(1-3) out(1) rec]
    by (fastforce simp: attempt_of_def)
qed

section \<open>Concrete deliveries\<close>

definition ex_hook :: message where
  "ex_hook = ex_message\<lparr>msg_channel := WEBHOOK, msg_recipient := ''https://a.example/x''\<rparr>"

definition ex_hook_db :: db where "ex_hook_db = ex_db\<lparr>messages := [ex_hook]\<rparr>"

definition ex_hook_env :: webhook_env where
  "ex_hook_env = \<lparr>wh_web = ex_web, wh_db = ex_db, wh_hmac_secret = ''secret'', wh_now = 1700000000,
     wh_timeout = 10, wh_post = (\<lambda>_. Status 503)\<rparr>"

lemma ex_hook_fields: "msg_id ex_hook = ''m1''" "msg_status ex_hook = QUEUED"
  by (simp_all add: ex_hook_def ex_messages)

lemma ex_hook_ok: "delivery_ok ex_hook_db" "get_message ''m1'' ex_hook_db = Some ex_hook" "claimable ''t1'' ex_hook"
  using ex_hook_fields
  by (simp_all add: delivery_ok_def db_ok_def idempotency_unique_def attempts_numbered_def letters_match_def
      gave_up_def ex_hook_db_def ex_rows get_message_def get_row_def claimable_def is_terminal_def
      message_attempts_def get_dead_letter_def)

lemma ex_hook_prepared: "webhook_prepare ex_hook_env m = Inr (build_post ex_hook_env m ex_url ''8.8.8.8'')"
  by (simp add: webhook_prepare_def ex_hook_env_def ex_validate) (simp add: ex_web_def)

theorem http_answer_decides_witness:
  "\<exists>res d' mt' m'. dispatch (webhook_send ex_hook_env) ''t1'' 6 ex_times ''m1'' (ex_hook_db, ex_metrics) =
     (res, d', mt') \<and> get_message ''m1'' d' = Some m' \<and> msg_status m' = DEAD"
proof -
  have "wh_post ex_hook_env post = Status 503" for post by (simp add: ex_hook_env_def)
  moreover have "http_fate 503 6 = DEAD" by (simp add: http_fate_def retry_or_dead_def)
  ultimately show ?thesis
    using http_answer_decides [where t = ex_times and n = 6 and mt = ex_metrics and code = 503, OF ex_hook_ok ex_hook_prepared]
    by fastforce
qed

theorem smtp_answer_decides_witness:
  "\<exists>res d' mt' m'. dispatch (email_send \<lparr>ee_from = None, ee_send = (\<lambda>_. SMTPResponseException 550 ''no'')\<rparr>) ''t1'' 0
       ex_times ''m1'' (ex_db\<lparr>messages := [ex_message]\<rparr>, ex_metrics) = (res, d', mt') \<and>
     get_message ''m1'' d' = Some m' \<and> msg_status m' = FAILED"
proof -
  note smtp_answer_decides [where t = ex_times and n = 0 and mt = ex_metrics
      and e = "\<lparr>ee_from = None, ee_send = (\<lambda>_. SMTPResponseException 550 ''no'')\<rparr>", OF ex_accepted_ok ex_accepted_get ex_accepted_claimable]
  then show ?thesis by (auto simp: smtp_fate_def malformed_reply_def)
qed

theorem malformed_reply_never_finishes_witness:
  "\<exists>err d' mt'. run_task (\<lambda>_. email_send \<lparr>ee_from = None, ee_send = (\<lambda>_. SMTPResponseException (-1) ''hello'')\<rparr>) ''t1''
       (\<lambda>_. ex_times) ''m1'' 0 (ex_db\<lparr>messages := [ex_message]\<rparr>, ex_metrics) = (Raised (DbError err), d', mt') \<and>
     attempts d' = [] \<and> get_message ''m1'' d' = Some (set_claim ''t1'' 100 ex_message)"
proof -
  note malformed_reply_never_finishes [where t = "\<lambda>_. ex_times" and mt = ex_metrics
      and e = "\<lparr>ee_from = None, ee_send = (\<lambda>_. SMTPResponseException (-1) ''hello'')\<rparr>", OF ex_accepted_get ex_accepted_claimable]
  moreover have "at_claim ex_times = 100" and "attempts (ex_db\<lparr>messages := [ex_message]\<rparr>) = []"
    by (simp_all add: ex_times_def ex_rows)
  ultimately show ?thesis by (simp add: malformed_reply_def) blast
qed

theorem refused_recipient_fails_unsent_witness:
  "\<exists>e res d' mt' m'. dispatch (webhook_send e) ''t1'' 0 ex_times ''m1'' (ex_hook_db, ex_metrics) = (res, d', mt') \<and>
     get_message ''m1'' d' = Some m' \<and> msg_status m' = FAILED"
proof -
  let ?e = "ex_hook_env\<lparr>wh_web := ex_web\<lparr>we_url := (\<lambda>_. Inr (ex_url\<lparr>up_scheme := ''ftp''\<rparr>))\<rparr>\<rparr>"
  have "webhook_refused ?e m" and "recordable (channel_outcome (webhook_send ?e m))" for m
    by (simp_all add: webhook_refused_def webhook_send_def webhook_prepare_def channel_outcome_def recordable_def
        validate_webhook_url_def ex_hook_env_def ex_url_def)
  from refused_recipient_fails_unsent [where t = ex_times and n = 0 and mt = ex_metrics and net = "wh_post ?e",
      OF ex_hook_ok this] show ?thesis by blast
qed

end
