(* ===== verification/Relay_Template_Views.thy ===== *)
theory Relay_Template_Views
  imports Relay_Templating Relay_Http "HOL-Library.List_Lexorder"
begin

text \<open>
  \<open>apps/templating/views.py\<close> and \<open>apps/templating/serializers.py\<close>: the template API,
  staff only. A new version is appended under the next number; a template is deleted by
  stamping it, which frees its name and keeps its versions.
\<close>

record template_version_view =
  tvv_id :: nat
  tvv_version :: nat
  tvv_subject_template :: pystr
  tvv_body_template :: pystr
  tvv_created_at :: timestamp

definition TemplateVersionSerializer :: "template_version \<Rightarrow> template_version_view" where
  "TemplateVersionSerializer v =
     \<lparr>tvv_id = tv_id v, tvv_version = tv_version v, tvv_subject_template = tv_subject_template v,
      tvv_body_template = tv_body_template v, tvv_created_at = tv_created_at v\<rparr>"

record template_view =
  tmv_id :: nat
  tmv_name :: pystr
  tmv_channel :: channel
  tmv_is_active :: bool
  tmv_created_at :: timestamp
  tmv_latest_version :: "template_version_view option"

definition TemplateReadSerializer :: "db \<Rightarrow> template \<Rightarrow> template_view" where
  "TemplateReadSerializer d t =
     \<lparr>tmv_id = tm_id t, tmv_name = tm_name t, tmv_channel = tm_channel t, tmv_is_active = tm_is_active t,
      tmv_created_at = tm_created_at t,
      tmv_latest_version = map_option TemplateVersionSerializer (latest_version t d)\<rparr>"

record template_upsert =
  tu_name :: pystr
  tu_channel :: channel
  tu_subject_template :: pystr
  tu_body_template :: pystr

definition TemplateUpsertSerializer :: "drf_fields \<Rightarrow> (pystr \<times> json) list \<Rightarrow> template_upsert option" where
  "TemplateUpsertSerializer drf data =
     (case char_field (drf_char drf) 128 (map_of data ''name'') of
        None \<Rightarrow> None
      | Some name \<Rightarrow>
          (case channel_choice drf (map_of data ''channel'') of
             None \<Rightarrow> None
           | Some ch \<Rightarrow>
               (case (case map_of data ''subject_template'' of None \<Rightarrow> Some []
                      | Some j \<Rightarrow> char_field (drf_char_blank drf) 998 (Some j)) of
                  None \<Rightarrow> None
                | Some subject \<Rightarrow>
                    (case char_field (drf_char drf) (64 * 1024) (map_of data ''body_template'') of
                       None \<Rightarrow> None
                     | Some body \<Rightarrow> Some \<lparr>tu_name = name, tu_channel = ch, tu_subject_template = subject,
                                          tu_body_template = body\<rparr>))))"

section \<open>The views\<close>

definition caller_id :: "caller \<Rightarrow> nat option" where
  "caller_id c = (case c of ByUser u \<Rightarrow> Some (us_id u) | _ \<Rightarrow> None)"

text \<open>The transaction of \<open>create\<close>: the template's row and the number of its next version,
  or on the left the template that has the name for another channel.\<close>

definition upsert_template :: "template_upsert \<Rightarrow> timestamp \<Rightarrow> db \<Rightarrow> db_error + (template + template \<times> nat) \<times> db" where
  "upsert_template u now d =
     (case alive_named (tu_name u) d of
        Some t \<Rightarrow>
          if tm_channel t \<noteq> tu_channel u then Inr (Inl t, d)
          else Inr (Inr (t, (case latest_version t d of Some v \<Rightarrow> tv_version v | None \<Rightarrow> 0) + 1), d)
      | None \<Rightarrow>
          (case insert_template (tu_name u) (tu_channel u) now d of
             Inl e \<Rightarrow> Inl e
           | Inr (t, d') \<Rightarrow> Inr (Inr (t, 1), d')))"

definition templates_create_body ::
    "timestamp \<Rightarrow> caller \<Rightarrow> template_upsert \<Rightarrow> db \<Rightarrow> db_error + (template_view \<times> template_version_view) reply \<times> db" where
  "templates_create_body now c u d =
     (case upsert_template u now d of
        Inl e \<Rightarrow> Inl e
      | Inr (Inl t, d') \<Rightarrow>
          Inr (Refuse 409 (''template '' @ [CHR 0x27] @ tm_name t @ [CHR 0x27] @ '' already exists for channel '' @
                 channel_value (tm_channel t)), d')
      | Inr (Inr (t, n), d1) \<Rightarrow>
          (case insert_template_version t n (tu_subject_template u) (tu_body_template u) (caller_id c) now d1 of
             Inl e \<Rightarrow> Inl e
           | Inr (v, d2) \<Rightarrow> Inr (Reply 201 (TemplateReadSerializer d2 t, TemplateVersionSerializer v), d2)))"

definition templates_create ::
    "drf_fields \<Rightarrow> timestamp \<Rightarrow> caller \<Rightarrow> (pystr \<times> json) list \<Rightarrow> db
       \<Rightarrow> db_error + (template_view \<times> template_version_view) reply \<times> db" where
  "templates_create drf now c data d =
     (if \<not> is_staff c then Inr (guarded is_staff c (Refuse 403 [], d) d)
      else case TemplateUpsertSerializer drf data of
        None \<Rightarrow> Inr (Refuse 400 ''invalid'', d)
      | Some u \<Rightarrow> templates_create_body now c u d)"

text \<open>\<open>order_by("name")\<close> sorts by the database's collation, an argument.\<close>

definition templates_list :: "(pystr \<Rightarrow> nat list) \<Rightarrow> caller \<Rightarrow> db \<Rightarrow> template_view list reply \<times> db" where
  "templates_list collate c d = guarded is_staff c
     (Reply 200 (map (TemplateReadSerializer d) (sort_key (\<lambda>t. collate (tm_name t)) (alive d))), d) d"

definition templates_retrieve :: "caller \<Rightarrow> pystr \<Rightarrow> db \<Rightarrow> template_view reply \<times> db" where
  "templates_retrieve c name d = guarded is_staff c
     (case alive_named name d of
        None \<Rightarrow> (Refuse 404 (no_match ''Template''), d)
      | Some t \<Rightarrow> (Reply 200 (TemplateReadSerializer d t), d)) d"

definition set_deleted :: "timestamp \<Rightarrow> template \<Rightarrow> template" where
  "set_deleted now t = t\<lparr>tm_deleted_at := Some now\<rparr>"

definition templates_destroy :: "caller \<Rightarrow> timestamp \<Rightarrow> pystr \<Rightarrow> db \<Rightarrow> unit reply \<times> db" where
  "templates_destroy c now name d = guarded is_staff c
     (case alive_named name d of
        None \<Rightarrow> (Refuse 404 (no_match ''Template''), d)
      | Some t \<Rightarrow> (Reply 204 (),
          d\<lparr>templates := update_rows (\<lambda>x. tm_id x = tm_id t) (set_deleted now) (templates d)\<rparr>)) d"

definition templates_versions :: "caller \<Rightarrow> pystr \<Rightarrow> db \<Rightarrow> template_version_view list reply \<times> db" where
  "templates_versions c name d = guarded is_staff c
     (case alive_named name d of
        None \<Rightarrow> (Refuse 404 (no_match ''Template''), d)
      | Some t \<Rightarrow> (Reply 200 (map TemplateVersionSerializer (versions_desc t d)), d)) d"

definition templates_version_detail :: "caller \<Rightarrow> pystr \<Rightarrow> nat \<Rightarrow> db \<Rightarrow> template_version_view reply \<times> db" where
  "templates_version_detail c name n d = guarded is_staff c
     (case alive_named name d of
        None \<Rightarrow> (Refuse 404 (no_match ''Template''), d)
      | Some t \<Rightarrow> (case version_numbered t n d of
                     None \<Rightarrow> (Refuse 404 (no_match ''TemplateVersion''), d)
                   | Some v \<Rightarrow> (Reply 200 (TemplateVersionSerializer v), d))) d"

section \<open>Inserts keep the invariant\<close>

lemma insert_templateD:
  assumes "insert_template name ch now d = Inr (t, d')"
  shows "alive_named name d = None" and "tm_id t = seq_template d" and "tm_name t = name" and "tm_channel t = ch"
    and "tm_deleted_at t = None"
    and "d' = d\<lparr>templates := templates d @ [t], seq_template := Suc (seq_template d)\<rparr>"
  using assms by (auto simp: insert_template_def Let_def split: if_splits)

lemma versions_of_fresh:
  assumes "templates_ok d" and "tm_id t = seq_template d" shows "versions_of t d = []"
proof -
  have "tv_template v \<noteq> seq_template d" if "v \<in> set (template_versions d)" for v
    using assms(1) that by (force simp: templates_ok_def)
  then show ?thesis using assms(2) by (simp add: versions_of_def filter_empty_conv)
qed

lemma versions_of_templates_upd [simp]:
  "versions_of t (d\<lparr>templates := ts\<rparr>) = versions_of t d"
  "versions_of t (d\<lparr>seq_template := n\<rparr>) = versions_of t d"
  by (simp_all add: versions_of_def)

lemma insert_template_ok:
  assumes ok: "templates_ok d" and ins: "insert_template name ch now d = Inr (t, d')"
  shows "templates_ok d'"
proof -
  note new = insert_templateD [OF ins]
  have "name \<notin> tm_name ` set (alive d)" using new(1) by (simp add: alive_named_None)
  then have "distinct (map tm_name (alive d'))"
    using templates_okD(1) [OF ok] new by (simp add: alive_def)
  moreover have "distinct (map tm_id (templates d'))" "\<forall>t\<in>set (templates d'). tm_id t < seq_template d'"
    using ok new by (auto simp: templates_ok_def)
  moreover have "versions_numbered d'"
    using ok new(6) versions_of_fresh [OF ok new(2)] by (auto simp: versions_numbered_def templates_ok_def)
  moreover have "tv_template ` set (template_versions d') \<subseteq> tm_id ` set (templates d')"
    using ok new(6) by (auto simp: templates_ok_def)
  ultimately show ?thesis using ok new(6) by (simp add: templates_ok_def)
qed

lemma insert_template_versionD:
  assumes "insert_template_version t n subject body by now d = Inr (v, d')"
  shows "version_numbered t n d = None" and "tv_id v = seq_template_version d" and "tv_template v = tm_id t"
    and "tv_version v = n" and "tv_subject_template v = subject" and "tv_body_template v = body"
    and "d' = d\<lparr>template_versions := template_versions d @ [v], seq_template_version := Suc (seq_template_version d)\<rparr>"
  using assms by (auto simp: insert_template_version_def Let_def split: if_splits)

lemma versions_of_insert:
  assumes "insert_template_version t n subject body by now d = Inr (v, d')"
  shows "versions_of x d' = versions_of x d @ (if tm_id x = tm_id t then [v] else [])"
  using insert_template_versionD(3,7) [OF assms] by (simp add: versions_of_def)

lemma insert_template_version_ok:
  assumes ok: "templates_ok d" and t: "t \<in> set (templates d)"
    and ins: "insert_template_version t (Suc (length (versions_of t d))) subject body by now d = Inr (v, d')"
  shows "templates_ok d'"
proof -
  note new = insert_template_versionD [OF ins]
  have "versions_numbered d'"
    unfolding versions_numbered_def
  proof
    fix x assume "x \<in> set (templates d')"
    then have x: "x \<in> set (templates d)" by (simp add: new(7))
    then have num: "map tv_version (versions_of x d) = [1..<Suc (length (versions_of x d))]"
      using templates_okD(4) [OF ok] by (simp add: versions_numbered_def)
    show "map tv_version (versions_of x d') = [1..<Suc (length (versions_of x d'))]"
    proof (cases "tm_id x = tm_id t")
      case True
      then have "x = t" using distinct_keys_eq [OF templates_okD(2) [OF ok] x t] by simp
      then show ?thesis using num new(4) by (simp add: versions_of_insert [OF ins])
    next
      case False
      then show ?thesis using num by (simp add: versions_of_insert [OF ins])
    qed
  qed
  moreover have "alive d' = alive d" by (simp add: new(7) alive_def)
  ultimately show ?thesis using ok new t by (auto simp: templates_ok_def)
qed

lemma version_numbered_fresh:
  assumes "templates_ok d" and "t \<in> set (templates d)"
  shows "version_numbered t (Suc (length (versions_of t d))) d = None"
proof -
  have "map tv_version (versions_of t d) = [1..<Suc (length (versions_of t d))]"
    using templates_okD(4) [OF assms(1)] assms(2) by (simp add: versions_numbered_def)
  then have "tv_version v \<in> set [1..<Suc (length (versions_of t d))]" if "v \<in> set (versions_of t d)" for v
    using that by (metis image_eqI set_map)
  then show ?thesis by (force simp: version_numbered_def find_None_iff)
qed

lemma upsert_template_Inr:
  assumes ok: "templates_ok d" and up: "upsert_template u now d = Inr (Inr (t, n), d')"
  shows "templates_ok d' \<and> t \<in> set (templates d') \<and> alive_named (tu_name u) d' = Some t \<and>
     tm_channel t = tu_channel u \<and> n = Suc (length (versions_of t d')) \<and>
     template_versions d' = template_versions d"
proof (cases "alive_named (tu_name u) d")
  case (Some x)
  then have d: "d' = d" "t = x" "tm_channel x = tu_channel u"
      "n = (case latest_version x d of Some v \<Rightarrow> tv_version v | None \<Rightarrow> 0) + 1"
    using up by (auto simp: upsert_template_def split: if_splits)
  have x: "x \<in> set (templates d)"
    using Some alive_named_Some [OF templates_okD(1) [OF ok]] alive_sub by blast
  have "(case latest_version x d of Some v \<Rightarrow> tv_version v | None \<Rightarrow> 0) = length (versions_of x d)"
    using latest_version_last [OF templates_okD(4) [OF ok] x] latest_version_number [OF templates_okD(4) [OF ok] x]
    by (auto split: option.splits if_splits)
  with d ok x Some show ?thesis by simp
next
  case None
  then obtain t' d1 where ins: "insert_template (tu_name u) (tu_channel u) now d = Inr (t', d1)"
    and "t = t'" "n = 1" "d' = d1"
    using up by (auto simp: upsert_template_def split: sum.splits)
  note new = insert_templateD [OF ins]
  have ok': "templates_ok d1" by (rule insert_template_ok [OF ok ins])
  moreover have "alive_named (tu_name u) d1 = Some t'"
    using alive_named_Some [OF templates_okD(1) [OF ok']] new by (simp add: alive_def)
  moreover have "versions_of t' d1 = []" using versions_of_fresh [OF ok new(2)] new(6) by simp
  ultimately show ?thesis using new \<open>t = t'\<close> \<open>n = 1\<close> \<open>d' = d1\<close> by simp
qed

lemma upsert_template_total: "\<exists>r d'. upsert_template u now d = Inr (r, d')"
  by (auto simp: upsert_template_def insert_template_def Let_def split: option.splits)

lemma alive_named_versions_upd [simp]:
  "alive_named name (d\<lparr>template_versions := vs\<rparr>) = alive_named name d"
  "alive_named name (d\<lparr>seq_template_version := n\<rparr>) = alive_named name d"
  by (simp_all add: alive_named_def alive_def)

lemma delete_rows:
  "filter (\<lambda>t. tm_deleted_at t = None) (update_rows (\<lambda>x. tm_id x = k) (set_deleted now) ts) =
     filter (\<lambda>x. tm_id x \<noteq> k) (filter (\<lambda>t. tm_deleted_at t = None) ts)"
  by (induction ts) (auto simp: update_rows_def set_deleted_def)

lemma delete_template_ok:
  assumes ok: "templates_ok d"
  shows "templates_ok (d\<lparr>templates := update_rows (\<lambda>x. tm_id x = k) (set_deleted now) (templates d)\<rparr>)"
proof -
  let ?ts = "update_rows (\<lambda>x. tm_id x = k) (set_deleted now) (templates d)"
  have ids: "map tm_id ?ts = map tm_id (templates d)" by (simp add: row_simps set_deleted_def)
  then have idset: "tm_id ` set ?ts = tm_id ` set (templates d)" by (metis set_map)
  have "distinct (map tm_name (filter (\<lambda>t. tm_deleted_at t = None) ?ts))"
    using templates_okD(1) [OF ok] unfolding delete_rows alive_def by (rule distinct_keys_filter)
  moreover have "versions_numbered (d\<lparr>templates := ?ts\<rparr>)"
    unfolding versions_numbered_def
  proof
    fix x assume "x \<in> set (templates (d\<lparr>templates := ?ts\<rparr>))"
    then have "tm_id x \<in> tm_id ` set (templates d)" using idset by auto
    then obtain y where y: "y \<in> set (templates d)" "tm_id x = tm_id y" by auto
    then have "versions_of x d = versions_of y d" by (simp add: versions_of_def)
    with y(1) templates_okD(4) [OF ok]
    show "map tv_version (versions_of x (d\<lparr>templates := ?ts\<rparr>)) =
        [1..<Suc (length (versions_of x (d\<lparr>templates := ?ts\<rparr>)))]"
      by (simp add: versions_numbered_def)
  qed
  moreover have "\<forall>t\<in>set ?ts. tm_id t < seq_template d"
    using ok idset by (metis image_iff templates_ok_def)
  ultimately show ?thesis using ok ids idset by (simp add: templates_ok_def alive_def)
qed

section \<open>Properties\<close>

text \<open>
  C30: creating a template or a version. On a well-formed database, \<open>create\<close> of valid data
  never raises: it answers 409, changing nothing, exactly when the live template of that
  name is for another channel; otherwise it answers 201, keeps the database well-formed,
  adds exactly one version row, numbered one more than the versions the template had, and
  from then on that is the template's latest version. No existing version row changes.
\<close>

theorem template_create_appends_version:
  assumes "templates_ok d"
  shows "(\<exists>t. alive_named (tu_name u) d = Some t \<and> tm_channel t \<noteq> tu_channel u \<and>
        (\<exists>msg. templates_create_body now c u d = Inr (Refuse 409 msg, d))) \<or>
     (\<exists>tv vv t v d'. templates_create_body now c u d = Inr (Reply 201 (tv, vv), d') \<and> templates_ok d' \<and>
        alive_named (tu_name u) d' = Some t \<and> tm_channel t = tu_channel u \<and>
        template_versions d' = template_versions d @ [v] \<and> latest_version t d' = Some v \<and>
        tv_version v = length (versions_of t d) + 1 \<and> tv_body_template v = tu_body_template u \<and>
        vv = TemplateVersionSerializer v)"
proof -
  obtain r d1 where up: "upsert_template u now d = Inr (r, d1)" using upsert_template_total by blast
  show ?thesis
  proof (cases r)
    case (Inl t)
    with up have "alive_named (tu_name u) d = Some t" "tm_channel t \<noteq> tu_channel u" "d1 = d"
      by (auto simp: upsert_template_def split: option.splits sum.splits if_splits)
    with up Inl show ?thesis by (simp add: templates_create_body_def)
  next
    case (Inr p)
    obtain t n where p: "p = (t, n)" by fastforce
    have t: "templates_ok d1" "t \<in> set (templates d1)" "alive_named (tu_name u) d1 = Some t"
        "tm_channel t = tu_channel u" "n = Suc (length (versions_of t d1))" "template_versions d1 = template_versions d"
      using upsert_template_Inr [OF assms, of u now t n d1] up Inr p by auto
    have "version_numbered t n d1 = None" using version_numbered_fresh [OF t(1,2)] t(5) by simp
    then obtain v d2 where ins: "insert_template_version t n (tu_subject_template u) (tu_body_template u)
        (caller_id c) now d1 = Inr (v, d2)"
      by (auto simp: insert_template_version_def Let_def)
    note new = insert_template_versionD [OF ins]
    have ok2: "templates_ok d2" using insert_template_version_ok [OF t(1,2)] ins t(5) by simp
    moreover have "t \<in> set (templates d2)" using t(2) new(7) by simp
    ultimately have "latest_version t d2 = Some v"
      using latest_version_last [OF templates_okD(4) [OF ok2]] by (simp add: versions_of_insert [OF ins])
    moreover have "versions_of t d1 = versions_of t d" using t(6) by (simp add: versions_of_def)
    ultimately have "templates_create_body now c u d =
        Inr (Reply 201 (TemplateReadSerializer d2 t, TemplateVersionSerializer v), d2) \<and> templates_ok d2 \<and>
        alive_named (tu_name u) d2 = Some t \<and> tm_channel t = tu_channel u \<and>
        template_versions d2 = template_versions d @ [v] \<and> latest_version t d2 = Some v \<and>
        tv_version v = length (versions_of t d) + 1 \<and> tv_body_template v = tu_body_template u"
      using up Inr p ins t ok2 new by (simp add: templates_create_body_def)
    then show ?thesis by blast
  qed
qed

text \<open>
  Deleting a template. A deleted template disappears from every view and its name can
  be used again, also for another channel, starting at version 1; the versions of the
  deleted template stay in the database, so stored messages keep theirs.
\<close>

theorem template_delete_frees_name:
  assumes "templates_ok d" and "is_staff c" and "alive_named name d = Some t"
  shows "\<exists>d'. templates_destroy c now name d = (Reply 204 (), d') \<and> templates_ok d' \<and>
     template_versions d' = template_versions d \<and> alive_named name d' = None \<and>
     templates_retrieve c name d' = (Refuse 404 (no_match ''Template''), d') \<and>
     (\<forall>u. tu_name u = name \<longrightarrow> (\<exists>t' d''. upsert_template u later d' = Inr (Inr (t', 1), d'')))"
proof -
  let ?ts = "update_rows (\<lambda>x. tm_id x = tm_id t) (set_deleted now) (templates d)"
  let ?d = "d\<lparr>templates := ?ts\<rparr>"
  have t: "t \<in> set (templates d)" "tm_name t = name" "tm_deleted_at t = None"
    using assms(3) alive_named_Some [OF templates_okD(1) [OF assms(1)]] by (auto simp: alive_def)
  have ids: "map tm_id ?ts = map tm_id (templates d)" by (simp add: row_simps set_deleted_def)
  have al: "alive ?d = filter (\<lambda>x. tm_id x \<noteq> tm_id t) (alive d)"
    by (simp add: alive_def delete_rows del: filter_filter)
  have staff: "c \<noteq> Anonymous" using assms(2) by (auto simp: is_staff_def)
  have destroy: "templates_destroy c now name d = (Reply 204 (), ?d)"
    using assms(2,3) staff by (simp add: templates_destroy_def guarded_def)
  have ok: "templates_ok ?d" by (rule delete_template_ok [OF assms(1)])
  have "x = t" if "x \<in> set (alive d)" "tm_name x = name" for x
    using distinct_keys_eq [OF templates_okD(1) [OF assms(1)] that(1), of t] t that(2) by (simp add: alive_def)
  then have none: "alive_named name ?d = None" unfolding alive_named_None al by auto
  have "upsert_template u later ?d = Inr (Inr (t', 1), d'')"
    if "tu_name u = name" "insert_template name (tu_channel u) later ?d = Inr (t', d'')" for u t' d''
    using that none by (simp add: upsert_template_def)
  moreover have "\<exists>t' d''. insert_template name ch later ?d = Inr (t', d'')" for ch
    using none by (simp add: insert_template_def Let_def)
  ultimately have "\<forall>u. tu_name u = name \<longrightarrow> (\<exists>t' d''. upsert_template u later ?d = Inr (Inr (t', 1), d''))"
    by blast
  then show ?thesis
    using destroy ok none assms(2) staff by (simp add: templates_retrieve_def guarded_def)
qed

theorem template_create_appends_version_witness:
  "\<exists>t v d'. alive_named ''welcome'' d' = Some t \<and> latest_version t d' = Some v \<and> tv_version v = 1 \<and>
     template_versions d' = [v]"
proof -
  let ?d = "\<lparr>api_keys = [], templates = [], template_versions = [], messages = [], attempts = [], dead_letters = [],
     seq_api_key = 1, seq_template = 1, seq_template_version = 1\<rparr> :: db"
  let ?u = "\<lparr>tu_name = ''welcome'', tu_channel = EMAIL, tu_subject_template = ''Hi'', tu_body_template = ''x''\<rparr>"
  have "templates_ok ?d" by (simp add: templates_ok_def alive_def versions_numbered_def)
  note made = template_create_appends_version [where u = ?u and now = 0 and c = Anonymous, OF this]
  moreover have "alive_named ''welcome'' ?d = None" "versions_of t ?d = []" for t
    by (simp_all add: alive_named_def alive_def versions_of_def)
  ultimately show ?thesis by auto
qed

theorem template_delete_frees_name_witness:
  "\<exists>d d'. alive_named ''welcome'' d \<noteq> None \<and>
     templates_destroy (ByUser \<lparr>us_id = 1, us_is_staff = True\<rparr>) 9 ''welcome'' d = (Reply 204 (), d') \<and>
     alive_named ''welcome'' d' = None"
proof -
  let ?t = "\<lparr>tm_id = 1, tm_name = ''welcome'', tm_channel = EMAIL, tm_is_active = True, tm_created_at = 0,
     tm_deleted_at = None\<rparr> :: template"
  let ?d = "\<lparr>api_keys = [], templates = [?t], template_versions = [], messages = [], attempts = [],
     dead_letters = [], seq_api_key = 1, seq_template = 2, seq_template_version = 1\<rparr> :: db"
  have "templates_ok ?d" by (simp add: templates_ok_def alive_def versions_numbered_def versions_of_def)
  moreover have t: "alive_named ''welcome'' ?d = Some ?t" by (simp add: alive_named_def alive_def)
  moreover have "is_staff (ByUser \<lparr>us_id = 1, us_is_staff = True\<rparr>)" by (simp add: is_staff_def)
  ultimately obtain d' where "templates_destroy (ByUser \<lparr>us_id = 1, us_is_staff = True\<rparr>) 9 ''welcome'' ?d =
      (Reply 204 (), d')" "alive_named ''welcome'' d' = None"
    using template_delete_frees_name [where now = 9 and later = 10] by blast
  with t show ?thesis by (intro exI [of _ ?d] exI [of _ d']) simp
qed

end
