(* ===== verification/Relay_Migrations.thy ===== *)
theory Relay_Migrations
  imports Relay_Security Relay_Scheduler
begin

text \<open>
  The migrations that change rows: \<open>core/migrations/0002\<close> (old API keys are revoked and
  renamed) and \<open>messages_api/migrations/0003\<close> and \<open>0004\<close> (two columns are added to
  messages). The tables before them are those of the two \<open>0001_initial\<close> files.
\<close>

section \<open>API keys\<close>

record legacy_key =
  lk_id :: nat
  lk_name :: pystr
  lk_prefix :: pystr
  lk_hashed_secret :: pystr
  lk_rate_limit_per_min :: nat
  lk_burst :: nat
  lk_is_active :: bool
  lk_created_at :: timestamp
  lk_revoked_at :: "timestamp option"

text \<open>\<open>RenameField\<close> keeps the rows, so the step works on them; \<open>lk_prefix\<close> is \<open>key_id\<close> from there on.\<close>

definition revoke_legacy_keys :: "timestamp \<Rightarrow> legacy_key list \<Rightarrow> legacy_key list" where
  "revoke_legacy_keys now rows = map (\<lambda>k. k\<lparr>lk_prefix := ''legacy_'' @ str_nat (lk_id k), lk_is_active := False,
     lk_revoked_at := (case lk_revoked_at k of None \<Rightarrow> Some now | Some t \<Rightarrow> Some t)\<rparr>) rows"

definition add_webhook_secret :: "legacy_key \<Rightarrow> api_key" where
  "add_webhook_secret k =
     \<lparr>ak_id = lk_id k, ak_name = lk_name k, ak_key_id = lk_prefix k, ak_hashed_secret = lk_hashed_secret k,
      ak_webhook_secret = [], ak_rate_limit_per_min = lk_rate_limit_per_min k, ak_burst = lk_burst k,
      ak_is_active = lk_is_active k, ak_created_at = lk_created_at k, ak_revoked_at = lk_revoked_at k\<rparr>"

text \<open>\<open>AlterField(unique=True)\<close> fails on duplicates.\<close>

definition migrate_keys :: "timestamp \<Rightarrow> legacy_key list \<Rightarrow> db_error + api_key list" where
  "migrate_keys now rows =
     (let rows' = revoke_legacy_keys now rows in
      if distinct (map lk_prefix rows') then Inr (map add_webhook_secret rows') else Inl IntegrityError)"

section \<open>Messages\<close>

record message_v1 =
  m1_id :: pystr
  m1_idempotency_key :: pystr
  m1_channel :: channel
  m1_recipient :: pystr
  m1_rendered_subject :: pystr
  m1_rendered_body :: pystr
  m1_context :: json
  m1_priority :: priority
  m1_status :: message_status
  m1_scheduled_at :: "timestamp option"
  m1_created_at :: timestamp
  m1_updated_at :: timestamp
  m1_api_key :: "nat option"
  m1_template_version :: "nat option"

text \<open>\<open>enqueued_at\<close> is null and \<open>claimed_by\<close> empty in every old row.\<close>

definition add_enqueued_at :: "message_v1 \<Rightarrow> message_v1 \<times> timestamp option" where
  "add_enqueued_at m = (m, None)"

definition add_claimed_by :: "message_v1 \<times> timestamp option \<Rightarrow> message" where
  "add_claimed_by p = (case p of (m, enqueued) \<Rightarrow>
     \<lparr>msg_id = m1_id m, msg_idempotency_key = m1_idempotency_key m, msg_api_key = m1_api_key m,
      msg_channel = m1_channel m, msg_recipient = m1_recipient m, msg_template_version = m1_template_version m,
      msg_rendered_subject = m1_rendered_subject m, msg_rendered_body = m1_rendered_body m,
      msg_context = m1_context m, msg_priority = m1_priority m, msg_status = m1_status m,
      msg_scheduled_at = m1_scheduled_at m, msg_enqueued_at = enqueued, msg_claimed_by = [],
      msg_created_at = m1_created_at m, msg_updated_at = m1_updated_at m\<rparr>)"

definition migrate_messages :: "message_v1 list \<Rightarrow> message list" where
  "migrate_messages ms = map (add_claimed_by \<circ> add_enqueued_at) ms"

section \<open>Properties\<close>

lemma lookup_key_prefix:
  assumes "lookup_api_key pepper d sent = Inr (Some k)" shows "py_startswith (ak_key_id k) KEY_PREFIX"
proof -
  obtain key_id secret where "split_full_key sent = Some (key_id, secret)" "active_key_named key_id d = Some k"
    using assms by (auto simp: lookup_api_key_def split: option.splits sum.splits if_splits)
  moreover from this have "ak_key_id k = key_id" using active_key_named_Some by blast
  moreover have "py_startswith key_id KEY_PREFIX"
    using \<open>split_full_key sent = _\<close>
    by (auto simp: split_full_key_def KEY_PREFIX_def py_startswith_def Let_def split: if_splits prod.splits)
  ultimately show ?thesis by simp
qed

text \<open>
  C34: old keys are locked out for good. On keys with distinct primary keys the migration
  succeeds, gives every old key an id of its own and leaves each inactive and revoked, an
  earlier revocation date kept; and no header of any request can be resolved to a row with
  one of those ids afterwards, even if somebody sets such a row active again.
\<close>

theorem legacy_keys_are_locked_out:
  assumes "distinct (map lk_id rows)"
  shows "\<exists>ks. migrate_keys now rows = Inr ks \<and> map ak_id ks = map lk_id rows \<and> distinct (map ak_key_id ks) \<and>
     list_all (\<lambda>k. \<not> ak_is_active k \<and> is_revoked k) ks \<and>
     map ak_revoked_at ks = map (\<lambda>r. Some (case lk_revoked_at r of None \<Rightarrow> now | Some t \<Rightarrow> t)) rows \<and>
     (\<forall>pepper d sent k. lookup_api_key pepper d sent = Inr (Some k) \<longrightarrow> ak_key_id k \<notin> set (map ak_key_id ks))"
proof -
  let ?ks = "map add_webhook_secret (revoke_legacy_keys now rows)"
  have ids: "map lk_prefix (revoke_legacy_keys now rows) = map (\<lambda>n. ''legacy_'' @ str_nat n) (map lk_id rows)"
    by (simp add: revoke_legacy_keys_def)
  have keys: "map ak_key_id ?ks = map lk_prefix (revoke_legacy_keys now rows)" by (simp add: add_webhook_secret_def)
  have dist: "distinct (map lk_prefix (revoke_legacy_keys now rows))"
    unfolding ids using assms by (simp add: distinct_map inj_on_def)
  have "lookup_api_key pepper d sent = Inr (Some k) \<longrightarrow> ak_key_id k \<notin> set (map ak_key_id ?ks)" for pepper d sent k
  proof
    assume "lookup_api_key pepper d sent = Inr (Some k)"
    then have "py_startswith (ak_key_id k) KEY_PREFIX" by (rule lookup_key_prefix)
    moreover have "\<not> py_startswith (''legacy_'' @ str_nat n) KEY_PREFIX" for n
      by (simp add: py_startswith_def KEY_PREFIX_def)
    ultimately show "ak_key_id k \<notin> set (map ak_key_id ?ks)"
      unfolding keys ids by (metis (no_types, lifting) imageE set_map)
  qed
  moreover have "list_all (\<lambda>k. \<not> ak_is_active k \<and> is_revoked k) ?ks"
    by (simp add: list_all_iff revoke_legacy_keys_def add_webhook_secret_def is_revoked_def split: option.split)
  moreover have "map ak_id ?ks = map lk_id rows"
    by (simp add: revoke_legacy_keys_def add_webhook_secret_def)
  moreover have "map ak_revoked_at ?ks = map (\<lambda>r. Some (case lk_revoked_at r of None \<Rightarrow> now | Some t \<Rightarrow> t)) rows"
    by (simp add: revoke_legacy_keys_def add_webhook_secret_def split: option.split)
  moreover have "migrate_keys now rows = Inr ?ks" using dist by (simp add: migrate_keys_def)
  moreover have "distinct (map ak_key_id ?ks)" using dist unfolding keys .
  ultimately show ?thesis by (intro exI [of _ ?ks]) blast
qed

text \<open>
  C35: what the upgrade does to messages in flight. A migrated queued message is picked up by
  the dispatcher exactly when it has a due \<open>scheduled_at\<close>: one that was to be sent at once is
  never picked up, at any time, so it depends on its old task alone; and a message that was
  being sent is claimable by no task until the stale sweep finds it.
\<close>

theorem upgrade_of_messages_in_flight:
  assumes "m \<in> set (migrate_messages ms)"
  shows "(msg_status m = QUEUED \<longrightarrow>
       (eligible now m \<longleftrightarrow> (\<exists>s. msg_scheduled_at m = Some s \<and> s \<le> now)) \<and>
       (msg_scheduled_at m = None \<longrightarrow> (\<forall>later. \<not> eligible later m))) \<and>
     (msg_status m = SENDING \<longrightarrow>
       (\<forall>owner. owner \<noteq> [] \<longrightarrow> \<not> claimable owner m) \<and>
       (eligible now m \<longleftrightarrow> msg_updated_at m < now - STALE_SENDING_AFTER))"
proof -
  have "msg_enqueued_at m = None" "msg_claimed_by m = []"
    using assms by (auto simp: migrate_messages_def add_claimed_by_def add_enqueued_at_def)
  then show ?thesis
    by (auto simp: eligible_def due_def stranded_def stale_def claimable_def split: option.splits)
qed

theorem legacy_keys_are_locked_out_witness:
  "\<exists>ks. migrate_keys 9 [\<lparr>lk_id = 1, lk_name = ''a'', lk_prefix = ''nr'', lk_hashed_secret = ''x'',
       lk_rate_limit_per_min = 1, lk_burst = 1, lk_is_active = True, lk_created_at = 0, lk_revoked_at = None\<rparr>,
     \<lparr>lk_id = 2, lk_name = ''b'', lk_prefix = ''nr'', lk_hashed_secret = ''y'', lk_rate_limit_per_min = 1,
       lk_burst = 1, lk_is_active = False, lk_created_at = 0, lk_revoked_at = Some 3\<rparr>] = Inr ks \<and>
     map ak_revoked_at ks = [Some 9, Some 3]"
  using legacy_keys_are_locked_out [of "[\<lparr>lk_id = 1, lk_name = ''a'', lk_prefix = ''nr'', lk_hashed_secret = ''x'',
       lk_rate_limit_per_min = 1, lk_burst = 1, lk_is_active = True, lk_created_at = 0, lk_revoked_at = None\<rparr>,
     \<lparr>lk_id = 2, lk_name = ''b'', lk_prefix = ''nr'', lk_hashed_secret = ''y'', lk_rate_limit_per_min = 1,
       lk_burst = 1, lk_is_active = False, lk_created_at = 0, lk_revoked_at = Some 3\<rparr>]" 9] by auto

definition ex_old_message :: message_v1 where
  "ex_old_message = \<lparr>m1_id = ''m1'', m1_idempotency_key = ''k1'', m1_channel = EMAIL, m1_recipient = ''a@b.cc'',
     m1_rendered_subject = [], m1_rendered_body = ''x'', m1_context = JObj [], m1_priority = DEFAULT,
     m1_status = QUEUED, m1_scheduled_at = None, m1_created_at = 0, m1_updated_at = 0, m1_api_key = Some 1,
     m1_template_version = Some 1\<rparr>"

theorem upgrade_of_messages_in_flight_witness:
  "\<exists>m. migrate_messages [ex_old_message] = [m] \<and> msg_status m = QUEUED \<and> \<not> eligible 1000000000000 m"
  using upgrade_of_messages_in_flight [of _ "[ex_old_message]" 1000000000000]
  by (simp add: migrate_messages_def add_claimed_by_def add_enqueued_at_def ex_old_message_def)

end
