(* ===== verification/Relay_Resolver.thy ===== *)
theory Relay_Resolver
  imports Relay_Validators
begin

text \<open>
  The bounded lookups of \<open>_getaddrinfo\<close> in \<open>messages_api/validators.py\<close> as a state machine:
  request threads, the pool of four threads and the semaphore of four slots. Each call has a
  number. A slot is released by the pool thread at the end of the lookup, a moment before
  that thread is idle again, so the two are separate steps.
\<close>

definition RESOLVER_THREADS :: nat where "RESOLVER_THREADS = 4"

record resolver =
  rv_slots :: nat
  rv_acquired :: "nat list"
  rv_queue :: "nat list"
  rv_looking :: "nat list"
  rv_releasing :: "nat list"
  rv_waiting :: "nat list"
  rv_answers :: "nat \<rightharpoonup> (pystr + pystr list) option"

definition resolver_init :: "resolver \<Rightarrow> bool" where
  "resolver_init s \<longleftrightarrow> s = \<lparr>rv_slots = RESOLVER_THREADS, rv_acquired = [], rv_queue = [], rv_looking = [],
     rv_releasing = [], rv_waiting = [], rv_answers = (\<lambda>_. None)\<rparr>"

definition answer :: "nat \<Rightarrow> (pystr + pystr list) option \<Rightarrow> resolver \<Rightarrow> resolver" where
  "answer c a s = s\<lparr>rv_waiting := remove1 c (rv_waiting s), rv_answers := (rv_answers s)(c \<mapsto> a)\<rparr>"

text \<open>A call that has not been made yet.\<close>

definition fresh_call :: "nat \<Rightarrow> resolver \<Rightarrow> bool" where
  "fresh_call c s \<longleftrightarrow> rv_answers s c = None \<and>
     c \<notin> set (rv_acquired s @ rv_queue s @ rv_looking s @ rv_releasing s @ rv_waiting s)"

text \<open>
  A call that finds no slot, one that takes a slot, the submission, a pool thread taking a
  lookup, the end of the lookup (with its answer, if the caller still waits), the thread
  becoming idle, and a caller giving up.
\<close>

inductive resolver_step :: "resolver \<Rightarrow> resolver \<Rightarrow> bool" where
  full: "rv_slots s = 0 \<Longrightarrow> fresh_call c s \<Longrightarrow> resolver_step s (answer c None s)"
| acquire: "rv_slots s = Suc n \<Longrightarrow> fresh_call c s \<Longrightarrow>
    resolver_step s (s\<lparr>rv_slots := n, rv_acquired := rv_acquired s @ [c]\<rparr>)"
| submit: "rv_acquired s = cs1 @ c # cs2 \<Longrightarrow>
    resolver_step s (s\<lparr>rv_acquired := cs1 @ cs2, rv_queue := rv_queue s @ [c], rv_waiting := c # rv_waiting s\<rparr>)"
| start: "rv_queue s = c # cs \<Longrightarrow> length (rv_looking s) + length (rv_releasing s) < RESOLVER_THREADS \<Longrightarrow>
    resolver_step s (s\<lparr>rv_queue := cs, rv_looking := c # rv_looking s\<rparr>)"
| done_in_time: "rv_looking s = cs1 @ c # cs2 \<Longrightarrow> c \<in> set (rv_waiting s) \<Longrightarrow>
    resolver_step s (answer c (Some out)
      (s\<lparr>rv_slots := Suc (rv_slots s), rv_looking := cs1 @ cs2, rv_releasing := c # rv_releasing s\<rparr>))"
| done_late: "rv_looking s = cs1 @ c # cs2 \<Longrightarrow> c \<notin> set (rv_waiting s) \<Longrightarrow>
    resolver_step s (s\<lparr>rv_slots := Suc (rv_slots s), rv_looking := cs1 @ cs2, rv_releasing := c # rv_releasing s\<rparr>)"
| idle: "rv_releasing s = cs1 @ c # cs2 \<Longrightarrow> resolver_step s (s\<lparr>rv_releasing := cs1 @ cs2\<rparr>)"
| give_up: "c \<in> set (rv_waiting s) \<Longrightarrow> resolver_step s (answer c None s)"

definition slots_accounted :: "resolver \<Rightarrow> bool" where
  "slots_accounted s \<longleftrightarrow>
     rv_slots s + length (rv_acquired s) + length (rv_queue s) + length (rv_looking s) = RESOLVER_THREADS \<and>
     length (rv_looking s) + length (rv_releasing s) \<le> RESOLVER_THREADS"

text \<open>Whoever still waits has a lookup queued or under way.\<close>

definition waiters_served :: "resolver \<Rightarrow> bool" where
  "waiters_served s \<longleftrightarrow> set (rv_waiting s) \<subseteq> set (rv_queue s) \<union> set (rv_looking s) \<and> distinct (rv_waiting s) \<and>
     distinct (rv_acquired s @ rv_queue s @ rv_looking s)"

definition resolver_inv :: "resolver \<Rightarrow> bool" where
  "resolver_inv s \<longleftrightarrow> slots_accounted s \<and> waiters_served s"

lemma answer_fields [simp]:
  "rv_slots (answer c a s) = rv_slots s" "rv_acquired (answer c a s) = rv_acquired s"
  "rv_queue (answer c a s) = rv_queue s" "rv_looking (answer c a s) = rv_looking s"
  "rv_releasing (answer c a s) = rv_releasing s" "rv_waiting (answer c a s) = remove1 c (rv_waiting s)"
  by (simp_all add: answer_def)

lemma slots_step: "resolver_step s s' \<Longrightarrow> slots_accounted s \<Longrightarrow> slots_accounted s'"
  by (induction rule: resolver_step.induct) (auto simp: slots_accounted_def)

lemma waiters_step: "resolver_step s s' \<Longrightarrow> waiters_served s \<Longrightarrow> waiters_served s'"
proof (induction rule: resolver_step.induct)
  case (full s c)
  then show ?case by (auto simp: waiters_served_def dest: notin_set_remove1)
next
  case (acquire s n c)
  then show ?case by (auto simp: waiters_served_def fresh_call_def)
next
  case (submit s cs1 c cs2)
  then show ?case by (auto simp: waiters_served_def)
next
  case (start s c cs)
  then show ?case by (auto simp: waiters_served_def)
next
  case (done_in_time s cs1 c cs2 out)
  then show ?case by (auto simp: waiters_served_def set_remove1_eq)
next
  case (done_late s cs1 c cs2)
  then show ?case by (auto simp: waiters_served_def)
next
  case (idle s cs1 c cs2)
  then show ?case by (auto simp: waiters_served_def)
next
  case (give_up c s)
  then show ?case by (auto simp: waiters_served_def dest: notin_set_remove1)
qed

interpretation resolver: invariant_system resolver_init resolver_step resolver_inv
proof unfold_locales
  show "resolver_inv s" if "resolver_init s" for s
    using that by (simp add: resolver_init_def resolver_inv_def slots_accounted_def waiters_served_def)
  show "resolver_inv s'" if "resolver_step s s'" "resolver_inv s" for s s'
    using that slots_step waiters_step by (simp add: resolver_inv_def)
qed

text \<open>
  C37: the lookups of the API. In every reachable state no slot is lost or released twice: the
  free slots and the lookups under way make four, and all four are free when nothing is under
  way. A submitted lookup never waits behind a slow one: it can start at once unless a thread
  is just finishing a lookup that has already ended. And whoever waits has a lookup queued
  or running, so the wait ends with an answer or with the timeout.
\<close>

theorem lookups_never_queue:
  assumes "resolver_init s0" and "resolver_step\<^sup>*\<^sup>* s0 s"
  shows "rv_slots s + length (rv_acquired s @ rv_queue s @ rv_looking s) = 4 \<and>
     (rv_queue s \<noteq> [] \<longrightarrow> rv_releasing s \<noteq> [] \<or>
        resolver_step s (s\<lparr>rv_queue := tl (rv_queue s), rv_looking := hd (rv_queue s) # rv_looking s\<rparr>)) \<and>
     length (rv_queue s) + length (rv_looking s) \<le> 4 \<and>
     set (rv_waiting s) \<subseteq> set (rv_queue s) \<union> set (rv_looking s)"
proof -
  have inv: "slots_accounted s" "waiters_served s"
    using resolver.reached_inv [OF assms] by (simp_all add: resolver_inv_def)
  have "resolver_step s (s\<lparr>rv_queue := tl (rv_queue s), rv_looking := hd (rv_queue s) # rv_looking s\<rparr>)"
    if "rv_queue s \<noteq> []" "rv_releasing s = []"
  proof -
    from that(1) obtain c cs where q: "rv_queue s = c # cs" by (cases "rv_queue s") auto
    then have "length (rv_looking s) + length (rv_releasing s) < RESOLVER_THREADS"
      using inv(1) that(2) by (simp add: slots_accounted_def)
    with resolver_step.start [OF q] q show ?thesis by simp
  qed
  with inv show ?thesis by (auto simp: slots_accounted_def waiters_served_def RESOLVER_THREADS_def)
qed

theorem lookups_never_queue_witness:
  "\<exists>s. resolver_step\<^sup>*\<^sup>* \<lparr>rv_slots = RESOLVER_THREADS, rv_acquired = [], rv_queue = [], rv_looking = [],
     rv_releasing = [], rv_waiting = [], rv_answers = (\<lambda>_. None)\<rparr> s \<and> rv_acquired s = [1] \<and> rv_slots s = 3"
proof -
  let ?s0 = "\<lparr>rv_slots = RESOLVER_THREADS, rv_acquired = [], rv_queue = [], rv_looking = [],
     rv_releasing = [], rv_waiting = [], rv_answers = (\<lambda>_. None)\<rparr> :: resolver"
  have "resolver_step ?s0 (?s0\<lparr>rv_slots := 3, rv_acquired := rv_acquired ?s0 @ [1]\<rparr>)"
    by (rule resolver_step.acquire) (simp_all add: RESOLVER_THREADS_def fresh_call_def)
  then have run: "resolver_step\<^sup>*\<^sup>* ?s0 (?s0\<lparr>rv_slots := 3, rv_acquired := [1]\<rparr>)" by simp
  moreover have "resolver_init ?s0" by (simp add: resolver_init_def)
  note lookups_never_queue [OF this run]
  ultimately show ?thesis by (intro exI [of _ "?s0\<lparr>rv_slots := 3, rv_acquired := [1]\<rparr>"]) simp
qed

end
