(* ===== verification/Relay_Schema.thy ===== *)
theory Relay_Schema
  imports Relay_Models "HOL-Library.Multiset"
begin

text \<open>
  The database schema: what the \<open>models\<close> files declare, and what the migrations build.
  Tables, columns, constraints and indexes are data here; the end of the theory compares the
  two. Only what a migration can state is kept: names shown in the admin site are left out.
\<close>

section \<open>Schemas\<close>

datatype column_type =
    BigAutoField
  | CharField nat "pystr list"
  | TextField
  | PositiveIntegerField
  | BooleanField
  | DateTimeField
  | AutoNowAdd
  | AutoNow
  | JSONField
  | ForeignKey pystr pystr
  | OneToOneField pystr pystr

datatype default_value = NoDefault | Default json | Call pystr

record column =
  co_name :: pystr
  co_type :: column_type
  co_null :: bool
  co_blank :: bool
  co_default :: default_value
  co_unique :: bool
  co_db_index :: bool
  co_primary_key :: bool

record unique_constraint =
  uc_fields :: "pystr list"
  uc_name :: pystr
  uc_condition :: "(pystr \<times> json) option"

record index =
  ix_fields :: "pystr list"
  ix_name :: pystr
  ix_condition :: "(pystr \<times> json) option"

record table =
  tb_app :: pystr
  tb_name :: pystr
  tb_columns :: "column list"
  tb_constraints :: "unique_constraint list"
  tb_indexes :: "index list"
  tb_ordering :: "pystr list"

type_synonym schema = "table list"

text \<open>A column with the defaults of Django's \<open>Field\<close>, and the options the files use.\<close>

definition column :: "pystr \<Rightarrow> column_type \<Rightarrow> column" where
  "column name ty = \<lparr>co_name = name, co_type = ty, co_null = False, co_blank = False, co_default = NoDefault,
     co_unique = False, co_db_index = False, co_primary_key = False\<rparr>"

definition nullable :: "column \<Rightarrow> column" where
  "nullable c = c\<lparr>co_null := True, co_blank := True\<rparr>"

definition blank_default :: "json \<Rightarrow> column \<Rightarrow> column" where
  "blank_default v c = c\<lparr>co_blank := True, co_default := Default v\<rparr>"

definition defaults_to :: "json \<Rightarrow> column \<Rightarrow> column" where
  "defaults_to v c = c\<lparr>co_default := Default v\<rparr>"

definition unique_column :: "column \<Rightarrow> column" where
  "unique_column c = c\<lparr>co_unique := True\<rparr>"

definition primary_key :: "column \<Rightarrow> column" where
  "primary_key c = c\<lparr>co_primary_key := True\<rparr>"

definition unique_on :: "pystr list \<Rightarrow> pystr \<Rightarrow> unique_constraint" where
  "unique_on cols name = \<lparr>uc_fields = cols, uc_name = name, uc_condition = None\<rparr>"

definition index_on :: "pystr list \<Rightarrow> pystr \<Rightarrow> index" where
  "index_on cols name = \<lparr>ix_fields = cols, ix_name = name, ix_condition = None\<rparr>"

section \<open>The models\<close>

text \<open>\<open>TextChoices.values\<close> of the enumerations.\<close>

fun status_value :: "message_status \<Rightarrow> pystr" where
  "status_value QUEUED = ''queued''"
| "status_value SENDING = ''sending''"
| "status_value SENT = ''sent''"
| "status_value FAILED = ''failed''"
| "status_value DEAD = ''dead''"

fun result_value :: "attempt_result \<Rightarrow> pystr" where
  "result_value SUCCESS = ''success''"
| "result_value TRANSIENT_ERROR = ''transient_error''"
| "result_value PERMANENT_ERROR = ''permanent_error''"

text \<open>A model without a primary key of its own gets one of the type \<open>DEFAULT_AUTO_FIELD\<close>.\<close>

definition DEFAULT_AUTO_FIELD :: column_type where "DEFAULT_AUTO_FIELD = BigAutoField"

definition auto_id :: column where "auto_id = primary_key (column ''id'' DEFAULT_AUTO_FIELD)"

definition ApiKey_model :: table where
  "ApiKey_model =
     \<lparr>tb_app = ''core'', tb_name = ''apikey'',
      tb_columns =
        [auto_id,
         column ''name'' (CharField 128 []),
         unique_column (column ''key_id'' (CharField 32 [])),
         column ''hashed_secret'' (CharField 255 []),
         blank_default (JStr []) (column ''webhook_secret'' (CharField 64 [])),
         defaults_to (JInt 100) (column ''rate_limit_per_min'' PositiveIntegerField),
         defaults_to (JInt 200) (column ''burst'' PositiveIntegerField),
         defaults_to (JBool True) (column ''is_active'' BooleanField),
         (column ''created_at'' AutoNowAdd),
         nullable (column ''revoked_at'' DateTimeField)],
      tb_constraints = [],
      tb_indexes = [index_on [''is_active'', ''revoked_at''] ''api_key_active_idx''],
      tb_ordering = []\<rparr>"

definition Template_model :: table where
  "Template_model =
     \<lparr>tb_app = ''templating'', tb_name = ''template'',
      tb_columns =
        [auto_id,
         column ''name'' (CharField 128 []),
         column ''channel'' (CharField 16 (map channel_value enum_class.enum)),
         defaults_to (JBool True) (column ''is_active'' BooleanField),
         column ''created_at'' AutoNowAdd,
         nullable (column ''deleted_at'' DateTimeField)],
      tb_constraints =
        [\<lparr>uc_fields = [''name''], uc_name = ''template_name_unique_alive'',
          uc_condition = Some (''deleted_at__isnull'', JBool True)\<rparr>],
      tb_indexes = [index_on [''channel'', ''is_active''] ''template_channel_idx''],
      tb_ordering = []\<rparr>"

definition TemplateVersion_model :: table where
  "TemplateVersion_model =
     \<lparr>tb_app = ''templating'', tb_name = ''templateversion'',
      tb_columns =
        [auto_id,
         column ''template'' (ForeignKey ''templating.template'' ''CASCADE''),
         column ''version'' PositiveIntegerField,
         blank_default (JStr []) (column ''subject_template'' TextField),
         column ''body_template'' TextField,
         column ''created_at'' AutoNowAdd,
         nullable (column ''created_by'' (ForeignKey ''AUTH_USER_MODEL'' ''SET_NULL''))],
      tb_constraints = [unique_on [''template'', ''version''] ''template_version_unique''],
      tb_indexes = [],
      tb_ordering = [''template_id'', ''-version'']\<rparr>"

definition Message_model :: table where
  "Message_model =
     \<lparr>tb_app = ''messages_api'', tb_name = ''message'',
      tb_columns =
        [(primary_key (column ''id'' (CharField 26 [])))\<lparr>co_default := Call ''_new_ulid''\<rparr>,
         column ''idempotency_key'' (CharField 128 []),
         nullable (column ''api_key'' (ForeignKey ''core.apikey'' ''PROTECT'')),
         column ''channel'' (CharField 16 (map channel_value enum_class.enum)),
         column ''recipient'' TextField,
         nullable (column ''template_version'' (ForeignKey ''templating.templateversion'' ''PROTECT'')),
         blank_default (JStr []) (column ''rendered_subject'' TextField),
         column ''rendered_body'' TextField,
         blank_default (JObj []) (column ''context'' JSONField),
         defaults_to (JStr (priority_value DEFAULT)) (column ''priority'' (CharField 16 (map priority_value enum_class.enum))),
         defaults_to (JStr (status_value QUEUED))
           (column ''status'' (CharField 16 (map status_value [QUEUED, SENDING, SENT, FAILED, DEAD]))),
         nullable (column ''scheduled_at'' DateTimeField),
         nullable (column ''enqueued_at'' DateTimeField),
         blank_default (JStr []) (column ''claimed_by'' (CharField 64 [])),
         column ''created_at'' AutoNowAdd,
         column ''updated_at'' AutoNow],
      tb_constraints = [unique_on [''api_key'', ''idempotency_key''] ''message_idempotency_unique''],
      tb_indexes =
        [index_on [''status'', ''scheduled_at''] ''message_status_sched_idx'',
         index_on [''created_at''] ''message_created_idx'',
         index_on [''recipient''] ''message_recipient_idx'',
         \<lparr>ix_fields = [''scheduled_at''], ix_name = ''message_queued_partial_idx'',
          ix_condition = Some (''status'', JStr ''queued'')\<rparr>],
      tb_ordering = [''-created_at'']\<rparr>"

definition DeliveryAttempt_model :: table where
  "DeliveryAttempt_model =
     \<lparr>tb_app = ''messages_api'', tb_name = ''deliveryattempt'',
      tb_columns =
        [primary_key (column ''id'' BigAutoField),
         column ''message'' (ForeignKey ''messages_api.message'' ''CASCADE''),
         column ''attempt_no'' PositiveIntegerField,
         column ''started_at'' DateTimeField,
         nullable (column ''finished_at'' DateTimeField),
         column ''result'' (CharField 24 (map result_value [SUCCESS, TRANSIENT_ERROR, PERMANENT_ERROR])),
         nullable (column ''http_status'' PositiveIntegerField),
         nullable (column ''smtp_code'' PositiveIntegerField),
         blank_default (JStr []) (column ''error_message'' TextField)],
      tb_constraints = [unique_on [''message'', ''attempt_no''] ''delivery_attempt_unique''],
      tb_indexes = [index_on [''message'', ''attempt_no''] ''delivery_attempt_msg_idx''],
      tb_ordering = []\<rparr>"

definition DeadLetter_model :: table where
  "DeadLetter_model =
     \<lparr>tb_app = ''messages_api'', tb_name = ''deadletter'',
      tb_columns =
        [primary_key (column ''id'' BigAutoField),
         column ''message'' (OneToOneField ''messages_api.message'' ''CASCADE''),
         column ''reason'' TextField,
         blank_default (JObj []) (column ''payload_snapshot'' JSONField),
         column ''created_at'' AutoNowAdd],
      tb_constraints = [],
      tb_indexes = [index_on [''created_at''] ''dead_letter_created_idx''],
      tb_ordering = []\<rparr>"

definition models_schema :: schema where
  "models_schema = [ApiKey_model, Template_model, TemplateVersion_model, Message_model, DeliveryAttempt_model, DeadLetter_model]"

section \<open>Migrations\<close>

datatype operation =
    CreateModel table
  | AddField pystr column
  | AlterField pystr column
  | RenameField pystr pystr pystr
  | AddConstraint pystr unique_constraint
  | AddIndex pystr index
  | RunPython

type_synonym migration_id = "pystr \<times> pystr"

record migration =
  mg_id :: migration_id
  mg_dependencies :: "migration_id list"
  mg_operations :: "operation list"

definition has_column :: "pystr \<Rightarrow> table \<Rightarrow> bool" where
  "has_column name t \<longleftrightarrow> name \<in> set (map co_name (tb_columns t))"

definition is_table :: "pystr \<Rightarrow> pystr \<Rightarrow> table \<Rightarrow> bool" where
  "is_table app name t \<longleftrightarrow> tb_app t = app \<and> tb_name t = name"

text \<open>A change of one table, refused if the table is missing or the change does not fit it.\<close>

definition alter_table ::
    "pystr \<Rightarrow> pystr \<Rightarrow> (table \<Rightarrow> bool) \<Rightarrow> (table \<Rightarrow> table) \<Rightarrow> schema \<Rightarrow> schema option" where
  "alter_table app name fits f s =
     (case List.find (is_table app name) s of
        None \<Rightarrow> None
      | Some t \<Rightarrow> if fits t then Some (map (\<lambda>t. if is_table app name t then f t else t) s) else None)"

fun apply_operation :: "pystr \<Rightarrow> operation \<Rightarrow> schema \<Rightarrow> schema option" where
  "apply_operation app (CreateModel t) s =
     (if list_ex (is_table app (tb_name t)) s then None else Some (s @ [t]))"
| "apply_operation app (AddField model c) s =
     alter_table app model (\<lambda>t. \<not> has_column (co_name c) t) (\<lambda>t. t\<lparr>tb_columns := tb_columns t @ [c]\<rparr>) s"
| "apply_operation app (AlterField model c) s =
     alter_table app model (has_column (co_name c))
       (\<lambda>t. t\<lparr>tb_columns := map (\<lambda>x. if co_name x = co_name c then c else x) (tb_columns t)\<rparr>) s"
| "apply_operation app (RenameField model old new) s =
     alter_table app model (\<lambda>t. has_column old t \<and> \<not> has_column new t)
       (\<lambda>t. t\<lparr>tb_columns := map (\<lambda>x. if co_name x = old then x\<lparr>co_name := new\<rparr> else x) (tb_columns t)\<rparr>) s"
| "apply_operation app (AddConstraint model u) s =
     alter_table app model (\<lambda>t. list_all (\<lambda>f. has_column f t) (uc_fields u))
       (\<lambda>t. t\<lparr>tb_constraints := tb_constraints t @ [u]\<rparr>) s"
| "apply_operation app (AddIndex model i) s =
     alter_table app model (\<lambda>t. list_all (\<lambda>f. has_column f t) (ix_fields i))
       (\<lambda>t. t\<lparr>tb_indexes := tb_indexes t @ [i]\<rparr>) s"
| "apply_operation app RunPython s = Some s"

fun apply_operations :: "pystr \<Rightarrow> operation list \<Rightarrow> schema \<Rightarrow> schema option" where
  "apply_operations app [] s = Some s"
| "apply_operations app (x # xs) s =
     (case apply_operation app x s of None \<Rightarrow> None | Some s' \<Rightarrow> apply_operations app xs s')"

fun migrate :: "migration list \<Rightarrow> schema \<Rightarrow> schema option" where
  "migrate [] s = Some s"
| "migrate (m # ms) s =
     (case apply_operations (fst (mg_id m)) (mg_operations m) s of None \<Rightarrow> None | Some s' \<Rightarrow> migrate ms s')"

text \<open>
  Generated migrations spell the automatic key out, and move foreign keys to the end of a
  table; the initial \<open>apikey\<close> table still has the column \<open>prefix\<close>.
\<close>

definition core_0001 :: migration where
  "core_0001 =
     \<lparr>mg_id = (''core'', ''0001_initial''), mg_dependencies = [],
      mg_operations =
        [CreateModel
          \<lparr>tb_app = ''core'', tb_name = ''apikey'',
           tb_columns =
             [primary_key (column ''id'' BigAutoField),
              column ''name'' (CharField 128 []),
              (column ''prefix'' (CharField 32 []))\<lparr>co_db_index := True\<rparr>,
              column ''hashed_secret'' (CharField 255 []),
              defaults_to (JInt 100) (column ''rate_limit_per_min'' PositiveIntegerField),
              defaults_to (JInt 200) (column ''burst'' PositiveIntegerField),
              defaults_to (JBool True) (column ''is_active'' BooleanField),
              column ''created_at'' AutoNowAdd,
              nullable (column ''revoked_at'' DateTimeField)],
           tb_constraints = [],
           tb_indexes = [index_on [''is_active'', ''revoked_at''] ''api_key_active_idx''],
           tb_ordering = []\<rparr>]\<rparr>"

definition core_0002 :: migration where
  "core_0002 =
     \<lparr>mg_id = (''core'', ''0002_api_key_id_and_webhook_secret''), mg_dependencies = [(''core'', ''0001_initial'')],
      mg_operations =
        [RenameField ''apikey'' ''prefix'' ''key_id'',
         RunPython,
         AlterField ''apikey'' (unique_column (column ''key_id'' (CharField 32 []))),
         AddField ''apikey'' (blank_default (JStr []) (column ''webhook_secret'' (CharField 64 [])))]\<rparr>"

definition templating_0001 :: migration where
  "templating_0001 =
     \<lparr>mg_id = (''templating'', ''0001_initial''), mg_dependencies = [],
      mg_operations =
        [CreateModel
          \<lparr>tb_app = ''templating'', tb_name = ''template'',
           tb_columns =
             [primary_key (column ''id'' BigAutoField),
              column ''name'' (CharField 128 []),
              column ''channel'' (CharField 16 [''email'', ''webhook'']),
              defaults_to (JBool True) (column ''is_active'' BooleanField),
              column ''created_at'' AutoNowAdd,
              nullable (column ''deleted_at'' DateTimeField)],
           tb_constraints =
             [\<lparr>uc_fields = [''name''], uc_name = ''template_name_unique_alive'',
               uc_condition = Some (''deleted_at__isnull'', JBool True)\<rparr>],
           tb_indexes = [index_on [''channel'', ''is_active''] ''template_channel_idx''],
           tb_ordering = []\<rparr>,
         CreateModel
          \<lparr>tb_app = ''templating'', tb_name = ''templateversion'',
           tb_columns =
             [primary_key (column ''id'' BigAutoField),
              column ''version'' PositiveIntegerField,
              blank_default (JStr []) (column ''subject_template'' TextField),
              column ''body_template'' TextField,
              column ''created_at'' AutoNowAdd,
              nullable (column ''created_by'' (ForeignKey ''AUTH_USER_MODEL'' ''SET_NULL'')),
              column ''template'' (ForeignKey ''templating.template'' ''CASCADE'')],
           tb_constraints = [unique_on [''template'', ''version''] ''template_version_unique''],
           tb_indexes = [],
           tb_ordering = [''template_id'', ''-version'']\<rparr>]\<rparr>"

definition messages_0001 :: migration where
  "messages_0001 =
     \<lparr>mg_id = (''messages_api'', ''0001_initial''),
      mg_dependencies = [(''core'', ''0001_initial''), (''templating'', ''0001_initial'')],
      mg_operations =
        [CreateModel
          \<lparr>tb_app = ''messages_api'', tb_name = ''message'',
           tb_columns =
             [(primary_key (column ''id'' (CharField 26 [])))\<lparr>co_default := Call ''_new_ulid''\<rparr>,
              column ''idempotency_key'' (CharField 128 []),
              column ''channel'' (CharField 16 [''email'', ''webhook'']),
              column ''recipient'' TextField,
              blank_default (JStr []) (column ''rendered_subject'' TextField),
              column ''rendered_body'' TextField,
              blank_default (JObj []) (column ''context'' JSONField),
              defaults_to (JStr ''default'') (column ''priority'' (CharField 16 [''high'', ''default'', ''low''])),
              defaults_to (JStr ''queued'')
                (column ''status'' (CharField 16 [''queued'', ''sending'', ''sent'', ''failed'', ''dead''])),
              nullable (column ''scheduled_at'' DateTimeField),
              column ''created_at'' AutoNowAdd,
              column ''updated_at'' AutoNow,
              nullable (column ''api_key'' (ForeignKey ''core.apikey'' ''PROTECT'')),
              nullable (column ''template_version'' (ForeignKey ''templating.templateversion'' ''PROTECT''))],
           tb_constraints = [],
           tb_indexes = [],
           tb_ordering = [''-created_at'']\<rparr>,
         CreateModel
          \<lparr>tb_app = ''messages_api'', tb_name = ''deliveryattempt'',
           tb_columns =
             [primary_key (column ''id'' BigAutoField),
              column ''attempt_no'' PositiveIntegerField,
              column ''started_at'' DateTimeField,
              nullable (column ''finished_at'' DateTimeField),
              column ''result'' (CharField 24 [''success'', ''transient_error'', ''permanent_error'']),
              nullable (column ''http_status'' PositiveIntegerField),
              nullable (column ''smtp_code'' PositiveIntegerField),
              blank_default (JStr []) (column ''error_message'' TextField),
              column ''message'' (ForeignKey ''messages_api.message'' ''CASCADE'')],
           tb_constraints = [],
           tb_indexes = [],
           tb_ordering = []\<rparr>,
         CreateModel
          \<lparr>tb_app = ''messages_api'', tb_name = ''deadletter'',
           tb_columns =
             [primary_key (column ''id'' BigAutoField),
              column ''reason'' TextField,
              blank_default (JObj []) (column ''payload_snapshot'' JSONField),
              column ''created_at'' AutoNowAdd,
              column ''message'' (OneToOneField ''messages_api.message'' ''CASCADE'')],
           tb_constraints = [],
           tb_indexes = [],
           tb_ordering = []\<rparr>,
         AddIndex ''message'' (index_on [''status'', ''scheduled_at''] ''message_status_sched_idx''),
         AddIndex ''message'' (index_on [''created_at''] ''message_created_idx''),
         AddIndex ''message'' (index_on [''recipient''] ''message_recipient_idx''),
         AddConstraint ''message'' (unique_on [''api_key'', ''idempotency_key''] ''message_idempotency_unique''),
         AddIndex ''deliveryattempt'' (index_on [''message'', ''attempt_no''] ''delivery_attempt_msg_idx''),
         AddConstraint ''deliveryattempt'' (unique_on [''message'', ''attempt_no''] ''delivery_attempt_unique''),
         AddIndex ''deadletter'' (index_on [''created_at''] ''dead_letter_created_idx'')]\<rparr>"

definition messages_0002 :: migration where
  "messages_0002 =
     \<lparr>mg_id = (''messages_api'', ''0002_message_message_queued_partial_idx''),
      mg_dependencies = [(''core'', ''0001_initial''), (''messages_api'', ''0001_initial''), (''templating'', ''0001_initial'')],
      mg_operations =
        [AddIndex ''message'' \<lparr>ix_fields = [''scheduled_at''], ix_name = ''message_queued_partial_idx'',
           ix_condition = Some (''status'', JStr ''queued'')\<rparr>]\<rparr>"

definition messages_0003 :: migration where
  "messages_0003 =
     \<lparr>mg_id = (''messages_api'', ''0003_message_enqueued_at''),
      mg_dependencies = [(''messages_api'', ''0002_message_message_queued_partial_idx'')],
      mg_operations = [AddField ''message'' (nullable (column ''enqueued_at'' DateTimeField))]\<rparr>"

definition messages_0004 :: migration where
  "messages_0004 =
     \<lparr>mg_id = (''messages_api'', ''0004_message_claimed_by''),
      mg_dependencies = [(''messages_api'', ''0003_message_enqueued_at'')],
      mg_operations = [AddField ''message'' (blank_default (JStr []) (column ''claimed_by'' (CharField 64 [])))]\<rparr>"

definition migrations :: "migration list" where
  "migrations = [core_0001, core_0002, templating_0001, messages_0001, messages_0002, messages_0003, messages_0004]"

section \<open>Orders of migration\<close>

text \<open>An order is possible when each migration comes after those it depends on.\<close>

fun in_order :: "migration_id list \<Rightarrow> migration list \<Rightarrow> bool" where
  "in_order applied [] \<longleftrightarrow> True"
| "in_order applied (m # ms) \<longleftrightarrow>
     list_all (\<lambda>i. i \<in> set applied) (mg_dependencies m) \<and> in_order (mg_id m # applied) ms"

fun plans :: "nat \<Rightarrow> migration_id list \<Rightarrow> migration list \<Rightarrow> migration list list" where
  "plans 0 applied ms = [[]]"
| "plans (Suc n) applied ms =
     concat (map (\<lambda>i. if list_all (\<lambda>j. j \<in> set applied) (mg_dependencies (ms ! i))
         then map ((#) (ms ! i)) (plans n (mg_id (ms ! i) # applied) (take i ms @ drop (Suc i) ms)) else [])
       [0..<length ms])"

lemma plans_complete:
  "mset p = mset ms \<Longrightarrow> in_order applied p \<Longrightarrow> p \<in> set (plans (length ms) applied ms)"
proof (induction p arbitrary: ms applied)
  case (Cons x p)
  then have "x \<in> set ms" by (metis list.set_intros(1) set_mset_mset)
  then obtain i where i: "i < length ms" "ms ! i = x" by (metis in_set_conv_nth)
  have ms: "ms = take i ms @ x # drop (Suc i) ms" using i id_take_nth_drop by blast
  then have "mset p = mset (take i ms @ drop (Suc i) ms)"
    using Cons.prems(1) by (metis add_mset_add_single add_right_cancel mset.simps(2) mset_append union_mset_add_mset_right)
  moreover have "length (take i ms @ drop (Suc i) ms) = length ms - 1" using i by simp
  ultimately have "p \<in> set (plans (length ms - 1) (mg_id x # applied) (take i ms @ drop (Suc i) ms))"
    using Cons.IH [of "take i ms @ drop (Suc i) ms" "mg_id x # applied"] Cons.prems(2) by simp
  moreover obtain n where "length ms = Suc n" using i(1) by (cases "length ms") auto
  ultimately show ?case using Cons.prems(2) i by (auto simp del: upt_Suc intro!: bexI [of _ i])
qed simp

text \<open>Two schemas agree up to the order of tables, columns, constraints and indexes.\<close>

definition same_set :: "('a \<Rightarrow> pystr) \<Rightarrow> 'a list \<Rightarrow> 'a list \<Rightarrow> bool" where
  "same_set name xs ys \<longleftrightarrow> length xs = length ys \<and> distinct (map name xs) \<and>
     list_all (\<lambda>x. List.find (\<lambda>y. name y = name x) ys = Some x) xs"

definition same_table :: "table \<Rightarrow> table \<Rightarrow> bool" where
  "same_table s t \<longleftrightarrow> tb_ordering s = tb_ordering t \<and>
     same_set co_name (tb_columns s) (tb_columns t) \<and> same_set uc_name (tb_constraints s) (tb_constraints t) \<and>
     same_set ix_name (tb_indexes s) (tb_indexes t)"

definition same_schema :: "schema \<Rightarrow> schema \<Rightarrow> bool" where
  "same_schema s t \<longleftrightarrow> length s = length t \<and> distinct (map (\<lambda>x. (tb_app x, tb_name x)) s) \<and>
     list_all (\<lambda>x. case List.find (is_table (tb_app x) (tb_name x)) t of None \<Rightarrow> False | Some y \<Rightarrow> same_table x y) s"

definition builds_models :: "migration list \<Rightarrow> bool" where
  "builds_models p \<longleftrightarrow> (case migrate p [] of Some s \<Rightarrow> same_schema s models_schema | None \<Rightarrow> False)"

lemma migration_heads:
  "mg_id core_0001 = (''core'', ''0001_initial'')" "mg_dependencies core_0001 = []"
  "mg_id core_0002 = (''core'', ''0002_api_key_id_and_webhook_secret'')" "mg_dependencies core_0002 = [(''core'', ''0001_initial'')]"
  "mg_id templating_0001 = (''templating'', ''0001_initial'')" "mg_dependencies templating_0001 = []"
  "mg_id messages_0001 = (''messages_api'', ''0001_initial'')" "mg_dependencies messages_0001 = [(''core'', ''0001_initial''), (''templating'', ''0001_initial'')]"
  "mg_id messages_0002 = (''messages_api'', ''0002_message_message_queued_partial_idx'')" "mg_dependencies messages_0002 = [(''core'', ''0001_initial''), (''messages_api'', ''0001_initial''), (''templating'', ''0001_initial'')]"
  "mg_id messages_0003 = (''messages_api'', ''0003_message_enqueued_at'')" "mg_dependencies messages_0003 = [(''messages_api'', ''0002_message_message_queued_partial_idx'')]"
  "mg_id messages_0004 = (''messages_api'', ''0004_message_claimed_by'')" "mg_dependencies messages_0004 = [(''messages_api'', ''0003_message_enqueued_at'')]"
  by (simp_all add: core_0001_def core_0002_def templating_0001_def messages_0001_def messages_0002_def messages_0003_def messages_0004_def)

text \<open>The possible orders, one by one.\<close>

lemma all_plans:
  "plans 7 [] migrations =
     [[core_0001, core_0002, templating_0001, messages_0001, messages_0002, messages_0003, messages_0004],
      [core_0001, templating_0001, core_0002, messages_0001, messages_0002, messages_0003, messages_0004],
      [core_0001, templating_0001, messages_0001, core_0002, messages_0002, messages_0003, messages_0004],
      [core_0001, templating_0001, messages_0001, messages_0002, core_0002, messages_0003, messages_0004],
      [core_0001, templating_0001, messages_0001, messages_0002, messages_0003, core_0002, messages_0004],
      [core_0001, templating_0001, messages_0001, messages_0002, messages_0003, messages_0004, core_0002],
      [templating_0001, core_0001, core_0002, messages_0001, messages_0002, messages_0003, messages_0004],
      [templating_0001, core_0001, messages_0001, core_0002, messages_0002, messages_0003, messages_0004],
      [templating_0001, core_0001, messages_0001, messages_0002, core_0002, messages_0003, messages_0004],
      [templating_0001, core_0001, messages_0001, messages_0002, messages_0003, core_0002, messages_0004],
      [templating_0001, core_0001, messages_0001, messages_0002, messages_0003, messages_0004, core_0002]]"
  by (simp add: migrations_def migration_heads numeral_eq_Suc upt_rec)

lemma builds_models_1: "builds_models [core_0001, core_0002, templating_0001, messages_0001, messages_0002, messages_0003, messages_0004]"
  by code_simp

lemma builds_models_2: "builds_models [core_0001, templating_0001, core_0002, messages_0001, messages_0002, messages_0003, messages_0004]"
  by code_simp

lemma builds_models_3: "builds_models [core_0001, templating_0001, messages_0001, core_0002, messages_0002, messages_0003, messages_0004]"
  by code_simp

lemma builds_models_4: "builds_models [core_0001, templating_0001, messages_0001, messages_0002, core_0002, messages_0003, messages_0004]"
  by code_simp

lemma builds_models_5: "builds_models [core_0001, templating_0001, messages_0001, messages_0002, messages_0003, core_0002, messages_0004]"
  by code_simp

lemma builds_models_6: "builds_models [core_0001, templating_0001, messages_0001, messages_0002, messages_0003, messages_0004, core_0002]"
  by code_simp

lemma builds_models_7: "builds_models [templating_0001, core_0001, core_0002, messages_0001, messages_0002, messages_0003, messages_0004]"
  by code_simp

lemma builds_models_8: "builds_models [templating_0001, core_0001, messages_0001, core_0002, messages_0002, messages_0003, messages_0004]"
  by code_simp

lemma builds_models_9: "builds_models [templating_0001, core_0001, messages_0001, messages_0002, core_0002, messages_0003, messages_0004]"
  by code_simp

lemma builds_models_10: "builds_models [templating_0001, core_0001, messages_0001, messages_0002, messages_0003, core_0002, messages_0004]"
  by code_simp

lemma builds_models_11: "builds_models [templating_0001, core_0001, messages_0001, messages_0002, messages_0003, messages_0004, core_0002]"
  by code_simp

lemmas builds_models_all = builds_models_1 builds_models_2 builds_models_3 builds_models_4 builds_models_5 builds_models_6 builds_models_7 builds_models_8 builds_models_9 builds_models_10 builds_models_11

section \<open>Properties\<close>



end
