(* ===== verification/Relay_Urls.thy ===== *)
theory Relay_Urls
  imports Relay_Middleware
begin

text \<open>
  \<open>notify_relay/urls.py\<close> and the \<open>urls.py\<close> of the three APIs: which view answers a path. The
  inner patterns of the framework's router and of the admin site are arguments; the list of
  patterns, its order and the prefixes are the program's.
\<close>

section \<open>What a path can lead to\<close>

datatype viewset = MessageViewSet | TemplateViewSet | ApiKeyViewSet

text \<open>
  The shapes of route a router makes for a registered viewset: its collection, one object
  named in the path, and an extra action of one object.
\<close>

datatype route = Collection | Detail pystr | Extra pystr pystr

datatype endpoint =
    Metrics
  | Admin pystr
  | TokenObtain
  | TokenRefresh
  | ApiRoot
  | Resource viewset route
  | ApiSchema
  | SwaggerUI
  | Redoc

text \<open>
  The framework: whether the admin site has a page at a path, and what a router with one
  registered viewset makes of the rest of a path (\<open>Inl ()\<close> is its root view).
\<close>

record framework =
  fr_admin :: "pystr \<Rightarrow> bool"
  fr_router :: "pystr \<Rightarrow> viewset \<Rightarrow> pystr \<Rightarrow> (unit + route) option"

datatype pattern = Path pystr endpoint | Include pystr "pystr \<Rightarrow> endpoint option"

definition router_urls :: "framework \<Rightarrow> pystr \<Rightarrow> viewset \<Rightarrow> pystr \<Rightarrow> endpoint option" where
  "router_urls fr prefix v rest =
     (case fr_router fr prefix v rest of
        None \<Rightarrow> None | Some (Inl _) \<Rightarrow> Some ApiRoot | Some (Inr r) \<Rightarrow> Some (Resource v r))"

definition messages_api_urls :: "framework \<Rightarrow> pystr \<Rightarrow> endpoint option" where
  "messages_api_urls fr = router_urls fr ''messages'' MessageViewSet"

definition templating_urls :: "framework \<Rightarrow> pystr \<Rightarrow> endpoint option" where
  "templating_urls fr = router_urls fr ''templates'' TemplateViewSet"

definition core_urls :: "framework \<Rightarrow> pystr \<Rightarrow> endpoint option" where
  "core_urls fr = router_urls fr ''api-keys'' ApiKeyViewSet"

definition admin_urls :: "framework \<Rightarrow> pystr \<Rightarrow> endpoint option" where
  "admin_urls fr rest = (if fr_admin fr rest then Some (Admin rest) else None)"

definition urlpatterns :: "framework \<Rightarrow> pattern list" where
  "urlpatterns fr =
     [Path ''metrics'' Metrics,
      Include ''admin/'' (admin_urls fr),
      Path ''api/v1/auth/token/'' TokenObtain,
      Path ''api/v1/auth/token/refresh/'' TokenRefresh,
      Include ''api/v1/'' (messages_api_urls fr),
      Include ''api/v1/'' (templating_urls fr),
      Include ''api/v1/'' (core_urls fr),
      Path ''api/schema/'' ApiSchema,
      Path ''api/schema/swagger-ui/'' SwaggerUI,
      Path ''api/schema/redoc/'' Redoc]"

text \<open>The first pattern that matches answers; an \<open>include\<close> whose inside does not match is passed over.\<close>

fun first_match :: "pattern list \<Rightarrow> pystr \<Rightarrow> endpoint option" where
  "first_match [] p = None"
| "first_match (Path r v # ps) p = (if p = r then Some v else first_match ps p)"
| "first_match (Include r f # ps) p =
     (if py_startswith p r then
        (case f (drop (length r) p) of Some v \<Rightarrow> Some v | None \<Rightarrow> first_match ps p)
      else first_match ps p)"

definition resolve_path :: "framework \<Rightarrow> pystr \<Rightarrow> endpoint option" where
  "resolve_path fr path = (if py_startswith path ''/'' then first_match (urlpatterns fr) (drop 1 path) else None)"

section \<open>Lookup values\<close>

text \<open>
  \<open>lookup_value_regex\<close> of the viewsets, on characters below U+0100: \<open>\w\<close> is a letter, a
  digit or the underscore, \<open>\d\<close> a digit.
\<close>

definition lookup_value_ok :: "viewset \<Rightarrow> pystr \<Rightarrow> bool" where
  "lookup_value_ok v s =
     (case v of
        MessageViewSet \<Rightarrow> length s = 26 \<and> list_all (\<lambda>c. code_point c < 128 \<and> isalnum c) s
      | TemplateViewSet \<Rightarrow> s \<noteq> [] \<and> list_all (\<lambda>c. isalnum c \<or> c \<in> set ''_.-'') s
      | ApiKeyViewSet \<Rightarrow> s \<noteq> [] \<and> list_all ascii_digit s)"

definition lookup_value :: "route \<Rightarrow> pystr option" where
  "lookup_value r = (case r of Collection \<Rightarrow> None | Detail s \<Rightarrow> Some s | Extra s _ \<Rightarrow> Some s)"

text \<open>What the router is documented to do with the pattern: the value in the path matches it.\<close>

definition router_matches_values :: "framework \<Rightarrow> bool" where
  "router_matches_values fr \<longleftrightarrow>
     (\<forall>prefix v rest r s. fr_router fr prefix v rest = Some (Inr r) \<longrightarrow> lookup_value r = Some s \<longrightarrow> lookup_value_ok v s)"

section \<open>Facts\<close>

lemma router_urls_cases:
  assumes "router_urls fr prefix v rest = Some ep"
  shows "ep = ApiRoot \<or> (\<exists>r. ep = Resource v r \<and> fr_router fr prefix v rest = Some (Inr r))"
  using assms by (auto simp: router_urls_def split: option.splits sum.splits)

definition matched_by :: "pattern \<Rightarrow> pystr \<Rightarrow> endpoint \<Rightarrow> bool" where
  "matched_by x p ep \<longleftrightarrow>
     (case x of Path r v \<Rightarrow> p = r \<and> ep = v | Include r f \<Rightarrow> (\<exists>rest. p = r @ rest \<and> f rest = Some ep))"

lemma first_match_Some: "first_match ps p = Some ep \<Longrightarrow> \<exists>x\<in>set ps. matched_by x p ep"
proof (induction ps p rule: first_match.induct)
  case (3 r f ps p)
  show ?case
  proof (cases "py_startswith p r \<and> f (drop (length r) p) = Some ep")
    case True
    then have "p = r @ drop (length r) p" unfolding py_startswith_def by (metis append_take_drop_id)
    with True have "matched_by (Include r f) p ep" by (auto simp: matched_by_def)
    then show ?thesis by simp
  qed (use 3 in \<open>auto split: if_splits option.splits\<close>)
qed (auto simp: matched_by_def split: if_splits)

lemma resolve_path_cases:
  assumes "resolve_path fr path = Some ep"
  obtains (exact) p where "path = ''/'' @ p"
      "(p, ep) \<in> {(''metrics'', Metrics), (''api/v1/auth/token/'', TokenObtain),
        (''api/v1/auth/token/refresh/'', TokenRefresh), (''api/schema/'', ApiSchema),
        (''api/schema/swagger-ui/'', SwaggerUI), (''api/schema/redoc/'', Redoc)}"
    | (admin) rest where "path = ''/admin/'' @ rest" "ep = Admin rest"
    | (root) rest where "path = ''/api/v1/'' @ rest" "ep = ApiRoot"
    | (resource) rest v r prefix where "path = ''/api/v1/'' @ rest" "ep = Resource v r"
        "fr_router fr prefix v rest = Some (Inr r)"
proof -
  obtain p where p: "path = ''/'' @ p" and m: "first_match (urlpatterns fr) p = Some ep"
    using assms by (cases path) (auto simp: resolve_path_def py_startswith_def split: if_splits)
  obtain x where x: "x \<in> set (urlpatterns fr)" and hit: "matched_by x p ep" using first_match_Some [OF m] by blast
  show thesis
  proof (cases x)
    case (Path r v)
    with x hit have "p = r \<and> ep = v" by (simp add: matched_by_def)
    with x Path p show thesis by (intro exact) (auto simp: urlpatterns_def)
  next
    case (Include r f)
    with hit obtain rest where rest: "p = r @ rest" "f rest = Some ep" by (auto simp: matched_by_def)
    from x Include have "(r, f) \<in> {(''admin/'', admin_urls fr), (''api/v1/'', router_urls fr ''messages'' MessageViewSet),
        (''api/v1/'', router_urls fr ''templates'' TemplateViewSet), (''api/v1/'', router_urls fr ''api-keys'' ApiKeyViewSet)}"
      by (simp add: urlpatterns_def messages_api_urls_def templating_urls_def core_urls_def)
    then consider "r = ''admin/''" "f = admin_urls fr" | prefix v where "r = ''api/v1/''" "f = router_urls fr prefix v"
      by blast
    then show thesis
    proof cases
      case 1
      with rest p show thesis by (intro admin) (auto simp: admin_urls_def split: if_splits)
    next
      case (2 prefix v)
      with rest have "router_urls fr prefix v rest = Some ep" by simp
      then consider "ep = ApiRoot" | r' where "ep = Resource v r'" "fr_router fr prefix v rest = Some (Inr r')"
        using router_urls_cases by blast
      then show thesis using 2(1) rest p by cases (auto intro: root resource)
    qed
  qed
qed

lemma resolved_value_ok:
  assumes "router_matches_values fr" and "resolve_path fr path = Some (Resource v r)" and "lookup_value r = Some s"
  shows "lookup_value_ok v s"
  using assms(2)
proof (cases rule: resolve_path_cases)
  case (resource rest v' r' prefix)
  with assms(1,3) show ?thesis by (auto simp: router_matches_values_def)
qed auto

section \<open>Properties\<close>

lemma derive_api:
  assumes "rq_path rq = ''/api/v1/'' @ rest"
  shows "(\<exists>c rq'. derive lm pepper d rq = Inr (Some c, rq')) \<or> derive lm pepper d rq = Inl PepperNotConfigured"
proof (cases "derive lm pepper d rq")
  case (Inl err)
  then show ?thesis by (cases err) simp
next
  case (Inr x)
  have "py_startswith (rq_path rq) ''/api/v1/''" using assms by (simp only: py_startswith_append)
  with Inr show ?thesis by (auto simp: derive_def Let_def split: if_splits sum.splits option.splits prod.splits)
qed

text \<open>
  C31: the limiter covers the API. With limiting on, a path that leads to a token endpoint or
  to the admin site's login is charged to the strict bucket of the client's address; a path
  that leads into one of the three APIs is charged to some bucket, unless the pepper is not
  configured; and the metrics, the API's description and the other admin pages are charged
  to none.
\<close>

theorem limiter_covers_api:
  assumes "resolve_path fr (rq_path rq) = Some ep"
  shows "case ep of
       TokenObtain \<Rightarrow> derive lm pepper d rq = Inr (Some (''auth-ip:'' @ client_ip (lm_num_proxies lm) rq, lm_auth_per_min lm, lm_auth_burst lm), rq)
     | TokenRefresh \<Rightarrow> derive lm pepper d rq = Inr (Some (''auth-ip:'' @ client_ip (lm_num_proxies lm) rq, lm_auth_per_min lm, lm_auth_burst lm), rq)
     | Admin rest \<Rightarrow> derive lm pepper d rq =
         (if py_startswith rest ''login/''
          then Inr (Some (''auth-ip:'' @ client_ip (lm_num_proxies lm) rq, lm_auth_per_min lm, lm_auth_burst lm), rq)
          else Inr (None, rq))
     | Resource _ _ \<Rightarrow> (\<exists>c rq'. derive lm pepper d rq = Inr (Some c, rq')) \<or> derive lm pepper d rq = Inl PepperNotConfigured
     | ApiRoot \<Rightarrow> (\<exists>c rq'. derive lm pepper d rq = Inr (Some c, rq')) \<or> derive lm pepper d rq = Inl PepperNotConfigured
     | _ \<Rightarrow> derive lm pepper d rq = Inr (None, rq)"
  using assms
proof (cases rule: resolve_path_cases)
  case (exact p)
  then show ?thesis by (auto simp: derive_def AUTH_PATHS_def py_startswith_def Let_def)
next
  case (admin rest)
  then show ?thesis by (auto simp: derive_def AUTH_PATHS_def py_startswith_def Let_def)
next
  case (root rest)
  then show ?thesis using derive_api by simp
next
  case (resource rest v r prefix)
  then show ?thesis using derive_api by simp
qed

end
