(* ===== verification/Relay_Api.thy ===== *)
theory Relay_Api
  imports Relay_Stack Relay_Urls Relay_Template_Views Relay_Api_Keys
begin

text \<open>
  The whole API: a request is resolved to a view, authenticated, checked against the view's
  permission classes and handed to the action its method names. Pages that do not belong to
  the three APIs do not write the tables of this program.
\<close>

section \<open>One request to the API\<close>

record api_env =
  ae_framework :: framework
  ae_pepper :: pystr
  ae_other :: "request \<Rightarrow> user option"
  ae_drf :: drf_fields
  ae_web :: web_env
  ae_create :: create_env
  ae_collate :: "pystr \<Rightarrow> nat list"
  ae_draw :: key_draw
  ae_now :: timestamp

datatype api_answer =
    MessageAnswer message_answer
  | TemplatesAnswer "template_view list reply"
  | TemplateAnswer "template_view reply"
  | TemplateCreated "(template_view \<times> template_version_view) reply"
  | TemplateDeleted "unit reply"
  | VersionsAnswer "template_version_view list reply"
  | VersionAnswer "template_version_view reply"
  | KeysAnswer "api_key_view list reply"
  | KeyAnswer "api_key_view reply"
  | KeyCreated "api_key_created reply"
  | Framework nat
  | Elsewhere endpoint

datatype api_crash = InMessages view_crash | InTemplates db_error | InKeys create_key_error | NoPepperSet

type_synonym site_data = "db \<times> task list"

text \<open>A JSON body that is not an object is not valid for any serializer.\<close>

definition body_fields :: "json \<Rightarrow> (pystr \<times> json) list option" where
  "body_fields data = (case data of JObj kvs \<Rightarrow> Some kvs | _ \<Rightarrow> None)"

text \<open>
  An action is looked up by shape of route and method; \<open>HEAD\<close> is answered like \<open>GET\<close>. The
  permission is checked first: a method without an action is 405 only for those who may call
  the view.
\<close>

definition permitted :: "viewset \<Rightarrow> caller \<Rightarrow> bool" where
  "permitted v c = (case v of MessageViewSet \<Rightarrow> True | TemplateViewSet \<Rightarrow> is_staff c | ApiKeyViewSet \<Rightarrow> is_staff c)"

definition no_action :: "http_method \<Rightarrow> api_answer" where
  "no_action mth = Framework (if mth = OPTIONS then 200 else 405)"

definition reads :: "http_method \<Rightarrow> bool" where
  "reads mth \<longleftrightarrow> mth = GET \<or> mth = HEAD"

definition message_actions ::
    "api_env \<Rightarrow> caller \<Rightarrow> request \<Rightarrow> json \<Rightarrow> route \<Rightarrow> site_data \<Rightarrow> (api_crash + api_answer) \<times> site_data" where
  "message_actions e c rq data r s =
     (case r of
        Collection \<Rightarrow>
          if rq_method rq = POST then
            (case messages_create (ae_drf e) (ae_web e) (ae_create e) c rq data s of
               (Inl crash, s') \<Rightarrow> (Inl (InMessages crash), s')
             | (Inr a, s') \<Rightarrow> (Inr (MessageAnswer a), s'))
          else (Inr (no_action (rq_method rq)), s)
      | Detail pk \<Rightarrow>
          if reads (rq_method rq) then (Inr (MessageAnswer (messages_retrieve c pk (fst s))), s)
          else (Inr (no_action (rq_method rq)), s)
      | Extra _ _ \<Rightarrow> (Inr (Framework 404), s))"

definition template_actions ::
    "api_env \<Rightarrow> caller \<Rightarrow> request \<Rightarrow> json \<Rightarrow> route \<Rightarrow> db \<Rightarrow> (api_crash + api_answer) \<times> db" where
  "template_actions e c rq data r d =
     (case r of
        Collection \<Rightarrow>
          if reads (rq_method rq) then
            (case templates_list (ae_collate e) c d of (a, d') \<Rightarrow> (Inr (TemplatesAnswer a), d'))
          else if rq_method rq = POST then
            (case body_fields data of
               None \<Rightarrow> (Inr (Framework 400), d)
             | Some kvs \<Rightarrow>
                 (case templates_create (ae_drf e) (ae_now e) c kvs d of
                    Inl err \<Rightarrow> (Inl (InTemplates err), d)
                  | Inr (a, d') \<Rightarrow> (Inr (TemplateCreated a), d')))
          else (Inr (no_action (rq_method rq)), d)
      | Detail name \<Rightarrow>
          if reads (rq_method rq) then
            (case templates_retrieve c name d of (a, d') \<Rightarrow> (Inr (TemplateAnswer a), d'))
          else if rq_method rq = DELETE then
            (case templates_destroy c (ae_now e) name d of (a, d') \<Rightarrow> (Inr (TemplateDeleted a), d'))
          else (Inr (no_action (rq_method rq)), d)
      | Extra name path \<Rightarrow>
          if path = ''versions'' then
            (if reads (rq_method rq) then
               (case templates_versions c name d of (a, d') \<Rightarrow> (Inr (VersionsAnswer a), d'))
             else (Inr (no_action (rq_method rq)), d))
          else if py_startswith path ''versions/'' then
            (if reads (rq_method rq) then
               (case templates_version_detail c name (nat_of_digits (drop 9 path)) d of
                  (a, d') \<Rightarrow> (Inr (VersionAnswer a), d'))
             else (Inr (no_action (rq_method rq)), d))
          else (Inr (Framework 404), d))"

definition key_actions ::
    "api_env \<Rightarrow> caller \<Rightarrow> request \<Rightarrow> json \<Rightarrow> route \<Rightarrow> db \<Rightarrow> (api_crash + api_answer) \<times> db" where
  "key_actions e c rq data r d =
     (case r of
        Collection \<Rightarrow>
          if reads (rq_method rq) then (case api_keys_list c d of (a, d') \<Rightarrow> (Inr (KeysAnswer a), d'))
          else if rq_method rq = POST then
            (case body_fields data of
               None \<Rightarrow> (Inr (Framework 400), d)
             | Some kvs \<Rightarrow>
                 (case api_keys_create (ae_drf e) (ae_pepper e) (ae_draw e) c kvs d of
                    Inl err \<Rightarrow> (Inl (InKeys err), d)
                  | Inr (a, d') \<Rightarrow> (Inr (KeyCreated a), d')))
          else (Inr (no_action (rq_method rq)), d)
      | Detail pk \<Rightarrow>
          if reads (rq_method rq) then
            (case api_keys_retrieve c (nat_of_digits pk) d of (a, d') \<Rightarrow> (Inr (KeyAnswer a), d'))
          else (Inr (no_action (rq_method rq)), d)
      | Extra pk path \<Rightarrow>
          if path = ''revoke'' then
            (if rq_method rq = POST then
               (case api_keys_revoke c (ae_now e) (nat_of_digits pk) d of (a, d') \<Rightarrow> (Inr (KeyAnswer a), d'))
             else (Inr (no_action (rq_method rq)), d))
          else (Inr (Framework 404), d))"

definition call_view ::
    "api_env \<Rightarrow> caller \<Rightarrow> request \<Rightarrow> json \<Rightarrow> viewset \<Rightarrow> route \<Rightarrow> site_data \<Rightarrow> (api_crash + api_answer) \<times> site_data" where
  "call_view e c rq data v r s =
     (if c = Anonymous then (Inr (Framework 401), s)
      else if \<not> permitted v c then (Inr (Framework 403), s)
      else case v of
        MessageViewSet \<Rightarrow> message_actions e c rq data r s
      | TemplateViewSet \<Rightarrow> (case template_actions e c rq data r (fst s) of (a, d') \<Rightarrow> (a, d', snd s))
      | ApiKeyViewSet \<Rightarrow> (case key_actions e c rq data r (fst s) of (a, d') \<Rightarrow> (a, d', snd s)))"

definition serve_api ::
    "api_env \<Rightarrow> request \<Rightarrow> json \<Rightarrow> site_data \<Rightarrow> (api_crash + api_answer) \<times> site_data" where
  "serve_api e rq data s =
     (case resolve_path (ae_framework e) (rq_path rq) of
        None \<Rightarrow> (Inr (Framework 404), s)
      | Some (Resource v r) \<Rightarrow>
          (case caller_of (ae_pepper e) (fst s) (ae_other e) rq of
             Inl (AuthenticationFailed _) \<Rightarrow> (Inr (Framework 401), s)
           | Inl (AuthRuntimeError _) \<Rightarrow> (Inl NoPepperSet, s)
           | Inr (c, rq') \<Rightarrow> call_view e c rq' data v r s)
      | Some ep \<Rightarrow> (Inr (Elsewhere ep), s))"

section \<open>What a request may change\<close>

definition same_templates :: "db \<Rightarrow> db \<Rightarrow> bool" where
  "same_templates d d' \<longleftrightarrow> templates d' = templates d \<and> template_versions d' = template_versions d"

lemma guarded_staff:
  assumes "guarded is_staff c run d = (a, d')"
  shows "d' = d \<or> is_staff c \<and> run = (a, d')"
  using assms by (auto simp: guarded_def split: if_splits)

lemma templates_destroy_data:
  "templates_destroy c now name d = (a, d') \<Longrightarrow> d' = d \<or> is_staff c \<and> same_delivery_tables d d' \<and> api_keys d' = api_keys d"
  unfolding templates_destroy_def
  by (drule guarded_staff) (auto simp: same_delivery_tables_def split: option.splits)

lemma templates_create_data:
  "templates_create drf now c kvs d = Inr (a, d') \<Longrightarrow>
     d' = d \<or> is_staff c \<and> same_delivery_tables d d' \<and> api_keys d' = api_keys d"
  by (auto simp: templates_create_def templates_create_body_def upsert_template_def same_delivery_tables_def guarded_def
      dest!: insert_templateD(6) insert_template_versionD(7) split: if_splits option.splits sum.splits prod.splits)

lemma api_keys_create_data:
  "api_keys_create drf pepper r c kvs d = Inr (a, d') \<Longrightarrow>
     d' = d \<or> is_staff c \<and> same_delivery_tables d d' \<and> same_templates d d'"
  by (auto simp: api_keys_create_def same_delivery_tables_def same_templates_def guarded_def Let_def dest!: insert_api_keyD(1)
      split: if_splits option.splits sum.splits prod.splits)

lemma api_keys_revoke_data:
  "api_keys_revoke c now pk d = (a, d') \<Longrightarrow> d' = d \<or> is_staff c \<and> same_delivery_tables d d' \<and> same_templates d d'"
  unfolding api_keys_revoke_def
  by (drule guarded_staff) (auto simp: same_delivery_tables_def same_templates_def split: option.splits if_splits)

lemma views_read_only:
  "snd (templates_list col c d) = d" "snd (templates_retrieve c name d) = d" "snd (templates_versions c name d) = d"
  "snd (templates_version_detail c name n d) = d" "snd (api_keys_list c d) = d" "snd (api_keys_retrieve c pk d) = d"
  by (simp_all add: templates_list_def templates_retrieve_def templates_versions_def templates_version_detail_def
      api_keys_list_def api_keys_retrieve_def guarded_def split: option.split)

lemma views_read_onlyD:
  "templates_list col c d = (r1, d') \<Longrightarrow> d' = d" "templates_retrieve c name d = (r2, d') \<Longrightarrow> d' = d"
  "templates_versions c name d = (r3, d') \<Longrightarrow> d' = d" "templates_version_detail c name n d = (r4, d') \<Longrightarrow> d' = d"
  "api_keys_list c d = (r5, d') \<Longrightarrow> d' = d" "api_keys_retrieve c pk d = (r6, d') \<Longrightarrow> d' = d"
  using views_read_only by (metis snd_conv)+

lemma template_actions_data:
  assumes "template_actions e c rq data r d = (a, d')"
  shows "d' = d \<or> rq_method rq \<in> {POST, DELETE} \<and> is_staff c \<and> same_delivery_tables d d' \<and> api_keys d' = api_keys d"
  using assms
  by (auto simp: template_actions_def dest: views_read_onlyD templates_create_data templates_destroy_data
      split: route.splits if_splits option.splits sum.splits prod.splits)

lemma key_actions_data:
  assumes "key_actions e c rq data r d = (a, d')"
  shows "d' = d \<or> rq_method rq = POST \<and> is_staff c \<and> same_delivery_tables d d' \<and> same_templates d d'"
  using assms
  by (auto simp: key_actions_def dest: views_read_onlyD api_keys_create_data api_keys_revoke_data
      split: route.splits if_splits option.splits sum.splits prod.splits)

text \<open>A new message is queued, belongs to the key that posted it, and its recipient is acceptable.\<close>

definition posted_by :: "web_env \<Rightarrow> api_key \<Rightarrow> message \<Rightarrow> bool" where
  "posted_by w k m \<longleftrightarrow> msg_api_key m = Some (ak_id k) \<and> msg_status m = QUEUED \<and>
     validate_recipient w (channel_value (msg_channel m)) (msg_recipient m) = None"

lemma messages_create_data:
  assumes "messages_create drf w e c rq data (d, q) = (a, d', q')" and "ce_others e d = d"
  shows "(d' = d \<and> q' = q) \<or>
     (\<exists>k m. c = ByKey k \<and> posted_by w k m \<and> d' = d\<lparr>messages := messages d @ [m]\<rparr> \<and> (q' = q \<or> (\<exists>t. q' = q @ [t])))"
proof (cases c)
  case (ByKey k)
  from messages_create_key_cases [OF assms(1) [unfolded ByKey]] consider "d' = d \<and> q' = q"
    | v res idem where "MessageCreateSerializer drf w data = Inr (Some v)"
      "create_message e (Some (ak_id k)) idem v (d, q) = (res, d', q')"
    by blast
  then show ?thesis
  proof cases
    case (2 v res idem)
    from create_message_cases [OF assms(2) 2(2)] consider "d' = d \<and> q' = q"
      | tv rm where "d' = d\<lparr>messages := messages d @ [new_message e (Some (ak_id k)) idem v tv rm]\<rparr>"
        "q' = q \<or> (\<exists>t. q' = q @ [t])"
      by (auto simp: Let_def)
    then show ?thesis
    proof cases
      case (2 tv rm)
      have "posted_by w k (new_message e (Some (ak_id k)) idem v tv rm)"
        using serializer_validates [OF \<open>MessageCreateSerializer drf w data = _\<close>]
        by (simp add: posted_by_def new_message_def)
      with 2 ByKey show ?thesis by blast
    qed simp
  qed simp
qed (use assms(1) in \<open>auto simp: messages_create_def error_answer_def\<close>)

lemma message_actions_data:
  assumes "message_actions e c rq data r (d, q) = (a, d', q')" and "ce_others (ae_create e) d = d"
  shows "(d' = d \<and> q' = q) \<or>
     (\<exists>k m. c = ByKey k \<and> r = Collection \<and> rq_method rq = POST \<and> posted_by (ae_web e) k m \<and>
        d' = d\<lparr>messages := messages d @ [m]\<rparr> \<and> (q' = q \<or> (\<exists>t. q' = q @ [t])))"
  using assms(1) messages_create_data [OF _ assms(2)]
  by (auto simp: message_actions_def split: route.splits if_splits sum.splits prod.splits)

text \<open>The request names this active key and proves to know its secret.\<close>

definition holds_key :: "pystr \<Rightarrow> db \<Rightarrow> request \<Rightarrow> api_key \<Rightarrow> bool" where
  "holds_key pepper d rq k \<longleftrightarrow> k \<in> set (api_keys d) \<and> ak_is_active k \<and> ak_revoked_at k = None \<and>
     (\<exists>secret. META_get API_KEY_HEADER_META rq = ak_key_id k @ ''_'' @ secret \<and>
        ak_hashed_secret k = hmac_sha256 (utf8 pepper) (utf8 secret))"

text \<open>The framework's other authentication finds a member of staff, and no key is named.\<close>

definition by_staff :: "(request \<Rightarrow> user option) \<Rightarrow> request \<Rightarrow> bool" where
  "by_staff other rq \<longleftrightarrow> META_get API_KEY_HEADER_META rq = [] \<and> (\<exists>u. other rq = Some u \<and> us_is_staff u)"

lemma caller_of_staff:
  assumes "caller_of pepper d other rq = Inr (c, rq')" and "is_staff c"
  shows "by_staff other rq"
  using assms
  by (auto simp: caller_of_def by_staff_def is_staff_def authenticate_def split: sum.splits option.splits prod.splits if_splits)

lemma caller_of_method:
  "caller_of pepper d other rq = Inr (c, rq') \<Longrightarrow> rq_method rq' = rq_method rq"
  by (auto simp: caller_of_def authenticate_def resolve_api_key_def
      split: sum.splits option.splits prod.splits if_splits)

text \<open>
  A change of the data is one new message by the holder of its key, posted to the messages'
  collection, or a change of templates or of keys by staff, at their own routes.
\<close>

definition rightful :: "api_env \<Rightarrow> request \<Rightarrow> site_data \<Rightarrow> site_data \<Rightarrow> bool" where
  "rightful ae rq s s' \<longleftrightarrow>
     (case resolve_path (ae_framework ae) (rq_path rq) of
        Some (Resource MessageViewSet Collection) \<Rightarrow> rq_method rq = POST \<and>
          (\<exists>k m. holds_key (ae_pepper ae) (fst s) rq k \<and> posted_by (ae_web ae) k m \<and>
             fst s' = (fst s)\<lparr>messages := messages (fst s) @ [m]\<rparr> \<and> (snd s' = snd s \<or> (\<exists>t. snd s' = snd s @ [t])))
      | Some (Resource TemplateViewSet r) \<Rightarrow> rq_method rq \<in> {POST, DELETE} \<and> by_staff (ae_other ae) rq \<and>
          snd s' = snd s \<and> same_delivery_tables (fst s) (fst s') \<and> api_keys (fst s') = api_keys (fst s)
      | Some (Resource ApiKeyViewSet r) \<Rightarrow> rq_method rq = POST \<and> by_staff (ae_other ae) rq \<and>
          snd s' = snd s \<and> same_delivery_tables (fst s) (fst s') \<and> same_templates (fst s) (fst s')
      | _ \<Rightarrow> False)"

lemma call_view_data:
  assumes "call_view e c rq data v r (d, q) = (a, d', q')" and "ce_others (ae_create e) d = d"
    and "(d', q') \<noteq> (d, q)"
  shows "case v of
       MessageViewSet \<Rightarrow> r = Collection \<and> rq_method rq = POST \<and>
         (\<exists>k m. c = ByKey k \<and> posted_by (ae_web e) k m \<and>
            d' = d\<lparr>messages := messages d @ [m]\<rparr> \<and> (q' = q \<or> (\<exists>t. q' = q @ [t])))
     | TemplateViewSet \<Rightarrow> rq_method rq \<in> {POST, DELETE} \<and> is_staff c \<and> q' = q \<and> same_delivery_tables d d' \<and> api_keys d' = api_keys d
     | ApiKeyViewSet \<Rightarrow> rq_method rq = POST \<and> is_staff c \<and> q' = q \<and> same_delivery_tables d d' \<and> same_templates d d'"
proof (cases v)
  case MessageViewSet
  with assms(1,3) have "message_actions e c rq data r (d, q) = (a, d', q')"
    by (auto simp: call_view_def split: if_splits)
  from message_actions_data [OF this assms(2)] assms(3) MessageViewSet show ?thesis by auto
next
  case TemplateViewSet
  with assms(1,3) show ?thesis
    by (auto simp: call_view_def dest!: template_actions_data split: if_splits prod.splits)
next
  case ApiKeyViewSet
  with assms(1,3) show ?thesis
    by (auto simp: call_view_def dest!: key_actions_data split: if_splits prod.splits)
qed

lemma serve_api_data:
  assumes "serve_api e rq data s = (a, s')" and "memo_ok (ae_pepper e) (fst s) rq"
    and "ce_others (ae_create e) (fst s) = fst s" and "s' \<noteq> s"
  shows "rightful e rq s s'"
proof -
  obtain d q d' q' where s: "s = (d, q)" "s' = (d', q')" by (cases s; cases s') auto
  obtain v r c rq' where path: "resolve_path (ae_framework e) (rq_path rq) = Some (Resource v r)"
    and c: "caller_of (ae_pepper e) d (ae_other e) rq = Inr (c, rq')"
    and run: "call_view e c rq' data v r (d, q) = (a, d', q')"
    using assms(1,4) s
    by (auto simp: serve_api_def split: option.splits endpoint.splits sum.splits auth_error.splits prod.splits)
  have mth: "rq_method rq' = rq_method rq" using caller_of_method [OF c] .
  have key: "holds_key (ae_pepper e) d rq k" if "c = ByKey k" for k
    using caller_of_key [of "ae_pepper e" d rq] assms(2) c that s by (simp add: holds_key_def)
  have others: "ce_others (ae_create e) d = d" using assms(3) s by simp
  have "(d', q') \<noteq> (d, q)" using assms(4) s by auto
  note done' = call_view_data [OF run others this]
  show ?thesis
    using done' caller_of_staff [OF c] key mth s path by (cases v) (auto simp: rightful_def)
qed

section \<open>The API behind the middlewares\<close>

text \<open>
  The rest of the chain after the limiter is the API; \<open>show\<close> makes a response of its answer,
  an exception leaves it.
\<close>

definition api_rest ::
    "api_env \<Rightarrow> json \<Rightarrow> (api_answer \<Rightarrow> response) \<Rightarrow> pystr option \<Rightarrow> (api_crash, site_data) handler" where
  "api_rest ae data show_answer bound rq s =
     (case serve_api ae rq data s of (Inl x, s') \<Rightarrow> (Inl x, s') | (Inr a, s') \<Rightarrow> (Inr (show_answer a), s'))"

definition api_site :: "api_crash site_env \<Rightarrow> api_env \<Rightarrow> (api_answer \<Rightarrow> response) \<Rightarrow> json \<Rightarrow> api_crash site_env" where
  "api_site e ae show_answer data = e\<lparr>se_pepper := ae_pepper ae, se_rest := api_rest ae data show_answer\<rparr>"

lemma api_rest_data:
  assumes "memo_ok (ae_pepper ae) (fst s) rq" and "ce_others (ae_create ae) (fst s) = fst s"
    and "snd (api_rest ae data show_answer bound rq s) \<noteq> s"
  shows "rightful ae rq s (snd (api_rest ae data show_answer bound rq s))"
proof -
  obtain a s' where run: "serve_api ae rq data s = (a, s')" by (metis prod.exhaust)
  then have "snd (api_rest ae data show_answer bound rq s) = s'" by (simp add: api_rest_def split: sum.split)
  with serve_api_data [OF run assms(1,2)] assms(3) show ?thesis by simp
qed

section \<open>The API is part of the running system\<close>

text \<open>What a request does to the data is a run of the system's steps.\<close>

definition system_run :: "sys \<Rightarrow> site_data \<Rightarrow> bool" where
  "system_run s data \<longleftrightarrow> sys_step\<^sup>*\<^sup>* s (s\<lparr>sy_db := fst data, sy_queue := snd data\<rparr>)"

lemma system_run_refl [simp]: "system_run s (sy_db s, sy_queue s)"
  by (simp add: system_run_def)

lemma system_run_admin: "same_delivery_tables (sy_db s) d \<Longrightarrow> system_run s (d, sy_queue s)"
  using sys_step.admin [of s d] by (simp add: system_run_def r_into_rtranclp)

text \<open>What others commit in the middle of a creation is a run of the system too.\<close>

definition creates_now :: "create_env \<Rightarrow> sys \<Rightarrow> bool" where
  "creates_now e s \<longleftrightarrow> ce_now e = sy_now s \<and> ce_task_id e \<notin> set (live_ids s) \<and> system_run s (ce_others e (sy_db s), sy_queue s)"

lemma create_message_run:
  assumes "creates_now e s" and "create_message e ak idem data (sy_db s, sy_queue s) = (res, s')"
  shows "system_run s s'"
proof -
  let ?s = "s\<lparr>sy_db := ce_others e (sy_db s), sy_queue := sy_queue s\<rparr>"
  consider "s' = (sy_db s, sy_queue s)"
    | tv r where "insert_and_publish e ak idem data (new_message e ak idem data tv r) (ce_others e (sy_db s), sy_queue s) = (res, s')"
    using assms(2) by (auto simp: create_message_def split: option.splits sum.splits)
  then show ?thesis
  proof cases
    case (2 tv r)
    have "sys_step ?s (?s\<lparr>sy_db := fst s', sy_queue := snd s'\<rparr>)"
      using assms(1) 2 by (intro sys_step.accept) (auto simp: creates_now_def live_ids_def live_tasks_def)
    with assms(1) show ?thesis
      unfolding creates_now_def system_run_def by (auto intro: rtranclp.rtrancl_into_rtrancl)
  qed simp
qed

lemma messages_create_run:
  assumes "creates_now e s" and "messages_create drf w e c rq data (sy_db s, sy_queue s) = (a, s')"
  shows "system_run s s'"
proof (cases c)
  case (ByKey k)
  obtain d' q' where s': "s' = (d', q')" by (cases s') auto
  from messages_create_key_cases [OF assms(2) [unfolded ByKey s']] show ?thesis
    using create_message_run [OF assms(1)] s' by auto
qed (use assms(2) in \<open>auto simp: messages_create_def error_answer_def\<close>)

lemma call_view_run:
  assumes "creates_now (ae_create e) s" and "call_view e c rq data v r (sy_db s, sy_queue s) = (a, s')"
  shows "system_run s s'"
proof (cases v)
  case MessageViewSet
  with assms(2) consider "s' = (sy_db s, sy_queue s)"
    | a' where "messages_create (ae_drf e) (ae_web e) (ae_create e) c rq data (sy_db s, sy_queue s) = (a', s')"
    by (auto simp: call_view_def message_actions_def split: if_splits route.splits sum.splits prod.splits)
  then show ?thesis using messages_create_run [OF assms(1)] by cases auto
next
  case TemplateViewSet
  with assms(2) consider "s' = (sy_db s, sy_queue s)"
    | d' where "s' = (d', sy_queue s)" "same_delivery_tables (sy_db s) d'"
    by (auto simp: call_view_def dest!: template_actions_data split: if_splits prod.splits)
  then show ?thesis by cases (auto intro: system_run_admin)
next
  case ApiKeyViewSet
  with assms(2) consider "s' = (sy_db s, sy_queue s)"
    | d' where "s' = (d', sy_queue s)" "same_delivery_tables (sy_db s) d'"
    by (auto simp: call_view_def dest!: key_actions_data split: if_splits prod.splits)
  then show ?thesis by cases (auto intro: system_run_admin)
qed

lemma api_rest_run:
  assumes "creates_now (ae_create ae) s"
  shows "system_run s (snd (api_rest ae data show_answer bound rq (sy_db s, sy_queue s)))"
proof -
  obtain a s' where run: "serve_api ae rq data (sy_db s, sy_queue s) = (a, s')" by (metis prod.exhaust)
  consider "s' = (sy_db s, sy_queue s)" | c rq' v r where "call_view ae c rq' data v r (sy_db s, sy_queue s) = (a, s')"
    using run by (auto simp: serve_api_def split: option.splits endpoint.splits sum.splits auth_error.splits prod.splits)
  then have "system_run s s'" by cases (auto dest: call_view_run [OF assms])
  with run show ?thesis by (simp add: api_rest_def split: sum.split)
qed

section \<open>Template names the routes do not match\<close>

lemma unmatched_name_stays:
  assumes ok: "templates_ok d" and t: "t \<in> set (templates d)" "tm_deleted_at t = None"
    and bad: "\<not> lookup_value_ok TemplateViewSet (tm_name t)"
    and route: "\<forall>name. lookup_value r = Some name \<longrightarrow> lookup_value_ok TemplateViewSet name"
    and run: "template_actions e c rq data r d = (a, d')"
  shows "t \<in> set (templates d') \<and> (\<forall>st v. a = Inr (TemplateAnswer (Reply st v)) \<longrightarrow> tmv_id v \<noteq> tm_id t)"
proof -
  have other: "tm_id x \<noteq> tm_id t" if "alive_named n d = Some x" "lookup_value_ok TemplateViewSet n" for n x
  proof
    assume same: "tm_id x = tm_id t"
    have x: "x \<in> set (templates d)" "tm_name x = n"
      using that(1) alive_named_Some [OF templates_okD(1) [OF ok]] alive_sub by blast+
    from distinct_keys_eq [OF templates_okD(2) [OF ok] x(1) t(1) same] x(2) bad that(2) show False by simp
  qed
  have create: "t \<in> set (templates d2)" if "templates_create drf now c kvs d = Inr (res, d2)" for drf now kvs res d2
    using that t(1)
    by (auto simp: templates_create_def templates_create_body_def upsert_template_def guarded_def
        dest!: insert_templateD(6) insert_template_versionD(7) split: if_splits option.splits sum.splits prod.splits)
  have destroy: "t \<in> set (templates d2)"
    if "templates_destroy c now n d = (res, d2)" "lookup_value_ok TemplateViewSet n" for now n res d2
    using that(1) other [OF _ that(2)] t(1)
    by (fastforce simp: templates_destroy_def guarded_def update_rows_def split: if_splits option.splits)
  have retrieve: "d2 = d \<and> (\<forall>st v. res = Reply st v \<longrightarrow> tmv_id v \<noteq> tm_id t)"
    if "templates_retrieve c n d = (res, d2)" "lookup_value_ok TemplateViewSet n" for n res d2
    using that(1) other [OF _ that(2)]
    by (auto simp: templates_retrieve_def guarded_def TemplateReadSerializer_def split: if_splits option.splits)
  show ?thesis
  proof (cases r)
    case Collection
    with run t(1) show ?thesis
      by (auto simp: template_actions_def no_action_def dest: views_read_onlyD create split: if_splits option.splits sum.splits prod.splits)
  next
    case (Detail n)
    with route have "lookup_value_ok TemplateViewSet n" by (simp add: lookup_value_def)
    with run t(1) Detail show ?thesis
      by (auto simp: template_actions_def no_action_def dest: destroy retrieve split: if_splits prod.splits)
  next
    case (Extra n path)
    with run t(1) show ?thesis
      by (auto simp: template_actions_def no_action_def dest: views_read_onlyD split: if_splits prod.splits)
  qed
qed

lemma call_view_unmatched:
  assumes ok: "templates_ok d" and t: "t \<in> set (templates d)" "tm_deleted_at t = None"
    and bad: "\<not> lookup_value_ok TemplateViewSet (tm_name t)"
    and route: "\<forall>name. lookup_value r = Some name \<longrightarrow> lookup_value_ok v name"
    and others: "ce_others (ae_create e) d = d"
    and run: "call_view e c rq data v r (d, q) = (a, d', q')"
  shows "t \<in> set (templates d') \<and> (\<forall>st v. a = Inr (TemplateAnswer (Reply st v)) \<longrightarrow> tmv_id v \<noteq> tm_id t)"
proof (cases "v = TemplateViewSet")
  case True
  with run consider "d' = d" "\<forall>x. a \<noteq> Inr (TemplateAnswer x)" | "template_actions e c rq data r d = (a, d')"
    by (auto simp: call_view_def split: if_splits prod.splits)
  then show ?thesis
    by cases (use t(1) unmatched_name_stays [OF ok t bad] route True in \<open>auto simp del: split_paired_All\<close>)
next
  case False
  have "templates d' = templates d"
    using call_view_data [OF run others] False
    by (cases "(d', q') = (d, q)") (auto simp: same_templates_def split: viewset.splits)
  moreover have "\<forall>x. a \<noteq> Inr (TemplateAnswer x)"
    using run False
    by (auto simp: call_view_def message_actions_def key_actions_def no_action_def
        split: viewset.splits route.splits if_splits option.splits sum.splits prod.splits)
  ultimately show ?thesis using t(1) by simp
qed

section \<open>Properties\<close>

text \<open>
  C10: nothing changes without authority. If a request to the whole site, through all its
  middlewares, changes the database or the task queue, then it is neither a probe nor refused
  by the limiter, and either it is a POST to the messages that carries an active key and its
  secret, and all it did is to add one queued message of that key with an acceptable
  recipient and at most one task; or it is a POST or DELETE to the templates, or a POST to
  the keys, by a member of staff who sent no key, and it left the messages and the other
  tables alone. (The request is passed on with its id and its key noted, otherwise as sent.)
\<close>

theorem changes_need_authority:
  assumes "rq_resolved rq = None" and "ce_others (ae_create ae) (fst (ss_data s)) = fst (ss_data s)"
    and "site (api_site e ae show_answer data) rq s = (out, s')" and "ss_data s' \<noteq> ss_data s"
  shows "\<not> probed rq \<and> \<not> refused (api_site e ae show_answer data) rq s \<and>
     (\<exists>rq'. rq_path rq' = rq_path rq \<and> rq_method rq' = rq_method rq \<and> rq_meta rq' = rq_meta rq \<and>
        rightful ae rq' (ss_data s) (ss_data s'))"
proof -
  let ?e = "api_site e ae show_answer data" and ?d = "fst (ss_data s)"
  have e: "se_pepper ?e = ae_pepper ae" "se_rest ?e = api_rest ae data show_answer" by (simp_all add: api_site_def)
  have live: "\<not> probed rq" "\<not> refused ?e rq s"
    using site_outcome [OF assms(3)] assms(4) by (auto split: if_splits)
  obtain rid rq' where pass: "passes_as (ae_pepper ae) ?d (rq\<lparr>rq_request_id := Some rid\<rparr>) rq'"
    and data: "ss_data s' = snd (api_rest ae data show_answer (Some rid) rq' (ss_data s))"
    using site_outcome [OF assms(3)] live assms(4) e by (auto split: if_splits)
  have "memo_ok (ae_pepper ae) ?d (rq\<lparr>rq_request_id := Some rid\<rparr>)" using assms(1) by (simp add: memo_ok_unset)
  with pass have "memo_ok (ae_pepper ae) ?d rq'" by (simp add: passes_as_def)
  from api_rest_data [OF this assms(2)] data assms(4) have "rightful ae rq' (ss_data s) (ss_data s')" by simp
  with live pass show ?thesis by (auto simp: passes_as_def)
qed


lemma site_run_reachable:
  assumes "reachable s" and "creates_now (ae_create ae) s" and "ss_data st = (sy_db s, sy_queue s)"
    and "site (api_site e ae show_answer data) rq st = (out, st')"
  shows "system_run s (ss_data st') \<and>
     reachable (s\<lparr>sy_db := fst (ss_data st'), sy_queue := snd (ss_data st')\<rparr>)"
proof -
  have e: "se_rest (api_site e ae show_answer data) = api_rest ae data show_answer" by (simp add: api_site_def)
  consider "ss_data st' = ss_data st"
    | rid rq' where "ss_data st' = snd (api_rest ae data show_answer (Some rid) rq' (ss_data st))"
    using site_outcome [OF assms(4)] e by (auto split: if_splits)
  then have run: "system_run s (ss_data st')"
    using assms(3) api_rest_run [OF assms(2)] by cases simp_all
  with assms(1) show ?thesis unfolding system_run_def reachable_def by (blast intro: rtranclp_trans)
qed

text \<open>
  C9: the site refines the running system. Whatever a request to the whole site does, through
  the middlewares, the router and the views, answered or ending in an exception, to the
  database and the task queue is a run of the system's steps: if it is served at the
  system's time, draws a task id not in use, and what others commit meanwhile is such a run
  too, then the state it leaves is reachable, and all that holds in reachable states holds
  for the program behind its HTTP interface.
\<close>

theorem site_refines_system:
  assumes "reachable s" and "creates_now (ae_create ae) s" and "ss_data st = (sy_db s, sy_queue s)"
    and "site (api_site e ae show_answer data) rq st = (out, st')"
  shows "system_run s (ss_data st') \<and>
     reachable (s\<lparr>sy_db := fst (ss_data st'), sy_queue := snd (ss_data st')\<rparr>)"
  by (rule site_run_reachable [OF assms])

end
