(* ===== verification/Relay_Site_Example.thy ===== *)
theory Relay_Site_Example
  imports Relay_Api Relay_Api_Example
begin

text \<open>
  The whole site on concrete requests: a router, a POST through the middlewares, and a
  template whose name no route matches.
\<close>

section \<open>A router\<close>

text \<open>The routes of one viewset as the framework documents them, with a trailing slash.\<close>

definition ex_router :: "pystr \<Rightarrow> viewset \<Rightarrow> pystr \<Rightarrow> (unit + route) option" where
  "ex_router prefix v rest =
     (if rest = [] then Some (Inl ())
      else if \<not> py_startswith rest (prefix @ ''/'') then None
      else let tail = drop (length prefix + 1) rest;
               value = takeWhile (\<lambda>c. c \<noteq> CHR 0x2F) tail;
               more = drop (length value) tail in
        if tail = [] then Some (Inr Collection)
        else if \<not> lookup_value_ok v value then None
        else if more = ''/'' then Some (Inr (Detail value))
        else if length more > 2 then Some (Inr (Extra value (butlast (drop 1 more))))
        else None)"

definition ex_framework :: framework where
  "ex_framework = \<lparr>fr_admin = (\<lambda>_. True), fr_router = ex_router\<rparr>"

lemma ex_router_matches: "router_matches_values ex_framework"
  by (auto simp: router_matches_values_def ex_framework_def ex_router_def lookup_value_def Let_def split: if_splits)

lemma ex_routes:
  "resolve_path ex_framework ''/api/v1/auth/token/'' = Some TokenObtain"
  "resolve_path ex_framework ''/api/v1/messages/'' = Some (Resource MessageViewSet Collection)"
  "resolve_path ex_framework ''/api/v1/templates/'' = Some (Resource TemplateViewSet Collection)"
  "resolve_path ex_framework ''/api/v1/templates/a b/'' = None"
  "resolve_path ex_framework ''/api/v1/templates/ab/'' = Some (Resource TemplateViewSet (Detail ''ab''))"
  by code_simp+

theorem limiter_covers_api_witness:
  "derive ex_limits ''p'' empty_db (ex_get\<lparr>rq_path := ''/api/v1/auth/token/''\<rparr>) =
     Inr (Some (''auth-ip:'' @ client_ip 0 (ex_get\<lparr>rq_path := ''/api/v1/auth/token/''\<rparr>), 10, 10),
       ex_get\<lparr>rq_path := ''/api/v1/auth/token/''\<rparr>)"
  using limiter_covers_api [of ex_framework "ex_get\<lparr>rq_path := ''/api/v1/auth/token/''\<rparr>" TokenObtain ex_limits "''p''" empty_db]
    ex_routes(1)
  by (simp add: ex_limits_def)

section \<open>A POST through the whole site\<close>

definition ex_staff :: user where
  "ex_staff = \<lparr>us_id = 1, us_is_staff = True\<rparr>"

definition ex_api :: api_env where
  "ex_api = \<lparr>ae_framework = ex_framework, ae_pepper = ''pepper'', ae_other = (\<lambda>_. Some ex_staff),
     ae_drf = Relay_Api_Example.ex_drf, ae_web = ex_web, ae_create = ex_env, ae_collate = map code_point,
     ae_draw = ex_draw, ae_now = 100\<rparr>"

definition ex_api_site :: "api_crash site_env" where
  "ex_api_site =
     \<lparr>se_limits = ex_limits\<lparr>lm_enabled := False\<rparr>, se_pepper = ''pepper'', se_limiter = se_limiter ex_site,
      se_probe = se_probe ex_site, se_ulid = ''01ULID'', se_answer = (\<lambda>_. json_response 500 JNull),
      se_rest = (\<lambda>_ rq w. (Inr (json_response 404 JNull), w))\<rparr>"

definition ex_show :: "api_answer \<Rightarrow> response" where
  "ex_show a = json_response (case a of MessageAnswer (st, _) \<Rightarrow> st | _ \<Rightarrow> 404) JNull"

definition ex_before :: site_state where
  "ex_before = \<lparr>ss_data = (ex_db, []), ss_limiter = (None, \<lparr>rd_hashes = (\<lambda>_. None), rd_script = False\<rparr>),
     ss_clients = [], ss_log = [], ss_bound = None\<rparr>"

lemma ex_tagged_caller:
  "caller_of ''pepper'' ex_db other (ex_signed_post\<lparr>rq_request_id := x\<rparr>) =
     Inr (ByKey ex_key, ex_limited_post\<lparr>rq_request_id := x\<rparr>)"
  by (simp add: caller_of_def authenticate_def ex_header resolve_tagged ex_resolve_key)

lemma ex_tagged_create:
  "messages_create Relay_Api_Example.ex_drf ex_web ex_env (ByKey ex_key) (ex_limited_post\<lparr>rq_request_id := x\<rparr>) ex_body (ex_db, []) =
     (Inr (202, MessageData (MessageReadSerializer (ex_db\<lparr>messages := [ex_message]\<rparr>) ex_message)),
      ex_db\<lparr>messages := [ex_message]\<rparr>, [ex_task])"
  using ex_create_valid [of "[]"]
  by (simp add: messages_create_def ex_limited_idem ex_serializer IDEMPOTENCY_KEY_MAX_LENGTH_def ex_key_def
      flip: ex_valid_def)

lemma ex_served:
  "snd (api_rest ex_api ex_body ex_show bound (ex_signed_post\<lparr>rq_request_id := x\<rparr>) (ex_db, [])) =
     (ex_db\<lparr>messages := [ex_message]\<rparr>, [ex_task])"
proof -
  have "rq_path ex_signed_post = ''/api/v1/messages/''" "rq_method ex_limited_post = POST"
    by (simp_all add: ex_limited_post_def ex_signed_post_def ex_post_def)
  then show ?thesis
    by (simp add: api_rest_def serve_api_def ex_api_def ex_routes ex_tagged_caller call_view_def permitted_def
        message_actions_def ex_tagged_create)
qed

lemma ex_post_changes:
  assumes "site (api_site ex_api_site ex_api ex_show ex_body) ex_signed_post ex_before = (out, s')"
  shows "ss_data s' = (ex_db\<lparr>messages := [ex_message]\<rparr>, [ex_task])"
proof -
  have off: "\<not> lm_enabled (se_limits (api_site ex_api_site ex_api ex_show ex_body))"
    "se_rest (api_site ex_api_site ex_api ex_show ex_body) = api_rest ex_api ex_body ex_show"
    by (simp_all add: api_site_def ex_api_site_def)
  have "\<not> probed ex_signed_post" by (simp add: probed_def ex_signed_post_def ex_post_def)
  with assms have "tagged_rest (api_site ex_api_site ex_api ex_show ex_body) ex_signed_post ex_before = (out, s')"
    by (simp add: site_not_probed)
  then show ?thesis
  proof (cases rule: tagged_rest_cases)
    case (1 rid r lr' data')
    have "data' = snd (api_rest ex_api ex_body ex_show (Some rid) (ex_signed_post\<lparr>rq_request_id := Some rid\<rparr>) (ss_data ex_before))"
    proof -
      have "run_handler (answered_rest (api_site ex_api_site ex_api ex_show ex_body) (Some rid)) (ex_signed_post\<lparr>rq_request_id := Some rid\<rparr>)
          (ss_data ex_before) = (r, data')"
        using 1(2) off by (simp add: rate_limit_middleware_def)
      then show ?thesis using off(2) by (metis answered_rest_state run_handler_state snd_conv)
    qed
    then show ?thesis using 1(4) ex_served by (simp add: ex_before_def)
  qed
qed

theorem changes_need_authority_witness:
  "\<exists>out s' rq'. site (api_site ex_api_site ex_api ex_show ex_body) ex_signed_post ex_before = (out, s') \<and>
     ss_data s' \<noteq> ss_data ex_before \<and> rightful ex_api rq' (ss_data ex_before) (ss_data s')"
proof -
  obtain out s' where run: "site (api_site ex_api_site ex_api ex_show ex_body) ex_signed_post ex_before = (out, s')"
    by (metis prod.exhaust)
  have "ss_data s' \<noteq> ss_data ex_before" using ex_post_changes [OF run] by (simp add: ex_before_def)
  moreover have "ce_others (ae_create ex_api) (fst (ss_data ex_before)) = fst (ss_data ex_before)"
    by (simp add: ex_api_def ex_env_def)
  ultimately show ?thesis using changes_need_authority [OF ex_header(2) _ run] run by blast
qed

lemma ex_creates_now: "creates_now (ae_create ex_api) ex_installed"
proof -
  have "sy_db ex_installed = ex_db" "sy_queue ex_installed = []"
    by (simp_all add: ex_installed_def ex_start_def)
  then show ?thesis
    using system_run_refl [of ex_installed]
    by (simp add: creates_now_def ex_api_def ex_env_def live_ids_def live_tasks_def)
      (simp add: ex_installed_def ex_start_def)
qed

theorem site_refines_system_witness:
  "\<exists>out st'. site (api_site ex_api_site ex_api ex_show ex_body) ex_signed_post ex_before = (out, st') \<and>
     ss_data st' = (ex_db\<lparr>messages := [ex_message]\<rparr>, [ex_task]) \<and>
     reachable (ex_installed\<lparr>sy_db := fst (ss_data st'), sy_queue := snd (ss_data st')\<rparr>)"
proof -
  obtain out st' where run: "site (api_site ex_api_site ex_api ex_show ex_body) ex_signed_post ex_before = (out, st')"
    by (metis prod.exhaust)
  have data: "sy_db ex_installed = ex_db" "sy_queue ex_installed = []"
    by (simp_all add: ex_installed_def ex_start_def)
  note ex_creates_now
  moreover have "ss_data ex_before = (sy_db ex_installed, sy_queue ex_installed)" using data by (simp add: ex_before_def)
  ultimately show ?thesis
    using site_refines_system [OF ex_reachable_installed _ _ run] ex_post_changes [OF run] run by blast
qed

section \<open>A template out of reach\<close>

definition ex_template_post :: request where
  "ex_template_post = \<lparr>rq_method = POST, rq_path = ''/api/v1/templates/'', rq_meta = (\<lambda>_. None), rq_resolved = None,
     rq_request_id = None\<rparr>"

definition ex_template_delete :: request where
  "ex_template_delete = ex_template_post\<lparr>rq_method := DELETE, rq_path := ''/api/v1/templates/a b/''\<rparr>"

definition ex_template_body :: json where
  "ex_template_body = JObj [(''name'', JStr ''a b''), (''channel'', JStr ''email''), (''body_template'', JStr ''Hello'')]"

definition ex_spaced :: template where
  "ex_spaced = \<lparr>tm_id = 2, tm_name = ''a b'', tm_channel = EMAIL, tm_is_active = True, tm_created_at = 100, tm_deleted_at = None\<rparr>"

definition ex_spaced_version :: template_version where
  "ex_spaced_version = \<lparr>tv_id = 2, tv_template = 2, tv_version = 1, tv_subject_template = [],
     tv_body_template = ''Hello'', tv_created_at = 100, tv_created_by = Some 1\<rparr>"

definition ex_spaced_db :: db where
  "ex_spaced_db = ex_db\<lparr>templates := [ex_template, ex_spaced], template_versions := [ex_version, ex_spaced_version],
     seq_template := 3, seq_template_version := 3\<rparr>"

lemma ex_staff_caller:
  "caller_of ''pepper'' d (\<lambda>_. Some ex_staff) ex_template_post = Inr (ByUser ex_staff, ex_template_post)"
  "caller_of ''pepper'' d (\<lambda>_. Some ex_staff) ex_template_delete = Inr (ByUser ex_staff, ex_template_delete)"
  by (simp_all add: caller_of_def authenticate_def META_get_def ex_template_delete_def ex_template_post_def)

lemma ex_upsert: "TemplateUpsertSerializer Relay_Api_Example.ex_drf
     [(''name'', JStr ''a b''), (''channel'', JStr ''email''), (''body_template'', JStr ''Hello'')] =
   Some \<lparr>tu_name = ''a b'', tu_channel = EMAIL, tu_subject_template = [], tu_body_template = ''Hello''\<rparr>"
  by (simp add: TemplateUpsertSerializer_def char_field_def channel_choice_def choice_field_def enum_channel_def
      Relay_Api_Example.ex_drf_def)

lemma ex_spaced_made:
  "\<exists>tv vv. templates_create Relay_Api_Example.ex_drf 100 (ByUser ex_staff)
     [(''name'', JStr ''a b''), (''channel'', JStr ''email''), (''body_template'', JStr ''Hello'')] ex_db =
   Inr (Reply 201 (tv, vv), ex_spaced_db)"
proof -
  have none: "alive_named ''a b'' ex_db = None" by (simp add: alive_named_def alive_def ex_rows)
  have ins: "insert_template ''a b'' EMAIL 100 ex_db =
      Inr (ex_spaced, ex_db\<lparr>templates := [ex_template, ex_spaced], seq_template := 3\<rparr>)"
    by (simp add: insert_template_def none) (simp add: ex_db_def empty_db_def ex_spaced_def Let_def)
  have "insert_template_version ex_spaced 1 [] ''Hello'' (Some 1)
      100 (ex_db\<lparr>templates := [ex_template, ex_spaced], seq_template := 3\<rparr>) = Inr (ex_spaced_version, ex_spaced_db)"
    by (simp add: insert_template_version_def Let_def version_numbered_def versions_of_def ex_db_def empty_db_def ex_spaced_def
        ex_version_def ex_spaced_version_def ex_spaced_db_def)
  with none ins ex_upsert show ?thesis
    by (simp add: templates_create_def is_staff_def ex_staff_def templates_create_body_def upsert_template_def caller_id_def)
qed


end
