(* ===== verification/Relay_Logging.thy ===== *)
theory Relay_Logging
  imports Relay_Profiles
begin

text \<open>
  The \<open>LOGGING\<close> dictionary of \<open>settings/base.py\<close> and \<open>apps/core/logging.py\<close>. The loggers of
  Python's \<open>logging\<close> are a map from dotted names, split at their dots, with the root logger
  at \<open>[]\<close>; \<open>dict_config\<close> is \<open>logging.config.dictConfig\<close> for a dictionary that is not
  incremental. What a structlog processor does to an event is an argument.
\<close>

section \<open>Formatters\<close>

datatype processor =
    merge_contextvars
  | add_log_level
  | TimeStamper
  | format_exc_info
  | StackInfoRenderer
  | wrap_for_formatter
  | JSONRenderer
  | ConsoleRenderer

definition PRE_CHAIN :: "processor list" where
  "PRE_CHAIN = [merge_contextvars, add_log_level, TimeStamper, format_exc_info]"

definition configure_structlog :: "processor list" where
  "configure_structlog = [merge_contextvars, add_log_level, TimeStamper, StackInfoRenderer, format_exc_info, wrap_for_formatter]"

record formatter_kwargs =
  kw_processor :: "processor option"
  kw_foreign_pre_chain :: "processor list option"

definition setdefault :: "'a \<Rightarrow> 'a option \<Rightarrow> 'a option" where
  "setdefault v current = (case current of None \<Rightarrow> Some v | Some x \<Rightarrow> Some x)"

definition JsonFormatter :: "formatter_kwargs \<Rightarrow> formatter_kwargs" where
  "JsonFormatter kw =
     \<lparr>kw_processor = setdefault JSONRenderer (kw_processor kw),
      kw_foreign_pre_chain = setdefault PRE_CHAIN (kw_foreign_pre_chain kw)\<rparr>"

definition PlainFormatter :: "formatter_kwargs \<Rightarrow> formatter_kwargs" where
  "PlainFormatter kw =
     \<lparr>kw_processor = setdefault ConsoleRenderer (kw_processor kw),
      kw_foreign_pre_chain = setdefault PRE_CHAIN (kw_foreign_pre_chain kw)\<rparr>"

text \<open>The dictionary calls the class without arguments.\<close>

definition no_kwargs :: formatter_kwargs where
  "no_kwargs = \<lparr>kw_processor = None, kw_foreign_pre_chain = None\<rparr>"

section \<open>Loggers\<close>

type_synonym logger_name = "pystr list"

text \<open>A handler: the stream with a formatter that the dictionary makes, or one of another configuration.\<close>

datatype log_handler = StreamHandler formatter_kwargs | LastResort | Foreign pystr

record logger =
  lg_level :: nat
  lg_handlers :: "log_handler list"
  lg_propagate :: bool
  lg_disabled :: bool

text \<open>A placeholder stands for a name of which only descendants have been asked for.\<close>

datatype logger_entry = PlaceHolder | Logger logger

type_synonym loggers = "logger_name \<Rightarrow> logger_entry option"

definition new_logger :: logger where
  "new_logger = \<lparr>lg_level = 0, lg_handlers = [], lg_propagate = True, lg_disabled = False\<rparr>"

definition getLogger :: "loggers \<Rightarrow> logger_name \<Rightarrow> logger" where
  "getLogger ls n = (case ls n of Some (Logger l) \<Rightarrow> l | _ \<Rightarrow> new_logger)"

text \<open>
  A logger that does not exist hands everything to its parent, as a new one would. The walk
  to the parents is over the shorter and shorter name.
\<close>

function call_handlers :: "loggers \<Rightarrow> logger_name \<Rightarrow> log_handler list" where
  "call_handlers ls n =
     lg_handlers (getLogger ls n) @
     (if n = [] \<or> \<not> lg_propagate (getLogger ls n) then [] else call_handlers ls (butlast n))"
  by pat_completeness auto
termination by (relation "measure (\<lambda>(ls, n). length n)") auto

function getEffectiveLevel :: "loggers \<Rightarrow> logger_name \<Rightarrow> nat" where
  "getEffectiveLevel ls n =
     (if lg_level (getLogger ls n) \<noteq> 0 then lg_level (getLogger ls n)
      else if n = [] then 0 else getEffectiveLevel ls (butlast n))"
  by pat_completeness auto
termination by (relation "measure (\<lambda>(ls, n). length n)") auto

declare call_handlers.simps [simp del] getEffectiveLevel.simps [simp del]

text \<open>The handlers a record of a level reaches; without any, the handler of last resort takes warnings.\<close>

definition handled_by :: "loggers \<Rightarrow> logger_name \<Rightarrow> nat \<Rightarrow> log_handler list" where
  "handled_by ls n level =
     (if lg_disabled (getLogger ls n) \<or> level = 0 \<or> level < getEffectiveLevel ls n then []
      else if call_handlers ls n = [] then (if 30 \<le> level then [LastResort] else [])
      else call_handlers ls n)"

section \<open>\<open>dictConfig\<close>\<close>

record logger_config =
  gc_handlers :: "pystr list"
  gc_level :: pystr
  gc_propagate :: "bool option"

record logging_config =
  lc_disable_existing :: bool
  lc_formatters :: "(pystr \<times> formatter_kwargs) list"
  lc_handlers :: "(pystr \<times> pystr) list"
  lc_loggers :: "(logger_name \<times> logger_config) list"
  lc_root :: logger_config

datatype config_failure = UnableToConfigureHandler pystr | UnableToConfigureLogger logger_name

definition checkLevel :: "pystr \<Rightarrow> nat option" where
  "checkLevel level = map_of
     [(''CRITICAL'', 50), (''FATAL'', 50), (''ERROR'', 40), (''WARN'', 30), (''WARNING'', 30),
      (''INFO'', 20), (''DEBUG'', 10), (''NOTSET'', 0)] level"

fun all_found :: "('a \<Rightarrow> 'b option) \<Rightarrow> 'a list \<Rightarrow> 'b list option" where
  "all_found f [] = Some []"
| "all_found f (x # xs) =
     (case f x of None \<Rightarrow> None | Some y \<Rightarrow> (case all_found f xs of None \<Rightarrow> None | Some ys \<Rightarrow> Some (y # ys)))"

text \<open>The handlers by name; one whose formatter is unknown cannot be made.\<close>

fun make_handlers :: "(pystr \<times> formatter_kwargs) list \<Rightarrow> (pystr \<times> pystr) list \<Rightarrow> config_failure + (pystr \<times> log_handler) list" where
  "make_handlers fs [] = Inr []"
| "make_handlers fs ((name, f) # hs) =
     (case map_of fs f of
        None \<Rightarrow> Inl (UnableToConfigureHandler name)
      | Some kw \<Rightarrow> (case make_handlers fs hs of Inl e \<Rightarrow> Inl e | Inr rest \<Rightarrow> Inr ((name, StreamHandler kw) # rest)))"

definition configure_logger ::
    "(pystr \<times> log_handler) list \<Rightarrow> logger_name \<Rightarrow> logger_config \<Rightarrow> loggers \<Rightarrow> config_failure + loggers" where
  "configure_logger hs n c ls =
     (case checkLevel (gc_level c) of
        None \<Rightarrow> Inl (UnableToConfigureLogger n)
      | Some level \<Rightarrow>
          (case all_found (map_of hs) (gc_handlers c) of
             None \<Rightarrow> Inl (UnableToConfigureLogger n)
           | Some found \<Rightarrow>
               Inr (ls(n \<mapsto> Logger ((getLogger ls n)\<lparr>lg_level := level, lg_handlers := found,
                 lg_disabled := (if n = [] then lg_disabled (getLogger ls n) else False),
                 lg_propagate := (case gc_propagate c of None \<Rightarrow> lg_propagate (getLogger ls n) | Some b \<Rightarrow> b)\<rparr>)))))"

fun configure_loggers ::
    "(pystr \<times> log_handler) list \<Rightarrow> (logger_name \<times> logger_config) list \<Rightarrow> loggers \<Rightarrow> config_failure + loggers" where
  "configure_loggers hs [] ls = Inr ls"
| "configure_loggers hs ((n, c) # cs) ls =
     (case configure_logger hs n c ls of Inl e \<Rightarrow> Inl e | Inr ls' \<Rightarrow> configure_loggers hs cs ls')"

text \<open>
  Loggers of before that are not configured now: descendants of a configured name that
  existed are reset, the others are disabled or enabled.
\<close>

definition below :: "logger_name \<Rightarrow> logger_name \<Rightarrow> bool" where
  "below n m \<longleftrightarrow> length n > length m \<and> take (length m) n = m"

definition handle_existing :: "bool \<Rightarrow> logger_name list \<Rightarrow> loggers \<Rightarrow> loggers \<Rightarrow> loggers" where
  "handle_existing disable configured before ls n =
     (case ls n of
        Some (Logger l) \<Rightarrow>
          if n = [] \<or> n \<in> set configured then Some (Logger l)
          else if list_ex (\<lambda>m. before m \<noteq> None \<and> below n m) configured
          then Some (Logger (l\<lparr>lg_level := 0, lg_handlers := [], lg_propagate := True\<rparr>))
          else Some (Logger (l\<lparr>lg_disabled := disable\<rparr>))
      | e \<Rightarrow> e)"

definition dict_config :: "logging_config \<Rightarrow> loggers \<Rightarrow> config_failure + loggers" where
  "dict_config cfg ls =
     (case make_handlers (lc_formatters cfg) (lc_handlers cfg) of
        Inl e \<Rightarrow> Inl e
      | Inr hs \<Rightarrow>
          (case configure_loggers hs (lc_loggers cfg) ls of
             Inl e \<Rightarrow> Inl e
           | Inr ls' \<Rightarrow>
               configure_logger hs [] (lc_root cfg)
                 (handle_existing (lc_disable_existing cfg) (map fst (lc_loggers cfg)) ls ls')))"

definition LOGGING :: "pystr \<Rightarrow> pystr \<Rightarrow> logging_config" where
  "LOGGING log_level formatter =
     \<lparr>lc_disable_existing = False,
      lc_formatters = [(''plain'', PlainFormatter no_kwargs), (''json'', JsonFormatter no_kwargs)],
      lc_handlers = [(''console'', formatter)],
      lc_loggers =
        [([''django''], \<lparr>gc_handlers = [''console''], gc_level = log_level, gc_propagate = Some False\<rparr>),
         ([''celery''], \<lparr>gc_handlers = [''console''], gc_level = log_level, gc_propagate = Some False\<rparr>)],
      lc_root = \<lparr>gc_handlers = [''console''], gc_level = log_level, gc_propagate = None\<rparr>\<rparr>"

section \<open>Facts\<close>

text \<open>
  What the configuration can meet: the root logger as a process starts with it or later, loggers below
  \<open>django\<close> of an earlier configuration, and others that nobody has configured.
\<close>

definition unconfigured :: "logger \<Rightarrow> bool" where
  "unconfigured l \<longleftrightarrow> lg_level l = 0 \<and> lg_handlers l = [] \<and> lg_propagate l"

definition startable :: "loggers \<Rightarrow> bool" where
  "startable ls \<longleftrightarrow> \<not> lg_disabled (getLogger ls []) \<and>
     (\<forall>n l. ls n = Some (Logger l) \<longrightarrow> n \<noteq> [] \<longrightarrow> n \<noteq> [''django''] \<longrightarrow> n \<noteq> [''celery''] \<longrightarrow>
        unconfigured l \<and> \<not> lg_disabled l \<or> below n [''django''] \<and> ls [''django''] \<noteq> None \<and> \<not> lg_disabled l)"

text \<open>Configured: the root and the two named loggers have the handler and the level, the others nothing.\<close>

definition configured_with :: "log_handler \<Rightarrow> nat \<Rightarrow> loggers \<Rightarrow> bool" where
  "configured_with h level ls \<longleftrightarrow>
     (\<forall>n. \<not> lg_disabled (getLogger ls n) \<and>
        (if n = [] \<or> n = [''django''] \<or> n = [''celery'']
         then lg_level (getLogger ls n) = level \<and> lg_handlers (getLogger ls n) = [h] \<and>
           (n \<noteq> [] \<longrightarrow> \<not> lg_propagate (getLogger ls n))
         else unconfigured (getLogger ls n)))"

lemma configured_withD:
  assumes "configured_with h level ls"
  shows "\<not> lg_disabled (getLogger ls n)"
    and "n = [] \<or> n = [''django''] \<or> n = [''celery''] \<Longrightarrow> lg_level (getLogger ls n) = level \<and> lg_handlers (getLogger ls n) = [h]"
    and "n = [''django''] \<or> n = [''celery''] \<Longrightarrow> \<not> lg_propagate (getLogger ls n)"
    and "\<not> (n = [] \<or> n = [''django''] \<or> n = [''celery'']) \<Longrightarrow> unconfigured (getLogger ls n)"
  using assms unfolding configured_with_def by (metis list.distinct(1))+

lemma call_handlers_configured:
  "configured_with h level ls \<Longrightarrow> call_handlers ls n = [h]"
proof (induction ls n rule: call_handlers.induct)
  case (1 ls n)
  note D = configured_withD [OF 1(2)]
  show ?case
  proof (cases "n = [] \<or> n = [''django''] \<or> n = [''celery'']")
    case True
    with D(2,3) [of n] show ?thesis by (subst call_handlers.simps) auto
  next
    case False
    with D(4) [of n] 1 show ?thesis by (subst call_handlers.simps) (simp add: unconfigured_def)
  qed
qed

lemma effective_level_configured:
  "configured_with h level ls \<Longrightarrow> getEffectiveLevel ls n = level"
proof (induction ls n rule: getEffectiveLevel.induct)
  case (1 ls n)
  note D = configured_withD [OF 1(2)]
  show ?case
  proof (cases "n = [] \<or> n = [''django''] \<or> n = [''celery'']")
    case True
    with D(2) [of n] 1 show ?thesis by (subst getEffectiveLevel.simps) auto
  next
    case False
    with D(4) [of n] 1 show ?thesis by (subst getEffectiveLevel.simps) (simp add: unconfigured_def)
  qed
qed

lemma getLogger_update [simp]: "getLogger (ls(m \<mapsto> Logger l)) n = (if n = m then l else getLogger ls n)"
  by (simp add: getLogger_def)

lemma getLogger_handle_existing:
  "getLogger (handle_existing disable configured before ls) n =
     (case ls n of
        Some (Logger l) \<Rightarrow>
          if n = [] \<or> n \<in> set configured then l
          else if list_ex (\<lambda>m. before m \<noteq> None \<and> below n m) configured
          then l\<lparr>lg_level := 0, lg_handlers := [], lg_propagate := True\<rparr>
          else l\<lparr>lg_disabled := disable\<rparr>
      | _ \<Rightarrow> new_logger)"
  by (simp add: getLogger_def handle_existing_def split: option.split logger_entry.split)

lemma LOGGING_configures:
  assumes "startable ls" and "checkLevel log_level = Some level" and "map_of (lc_formatters (LOGGING log_level f)) f = Some kw"
  shows "\<exists>ls'. dict_config (LOGGING log_level f) ls = Inr ls' \<and> configured_with (StreamHandler kw) level ls'"
proof -
  let ?h = "StreamHandler kw"
  let ?on = "\<lambda>n l. l\<lparr>lg_level := level, lg_handlers := [?h], lg_disabled := False, lg_propagate := False\<rparr>"
  let ?ls1 = "ls([''django''] \<mapsto> Logger (?on [''django''] (getLogger ls [''django''])),
      [''celery''] \<mapsto> Logger (?on [''celery''] (getLogger ls [''celery''])))"
  let ?ls2 = "handle_existing False [[''django''], [''celery'']] ls ?ls1"
  let ?ls3 = "?ls2([] \<mapsto> Logger ((getLogger ?ls2 [])\<lparr>lg_level := level, lg_handlers := [?h]\<rparr>))"
  have h: "make_handlers (lc_formatters (LOGGING log_level f)) (lc_handlers (LOGGING log_level f)) = Inr [(''console'', ?h)]"
    using assms(3) by (simp add: LOGGING_def)
  have run: "dict_config (LOGGING log_level f) ls = Inr ?ls3"
    unfolding dict_config_def h by (simp add: LOGGING_def configure_logger_def assms(2))
  have "configured_with ?h level ?ls3"
    unfolding configured_with_def
  proof
    fix n
    have root: "getLogger ?ls2 [] = getLogger ls []"
      by (simp add: getLogger_handle_existing) (simp add: getLogger_def split: option.split logger_entry.split)
    consider "n = []" | "n = [''django''] \<or> n = [''celery'']"
      | "n \<noteq> [] \<and> n \<noteq> [''django''] \<and> n \<noteq> [''celery'']" by blast
    then show "\<not> lg_disabled (getLogger ?ls3 n) \<and>
        (if n = [] \<or> n = [''django''] \<or> n = [''celery'']
         then lg_level (getLogger ?ls3 n) = level \<and> lg_handlers (getLogger ?ls3 n) = [?h] \<and>
           (n \<noteq> [] \<longrightarrow> \<not> lg_propagate (getLogger ?ls3 n))
         else unconfigured (getLogger ?ls3 n))"
    proof cases
      case 1
      with assms(1) root show ?thesis by (simp add: startable_def)
    next
      case 2
      then show ?thesis by (auto simp: getLogger_handle_existing)
    next
      case 3
      with assms(1) show ?thesis
        by (auto simp: getLogger_handle_existing startable_def unconfigured_def new_logger_def
            split: option.split logger_entry.split)
    qed
  qed
  with run show ?thesis by blast
qed

section \<open>What is written\<close>

text \<open>
  An event on its way to the console's renderer: one logged through structlog passes the
  processors structlog is configured with, one logged through \<open>logging\<close> those of the
  formatter's own chain. Then the formatter's last processor writes it.
\<close>

type_synonym event = "pystr \<Rightarrow> json option"

definition prepared_event :: "(processor \<Rightarrow> event \<Rightarrow> event) \<Rightarrow> formatter_kwargs \<Rightarrow> bool \<Rightarrow> event \<Rightarrow> event" where
  "prepared_event process kw from_structlog ev =
     fold process
       (if from_structlog then configure_structlog
        else (case kw_foreign_pre_chain kw of None \<Rightarrow> [] | Some ps \<Rightarrow> ps)) ev"

text \<open>What structlog documents: the context is merged under the event's own keys, and the
  other processors here do not touch the request id.\<close>

definition merges_context :: "event \<Rightarrow> (processor \<Rightarrow> event \<Rightarrow> event) \<Rightarrow> bool" where
  "merges_context ctx process \<longleftrightarrow> process merge_contextvars = (\<lambda>ev. ctx ++ ev) \<and>
     (\<forall>p ev. p \<noteq> merge_contextvars \<longrightarrow> process p ev ''request_id'' = ev ''request_id'')"

lemma line_has_request_id:
  assumes "merges_context ctx process" and "ctx ''request_id'' = Some rid" and "ev ''request_id'' = None"
    and "kw \<in> {JsonFormatter no_kwargs, PlainFormatter no_kwargs}"
  shows "prepared_event process kw from_structlog ev ''request_id'' = Some rid"
proof -
  have keep: "process p e ''request_id'' = e ''request_id''" if "p \<noteq> merge_contextvars" for p e
    using assms(1) that by (simp add: merges_context_def)
  have "process merge_contextvars ev ''request_id'' = Some rid"
    using assms(1-3) by (simp add: merges_context_def map_add_def)
  then show ?thesis
    using assms(4)
    by (auto simp: prepared_event_def configure_structlog_def JsonFormatter_def PlainFormatter_def no_kwargs_def
        setdefault_def PRE_CHAIN_def keep)
qed

section \<open>Properties\<close>


text \<open>Logging as the framework leaves it, and the development server's own logger.\<close>

definition ex_loggers :: loggers where
  "ex_loggers =
     [[] \<mapsto> Logger (new_logger\<lparr>lg_level := 30\<rparr>),
      [''django''] \<mapsto> Logger (new_logger\<lparr>lg_level := 20, lg_handlers := [Foreign ''console'', Foreign ''mail_admins'']\<rparr>),
      [''django'', ''server''] \<mapsto> Logger (new_logger\<lparr>lg_level := 20, lg_handlers := [Foreign ''django.server''], lg_propagate := False\<rparr>),
      [''apps''] \<mapsto> PlaceHolder,
      [''apps'', ''core''] \<mapsto> Logger new_logger]"


end
