(* ===== verification/Relay_Entry.thy ===== *)
theory Relay_Entry
  imports Relay_Profiles
begin

text \<open>
  How a process starts: \<open>manage.py\<close>, \<open>notify_relay/wsgi.py\<close>, \<open>asgi.py\<close>, \<open>celery.py\<close> and the
  package's \<open>__init__.py\<close>, with the settings each of them ends up with, and what the Celery
  application is made of.
\<close>

section \<open>Choosing the settings\<close>

type_synonym process_env = "pystr \<Rightarrow> pystr option"

text \<open>\<open>os.environ.setdefault\<close>.\<close>

definition environ_setdefault :: "pystr \<Rightarrow> pystr \<Rightarrow> process_env \<Rightarrow> process_env" where
  "environ_setdefault name v env = (case env name of None \<Rightarrow> env(name \<mapsto> v) | Some _ \<Rightarrow> env)"

definition celery_module :: "process_env \<Rightarrow> process_env" where
  "celery_module = environ_setdefault ''DJANGO_SETTINGS_MODULE'' ''notify_relay.settings.dev''"

text \<open>The package imports the Celery application, so importing any module of it runs \<open>celery.py\<close> first.\<close>

definition notify_relay_package :: "process_env \<Rightarrow> process_env" where
  "notify_relay_package = celery_module"

definition wsgi_module :: "process_env \<Rightarrow> process_env" where
  "wsgi_module env = environ_setdefault ''DJANGO_SETTINGS_MODULE'' ''notify_relay.settings.prod'' (notify_relay_package env)"

definition asgi_module :: "process_env \<Rightarrow> process_env" where
  "asgi_module env = environ_setdefault ''DJANGO_SETTINGS_MODULE'' ''notify_relay.settings.prod'' (notify_relay_package env)"

definition manage_main :: "process_env \<Rightarrow> process_env" where
  "manage_main = environ_setdefault ''DJANGO_SETTINGS_MODULE'' ''notify_relay.settings.dev''"

text \<open>\<open>manage.py\<close> puts the source directory first on the import path unless it is on it.\<close>

definition manage_sys_path :: "pystr \<Rightarrow> pystr list \<Rightarrow> pystr list" where
  "manage_sys_path src path = (if src \<notin> set path then src # path else path)"

datatype loaded_settings = PlainSettings settings | HardenedSettings prod_settings

datatype load_error = NoSettingsModule | Improper config_error

definition load_settings :: "process_env \<Rightarrow> environ \<Rightarrow> pystr \<Rightarrow> load_error + loaded_settings" where
  "load_settings env ev base_dir =
     (case env ''DJANGO_SETTINGS_MODULE'' of
        None \<Rightarrow> Inl NoSettingsModule
      | Some m \<Rightarrow>
          if m = ''notify_relay.settings.prod'' then
            (case load_prod ev base_dir of Inl e \<Rightarrow> Inl (Improper e) | Inr st \<Rightarrow> Inr (HardenedSettings st))
          else if m = ''notify_relay.settings.dev'' then Inr (PlainSettings (dev_settings ev base_dir))
          else if m = ''notify_relay.settings.test'' then Inr (PlainSettings (test_settings ev base_dir))
          else if m = ''notify_relay.settings.base'' then Inr (PlainSettings (base_settings ev base_dir))
          else Inl NoSettingsModule)"

text \<open>
  \<open>base.py\<close> reads a \<open>.env\<close> file at the top of the repository, four directories above itself.
  \<open>read_env\<close> sets what the environment does not have; its parser is the library's, so a file
  is the list of its entries here, \<open>None\<close> if there is none. The profile has been chosen by
  then: the module that reads the file is the profile's.
\<close>

definition BASE_DIR :: "pystr list \<Rightarrow> pystr list" where
  "BASE_DIR file = take (length file - 4) file"

definition env_file :: "pystr list \<Rightarrow> pystr list" where
  "env_file file = BASE_DIR file @ [''.env'']"

definition read_env_file :: "(pystr \<times> pystr) list option \<Rightarrow> process_env \<Rightarrow> process_env" where
  "read_env_file content env =
     (case content of None \<Rightarrow> env | Some kvs \<Rightarrow> fold (\<lambda>(k, v). environ_setdefault k v) kvs env)"

text \<open>A process from its entry point to its settings; \<open>cast\<close> is how \<open>django-environ\<close> reads the variables.\<close>

definition start_process ::
    "(process_env \<Rightarrow> environ) \<Rightarrow> (pystr \<times> pystr) list option \<Rightarrow> pystr \<Rightarrow> (process_env \<Rightarrow> process_env) \<Rightarrow> process_env
       \<Rightarrow> load_error + loaded_settings" where
  "start_process cast content base_dir entry env =
     load_settings (entry env) (cast (read_env_file content (entry env))) base_dir"

section \<open>The Celery application\<close>

definition celery_include :: "pystr list" where
  "celery_include = [''tasks.delivery'', ''tasks.scheduler'']"

text \<open>The names the included modules register.\<close>

definition delivery_task_name :: "task_name \<Rightarrow> pystr" where
  "delivery_task_name n = (case n of Send_email \<Rightarrow> ''tasks.delivery.send_email'' | Send_webhook \<Rightarrow> ''tasks.delivery.send_webhook'')"

definition scheduler_task_names :: "pystr list" where
  "scheduler_task_names = [''tasks.scheduler.dispatch_scheduled'', ''tasks.scheduler.cleanup_old_messages'']"

definition registered_tasks :: "pystr list" where
  "registered_tasks = concat (map (\<lambda>m.
     if m = ''tasks.delivery'' then map delivery_task_name [Send_email, Send_webhook]
     else if m = ''tasks.scheduler'' then scheduler_task_names else []) celery_include)"

datatype beat_schedule = Every int | Crontab nat nat

definition CELERY_BEAT_SCHEDULE :: "(pystr \<times> pystr \<times> beat_schedule) list" where
  "CELERY_BEAT_SCHEDULE =
     [(''dispatch-scheduled'', ''tasks.scheduler.dispatch_scheduled'', Every dispatch_interval),
      (''cleanup-old-messages'', ''tasks.scheduler.cleanup_old_messages'', Crontab 3 0)]"

definition CELERY_TASK_DEFAULT_QUEUE :: pystr where "CELERY_TASK_DEFAULT_QUEUE = ''default''"

text \<open>A task published without a queue goes where its route says.\<close>

definition routed_queue :: "pystr \<Rightarrow> pystr" where
  "routed_queue name = (case CELERY_TASK_ROUTES name of Some q \<Rightarrow> q | None \<Rightarrow> CELERY_TASK_DEFAULT_QUEUE)"

text \<open>Everything that is published, by Beat or for a message, is a registered task on a declared queue.\<close>

lemma tasks_are_consumed:
  "list_all (\<lambda>(_, name, _). name \<in> set registered_tasks \<and> routed_queue name \<in> set CELERY_TASK_QUEUES) CELERY_BEAT_SCHEDULE"
  "enqueue_for up tid m q = Inr q' \<Longrightarrow>
     \<exists>t. q' = q @ [t] \<and> delivery_task_name (tk_name t) \<in> set registered_tasks \<and>
       priority_value (tk_queue t) \<in> set CELERY_TASK_QUEUES"
proof -
  show "list_all (\<lambda>(_, name, _). name \<in> set registered_tasks \<and> routed_queue name \<in> set CELERY_TASK_QUEUES) CELERY_BEAT_SCHEDULE"
    by (simp add: CELERY_BEAT_SCHEDULE_def registered_tasks_def celery_include_def scheduler_task_names_def
        routed_queue_def CELERY_TASK_ROUTES_def CELERY_TASK_QUEUES_def)
  have "delivery_task_name n \<in> set registered_tasks" for n
    by (cases n) (simp_all add: registered_tasks_def celery_include_def delivery_task_name_def)
  moreover have "priority_value p \<in> set CELERY_TASK_QUEUES" for p
    by (cases p) (simp_all add: CELERY_TASK_QUEUES_def)
  ultimately show "enqueue_for up tid m q = Inr q' \<Longrightarrow>
     \<exists>t. q' = q @ [t] \<and> delivery_task_name (tk_name t) \<in> set registered_tasks \<and>
       priority_value (tk_queue t) \<in> set CELERY_TASK_QUEUES"
    by (auto simp: enqueue_for_def Let_def split: if_splits)
qed

section \<open>The workers' metrics\<close>

text \<open>Python's \<open>int\<close> of a string: blanks around, a sign, digits with single underscores between them.\<close>

fun int_digits :: "nat \<Rightarrow> pystr \<Rightarrow> nat option" where
  "int_digits acc [] = Some acc"
| "int_digits acc [c] = (if ascii_digit c then Some (10 * acc + digit_value c) else None)"
| "int_digits acc (c # d # cs) =
     (if ascii_digit c then int_digits (10 * acc + digit_value c) (d # cs)
      else if c = CHR ''_'' \<and> ascii_digit d then int_digits (10 * acc + digit_value d) cs
      else None)"

definition unsigned_int :: "pystr \<Rightarrow> nat option" where
  "unsigned_int s = (if s \<noteq> [] \<and> ascii_digit (hd s) then int_digits 0 s else None)"

definition py_int :: "pystr \<Rightarrow> int option" where
  "py_int s =
     (let t = py_strip s in
      if py_startswith t ''-'' then map_option (\<lambda>n. - int n) (unsigned_int (drop 1 t))
      else if py_startswith t ''+'' then map_option int (unsigned_int (drop 1 t))
      else map_option int (unsigned_int t))"

text \<open>The port to serve on, none if the variable is unset, empty or zero; \<open>Inl\<close> is a \<open>ValueError\<close>.\<close>

definition start_metrics_server :: "process_env \<Rightarrow> unit + int option" where
  "start_metrics_server env =
     (case env ''CELERY_METRICS_PORT'' of
        None \<Rightarrow> Inr None
      | Some s \<Rightarrow> if s = [] then Inr None
          else (case py_int s of None \<Rightarrow> Inl () | Some port \<Rightarrow> Inr (if port = 0 then None else Some port)))"

text \<open>The process whose counters are to be dropped when a worker process ends.\<close>

definition mark_process_dead :: "process_env \<Rightarrow> int option \<Rightarrow> int option" where
  "mark_process_dead env pid =
     (case env ''PROMETHEUS_MULTIPROC_DIR'' of None \<Rightarrow> None | Some dir \<Rightarrow> if dir = [] then None else pid)"

section \<open>Facts\<close>

lemma environ_setdefault_again [simp]: "environ_setdefault name w (environ_setdefault name v env) = environ_setdefault name v env"
  by (simp add: environ_setdefault_def split: option.split)

lemma entry_points_agree:
  "wsgi_module = celery_module" "asgi_module = celery_module" "manage_main = celery_module"
  by (simp_all add: fun_eq_iff wsgi_module_def asgi_module_def manage_main_def notify_relay_package_def celery_module_def)

lemma load_celery_module:
  "load_settings (celery_module env) ev base_dir =
     (case env ''DJANGO_SETTINGS_MODULE'' of
        None \<Rightarrow> Inr (PlainSettings (dev_settings ev base_dir)) | Some _ \<Rightarrow> load_settings env ev base_dir)"
  by (cases "env ''DJANGO_SETTINGS_MODULE''") (simp_all add: load_settings_def celery_module_def environ_setdefault_def)

lemma load_prod_weak:
  "weak_secret (ev_str ev ''SECRET_KEY'' []) \<Longrightarrow> load_prod ev base_dir = Inl (WeakSecret ''SECRET_KEY'')"
  by (simp add: load_prod_def Let_def prod_startup_def named_secrets_def)
     (simp add: base_settings_def base_secrets_def Let_def)

lemma read_env_file_keeps:
  "env k = Some v \<Longrightarrow> read_env_file content env k = Some v"
proof -
  have keep: "environ_setdefault a b env k = Some v" if "env k = Some v" for a b and env :: process_env
    using that by (auto simp: environ_setdefault_def split: option.split)
  have "fold (\<lambda>(k, v). environ_setdefault k v) kvs env k = Some v" if "env k = Some v" for kvs and env :: process_env
    using that by (induction kvs arbitrary: env) (auto simp: keep)
  then show "env k = Some v \<Longrightarrow> ?thesis" by (simp add: read_env_file_def split: option.split)
qed

lemma env_file_at_top: "env_file (repo @ [''src'', ''notify_relay'', ''settings'', ''base.py'']) = repo @ [''.env'']"
  by (simp add: env_file_def BASE_DIR_def)

section \<open>Properties\<close>

text \<open>
  C40: the web servers fall back to the development profile. Where \<open>DJANGO_SETTINGS_MODULE\<close> is
  set, every entry point loads that profile. Where it is not, every entry point, also
  \<open>wsgi.py\<close> and \<open>asgi.py\<close>, which name the production profile, loads the development one: the
  package they are in has already chosen it. A \<open>.env\<close> file does not change that, whatever it
  says of \<open>DJANGO_SETTINGS_MODULE\<close>: it only supplies values to the profile chosen. So a web
  server without the variable and with a weak key starts, in the development profile, where
  production would refuse the key.
\<close>

theorem web_falls_back_to_dev:
  assumes "entry \<in> {wsgi_module, asgi_module, celery_module, manage_main}"
    and "ev = cast (read_env_file content (entry env))"
  shows "start_process cast content base_dir entry env =
     (case env ''DJANGO_SETTINGS_MODULE'' of
        None \<Rightarrow> Inr (PlainSettings (dev_settings ev base_dir)) | Some _ \<Rightarrow> load_settings env ev base_dir) \<and>
   (weak_secret (ev_str ev ''SECRET_KEY'' []) \<longrightarrow> load_prod ev base_dir = Inl (WeakSecret ''SECRET_KEY''))"
  using assms load_celery_module load_prod_weak by (auto simp: entry_points_agree start_process_def)

text \<open>An environment in which nothing is set.\<close>

definition ex_nothing_set :: environ where
  "ex_nothing_set = \<lparr>ev_str = (\<lambda>_ d. d), ev_bool = (\<lambda>_ d. d), ev_int = (\<lambda>_ d. d), ev_list = (\<lambda>_ d. d)\<rparr>"

theorem web_falls_back_to_dev_witness:
  "\<exists>st. start_process (\<lambda>_. ex_nothing_set) (Some [(''DJANGO_SETTINGS_MODULE'', ''notify_relay.settings.prod'')]) ''/app''
        wsgi_module (\<lambda>_. None) = Inr (PlainSettings st) \<and> st_debug st \<and>
     load_prod ex_nothing_set ''/app'' = Inl (WeakSecret ''SECRET_KEY'')"
proof -
  have "weak_secret (ev_str ex_nothing_set ''SECRET_KEY'' [])"
    by (simp add: ex_nothing_set_def weak_secret_def MIN_SECRET_LENGTH_def)
  moreover have "st_debug (dev_settings ex_nothing_set ''/app'')" by (simp add: dev_settings_def Let_def ex_nothing_set_def)
  ultimately show ?thesis
    using web_falls_back_to_dev [of wsgi_module ex_nothing_set "\<lambda>_. ex_nothing_set"
        "Some [(''DJANGO_SETTINGS_MODULE'', ''notify_relay.settings.prod'')]" "\<lambda>_. None" "''/app''"] by simp
qed

end
