(* ===== verification/Relay_Chain.thy ===== *)
theory Relay_Chain
  imports Relay_Stack
begin

text \<open>
  \<open>MIDDLEWARE\<close> of \<open>settings/base.py\<close> as the framework reads it: the list is walked from its
  end, every entry wraps the handler made so far, and an exception that leaves an entry is made
  a response before the entry around it sees it. With the framework's own entries passing
  requests and responses on, the chain is the stack of \<open>Relay_Stack\<close>.
\<close>

datatype middleware_entry =
    HealthProbeMiddleware
  | RequestIDMiddleware
  | RateLimitMiddleware
  | FrameworkMiddleware pystr

definition MIDDLEWARE :: "middleware_entry list" where
  "MIDDLEWARE =
     [HealthProbeMiddleware,
      RequestIDMiddleware,
      RateLimitMiddleware,
      FrameworkMiddleware ''django.middleware.security.SecurityMiddleware'',
      FrameworkMiddleware ''django.contrib.sessions.middleware.SessionMiddleware'',
      FrameworkMiddleware ''django.middleware.common.CommonMiddleware'',
      FrameworkMiddleware ''django.middleware.csrf.CsrfViewMiddleware'',
      FrameworkMiddleware ''django.contrib.auth.middleware.AuthenticationMiddleware'',
      FrameworkMiddleware ''django.contrib.messages.middleware.MessageMiddleware'',
      FrameworkMiddleware ''django.middleware.clickjacking.XFrameOptionsMiddleware'']"

text \<open>The program's entries on the state of the site; the request id is bound in that state.\<close>

definition probe_entry :: "'e site_env \<Rightarrow> ('x, site_state) handler \<Rightarrow> ('x, site_state) handler" where
  "probe_entry e get_response rq s =
     (case health_probe_middleware (se_probe e) get_response rq s (ss_clients s) of
        ((out, s'), clients') \<Rightarrow> (out, s'\<lparr>ss_clients := clients'\<rparr>))"

definition request_id_entry :: "'e site_env \<Rightarrow> ('x, site_state) handler \<Rightarrow> ('x, site_state) handler" where
  "request_id_entry e get_response rq s =
     (case request_id_middleware (se_ulid e) (\<lambda>bound rq' w. get_response rq' (w\<lparr>ss_bound := bound\<rparr>)) rq s (ss_bound s) of
        (out, s', logged, bound') \<Rightarrow> (out, s'\<lparr>ss_log := ss_log s' @ logged, ss_bound := bound'\<rparr>))"

definition rate_limit_entry :: "'e site_env \<Rightarrow> ('x, site_state) handler \<Rightarrow> ('x limit_error, site_state) handler" where
  "rate_limit_entry e get_response rq s =
     (case rate_limit_middleware (se_limits e) (se_limiter e) (se_pepper e) (fst (ss_data s)) get_response rq (ss_limiter s) s of
        ((out, s'), lr') \<Rightarrow> (out, s'\<lparr>ss_limiter := lr'\<rparr>))"

text \<open>One entry around a handler, \<open>framework\<close> for the others.\<close>

definition entry_handler ::
    "'e site_env \<Rightarrow> (pystr \<Rightarrow> ('e, site_state) handler \<Rightarrow> ('e, site_state) handler)
       \<Rightarrow> middleware_entry \<Rightarrow> ('e, site_state) handler \<Rightarrow> ('e limit_error, site_state) handler" where
  "entry_handler e framework m h =
     (case m of
        HealthProbeMiddleware \<Rightarrow> run_handler (probe_entry e h)
      | RequestIDMiddleware \<Rightarrow> run_handler (request_id_entry e h)
      | RateLimitMiddleware \<Rightarrow> rate_limit_entry e h
      | FrameworkMiddleware name \<Rightarrow> run_handler (framework name h))"

text \<open>\<open>BaseHandler.load_middleware\<close>; the innermost handler resolves the path and runs the view.\<close>

definition inner_handler :: "'e site_env \<Rightarrow> ('e limit_error, site_state) handler" where
  "inner_handler e rq s =
     (case run_handler (se_rest e (ss_bound s)) rq (ss_data s) of (out, data') \<Rightarrow> (out, s\<lparr>ss_data := data'\<rparr>))"

definition load_middleware ::
    "'e site_env \<Rightarrow> (pystr \<Rightarrow> ('e, site_state) handler \<Rightarrow> ('e, site_state) handler)
       \<Rightarrow> middleware_entry list \<Rightarrow> ('e, site_state) handler" where
  "load_middleware e framework ms =
     foldr (\<lambda>m h. convert_exceptions (se_answer e) (entry_handler e framework m h)) ms
       (convert_exceptions (se_answer e) (inner_handler e))"

section \<open>The chain is the stack\<close>

text \<open>A handler that never raises and does to the whole state what another does to a part of it.\<close>

lemma convert_run_handler:
  assumes "\<And>rq s. \<exists>rs s'. h rq s = (Inr rs, s')"
  shows "convert_exceptions answer (run_handler h) = h"
proof (intro ext)
  fix rq s
  obtain rs s' where "h rq s = (Inr rs, s')" using assms by blast
  then show "convert_exceptions answer (run_handler h) rq s = h rq s"
    by (simp add: convert_exceptions_def run_handler_def)
qed

lemma convert_never_raises: "\<exists>rs s'. convert_exceptions answer h rq s = (Inr rs, s')"
  by (cases "h rq s"; cases "fst (h rq s)") (auto simp: convert_exceptions_def)

lemma framework_passes:
  assumes "\<And>rq s. \<exists>rs s'. h rq s = (Inr rs, s')"
  shows "foldr (\<lambda>m h. convert_exceptions (se_answer e) (entry_handler e (\<lambda>_ h. h) m h)) (map FrameworkMiddleware names) h = h"
  by (induction names) (simp_all add: entry_handler_def convert_run_handler [OF assms])

lemma inner_answered:
  "convert_exceptions (se_answer e) (inner_handler e) rq s =
     (case answered_rest e (ss_bound s) rq (ss_data s) of (out, data') \<Rightarrow> (out, s\<lparr>ss_data := data'\<rparr>))"
  by (simp add: convert_exceptions_def inner_handler_def run_handler_def answered_rest_def split: prod.split sum.split)

text \<open>The limiter around a handler that only changes the data.\<close>

lemma rate_limit_on_data:
  assumes "\<And>rq. H rq s = (case h rq (ss_data s) of (out, data') \<Rightarrow> (out, s\<lparr>ss_data := data'\<rparr>))"
  shows "rate_limit_middleware lm le pepper d H rq lr s =
     (case rate_limit_middleware lm le pepper d h rq lr (ss_data s) of
        ((out, data'), lr') \<Rightarrow> ((out, s\<lparr>ss_data := data'\<rparr>), lr'))"
  by (simp add: rate_limit_middleware_def run_handler_def assms
      split: prod.split sum.split option.split bucket_error.split)

lemma rate_limit_layer:
  assumes "limited_rest e (ss_bound s) rq (ss_data s, ss_limiter s) = (Inr rs, data', lr')"
  shows "convert_exceptions (se_answer e) (rate_limit_entry e (convert_exceptions (se_answer e) (inner_handler e))) rq s =
     (Inr rs, s\<lparr>ss_data := data', ss_limiter := lr'\<rparr>)"
proof -
  note on_data = rate_limit_on_data [where H = "convert_exceptions (se_answer e) (inner_handler e)" and h = "answered_rest e (ss_bound s)",
      OF inner_answered]
  show ?thesis
    using assms
    by (auto simp: convert_exceptions_def [of "se_answer e" "rate_limit_entry _ _"] rate_limit_entry_def on_data limited_rest_def
        split: prod.splits sum.splits)
qed

lemma request_id_layer:
  assumes "tagged_rest e rq s = (Inr rs, s')"
    and h: "\<And>rq w rs data' lr'. limited_rest e (ss_bound w) rq (ss_data w, ss_limiter w) = (Inr rs, data', lr') \<Longrightarrow>
      h rq w = (Inr rs, w\<lparr>ss_data := data', ss_limiter := lr'\<rparr>)"
  shows "convert_exceptions answer (run_handler (request_id_entry e h)) rq s = (Inr rs, s')"
proof -
  define rid where "rid = (case coerce_incoming (META_get ''HTTP_X_REQUEST_ID'' rq) of None \<Rightarrow> se_ulid e | Some v \<Rightarrow> v)"
  obtain token ctx where ctx: "set_request_id rid (ss_bound s) = (token, ctx)" by fastforce
  obtain rs0 data' lr' where rest: "limited_rest e ctx (rq\<lparr>rq_request_id := Some rid\<rparr>) (ss_data s, ss_limiter s) = (Inr rs0, data', lr')"
    using limited_rest_Inr [of e ctx] by (metis prod.exhaust)
  have "h (rq\<lparr>rq_request_id := Some rid\<rparr>) (s\<lparr>ss_bound := ctx\<rparr>) =
      (Inr rs0, s\<lparr>ss_bound := ctx, ss_data := data', ss_limiter := lr'\<rparr>)"
    using h [of "s\<lparr>ss_bound := ctx\<rparr>"] rest by simp
  with assms(1) ctx rest show ?thesis
    by (auto simp: tagged_rest_def request_id_entry_def request_id_middleware_def Let_def rid_def [symmetric]
        run_handler_def convert_exceptions_def)
qed

lemma tagged_rest_Inr: "\<exists>rs s'. tagged_rest e rq s = (Inr rs, s')"
proof -
  obtain out s' where run: "tagged_rest e rq s = (out, s')" by (metis prod.exhaust)
  then have "\<exists>rs. out = Inr rs" by (cases rule: tagged_rest_cases) blast
  with run show ?thesis by blast
qed

lemma probe_layer:
  assumes "site e rq s = (Inr rs, s')"
    and "\<And>rq s rs s'. tagged_rest e rq s = (Inr rs, s') \<Longrightarrow> h rq s = (Inr rs, s')"
  shows "convert_exceptions answer (run_handler (probe_entry e h)) rq s = (Inr rs, s')"
proof -
  obtain rs0 s0 where "tagged_rest e rq s = (Inr rs0, s0)" using tagged_rest_Inr by blast
  with assms(1) assms(2) [OF this] show ?thesis
    by (auto simp: site_def probe_entry_def health_probe_middleware_def run_handler_def convert_exceptions_def
        split: option.splits if_splits prod.splits)
qed

lemma site_Inr: "\<exists>rs s'. site e rq s = (Inr rs, s')"
proof (cases "probed rq")
  case True
  then show ?thesis using site_probed [OF True, of e s] by blast
next
  case False
  then show ?thesis using tagged_rest_Inr by (simp add: site_not_probed)
qed

section \<open>Properties\<close>


end
