(* ===== verification/Relay_Columns.thy ===== *)
theory Relay_Columns
  imports Relay_Schema Relay_Api
begin

text \<open>
  The rows the program writes, against the columns the models declare: lengths and choices
  of character columns, the range of integer columns, the columns that may be null, and the
  text and JSON the database can store. The inserts of the model check only what the
  program leaves to the database; this theory shows that the rest holds by itself.
\<close>

section \<open>Values in columns\<close>

datatype cell = Null | Text pystr | Number nat | Code int | Flag bool | Instant timestamp | Document json | Key nat

fun holds :: "column_type \<Rightarrow> cell \<Rightarrow> bool" where
  "holds BigAutoField (Key _) = True"
| "holds (CharField n choices) (Text s) = (length s \<le> n \<and> storable_text s \<and> (choices = [] \<or> s \<in> set choices))"
| "holds TextField (Text s) = storable_text s"
| "holds PositiveIntegerField (Number n) = (n \<le> MAX_INTEGER)"
| "holds PositiveIntegerField (Code i) = (0 \<le> i \<and> i \<le> int MAX_INTEGER)"
| "holds BooleanField (Flag _) = True"
| "holds DateTimeField (Instant _) = True"
| "holds AutoNowAdd (Instant _) = True"
| "holds AutoNow (Instant _) = True"
| "holds JSONField (Document j) = storable_json j"
| "holds (ForeignKey _ _) (Key _) = True"
| "holds (ForeignKey _ _) (Text s) = storable_text s"
| "holds (OneToOneField _ _) (Text s) = storable_text s"
| "holds _ _ = False"

definition fits :: "column \<Rightarrow> cell \<Rightarrow> bool" where
  "fits c v = (if v = Null then co_null c else holds (co_type c) v)"

definition row_fits :: "table \<Rightarrow> (pystr \<times> cell) list \<Rightarrow> bool" where
  "row_fits t row \<longleftrightarrow> map fst row = map co_name (tb_columns t) \<and> list_all2 fits (tb_columns t) (map snd row)"

definition optional :: "('a \<Rightarrow> cell) \<Rightarrow> 'a option \<Rightarrow> cell" where
  "optional f v = (case v of None \<Rightarrow> Null | Some x \<Rightarrow> f x)"

section \<open>Rows as the tables have them\<close>

definition api_key_row :: "api_key \<Rightarrow> (pystr \<times> cell) list" where
  "api_key_row k =
     [(''id'', Key (ak_id k)), (''name'', Text (ak_name k)), (''key_id'', Text (ak_key_id k)),
      (''hashed_secret'', Text (ak_hashed_secret k)), (''webhook_secret'', Text (ak_webhook_secret k)),
      (''rate_limit_per_min'', Number (ak_rate_limit_per_min k)), (''burst'', Number (ak_burst k)),
      (''is_active'', Flag (ak_is_active k)), (''created_at'', Instant (ak_created_at k)),
      (''revoked_at'', optional Instant (ak_revoked_at k))]"

definition template_row :: "template \<Rightarrow> (pystr \<times> cell) list" where
  "template_row t =
     [(''id'', Key (tm_id t)), (''name'', Text (tm_name t)), (''channel'', Text (channel_value (tm_channel t))),
      (''is_active'', Flag (tm_is_active t)), (''created_at'', Instant (tm_created_at t)),
      (''deleted_at'', optional Instant (tm_deleted_at t))]"

definition template_version_row :: "template_version \<Rightarrow> (pystr \<times> cell) list" where
  "template_version_row v =
     [(''id'', Key (tv_id v)), (''template'', Key (tv_template v)), (''version'', Number (tv_version v)),
      (''subject_template'', Text (tv_subject_template v)), (''body_template'', Text (tv_body_template v)),
      (''created_at'', Instant (tv_created_at v)), (''created_by'', optional Key (tv_created_by v))]"

definition message_row :: "message \<Rightarrow> (pystr \<times> cell) list" where
  "message_row m =
     [(''id'', Text (msg_id m)), (''idempotency_key'', Text (msg_idempotency_key m)),
      (''api_key'', optional Key (msg_api_key m)), (''channel'', Text (channel_value (msg_channel m))),
      (''recipient'', Text (msg_recipient m)), (''template_version'', optional Key (msg_template_version m)),
      (''rendered_subject'', Text (msg_rendered_subject m)), (''rendered_body'', Text (msg_rendered_body m)),
      (''context'', Document (msg_context m)), (''priority'', Text (priority_value (msg_priority m))),
      (''status'', Text (status_value (msg_status m))), (''scheduled_at'', optional Instant (msg_scheduled_at m)),
      (''enqueued_at'', optional Instant (msg_enqueued_at m)), (''claimed_by'', Text (msg_claimed_by m)),
      (''created_at'', Instant (msg_created_at m)), (''updated_at'', Instant (msg_updated_at m))]"

text \<open>
  The key of attempts and dead letters is the database's own, not a value of the program;
  any number stands for it.
\<close>

definition attempt_row :: "delivery_attempt \<Rightarrow> (pystr \<times> cell) list" where
  "attempt_row a =
     [(''id'', Key 0), (''message'', Text (da_message a)), (''attempt_no'', Number (da_attempt_no a)),
      (''started_at'', Instant (da_started_at a)), (''finished_at'', optional Instant (da_finished_at a)),
      (''result'', Text (result_value (da_result a))), (''http_status'', optional Code (da_http_status a)),
      (''smtp_code'', optional Code (da_smtp_code a)), (''error_message'', Text (da_error_message a))]"

definition dead_letter_row :: "dead_letter \<Rightarrow> (pystr \<times> cell) list" where
  "dead_letter_row l =
     [(''id'', Key 0), (''message'', Text (dl_message l)), (''reason'', Text (dl_reason l)),
      (''payload_snapshot'', Document (dl_payload_snapshot l)), (''created_at'', Instant (dl_created_at l))]"

definition columns_ok :: "db \<Rightarrow> bool" where
  "columns_ok d \<longleftrightarrow>
     (\<forall>k\<in>set (api_keys d). row_fits ApiKey_model (api_key_row k)) \<and>
     (\<forall>t\<in>set (templates d). row_fits Template_model (template_row t)) \<and>
     (\<forall>v\<in>set (template_versions d). row_fits TemplateVersion_model (template_version_row v)) \<and>
     (\<forall>m\<in>set (messages d). row_fits Message_model (message_row m)) \<and>
     (\<forall>a\<in>set (attempts d). row_fits DeliveryAttempt_model (attempt_row a)) \<and>
     (\<forall>l\<in>set (dead_letters d). row_fits DeadLetter_model (dead_letter_row l))"

section \<open>What a row must satisfy\<close>

lemmas column_simps = row_fits_def fits_def column_def nullable_def blank_default_def defaults_to_def
  unique_column_def primary_key_def auto_id_def DEFAULT_AUTO_FIELD_def

lemma fits_optional:
  "(\<And>x. f x \<noteq> Null) \<Longrightarrow> fits c (optional f v) \<longleftrightarrow> (case v of None \<Rightarrow> co_null c | Some x \<Rightarrow> holds (co_type c) (f x))"
  by (simp add: fits_def optional_def split: option.split)

lemma choices_listed:
  "channel_value ch \<in> set (map channel_value enum_class.enum)" "priority_value p \<in> set (map priority_value enum_class.enum)"
  "status_value s \<in> set (map status_value [QUEUED, SENDING, SENT, FAILED, DEAD])"
  "result_value r \<in> set (map result_value [SUCCESS, TRANSIENT_ERROR, PERMANENT_ERROR])"
  using enum_UNIV by (auto, cases s, simp_all, cases r, simp_all)

lemma choices_short:
  "length (channel_value ch) \<le> 16 \<and> storable_text (channel_value ch)"
  "length (priority_value p) \<le> 16 \<and> storable_text (priority_value p)"
  "length (status_value s) \<le> 16 \<and> storable_text (status_value s)"
  "length (result_value r) \<le> 24 \<and> storable_text (result_value r)"
  by (cases ch, simp_all) (cases p, simp_all, cases s, simp_all, cases r, simp_all)

lemma message_row_fits:
  "row_fits Message_model (message_row m) \<longleftrightarrow>
     length (msg_id m) \<le> 26 \<and> storable_text (msg_id m) \<and>
     length (msg_idempotency_key m) \<le> 128 \<and> storable_text (msg_idempotency_key m) \<and>
     storable_text (msg_recipient m) \<and> message_storable m \<and>
     length (msg_claimed_by m) \<le> 64 \<and> storable_text (msg_claimed_by m)"
  using choices_listed(1) [of "msg_channel m"] choices_listed(2) [of "msg_priority m"] choices_listed(3) [of "msg_status m"]
    choices_short(1) [of "msg_channel m"] choices_short(2) [of "msg_priority m"] choices_short(3) [of "msg_status m"]
  by (auto simp: column_simps Message_model_def message_row_def message_storable_def optional_def split: option.splits)

lemma api_key_row_fits:
  "row_fits ApiKey_model (api_key_row k) \<longleftrightarrow>
     length (ak_name k) \<le> 128 \<and> storable_text (ak_name k) \<and> length (ak_key_id k) \<le> 32 \<and> storable_text (ak_key_id k) \<and>
     length (ak_hashed_secret k) \<le> 255 \<and> storable_text (ak_hashed_secret k) \<and>
     length (ak_webhook_secret k) \<le> 64 \<and> storable_text (ak_webhook_secret k) \<and>
     ak_rate_limit_per_min k \<le> MAX_INTEGER \<and> ak_burst k \<le> MAX_INTEGER"
  by (auto simp: column_simps ApiKey_model_def api_key_row_def optional_def split: option.splits)

lemma template_row_fits:
  "row_fits Template_model (template_row t) \<longleftrightarrow> length (tm_name t) \<le> 128 \<and> storable_text (tm_name t)"
  using choices_listed(1) [of "tm_channel t"] choices_short(1) [of "tm_channel t"]
  by (auto simp: column_simps Template_model_def template_row_def optional_def split: option.splits)

lemma template_version_row_fits:
  "row_fits TemplateVersion_model (template_version_row v) \<longleftrightarrow>
     tv_version v \<le> MAX_INTEGER \<and> storable_text (tv_subject_template v) \<and> storable_text (tv_body_template v)"
  by (auto simp: column_simps TemplateVersion_model_def template_version_row_def optional_def split: option.splits)

definition small_code :: "int option \<Rightarrow> bool" where
  "small_code v \<longleftrightarrow> (case v of None \<Rightarrow> True | Some i \<Rightarrow> i \<le> int MAX_INTEGER)"

lemma attempt_row_fits:
  "row_fits DeliveryAttempt_model (attempt_row a) \<longleftrightarrow>
     storable_text (da_message a) \<and> da_attempt_no a \<le> MAX_INTEGER \<and> storable_text (da_error_message a) \<and>
     check_positive (da_http_status a) \<and> small_code (da_http_status a) \<and>
     check_positive (da_smtp_code a) \<and> small_code (da_smtp_code a)"
  using choices_listed(4) [of "da_result a"] choices_short(4) [of "da_result a"]
  by (auto simp: column_simps DeliveryAttempt_model_def attempt_row_def optional_def small_code_def split: option.splits)

lemma dead_letter_row_fits:
  "row_fits DeadLetter_model (dead_letter_row l) \<longleftrightarrow>
     storable_text (dl_message l) \<and> storable_text (dl_reason l) \<and> storable_json (dl_payload_snapshot l)"
  by (auto simp: column_simps DeadLetter_model_def dead_letter_row_def)

lemmas rows_fit = message_row_fits api_key_row_fits template_row_fits template_version_row_fits attempt_row_fits
  dead_letter_row_fits

section \<open>What the tasks write\<close>

lemma columns_save:
  assumes "columns_ok d"
    and "\<And>m. m \<in> set (messages d) \<Longrightarrow> row_fits Message_model (message_row m) \<Longrightarrow> row_fits Message_model (message_row (f m))"
  shows "columns_ok (save_message k f d)"
  using assms by (auto simp: columns_ok_def save_message_def row_simps)

lemma columns_messageD:
  "columns_ok d \<Longrightarrow> get_message k d = Some m \<Longrightarrow> row_fits Message_model (message_row m)"
  by (auto simp: columns_ok_def get_message_def dest!: get_row_SomeD)

lemma set_claim_fits:
  "length owner \<le> 64 \<Longrightarrow> storable_text owner \<Longrightarrow> row_fits Message_model (message_row m) \<Longrightarrow>
     row_fits Message_model (message_row (set_claim owner now m))"
  by (simp add: rows_fit set_claim_def message_storable_def)

lemma set_status_fits:
  "row_fits Message_model (message_row m) \<Longrightarrow> row_fits Message_model (message_row (set_status s now m))"
  by (simp add: rows_fit set_status_def message_storable_def)

lemma set_requeued_fits:
  "row_fits Message_model (message_row m) \<Longrightarrow> row_fits Message_model (message_row (set_requeued now m))"
  by (simp add: rows_fit set_requeued_def message_storable_def)

lemma snapshot_storable: "row_fits Message_model (message_row m) \<Longrightarrow> storable_json (snapshot m)"
  using choices_short(1) [of "msg_channel m"] choices_short(2) [of "msg_priority m"]
  by (simp add: rows_fit snapshot_def message_storable_def)

lemma columns_letter:
  assumes "columns_ok d" and "row_fits DeadLetter_model (dead_letter_row l)" and "get_or_create_dead_letter l d = Inr d'"
  shows "columns_ok d'"
  using get_or_create_dead_letterD [OF assms(3)] assms(1,2) by (auto simp: columns_ok_def)

lemma columns_attempt:
  assumes "columns_ok d" and "record_attempt msg r t1 t2 d = Inr d'" and "storable_text (msg_id msg)"
    and "length (attempts d) < MAX_INTEGER" and "small_code (cr_http_status r)" and "small_code (cr_smtp_code r)"
  shows "columns_ok d' \<and> storable_text (cr_error_message r)"
proof -
  have "length (message_attempts (msg_id msg) d) \<le> length (attempts d)" by (simp add: message_attempts_def)
  with assms(4) have "length (message_attempts (msg_id msg) d) + 1 \<le> MAX_INTEGER" by linarith
  moreover note insert_attemptD(1,4) [OF assms(2) [unfolded record_attempt_def]]
  ultimately show ?thesis using assms(1,3,5,6) by (simp add: columns_ok_def rows_fit)
qed

lemma columns_settle:
  assumes "columns_ok d" and "row_fits Message_model (message_row msg)" and "storable_text (cr_error_message r)"
  shows "columns_ok (fst (snd (settle msg r n now (d, mt))))"
proof -
  have saved: "columns_ok (save_message (msg_id msg) (set_status s now) d)" for s
    using assms(1) by (rule columns_save) (rule set_status_fits)
  have letter: "columns_ok d'" if "move_to_dead_letter msg s reason now d = Inr d'" "storable_text reason" for s reason d'
  proof -
    let ?l = "\<lparr>dl_message = msg_id msg, dl_reason = reason, dl_payload_snapshot = snapshot msg, dl_created_at = now\<rparr>"
    have "row_fits DeadLetter_model (dead_letter_row ?l)"
      using snapshot_storable [OF assms(2)] assms(2) that(2) by (simp add: rows_fit)
    from columns_letter [OF saved this] that(1) show ?thesis
      by (auto simp: move_to_dead_letter_def save_fields_def split: sum.splits if_splits)
  qed
  show ?thesis
    using assms saved [of SENT] letter
    by (auto simp: settle_def save_fields_def split: sum.splits)
qed

lemma columns_dispatch:
  assumes ok: "columns_ok d" and owner: "length owner \<le> 64" "storable_text owner"
    and few: "length (attempts d) < MAX_INTEGER"
    and codes: "\<And>m. small_code (cr_http_status (channel_outcome (send m))) \<and> small_code (cr_smtp_code (channel_outcome (send m)))"
  shows "columns_ok (fst (snd (dispatch send owner n t k (d, mt))))"
proof (cases "claim_message owner k (at_claim t) d")
  case (Pair c d1)
  note db = claim_message_db [OF Pair]
  show ?thesis
  proof (cases c)
    case (Claimed msg)
    let ?r = "channel_outcome (send msg)"
    from db Claimed obtain m where d1: "d1 = save_message k (set_claim owner (at_claim t)) d"
      and m: "get_message k d = Some m" "msg = set_claim owner (at_claim t) m" by auto
    have ok1: "columns_ok d1" unfolding d1 by (rule columns_save [OF ok]) (rule set_claim_fits [OF owner])
    have fits: "row_fits Message_model (message_row msg)"
      unfolding m(2) by (rule set_claim_fits [OF owner columns_messageD [OF ok m(1)]])
    show ?thesis
    proof (cases "record_attempt msg ?r (at_started t) (at_finished t) d1")
      case (Inl e)
      with Pair Claimed ok1 show ?thesis by (simp add: dispatch_def Let_def)
    next
      case (Inr d2)
      have "storable_text (msg_id msg)" using fits by (simp add: rows_fit)
      with columns_attempt [OF ok1 Inr] few codes have "columns_ok d2" "storable_text (cr_error_message ?r)"
        by (auto simp: d1)
      with columns_settle [OF _ fits] Pair Claimed Inr show ?thesis by (simp add: dispatch_def Let_def)
    qed
  qed (use Pair db ok in \<open>simp_all add: dispatch_def\<close>)
qed

lemma columns_beat: "columns_ok d \<Longrightarrow> columns_ok (fst (snd (dispatch_scheduled be up ids now (d, q))))"
proof -
  assume "columns_ok d"
  then have "columns_ok (stamp_batch now batch d)" for batch
    using set_requeued_fits by (auto simp: columns_ok_def stamp_batch_def row_simps)
  then show ?thesis by (simp add: dispatch_scheduled_def Let_def split: prod.split option.split)
qed

lemma columns_cleanup: "columns_ok d \<Longrightarrow> columns_ok (snd (cleanup_old_messages now d))"
  using cleanup_loop_result [of "now - days CLEANUP_AGE_DAYS" 0 d]
  by (auto simp: cleanup_old_messages_def columns_ok_def without_def)

section \<open>What a request writes\<close>

text \<open>
  What the parts outside the repository promise: the REST framework's character fields refuse
  \<open>U+0000\<close>, the HTTP server refuses it in a header, a ULID has at most 26 characters, and
  \<open>secrets\<close> draws the number of bytes it is asked for.
\<close>

definition clean_fields :: "drf_fields \<Rightarrow> bool" where
  "clean_fields drf \<longleftrightarrow> (\<forall>j s. drf_char drf j = Some s \<or> drf_char_blank drf j = Some s \<longrightarrow> storable_text s)"

definition clean_request :: "api_env \<Rightarrow> request \<Rightarrow> bool" where
  "clean_request e rq \<longleftrightarrow> clean_fields (ae_drf e) \<and>
     length (ce_new_ulid (ae_create e)) \<le> 26 \<and> storable_text (ce_new_ulid (ae_create e)) \<and>
     storable_text (META_get IDEMPOTENCY_HEADER_META rq) \<and>
     length (kd_id (ae_draw e)) = 6 \<and> length (kd_webhook (ae_draw e)) = 32"

lemma char_field_clean:
  "char_field (drf_char drf) n v = Some s \<Longrightarrow> clean_fields drf \<Longrightarrow> length s \<le> n \<and> storable_text s"
  "char_field (drf_char_blank drf) n v = Some s \<Longrightarrow> clean_fields drf \<Longrightarrow> length s \<le> n \<and> storable_text s"
  by (auto simp: char_field_def clean_fields_def split: option.splits if_splits)

lemma set_py_strip: "set (py_strip s) \<subseteq> set s"
proof -
  have "set (dropWhile p xs) \<subseteq> set xs" for p and xs :: pystr by (auto dest: set_dropWhileD)
  then show ?thesis by (auto simp: py_strip_def strip_by_def dest!: set_dropWhileD)
qed

lemma storable_py_strip: "storable_text s \<Longrightarrow> storable_text (py_strip s)"
  using set_py_strip [of s] by (auto simp: storable_text_def)

lemma storable_hexlify: "storable_text (hexlify bs)"
  using hexlify_digits [of "CHR 0x00" bs] by (auto simp: storable_text_def hex_digits_def)

lemma storable_url64: "storable_text [url64 b]"
proof -
  have "unat (b AND 63) < 64" using word_and_le1 [of b 63] by (simp add: word_le_nat_alt)
  moreover have "length url64_alphabet = 64" by (simp add: url64_alphabet_def)
  ultimately have "url64 b \<in> set url64_alphabet" unfolding url64_def by (intro nth_mem) simp
  then show ?thesis by (auto simp: url64_alphabet_def)
qed

lemma storable_urlsafe_b64: "storable_text (urlsafe_b64 bs)"
  by (induction bs rule: urlsafe_b64.induct) (use storable_url64 in simp_all)

lemma recipient_clean:
  assumes "MessageCreateSerializer drf w data = Inr (Some v)" and "clean_fields drf"
  shows "storable_text (vd_recipient v)"
  using assms char_field_clean(1)
  by (auto simp: MessageCreateSerializer_def message_fields_def
      split: json.splits option.splits web_error.splits)

lemma new_message_fits:
  assumes "insert_message (new_message e ak idem v tv rm) d = Inr d'" and "length (ce_new_ulid e) \<le> 26"
    and "storable_text (ce_new_ulid e)" and "length idem \<le> 128" and "storable_text idem" and "storable_text (vd_recipient v)"
  shows "row_fits Message_model (message_row (new_message e ak idem v tv rm))"
  using assms(2-6) insert_messageD(4) [OF assms(1)] by (simp add: rows_fit) (simp add: new_message_def)

lemma columns_messages_create:
  assumes "columns_ok d" and "ce_others e d = d" and "clean_fields drf"
    and "length (ce_new_ulid e) \<le> 26" and "storable_text (ce_new_ulid e)"
    and "storable_text (META_get IDEMPOTENCY_HEADER_META rq)"
    and run: "messages_create drf w e c rq data (d, q) = (a, d', q')"
  shows "columns_ok d'"
proof (cases c)
  case (ByKey k)
  let ?idem = "py_strip (META_get IDEMPOTENCY_HEADER_META rq)"
  consider "d' = d"
    | v res where "length ?idem \<le> 128" "MessageCreateSerializer drf w data = Inr (Some v)"
      "create_message e (Some (ak_id k)) ?idem v (d, q) = (res, d', q')"
    using run ByKey
    by (auto simp: messages_create_def Let_def error_answer_def IDEMPOTENCY_KEY_MAX_LENGTH_def
        split: if_splits sum.splits option.splits prod.splits)
  then show ?thesis
  proof cases
    case (2 v res)
    note rec = recipient_clean [OF 2(2) assms(3)]
    from create_message_cases [OF assms(2) 2(3)] show ?thesis
      using assms(1) new_message_fits [OF _ assms(4,5) 2(1) storable_py_strip [OF assms(6)] rec]
      by (auto simp: columns_ok_def Let_def)
  qed (use assms(1) in simp)
qed (use assms(1) run in \<open>auto simp: messages_create_def error_answer_def\<close>)

lemma hash_secret_clean: "hash_secret pepper secret = Inr h \<Longrightarrow> length h = 64 \<and> storable_text h"
  using storable_hexlify by (auto simp: hash_secret_def hmac_sha256_def Let_def split: if_splits)

lemma columns_key_create:
  assumes "columns_ok d" and "clean_fields drf" and "length (kd_id r) = 6" and "length (kd_webhook r) = 32"
    and run: "api_keys_create drf pepper r c data d = Inr (a, d')"
  shows "columns_ok d'"
proof -
  have "d' = d \<or> (\<exists>name rate burst hashed. ApiKeyCreateSerializer drf data = Some (name, rate, burst) \<and>
      hash_secret pepper (urlsafe_b64 (kd_secret r)) = Inr hashed \<and>
      insert_api_key (new_api_key r name rate burst (KEY_PREFIX @ hexlify (kd_id r)) hashed d) d = Inr d')"
    using run
    by (auto simp: api_keys_create_def guarded_def generate_api_key_def Let_def
        split: if_splits option.splits sum.splits prod.splits)
  then consider "d' = d"
    | name rate burst hashed where "ApiKeyCreateSerializer drf data = Some (name, rate, burst)" "length hashed = 64"
      "storable_text hashed" "insert_api_key (new_api_key r name rate burst (KEY_PREFIX @ hexlify (kd_id r)) hashed d) d = Inr d'"
    using hash_secret_clean by blast
  then show ?thesis
  proof cases
    case (2 name rate burst hashed)
    let ?k = "new_api_key r name rate burst (KEY_PREFIX @ hexlify (kd_id r)) hashed d"
    have "length name \<le> 128 \<and> storable_text name"
      using 2(1) char_field_clean(1) [OF _ assms(2)] by (auto simp: ApiKeyCreateSerializer_def split: option.splits)
    moreover have "length (urlsafe_b64 (kd_webhook r)) \<le> 64" using length_urlsafe_b64 [of "kd_webhook r"] assms(4) by simp
    ultimately have "row_fits ApiKey_model (api_key_row ?k)"
      using 2(2,3) insert_api_keyD(3) [OF 2(4)] assms(3)
      by (simp add: rows_fit) (simp add: new_api_key_def KEY_PREFIX_def storable_hexlify storable_urlsafe_b64)
    then show ?thesis using assms(1) insert_api_keyD(1) [OF 2(4)] by (simp add: columns_ok_def)
  qed (use assms(1) in simp)
qed

lemma columns_key_revoke:
  "columns_ok d \<Longrightarrow> api_keys_revoke c now pk d = (a, d') \<Longrightarrow> columns_ok d'"
  by (auto simp: api_keys_revoke_def guarded_def columns_ok_def row_simps rows_fit set_revoked_def
      split: option.splits if_splits)

lemma columns_template_destroy:
  "columns_ok d \<Longrightarrow> templates_destroy c now name d = (a, d') \<Longrightarrow> columns_ok d'"
  by (auto simp: templates_destroy_def guarded_def columns_ok_def row_simps rows_fit set_deleted_def
      split: option.splits if_splits)

lemma upsert_serialized:
  assumes "TemplateUpsertSerializer drf data = Some u" and "clean_fields drf"
  shows "length (tu_name u) \<le> 128 \<and> storable_text (tu_name u) \<and> storable_text (tu_subject_template u) \<and>
     storable_text (tu_body_template u)"
  using assms char_field_clean
  by (auto simp: TemplateUpsertSerializer_def split: option.splits)

lemma latest_version_mem: "latest_version t d = Some v \<Longrightarrow> v \<in> set (template_versions d)"
proof -
  assume "latest_version t d = Some v"
  then have "v \<in> set (versions_desc t d)" by (auto simp: latest_version_def split: list.splits)
  then show ?thesis by (simp add: versions_desc_def versions_of_def)
qed

lemma columns_template_create:
  assumes "columns_ok d" and "clean_fields drf" and "\<And>v. v \<in> set (template_versions d) \<Longrightarrow> tv_version v < MAX_INTEGER"
    and run: "templates_create drf now c data d = Inr (a, d')"
  shows "columns_ok d'"
proof -
  consider "d' = d" | u where "TemplateUpsertSerializer drf data = Some u" "templates_create_body now c u d = Inr (a, d')"
    using run by (auto simp: templates_create_def guarded_def split: if_splits option.splits)
  then show ?thesis
  proof cases
    case (2 u)
    note u = upsert_serialized [OF 2(1) assms(2)]
    from 2(2) consider "d' = d"
      | t n d1 v where "upsert_template u now d = Inr (Inr (t, n), d1)"
        "insert_template_version t n (tu_subject_template u) (tu_body_template u) (caller_id c) now d1 = Inr (v, d')"
      by (auto simp: templates_create_body_def upsert_template_def split: sum.splits prod.splits option.splits if_splits)
    then show ?thesis
    proof cases
      case (2 t n d1 v)
      have "n \<le> MAX_INTEGER"
        using 2(1) assms(3) latest_version_mem
        by (fastforce simp: upsert_template_def MAX_INTEGER_def split: option.splits if_splits sum.splits)
      moreover have "d1 = d \<or> insert_template (tu_name u) (tu_channel u) now d = Inr (t, d1)"
        using 2(1) by (auto simp: upsert_template_def split: option.splits if_splits sum.splits)
      then have "columns_ok d1"
      proof
        assume new: "insert_template (tu_name u) (tu_channel u) now d = Inr (t, d1)"
        have "row_fits Template_model (template_row t)" using u insert_templateD(3) [OF new] by (simp add: rows_fit)
        then show ?thesis using assms(1) insert_templateD(6) [OF new] by (simp add: columns_ok_def)
      qed (use assms(1) in simp)
      ultimately show ?thesis
        using insert_template_versionD(4-7) [OF 2(2)] u by (auto simp: columns_ok_def template_version_row_fits)
    qed (use assms(1) in simp)
  qed (use assms(1) in simp)
qed

text \<open>One request to the API, whatever view it reaches.\<close>

lemma columns_template_actions:
  assumes "columns_ok d" and "clean_fields (ae_drf e)" and "\<And>v. v \<in> set (template_versions d) \<Longrightarrow> tv_version v < MAX_INTEGER"
    and "template_actions e c rq data r d = (a, d')"
  shows "columns_ok d'"
  using assms(1,4) columns_template_create [OF assms(1-3)] columns_template_destroy [OF assms(1)]
  by (auto simp: template_actions_def dest!: views_read_onlyD split: route.splits if_splits option.splits sum.splits prod.splits)

lemma columns_key_actions:
  assumes "columns_ok d" and "clean_fields (ae_drf e)" and "length (kd_id (ae_draw e)) = 6" and "length (kd_webhook (ae_draw e)) = 32"
    and "key_actions e c rq data r d = (a, d')"
  shows "columns_ok d'"
  using assms(1,5) columns_key_create [OF assms(1-4)] columns_key_revoke [OF assms(1)]
  by (auto simp: key_actions_def dest!: views_read_onlyD split: route.splits if_splits option.splits sum.splits prod.splits)

lemma caller_of_META:
  "caller_of pepper d other rq = Inr (c, rq') \<Longrightarrow> META_get name rq' = META_get name rq"
  by (auto simp: caller_of_def authenticate_def resolve_api_key_def META_get_def
      split: sum.splits option.splits prod.splits if_splits)

section \<open>Properties\<close>

text \<open>
  C15: every row a request writes fits its table. Take a database whose rows fit the declared
  columns. Whatever request comes in, after it every row still does: each text within its
  length, each choice among the declared values, each number in the range of its column, null
  only where the column may be null, and no text or JSON the database cannot store. So the
  only column limits a request can run into are the ones the inserts refuse by themselves.
\<close>

theorem requests_fit_columns:
  assumes "columns_ok (fst s)" and "clean_request e rq" and "ce_others (ae_create e) (fst s) = fst s"
    and "\<And>v. v \<in> set (template_versions (fst s)) \<Longrightarrow> tv_version v < MAX_INTEGER"
  shows "columns_ok (fst (snd (serve_api e rq data s)))"
proof -
  obtain d q a d' q' where s: "s = (d, q)" and run: "serve_api e rq data s = (a, d', q')" by (metis prod.exhaust)
  note clean = assms(2) [unfolded clean_request_def]
  consider "d' = d" | v r c rq' where "caller_of (ae_pepper e) d (ae_other e) rq = Inr (c, rq')"
    "call_view e c rq' data v r (d, q) = (a, d', q')"
    using run s
    by (auto simp: serve_api_def split: option.splits endpoint.splits sum.splits auth_error.splits prod.splits)
  then have "columns_ok d'"
  proof cases
    case (2 v r c rq')
    have hdr: "META_get IDEMPOTENCY_HEADER_META rq' = META_get IDEMPOTENCY_HEADER_META rq" by (rule caller_of_META [OF 2(1)])
    from 2(2) consider "d' = d"
      | x where "messages_create (ae_drf e) (ae_web e) (ae_create e) c rq' data (d, q) = (x, d', q')"
      | "template_actions e c rq' data r d = (a, d')" | "key_actions e c rq' data r d = (a, d')"
      by (auto simp: call_view_def message_actions_def split: if_splits viewset.splits route.splits sum.splits prod.splits)
    then show ?thesis
      using assms(1,3,4) clean columns_messages_create [where rq = rq' and d = d and d' = d'] hdr
        columns_template_actions [where d = d and d' = d' and e = e] columns_key_actions [where d = d and d' = d' and e = e]
      by cases (auto simp: s)
  qed (use assms(1) s in simp)
  then show ?thesis by (simp add: run)
qed

text \<open>
  C16: every row a task writes fits its table. A run of a delivery task under a task id of at
  most 64 characters, the dispatcher and the clean-up keep all rows within the declared
  columns, the message's status and owner, the attempt and the dead letter with its snapshot
  included, whatever the channel answers: an answer the attempt's columns cannot hold leaves
  no row at all.
\<close>

theorem tasks_fit_columns:
  assumes "columns_ok d" and "length owner \<le> 64" and "storable_text owner" and "length (attempts d) < MAX_INTEGER"
    and "\<And>m. small_code (cr_http_status (channel_outcome (send m))) \<and> small_code (cr_smtp_code (channel_outcome (send m)))"
  shows "columns_ok (fst (snd (dispatch send owner n t k (d, mt)))) \<and>
     columns_ok (fst (snd (dispatch_scheduled be up ids now (d, q)))) \<and> columns_ok (snd (cleanup_old_messages now d))"
  using columns_dispatch [where send = send, OF assms] columns_beat [OF assms(1)] columns_cleanup [OF assms(1)] by blast

text \<open>
  A limit without an upper bound. The serializer accepts any rate or burst from one upward;
  above 2147483647 the column refuses it and the view does not catch the error: a request of
  staff that passed validation ends as a server error, and no key is created.
\<close>

theorem huge_limit_is_a_server_error:
  assumes "ApiKeyCreateSerializer drf data = Some (name, rate, burst)" and "rate > 2147483647 \<or> burst > 2147483647"
    and "is_staff c" and "pepper \<noteq> []"
  shows "api_keys_create drf pepper r c data d = Inl (KeyDbError DataError)"
  using assms
  by (auto simp: api_keys_create_def generate_api_key_def hash_secret_def Let_def insert_api_key_def new_api_key_def
      MAX_INTEGER_def)

text \<open>
  C27: a character the database cannot store. JSON can spell \<open>U+0000\<close>, and the serializer
  takes any object as context. A POST with such a context under a fresh idempotency key, for a
  template that renders, is refused by the database alone; the view catches the integrity
  error of a lost race only, so the client reads a server error, again on every retry, and
  nothing is stored or published.
\<close>

theorem nul_context_is_a_server_error:
  assumes "MessageCreateSerializer drf w data = Inr (Some v)" and "ce_others e d = d"
    and "\<not> storable_json (context_or_empty (vd_context v))"
    and "idem = py_strip (META_get IDEMPOTENCY_HEADER_META rq)" and "idem \<noteq> []" and "length idem \<le> 128"
    and "find_existing (Some (ak_id k)) idem d = None" and "resolve_template v d = Inr tv"
    and "render (ce_jinja e) (ce_recursion_limit e) tv (context_or_empty (vd_context v)) (vd_channel v) = Inr r"
  shows "messages_create drf w e (ByKey k) rq data (d, q) = (Inl (CrashDatabase DataError), d, q)"
proof -
  have "insert_message (new_message e (Some (ak_id k)) idem v tv r) d = Inl DataError"
    using assms(3) by (simp add: insert_message_def message_storable_def new_message_def)
  then have "create_message e (Some (ak_id k)) idem v (d, q) = (Inl (Unresolved DataError), d, q)"
    using assms(2,7-9) by (simp add: create_message_def insert_and_publish_def)
  then show ?thesis
    using assms(1,4-6) by (simp add: messages_create_def Let_def IDEMPOTENCY_KEY_MAX_LENGTH_def create_error_answer_def)
qed

end
