(* ===== verification/Relay_Disclosure.thy ===== *)
theory Relay_Disclosure
  imports Relay_Api
begin

text \<open>
  What the API tells, and whom: the counterpart of \<open>rightful\<close>, which says what a request
  may change.
\<close>

section \<open>What an answer tells\<close>

text \<open>The data an answer carries; refusals and the framework's answers carry none.\<close>

datatype disclosed = Nothing | OneMessage message_view | OfTemplates | OfKeys

definition carries :: "'a reply \<Rightarrow> bool" where
  "carries r = (case r of Reply _ _ \<Rightarrow> True | Refuse _ _ \<Rightarrow> False)"

definition discloses :: "api_answer \<Rightarrow> disclosed" where
  "discloses a =
     (case a of
        MessageAnswer (_, MessageData v) \<Rightarrow> OneMessage v
      | MessageAnswer _ \<Rightarrow> Nothing
      | TemplatesAnswer r \<Rightarrow> if carries r then OfTemplates else Nothing
      | TemplateAnswer r \<Rightarrow> if carries r then OfTemplates else Nothing
      | TemplateCreated r \<Rightarrow> if carries r then OfTemplates else Nothing
      | TemplateDeleted r \<Rightarrow> if carries r then OfTemplates else Nothing
      | VersionsAnswer r \<Rightarrow> if carries r then OfTemplates else Nothing
      | VersionAnswer r \<Rightarrow> if carries r then OfTemplates else Nothing
      | KeysAnswer r \<Rightarrow> if carries r then OfKeys else Nothing
      | KeyAnswer r \<Rightarrow> if carries r then OfKeys else Nothing
      | KeyCreated r \<Rightarrow> if carries r then OfKeys else Nothing
      | Framework _ \<Rightarrow> Nothing
      | Elsewhere _ \<Rightarrow> Nothing)"

text \<open>
  A message is told to the holder of the active key it was posted with, or to staff;
  templates and keys are told to staff.
\<close>

definition entitled :: "api_env \<Rightarrow> request \<Rightarrow> db \<Rightarrow> db \<Rightarrow> disclosed \<Rightarrow> bool" where
  "entitled e rq d d' x =
     (case x of
        Nothing \<Rightarrow> True
      | OneMessage v \<Rightarrow> \<exists>m\<in>set (messages d'). v = MessageReadSerializer d' m \<and>
          ((\<exists>k. holds_key (ae_pepper e) d rq k \<and> msg_api_key m = Some (ak_id k)) \<or> by_staff (ae_other e) rq)
      | _ \<Rightarrow> by_staff (ae_other e) rq)"

section \<open>View by view\<close>

lemma guarded_carries:
  assumes "guarded is_staff c run d = (a, d')" and "carries a"
  shows "is_staff c"
  using assms by (auto simp: guarded_def carries_def split: if_splits)

lemma template_views_staff:
  "templates_list col c d = (r1, d') \<Longrightarrow> carries r1 \<Longrightarrow> is_staff c"
  "templates_retrieve c name d = (r2, d') \<Longrightarrow> carries r2 \<Longrightarrow> is_staff c"
  "templates_destroy c now name d = (r3, d') \<Longrightarrow> carries r3 \<Longrightarrow> is_staff c"
  "templates_versions c name d = (r4, d') \<Longrightarrow> carries r4 \<Longrightarrow> is_staff c"
  "templates_version_detail c name n d = (r5, d') \<Longrightarrow> carries r5 \<Longrightarrow> is_staff c"
  unfolding templates_list_def templates_retrieve_def templates_destroy_def templates_versions_def templates_version_detail_def
  by (erule (1) guarded_carries)+

lemma key_views_staff:
  "api_keys_list c d = (r1, d') \<Longrightarrow> carries r1 \<Longrightarrow> is_staff c"
  "api_keys_retrieve c pk d = (r2, d') \<Longrightarrow> carries r2 \<Longrightarrow> is_staff c"
  "api_keys_revoke c now pk d = (r3, d') \<Longrightarrow> carries r3 \<Longrightarrow> is_staff c"
  unfolding api_keys_list_def api_keys_retrieve_def api_keys_revoke_def
  by (erule (1) guarded_carries)+

lemma creations_staff:
  "templates_create drf now c kvs d = Inr (r1, d') \<Longrightarrow> carries r1 \<Longrightarrow> is_staff c"
  "api_keys_create drf pepper dr c kvs d = Inr (r2, d') \<Longrightarrow> carries r2 \<Longrightarrow> is_staff c"
  by (auto simp: templates_create_def api_keys_create_def guarded_def carries_def split: if_splits)

lemma template_actions_staff:
  "template_actions e c rq data r d = (Inr a, d') \<Longrightarrow> discloses a = Nothing \<or> is_staff c \<and> discloses a = OfTemplates"
  by (auto simp: template_actions_def discloses_def no_action_def dest: template_views_staff creations_staff
      split: route.splits if_splits option.splits sum.splits prod.splits)

lemma key_actions_staff:
  "key_actions e c rq data r d = (Inr a, d') \<Longrightarrow> discloses a = Nothing \<or> is_staff c \<and> discloses a = OfKeys"
  by (auto simp: key_actions_def discloses_def no_action_def dest: key_views_staff creations_staff
      split: route.splits if_splits option.splits sum.splits prod.splits)

lemma messages_retrieve_tells:
  assumes "messages_retrieve c pk d = (st, MessageData v)"
  shows "\<exists>m\<in>set (messages d). v = MessageReadSerializer d m \<and>
     ((\<exists>k. c = ByKey k \<and> msg_api_key m = Some (ak_id k)) \<or> is_staff c)"
  using assms
  by (auto simp: messages_retrieve_def messages_queryset_def is_staff_def split: option.splits if_splits caller.splits
      dest!: get_row_SomeD)

lemma messages_create_tells:
  assumes "messages_create drf w e c rq data (d, q) = (Inr (st, MessageData v), d', q')" and "db_ok d" and "ce_others e d = d"
  shows "\<exists>m\<in>set (messages d'). v = MessageReadSerializer d' m \<and> (\<exists>k. c = ByKey k \<and> msg_api_key m = Some (ak_id k))"
proof (cases c)
  case (ByKey k)
  let ?idem = "py_strip (META_get IDEMPOTENCY_HEADER_META rq)"
  have no: "create_error_answer x err \<noteq> Inr (st, MessageData v)" for x err
    by (simp add: create_error_answer_def error_answer_def split: create_error.splits render_exn.splits)
  obtain x m b where "create_message e (Some (ak_id k)) ?idem x (d, q) = (Inr (m, b), d', q')" "v = MessageReadSerializer d' m"
    using assms(1) ByKey no
    by (auto simp: messages_create_def Let_def error_answer_def split: if_splits sum.splits option.splits prod.splits)
  with create_message_stored [OF assms(2,3)] ByKey show ?thesis by blast
qed (use assms(1) in \<open>auto simp: messages_create_def error_answer_def\<close>)

lemma message_actions_tells:
  assumes "message_actions e c rq data r (d, q) = (Inr a, d', q')" and "db_ok d" and "ce_others (ae_create e) d = d"
  shows "discloses a = Nothing \<or> (\<exists>v. discloses a = OneMessage v \<and> (\<exists>m\<in>set (messages d'). v = MessageReadSerializer d' m \<and>
     ((\<exists>k. c = ByKey k \<and> msg_api_key m = Some (ak_id k)) \<or> is_staff c)))"
proof -
  have "(\<exists>n. a = Framework n) \<or> (\<exists>pk. d' = d \<and> a = MessageAnswer (messages_retrieve c pk d)) \<or>
      (\<exists>b. a = MessageAnswer b \<and> messages_create (ae_drf e) (ae_web e) (ae_create e) c rq data (d, q) = (Inr b, d', q'))"
    using assms(1)
    by (auto simp: message_actions_def no_action_def split: route.splits if_splits sum.splits prod.splits)
  then consider n where "a = Framework n" | st b where "a = MessageAnswer (st, b)"
    "messages_create (ae_drf e) (ae_web e) (ae_create e) c rq data (d, q) = (Inr (st, b), d', q')"
    | st b pk where "a = MessageAnswer (st, b)" "messages_retrieve c pk d = (st, b)" "d' = d"
    by (metis prod.exhaust)
  then show ?thesis
  proof cases
    case (2 st b)
    with messages_create_tells [of "ae_drf e" "ae_web e" "ae_create e" c rq data d q st _ d' q', OF _ assms(2,3)] show ?thesis
      by (cases b) (auto simp: discloses_def)
  next
    case (3 st b pk)
    with messages_retrieve_tells [of c pk d st] show ?thesis by (cases b) (auto simp: discloses_def)
  qed (simp add: discloses_def)
qed

section \<open>Property\<close>

text \<open>
  C11: what is told needs authority. Whatever request comes in and whatever it does, an answer
  that carries a message's data goes to somebody who names the active key the message was
  posted with and proves its secret, or to staff; an answer with the data of templates or keys
  goes to staff. Everybody else reads refusals, which carry none of it.
\<close>

theorem answers_need_authority:
  assumes "serve_api e rq data s = (Inr a, s')" and "memo_ok (ae_pepper e) (fst s) rq" and "db_ok (fst s)"
    and "ce_others (ae_create e) (fst s) = fst s"
  shows "entitled e rq (fst s) (fst s') (discloses a)"
proof -
  obtain d q d' q' where s: "s = (d, q)" "s' = (d', q')" by (cases s; cases s') auto
  consider "discloses a = Nothing" | v r c rq' where "caller_of (ae_pepper e) d (ae_other e) rq = Inr (c, rq')"
    "call_view e c rq' data v r (d, q) = (Inr a, d', q')"
    using assms(1) s
    by (auto simp: serve_api_def discloses_def split: option.splits endpoint.splits sum.splits auth_error.splits prod.splits)
  then show ?thesis
  proof cases
    case (2 v r c rq')
    have key: "holds_key (ae_pepper e) d rq k" if "c = ByKey k" for k
      using caller_of_key [of "ae_pepper e" d rq] assms(2) 2(1) that s by (simp add: holds_key_def)
    have staff: "is_staff c \<Longrightarrow> by_staff (ae_other e) rq" by (rule caller_of_staff [OF 2(1)])
    from 2(2) consider "discloses a = Nothing"
      | "message_actions e c rq' data r (d, q) = (Inr a, d', q')" | "template_actions e c rq' data r d = (Inr a, d')"
      | "key_actions e c rq' data r d = (Inr a, d')"
      by (auto simp: call_view_def discloses_def split: if_splits viewset.splits prod.splits)
    then show ?thesis
    proof cases
      case 2
      with message_actions_tells [OF 2] assms(3,4) s key staff show ?thesis by (fastforce simp: entitled_def)
    qed (use template_actions_staff key_actions_staff staff s in \<open>fastforce simp: entitled_def\<close>)+
  qed (simp add: entitled_def)
qed

end
