(* ===== verification/Relay_Columns_Example.thy ===== *)
theory Relay_Columns_Example
  imports Relay_Columns Relay_Disclosure Relay_Site_Example Relay_Outcomes
begin

text \<open>The concrete installation: a POST, a run, the two values the columns refuse, and what the
  poster is told.\<close>

lemma ex_columns: "columns_ok ex_db"
proof -
  have "storable_text (hmac_sha256 k m)" for k m by (simp add: hmac_sha256_def Let_def storable_hexlify)
  then have "row_fits ApiKey_model (api_key_row ex_key)" by (simp add: rows_fit ex_key_def MAX_INTEGER_def)
  moreover have "row_fits Template_model (template_row ex_template)" "row_fits TemplateVersion_model (template_version_row ex_version)"
    by (simp_all add: rows_fit ex_template_def ex_version_def MAX_INTEGER_def)
  ultimately show ?thesis by (simp add: columns_ok_def ex_db_def empty_db_def)
qed

theorem requests_fit_columns_witness:
  "columns_ok (ex_db\<lparr>messages := [ex_message]\<rparr>) \<and>
   fst (snd (serve_api ex_api ex_signed_post ex_body (ex_db, []))) = ex_db\<lparr>messages := [ex_message]\<rparr>"
proof -
  have "snd (serve_api ex_api ex_signed_post ex_body (ex_db, [])) = (ex_db\<lparr>messages := [ex_message]\<rparr>, [ex_task])"
    using ex_served [of None None] by (simp add: api_rest_def ex_signed_post_def ex_post_def split: prod.splits sum.splits)
  moreover have "clean_request ex_api ex_signed_post"
    by (simp add: clean_request_def clean_fields_def ex_api_def Relay_Api_Example.ex_drf_def ex_env_def ex_draw_def META_get_def
        IDEMPOTENCY_HEADER_META_def ex_signed_post_def ex_post_def split: json.splits)
  moreover have "ce_others (ae_create ex_api) ex_db = ex_db" by (simp add: ex_api_def ex_env_def)
  moreover have "tv_version v < MAX_INTEGER" if "v \<in> set (template_versions ex_db)" for v
    using that by (simp add: ex_db_def ex_version_def MAX_INTEGER_def)
  ultimately show ?thesis
    using requests_fit_columns [of "(ex_db, [])" ex_api ex_signed_post ex_body] ex_columns by simp
qed

theorem tasks_fit_columns_witness:
  "columns_ok (fst (snd (dispatch (\<lambda>_. Inr ex_refused) ''t1'' 0 ex_times ''m1'' (ex_db\<lparr>messages := [ex_message]\<rparr>, ex_metrics))))"
proof -
  have "columns_ok (ex_db\<lparr>messages := [ex_message]\<rparr>)"
    using ex_columns by (simp add: columns_ok_def message_row_fits message_storable_def) (simp add: ex_messages or_empty_dict_def)
  moreover have "length (attempts (ex_db\<lparr>messages := [ex_message]\<rparr>)) < MAX_INTEGER"
    by (simp add: ex_db_def empty_db_def MAX_INTEGER_def)
  ultimately show ?thesis
    by (intro conjunct1 [OF tasks_fit_columns]) (simp_all add: channel_outcome_def ex_refused_def small_code_def MAX_INTEGER_def)
qed

theorem huge_limit_is_a_server_error_witness:
  "\<exists>drf data. api_keys_create drf ''pepper'' ex_draw (ByUser ex_staff) data ex_db = Inl (KeyDbError DataError)"
proof -
  let ?drf = "Relay_Api_Example.ex_drf\<lparr>drf_int := (\<lambda>j. case j of JInt n \<Rightarrow> Some n | _ \<Rightarrow> None)\<rparr>"
  have "ApiKeyCreateSerializer ?drf [(''name'', JStr ''shop''), (''burst'', JInt 3000000000)] = Some (''shop'', 100, 3000000000)"
    by (simp add: ApiKeyCreateSerializer_def char_field_def positive_int_def Relay_Api_Example.ex_drf_def)
  from huge_limit_is_a_server_error [OF this, of "ByUser ex_staff" "''pepper''"] show ?thesis
    by (auto simp: is_staff_def ex_staff_def)
qed

definition ex_nul_body :: json where
  "ex_nul_body = JObj [(''channel'', JStr ''email''), (''recipient'', JStr ''a@b.cc''), (''template'', JStr ''welcome''),
     (''context'', JObj [(''name'', JStr [CHR 0x00])])]"

definition ex_nul :: validated_data where
  "ex_nul = ex_valid\<lparr>vd_context := Some (JObj [(''name'', JStr [CHR 0x00])])\<rparr>"

theorem nul_context_is_a_server_error_witness:
  "messages_create Relay_Api_Example.ex_drf ex_web ex_env (ByKey ex_key) ex_post ex_nul_body (ex_db, []) =
     (Inl (CrashDatabase DataError), ex_db, [])"
proof (rule nul_context_is_a_server_error [where idem = "''k1''" and v = ex_nul and tv = ex_version and r = ex_rendered])
  show "MessageCreateSerializer Relay_Api_Example.ex_drf ex_web ex_nul_body = Inr (Some ex_nul)"
  proof -
    have "message_fields Relay_Api_Example.ex_drf [(''channel'', JStr ''email''), (''recipient'', JStr ''a@b.cc''), (''template'', JStr ''welcome''),
        (''context'', JObj [(''name'', JStr [CHR 0x00])])] = Some ex_nul"
      by (simp add: message_fields_def channel_choice_def choice_field_def enum_channel_def char_field_def optional_field_def
          validate_context_def priority_or_default_def Relay_Api_Example.ex_drf_def ex_nul_def ex_valid_def ex_data_def)
    then show ?thesis
      by (simp add: MessageCreateSerializer_def ex_nul_body_def validate_recipient_def ex_web_def)
        (simp add: ex_nul_def ex_valid_def ex_data_def)
  qed
  show "resolve_template ex_nul ex_db = Inr ex_version"
    using ex_resolve by (simp add: resolve_template_def ex_nul_def ex_valid_def cong: option.case_cong if_cong)
  show "render (ce_jinja ex_env) (ce_recursion_limit ex_env) ex_version (context_or_empty (vd_context ex_nul)) (vd_channel ex_nul) = Inr ex_rendered"
    by (simp add: render_def ex_env_def ex_jinja_def render_subject_def ex_version_def ex_rendered_def MAX_RENDERED_CHARS_def
        ex_nul_def ex_valid_def ex_data_def)
qed (use ex_idem ex_find in \<open>simp_all add: ex_env_def ex_key_def ex_nul_def context_or_empty_def or_empty_dict_def\<close>)

section \<open>What the poster is told\<close>

theorem answers_need_authority_witness:
  "\<exists>a s' v. serve_api ex_api ex_signed_post ex_body (ex_db, []) = (Inr a, s') \<and> discloses a = OneMessage v \<and>
     entitled ex_api ex_signed_post ex_db (fst s') (OneMessage v)"
proof -
  let ?d = "ex_db\<lparr>messages := [ex_message]\<rparr>"
  have path: "rq_path ex_signed_post = ''/api/v1/messages/''" "rq_method ex_limited_post = POST"
    by (simp_all add: ex_limited_post_def ex_signed_post_def ex_post_def)
  have "messages_create Relay_Api_Example.ex_drf ex_web ex_env (ByKey ex_key) ex_limited_post ex_body (ex_db, []) =
     (Inr (202, MessageData (MessageReadSerializer ?d ex_message)), ?d, [ex_task])"
    using ex_tagged_create [of None] by (simp add: ex_limited_post_def ex_signed_post_def ex_post_def)
  then have run: "serve_api ex_api ex_signed_post ex_body (ex_db, []) =
      (Inr (MessageAnswer (202, MessageData (MessageReadSerializer ?d ex_message))), ?d, [ex_task])"
    by (simp add: serve_api_def ex_api_def ex_routes path ex_caller call_view_def permitted_def message_actions_def)
  have "memo_ok (ae_pepper ex_api) ex_db ex_signed_post" by (simp add: memo_ok_def ex_header)
  moreover have "ce_others (ae_create ex_api) ex_db = ex_db" by (simp add: ex_api_def ex_env_def)
  ultimately have "entitled ex_api ex_signed_post ex_db ?d (OneMessage (MessageReadSerializer ?d ex_message))"
    using answers_need_authority [OF run] ex_db_ok by (simp add: discloses_def)
  with run show ?thesis by (auto simp: discloses_def)
qed

end
