(* ===== verification/Relay_Apps.thy ===== *)
theory Relay_Apps
  imports Relay_Schema Relay_Entry Relay_Logging Relay_Metrics
begin

text \<open>
  The applications the framework is told about (\<open>INSTALLED_APPS\<close> and the \<open>apps.py\<close> files) with
  what starting them does, and which metrics which process shows (\<open>core/metrics.py\<close>).
\<close>

section \<open>The application registry\<close>

definition INSTALLED_APPS :: "pystr list" where
  "INSTALLED_APPS =
     [''django.contrib.admin'', ''django.contrib.auth'', ''django.contrib.contenttypes'',
      ''django.contrib.sessions'', ''django.contrib.messages'', ''django.contrib.staticfiles'',
      ''rest_framework'', ''drf_spectacular'',
      ''apps.core'', ''apps.templating'', ''apps.messages_api'', ''apps.ratelimit'', ''apps.channels'']"

record app_config =
  ac_name :: pystr
  ac_label :: pystr
  ac_default_auto_field :: column_type

definition CoreConfig :: app_config where
  "CoreConfig = \<lparr>ac_name = ''apps.core'', ac_label = ''core'', ac_default_auto_field = BigAutoField\<rparr>"

definition TemplatingConfig :: app_config where
  "TemplatingConfig = \<lparr>ac_name = ''apps.templating'', ac_label = ''templating'', ac_default_auto_field = BigAutoField\<rparr>"

definition MessagesApiConfig :: app_config where
  "MessagesApiConfig = \<lparr>ac_name = ''apps.messages_api'', ac_label = ''messages_api'', ac_default_auto_field = BigAutoField\<rparr>"

definition RateLimitConfig :: app_config where
  "RateLimitConfig = \<lparr>ac_name = ''apps.ratelimit'', ac_label = ''ratelimit'', ac_default_auto_field = BigAutoField\<rparr>"

definition ChannelsConfig :: app_config where
  "ChannelsConfig = \<lparr>ac_name = ''apps.channels'', ac_label = ''channels'', ac_default_auto_field = BigAutoField\<rparr>"

definition own_configs :: "app_config list" where
  "own_configs = [CoreConfig, TemplatingConfig, MessagesApiConfig, RateLimitConfig, ChannelsConfig]"

text \<open>An application without a label of its own is labelled with the last part of its name.\<close>

definition app_config_of :: "pystr \<Rightarrow> app_config" where
  "app_config_of entry =
     (case List.find (\<lambda>c. ac_name c = entry) own_configs of
        Some c \<Rightarrow> c
      | None \<Rightarrow> \<lparr>ac_name = entry, ac_label = last (py_split CHR ''.'' entry), ac_default_auto_field = DEFAULT_AUTO_FIELD\<rparr>)"

datatype registry_error = DuplicateLabel pystr | DuplicateName

fun populate :: "pystr list \<Rightarrow> app_config list \<Rightarrow> registry_error + app_config list" where
  "populate [] acc = (if distinct (map ac_name acc) then Inr acc else Inl DuplicateName)"
| "populate (e # es) acc =
     (let c = app_config_of e in
      if ac_label c \<in> set (map ac_label acc) then Inl (DuplicateLabel (ac_label c)) else populate es (acc @ [c]))"

text \<open>\<open>CoreConfig.ready\<close> registers the description of the key header and configures structlog.\<close>

datatype start_up_effect = SecurityScheme pystr pystr | Structlog "processor list"

definition app_ready :: "app_config \<Rightarrow> start_up_effect list" where
  "app_ready c =
     (if c = CoreConfig
      then [SecurityScheme ''apps.core.authentication.ApiKeyAuthentication'' ''ApiKeyAuth'', Structlog configure_structlog]
      else [])"

definition django_setup :: "registry_error + app_config list \<times> start_up_effect list" where
  "django_setup = (case populate INSTALLED_APPS [] of Inl e \<Rightarrow> Inl e | Inr cs \<Rightarrow> Inr (cs, concat (map app_ready cs)))"

text \<open>The registry loads, in the order of the setting, and \<open>ready\<close> runs once.\<close>

lemma registry_loads:
  "populate INSTALLED_APPS [] = Inr (map app_config_of INSTALLED_APPS)"
  by code_simp

lemma setup_runs_once:
  "django_setup = Inr (map app_config_of INSTALLED_APPS, app_ready CoreConfig)"
  by (simp add: django_setup_def registry_loads)
    (simp add: INSTALLED_APPS_def app_config_of_def own_configs_def CoreConfig_def TemplatingConfig_def MessagesApiConfig_def
      RateLimitConfig_def ChannelsConfig_def app_ready_def)

text \<open>
  Every table and every migration belongs to an installed application under the label its
  \<open>AppConfig\<close> gives, and the automatic keys have the type that \<open>AppConfig\<close> names.
\<close>

definition app_labelled :: "pystr \<Rightarrow> app_config option" where
  "app_labelled l = List.find (\<lambda>c. ac_label c = l) (map app_config_of INSTALLED_APPS)"

lemma app_labels:
  "app_labelled ''core'' = Some CoreConfig" "app_labelled ''templating'' = Some TemplatingConfig"
  "app_labelled ''messages_api'' = Some MessagesApiConfig"
  by code_simp+

lemma models_belong_to_apps:
  "list_all (\<lambda>t. case app_labelled (tb_app t) of None \<Rightarrow> False
     | Some c \<Rightarrow> c \<in> set own_configs) models_schema"
  by (simp add: models_schema_def ApiKey_model_def Template_model_def TemplateVersion_model_def Message_model_def
      DeliveryAttempt_model_def DeadLetter_model_def app_labels own_configs_def)

lemma automatic_keys: "c \<in> set own_configs \<Longrightarrow> co_type auto_id = ac_default_auto_field c"
  by (auto simp: own_configs_def CoreConfig_def TemplatingConfig_def MessagesApiConfig_def RateLimitConfig_def
      ChannelsConfig_def auto_id_def primary_key_def column_def DEFAULT_AUTO_FIELD_def)

lemma migrations_belong_to_apps:
  "list_all (\<lambda>m. app_labelled (fst (mg_id m)) \<noteq> None) migrations"
  by (simp add: migrations_def core_0001_def core_0002_def templating_0001_def messages_0001_def messages_0002_def
      messages_0003_def messages_0004_def app_labels)

section \<open>Which process shows which metrics\<close>

text \<open>
  The counters live in the library's default registry, which the workers serve; a labelled
  value appears there once it has been counted.
\<close>

definition counted :: "('a \<Rightarrow> pystr list) \<Rightarrow> ('a \<Rightarrow> nat) \<Rightarrow> 'a list \<Rightarrow> (pystr list \<times> nat) list" where
  "counted label value xs = map (\<lambda>x. (label x, value x)) (filter (\<lambda>x. value x > 0) xs)"

definition worker_counters :: "metrics \<Rightarrow> gauge list" where
  "worker_counters mt =
     [\<lparr>ga_name = ''notify_relay_messages_total'',
       ga_samples = counted (\<lambda>(c, s). [channel_value c, status_value s]) (\<lambda>(c, s). messages_total mt c s)
         (List.product [EMAIL, WEBHOOK] [QUEUED, SENDING, SENT, FAILED, DEAD])\<rparr>,
      \<lparr>ga_name = ''notify_relay_delivery_attempts_total'',
       ga_samples = counted (\<lambda>(c, r). [channel_value c, result_value r]) (\<lambda>(c, r). delivery_attempts_total mt c r)
         (List.product [EMAIL, WEBHOOK] [SUCCESS, TRANSIENT_ERROR, PERMANENT_ERROR])\<rparr>]"

text \<open>The endpoint of the web process shows a registry of its own, with the database collector only.\<close>

definition api_registry :: "(db \<Rightarrow> gauge list) list" where
  "api_registry = [collect]"

definition metrics_view :: "db \<Rightarrow> gauge list" where
  "metrics_view d = concat (map (\<lambda>collector. collector d) api_registry)"

lemma metrics_apart: "set (map ga_name (metrics_view d)) \<inter> set (map ga_name (worker_counters mt)) = {}"
  by (simp add: metrics_view_def api_registry_def collect_def worker_counters_def)

text \<open>A final status the worker has counted is one of the three it can settle.\<close>

lemma settle_counts:
  assumes "settle msg r n now (d, mt) = (res, d', mt')"
  shows "mt' = mt \<or> (\<exists>s \<in> {SENT, FAILED, DEAD}. mt' = inc_messages_total (msg_channel msg) s mt)"
  using assms by (auto simp: settle_def split: if_splits sum.splits)

end
