(* ===== verification/Spec2Isabelle.thy ===== *)
theory Spec2Isabelle
  imports Relay_Api_Example Relay_Stack Relay_Profiles Relay_Outcomes Relay_Template_Views Relay_Migrations Relay_Resolver
    Relay_Schema Relay_Site_Example Relay_Logging Relay_Entry Relay_Chain Relay_Columns_Example Relay_Disclosure Relay_Apps
begin

text \<open>
  A verification library for notify-relay, a service that accepts messages over HTTP and
  delivers them by email or webhook. Paths below are relative to \<open>src/src\<close>.

  \<^bold>\<open>The program.\<close> A client with an API key posts a message naming a template
  (\<open>apps/messages_api\<close>). The request passes the health probes, the request-id and the
  rate-limit middleware and the authentication (\<open>apps/core\<close>, \<open>apps/ratelimit\<close>), the
  recipient is checked, the template rendered (\<open>apps/templating\<close>), a row is stored and a task
  published. A worker runs the task (\<open>tasks/delivery.py\<close>) through a channel
  (\<open>apps/channels\<close>), and Beat (\<open>tasks/scheduler.py\<close>) releases scheduled messages, republishes
  lost ones and deletes old ones. Staff manage templates and keys.

  \<^bold>\<open>The theories.\<close> In the order of their imports:
  \<^item> \<open>Relay_Prelude\<close>: Python's strings, tables of rows with a primary key, the locales of
    keyed tables and of systems with an invariant, the named collections of rewrite rules.
  \<^item> \<open>Relay_Json\<close>, \<open>Relay_Json_Loads\<close>: JSON values, Python's equality of them, and which
    texts \<open>json.loads\<close> accepts. Its recursion has fuel \<open>2 * length + 2\<close>, enough for every
    text (\<open>json_loads_terminates\<close>); the interpreter's recursion limit is an argument.
  \<^item> \<open>Relay_Models\<close>: the tables and constraints of the three \<open>models\<close> files; the database is
    one record, inserts and saves return the error Django would raise.
  \<^item> \<open>Relay_Channel_Base\<close>: \<open>channels/base.py\<close> and the contract of a channel as a locale.
  \<^item> \<open>Relay_Delivery\<close>: \<open>tasks/delivery.py\<close>, with the invariant of attempts and dead letters.
  \<^item> \<open>Relay_Scheduler\<close>: \<open>tasks/scheduler.py\<close>. \<open>Relay_Settings\<close>: the Celery settings, the
    start-up checks of \<open>settings/prod.py\<close> and the fallbacks of \<open>settings/dev.py\<close>.
  \<^item> \<open>Relay_Templating\<close>, \<open>Relay_Template_Views\<close>: template rows, renderer, template API.
  \<^item> \<open>Relay_Services\<close>: \<open>messages_api/services.py\<close>, with the lookup and insert it relies on as
    a locale interpreted on the message table.
  \<^item> \<open>Relay_Lifecycle\<close>: API, workers, Beat, broker and clock as one step relation whose steps
    are the database steps above; a worker may die between any two of its steps, tasks may be
    lost or delivered again. \<open>Relay_Guarantees\<close>: its invariant holds in every reachable state,
    and \<open>row_change\<close> is the abstract life of one message.
  \<^item> \<open>Relay_Metrics\<close>: the gauges of \<open>core/metrics.py\<close>.
  \<^item> \<open>Relay_Bytes\<close>: UTF-8, hexadecimal, base64-url, SHA-256 and HMAC on words.
  \<^item> \<open>Relay_Http\<close>, \<open>Relay_Security\<close>, \<open>Relay_Api_Keys\<close>: requests; \<open>core/security.py\<close> and
    \<open>core/authentication.py\<close>; \<open>core/views.py\<close> and \<open>core/serializers.py\<close>.
  \<^item> \<open>Relay_Ipaddress\<close>, \<open>Relay_Ip_Printing\<close>, \<open>Relay_Validators\<close>: Python's \<open>ipaddress\<close> (tables of
    Python 3.12), its printing shown injective, and
    \<open>messages_api/validators.py\<close>, whose lookup threads and slots are the state machine of
    \<open>Relay_Resolver\<close>.
  \<^item> \<open>Relay_Channels\<close>: the two channels and the signature, as interpretations of the channel
    contract. \<open>Relay_Outcomes\<close>: a delivery task running a real channel.
  \<^item> \<open>Relay_Bucket\<close>, \<open>Relay_Middleware\<close>: the Lua token bucket and its client; request ids, rate
    limiting and health probes. \<open>Relay_Stack\<close>: the three middlewares in the order of
    \<open>MIDDLEWARE\<close> around an arbitrary rest, and sequences of requests over many processes.
    \<open>Relay_Chain\<close>: that stack is what the framework makes of the list.
  \<^item> \<open>Relay_Profiles\<close>: the settings of the profiles \<open>dev\<close>, \<open>test\<close> and \<open>prod\<close> as functions of the
    environment.
  \<^item> \<open>Relay_Message_Views\<close>: \<open>messages_api/views.py\<close> and \<open>serializers.py\<close>. \<open>Relay_Tenants\<close>: the
    separation of API keys, a locale of local steps interpreted on that API. \<open>Relay_Site\<close>: rate
    limiting, authentication and the message view together.
  \<^item> \<open>Relay_Urls\<close>: the \<open>urls.py\<close> files, from a path to a view. \<open>Relay_Api\<close>: path, caller,
    permission and action of a request to any of the three APIs, behind the stack of middlewares.
  \<^item> \<open>Relay_Schema\<close>: the tables the \<open>models\<close> files declare and the operations of every migration
    on them. \<open>Relay_Migrations\<close>: what the migrations do to rows. \<open>Relay_Columns\<close>: the rows of the
    database as values of those columns, and that requests and tasks write none that do not fit.
  \<^item> \<open>Relay_Disclosure\<close>: what an answer of the API tells, and whom.
  \<^item> \<open>Relay_Logging\<close>: \<open>core/logging.py\<close> and the \<open>LOGGING\<close> dictionary on Python's loggers.
    \<open>Relay_Entry\<close>: \<open>manage.py\<close>, \<open>wsgi.py\<close>, \<open>asgi.py\<close>, \<open>celery.py\<close>, the \<open>.env\<close> file and the
    settings they load. \<open>Relay_Apps\<close>: the \<open>apps.py\<close> files, the registry they are loaded into, and
    which process shows which metrics.
  \<^item> \<open>Relay_Example\<close>, \<open>Relay_Api_Example\<close>, \<open>Relay_Site_Example\<close>, \<open>Relay_Columns_Example\<close>: concrete
    states and runs on which the properties are applied.

  \<^bold>\<open>What is shown.\<close> For the running system (below): it refines the life of a message, runs do
  not overlap, final statuses are final, attempts and dead letters tell the truth, unfinished
  messages recover, creation is idempotent. The whole site refines that system
  (\<open>site_refines_system\<close>), so this holds behind the HTTP interface: an accepted message settles
  (\<open>accepted_message_settles\<close>), whatever a request changes it changes with authority, and what
  an answer tells it tells to the entitled. Rows fit their declared columns, except what the
  database itself refuses: a reply or a context it cannot store is an error nobody catches
  (\<open>malformed_reply_never_finishes\<close>, \<open>nul_context_is_a_server_error\<close>). For the components: every branch of a delivery
  run, of message creation, of the limiter and of a POST; a retry chain ends; batches and
  clean-up do what their queries mean; what HTTP and SMTP answers lead to; migrations in any
  order build the declared tables; log records are written once. For security:
  tenants do not interfere, shown keys work until revoked, webhook targets are public
  addresses and requests are signed, the rate limit covers the API and cannot be exceeded or
  dodged by headers, production refuses weak secrets, and a web server started without
  \<open>DJANGO_SETTINGS_MODULE\<close> is not in production.

  \<^bold>\<open>Modelling choices.\<close> The database is PostgreSQL: text and \<open>jsonb\<close> cannot hold U+0000, and
  positive integers are checked and end at 2147483647. Inserts check what the program leaves to
  the database; the rest is shown to hold (\<open>Relay_Columns\<close>). Strings hold characters below U+0100. Times are integers in
  microseconds. Lua's numbers and the stored token counts are rationals, the rounding of
  \<open>tostring\<close> is a function. A transaction is one step; a view of one request is one step except
  where it commits in the middle, and then \<open>ce_others\<close> is what other requests commit there.
  \<open>run_task\<close> terminates by the retries left, the walk over parent loggers by the length of the name.

  \<^bold>\<open>Parameters.\<close> Code that is not in the repository is an argument: the Jinja environments,
  \<open>httpx.URL\<close> and the HTTP exchange, the resolver, the entries of a \<open>.env\<close> file, the SMTP exchange, Django's email
  validator, the field and body parsers of the REST framework, the routes its router makes for a
  viewset, the pages of the admin site, token and session authentication, what is rendered of
  an answer, random bytes, ULIDs, \<open>django-environ\<close>, structlog's processors, the response
  Django makes of an exception, the database's collation and place of NULL in an order.
  The framework's own middlewares between the limiter and the views pass the requests of the
  APIs on as they are, and its negotiation of content accepts what they ask for.

  \<^bold>\<open>Not modelled.\<close> The admin site, the token endpoints and the generated OpenAPI document,
  the duration histogram and the metrics text format, names shown to people, and the parts of
  the settings that only configure the framework (template engine, password validators, locale,
  static files, the texts of the API description): they are the framework's, and the sources
  only name them.
\<close>

section \<open>The running system\<close>

text \<open>
  C1: the life of a message. In every reachable state of the running system (API
  requests, workers, Beat and retention interleaved, workers dying and tasks lost at any
  point), every step changes every message row only along the abstract life cycle:
  created as queued, claimed by a task that may claim it, settled from \<open>sending\<close> to a
  final status, requeued when the dispatcher's condition holds, removed when expired.
\<close>

theorem system_refines_message_life:
  assumes "reachable s" and "sys_step s s'"
  shows "row_change (sy_now s) (get_message k (sy_db s)) (get_message k (sy_db s'))"
  by (rule step_row [OF assms(2) reachable_inv [OF assms(1)]])

theorem system_refines_message_life_witness:
  "row_change 100 (get_message ''m1'' (sy_db ex_answered)) (get_message ''m1'' (sy_db ex_failed))"
  using system_refines_message_life [OF ex_reachable_answered ex_step_fail, of "''m1''"]
  by (simp add: ex_answered_def ex_claimed_def ex_accepted_def ex_installed_def ex_start_def)



text \<open>
  C3: a final status is final. A message that is sent, failed or dead stays exactly as it
  is, whatever the system does, until the retention window of 90 days since its creation
  has passed.
\<close>

theorem finished_message_stays:
  assumes "reachable s" and "sys_step\<^sup>*\<^sup>* s s'" and "get_message k (sy_db s) = Some m"
    and "is_terminal (msg_status m)" and "sy_now s' - days 90 \<le> msg_created_at m"
  shows "get_message k (sy_db s') = Some m"
proof -
  have "\<exists>m'. get_message k (sy_db s') = Some m' \<and> m' = m"
    by (rule run_row [OF assms(2) reachable_inv [OF assms(1)] assms(3)])
       (use assms(4,5) row_change_final in \<open>auto simp: retained_def CLEANUP_AGE_DAYS_def\<close>)
  then show ?thesis by simp
qed

theorem finished_message_stays_witness:
  "get_message ''m1'' (sy_db (ex_failed\<lparr>sy_now := 200\<rparr>)) = Some ex_failed_message"
proof (rule finished_message_stays [OF ex_reachable_failed])
  show "sys_step\<^sup>*\<^sup>* ex_failed (ex_failed\<lparr>sy_now := 200\<rparr>)"
    by (intro r_into_rtranclp sys_step.tick)
       (simp_all add: ex_failed_def ex_answered_def ex_claimed_def ex_accepted_def ex_installed_def ex_start_def)
qed (simp_all add: ex_failed_def get_message_def get_row_def is_terminal_def ex_failed_message_def
     ex_claimed_message_def set_status_def set_claim_def ex_messages timedelta_defs)

text \<open>
  C4: the audit trail. In every reachable state the attempts of a message are numbered
  1, 2, 3, ... without gaps, a message has a dead letter exactly when it is failed or
  dead, and a finished message has an attempt that explains its status: a success for
  sent, a permanent error for failed, a transient error for dead.
\<close>

theorem audit_trail:
  assumes "reachable s" and "get_message k (sy_db s) = Some m"
  shows "map da_attempt_no (message_attempts k (sy_db s)) = [1..<Suc (length (message_attempts k (sy_db s)))] \<and>
     (get_dead_letter k (sy_db s) \<noteq> None \<longleftrightarrow> msg_status m = FAILED \<or> msg_status m = DEAD) \<and>
     (msg_status m = SENT \<longrightarrow> attempted (sy_db s) k SUCCESS) \<and>
     (msg_status m = FAILED \<longrightarrow> attempted (sy_db s) k PERMANENT_ERROR) \<and>
     (msg_status m = DEAD \<longrightarrow> attempted (sy_db s) k TRANSIENT_ERROR)"
proof -
  note inv = sys_invD [OF reachable_inv [OF assms(1)]]
  have "map da_attempt_no (message_attempts k (sy_db s)) = [1..<Suc (length (message_attempts k (sy_db s)))]"
    using inv(1) by (simp only: delivery_ok_def attempts_numbered_def)
  moreover have "get_dead_letter k (sy_db s) \<noteq> None \<longleftrightarrow> msg_status m = FAILED \<or> msg_status m = DEAD"
    using inv(1) assms(2) by (simp only: delivery_ok_def letters_match_def gave_up_def)
  moreover have "status_evidence (msg_status m) = Some res \<Longrightarrow> attempted (sy_db s) k res" for res
    using inv(2) assms(2) by (simp add: evidenced_def)
  ultimately show ?thesis by (intro conjI impI) (assumption | simp add: status_evidence_def)+
qed

theorem audit_trail_witness:
  "get_dead_letter ''m1'' (sy_db ex_failed) \<noteq> None \<and> attempted (sy_db ex_failed) ''m1'' PERMANENT_ERROR"
  using audit_trail [OF ex_reachable_failed, of "''m1''" ex_failed_message]
  by (simp add: ex_failed_def get_message_def get_row_def)

lemma stranded_recovers:
  assumes "reachable s" and "get_message k (sy_db s) = Some m" and "\<not> is_terminal (msg_status m)"
    and "recovery_deadline m < now" and "\<forall>i. up i" and "\<forall>j. \<not> locked be j"
    and "length (filter (eligible now) (messages (sy_db s))) \<le> DISPATCH_BATCH_SIZE"
    and "dispatch_scheduled be up ids now (sy_db s, q) = (res, d', q')"
    and "\<And>i m. recordable (channel_outcome (send i m))"
  shows "\<exists>i. task_for (ids i) m \<in> set q' \<and> finished_run k d' 7 (run_task send (ids i) t k 0 (d', mt))"
proof -
  note inv = sys_invD [OF reachable_inv [OF assms(1)]]
  let ?b = "dispatch_batch be now (sy_db s)"
  have "eligible now m" by (rule eligible_after_deadline [OF inv(3) assms(2-4)])
  moreover have "m \<in> set (messages (sy_db s))"
    using inv(1) assms(2) by (simp add: delivery_ok_def get_message_iff)
  ultimately have "m \<in> set ?b" using dispatch_batch_complete assms(6,7) by blast
  then obtain i where i: "i < length ?b" "?b ! i = m" by (auto simp: in_set_conv_nth)
  have d': "d' = stamp_batch now ?b (sy_db s)" using dispatch_scheduled_db [OF assms(8)] by simp
  have "get_message k d' = Some (set_requeued now m)"
    using assms(2) \<open>m \<in> set ?b\<close> get_message_id [OF assms(2)] by (auto simp: d' get_message_stamp_batch)
  moreover have "delivery_ok d'"
    unfolding d' by (rule stamp_batch_delivery_ok [OF inv(1) dispatch_batch_eligible])
  moreover have "claimable (ids i) (set_requeued now m)"
    by (simp add: claimable_def set_requeued_def is_terminal_def)
  ultimately have "finished_run k d' 7 (run_task send (ids i) t k 0 (d', mt))"
    using run_task_finishes [of d' k "set_requeued now m" "ids i" 0 send] assms(9) by (simp add: MAX_RETRIES_def)
  moreover have "task_for (ids i) m \<in> set q'"
    using dispatch_scheduled_up [OF assms(5,8)] i by blast
  ultimately show ?thesis by blast
qed

text \<open>
  C5: nothing is stranded. Take any reachable state and any message in it that is not
  finished. Once its recovery deadline has passed (15 minutes after it was published, its
  scheduled time if it was never published, two hours after the last write if it is
  \<open>sending\<close>), one dispatcher run with the broker up and no more than a batch of eligible
  messages publishes a task for it, and that task, whatever the channel answers as long as the
  answers can be recorded, brings the message to a final status within seven attempts.
\<close>

theorem unfinished_message_recovers:
  assumes "reachable s" and "get_message k (sy_db s) = Some m" and "\<not> is_terminal (msg_status m)"
    and "recovery_deadline m < now" and "\<forall>i. up i" and "\<forall>j. \<not> locked be j"
    and "length (filter (eligible now) (messages (sy_db s))) \<le> DISPATCH_BATCH_SIZE"
    and "dispatch_scheduled be up ids now (sy_db s, q) = (res, d', q')"
    and "\<And>i m. recordable (channel_outcome (send i m))"
  shows "\<exists>i. task_for (ids i) m \<in> set q' \<and> finished_run k d' 7 (run_task send (ids i) t k 0 (d', mt))"
  by (rule stranded_recovers [OF assms])

theorem unfinished_message_recovers_witness:
  "\<exists>i. task_for (''r'' @ str_nat i) ex_message \<in> set (snd (snd (dispatch_scheduled
         \<lparr>nulls_last = True, has_skip_locked = True, locked = (\<lambda>_. False)\<rparr> (\<lambda>_. True) (\<lambda>i. ''r'' @ str_nat i)
         1000000000 (sy_db ex_accepted, []))))"
proof -
  let ?be = "\<lparr>nulls_last = True, has_skip_locked = True, locked = (\<lambda>_. False)\<rparr> :: db_backend"
  let ?out = "dispatch_scheduled ?be (\<lambda>_. True) (\<lambda>i. ''r'' @ str_nat i) 1000000000 (sy_db ex_accepted, [])"
  have "get_message ''m1'' (sy_db ex_accepted) = Some ex_message"
    and "length (filter (eligible 1000000000) (messages (sy_db ex_accepted))) \<le> DISPATCH_BATCH_SIZE"
    by (simp_all add: ex_accepted_def get_message_def get_row_def DISPATCH_BATCH_SIZE_def)
  moreover have "\<not> is_terminal (msg_status ex_message)" and "recovery_deadline ex_message < 1000000000"
    by (simp_all add: is_terminal_def recovery_deadline_def ex_messages REENQUEUE_AFTER_def timedelta_defs)
  moreover have "\<forall>j. \<not> locked ?be j" and "\<forall>i. (\<lambda>_::nat. True) i" by simp_all
  ultimately have "\<exists>i. task_for (''r'' @ str_nat i) ex_message \<in> set (snd (snd ?out)) \<and>
      finished_run ''m1'' (fst (snd ?out)) 7 (run_task (\<lambda>_ _. Inl ''down'') (''r'' @ str_nat i)
        (\<lambda>_. \<lparr>at_claim = 0, at_started = 0, at_finished = 0, at_settle = 0\<rparr>) ''m1'' 0 (fst (snd ?out), ex_metrics))"
    by (intro unfinished_message_recovers [OF ex_reachable_accepted, where res = "fst ?out"]) auto
  then show ?thesis by blast
qed

text \<open>
  C7: creation is idempotent. Once a request of an API key with some idempotency key has
  created a message, then in every later state within the retention window, whatever
  happened in between, the same request answers with that message and changes nothing;
  any other request of that API key with the same idempotency key is answered from that
  message too (a replay or a conflict), so a second message is never created.
\<close>

theorem creation_is_idempotent:
  assumes "reachable s" and "ce_now e = sy_now s" and "ce_task_id e \<notin> set (live_ids s)"
    and "ce_others e (sy_db s) = sy_db s" and "json_ok (context_or_empty (vd_context data))"
    and "create_message e (Some a) idem data (sy_db s, sy_queue s) = (Inr (m, True), d', q')"
    and "sys_step\<^sup>*\<^sup>* (s\<lparr>sy_db := d', sy_queue := q'\<rparr>) s'"
    and "sy_now s' - days 90 \<le> ce_now e"
  shows "\<exists>m'. msg_id m' = msg_id m \<and>
     create_message e' (Some a) idem data (sy_db s', sy_queue s') = (Inr (m', False), sy_db s', sy_queue s') \<and>
     (\<forall>data'. create_message e' (Some a) idem data' (sy_db s', sy_queue s') =
        (replay m' data', sy_db s', sy_queue s'))"
proof -
  let ?s = "s\<lparr>sy_db := d', sy_queue := q'\<rparr>"
  obtain tv r where m: "m = new_message e (Some a) idem data tv r"
    and pub: "insert_and_publish e (Some a) idem data m (sy_db s, sy_queue s) = (Inr (m, True), d', q')"
    and ins: "insert_message m (sy_db s) = Inr d'"
    using create_message_created [OF assms(6)] assms(4) by auto
  have "sys_step s ?s" using sys_step.accept [OF assms(2,3) pub [unfolded m]] .
  then have inv: "sys_inv ?s" using sys_step_inv reachable_inv [OF assms(1)] by blast
  have "get_message (msg_id m) (sy_db ?s) = Some m" using get_message_insert [OF ins] by simp
  moreover have "retained (sy_now s') m"
    using assms(8) by (simp add: retained_def CLEANUP_AGE_DAYS_def m new_message_def)
  ultimately obtain m' where m': "get_message (msg_id m) (sy_db s') = Some m'" and pl: "payload m' = payload m"
    using run_payload [OF assms(7) inv] by blast
  have "msg_api_key m' = Some a" and "msg_idempotency_key m' = idem"
    using payloadD(2,3) [OF pl] by (simp_all add: m new_message_def)
  moreover have "db_ok (sy_db s')"
    using sys_invD(1) [OF live.run_inv [OF assms(7) inv]] by (simp add: delivery_ok_def)
  ultimately have all: "create_message e' (Some a) idem data' (sy_db s', sy_queue s') =
      (replay m' data', sy_db s', sy_queue s')" for data'
    using create_message_known [OF _ m'] by auto
  moreover have "replay m' data = Inr (m', False)"
    using payload_matches_new [OF assms(5)] payload_matches_payload [OF pl] by (simp add: replay_def m)
  ultimately show ?thesis using payloadD(1) [OF pl] by auto
qed

theorem creation_is_idempotent_witness:
  "\<exists>m'. msg_id m' = ''m1'' \<and>
     create_message ex_env (Some 1) ''k1'' ex_data (sy_db ex_failed, sy_queue ex_failed) =
       (Inr (m', False), sy_db ex_failed, sy_queue ex_failed)"
proof -
  have "create_message ex_env (Some 1) ''k1'' ex_data (sy_db ex_installed, sy_queue ex_installed) =
      (Inr (ex_message, True), ex_db\<lparr>messages := [ex_message]\<rparr>, [ex_task])"
    by (rule ex_create)
  moreover have "sys_step\<^sup>*\<^sup>* (ex_installed\<lparr>sy_db := ex_db\<lparr>messages := [ex_message]\<rparr>, sy_queue := [ex_task]\<rparr>) ex_failed"
    using ex_step_claim ex_step_answer ex_step_fail unfolding ex_accepted_def [symmetric]
    by (blast intro: rtranclp.rtrancl_refl rtranclp.rtrancl_into_rtrancl)
  ultimately have "\<exists>m'. msg_id m' = msg_id ex_message \<and>
      create_message ex_env (Some 1) ''k1'' ex_data (sy_db ex_failed, sy_queue ex_failed) =
        (Inr (m', False), sy_db ex_failed, sy_queue ex_failed) \<and>
      (\<forall>data'. create_message ex_env (Some 1) ''k1'' data' (sy_db ex_failed, sy_queue ex_failed) =
        (replay m' data', sy_db ex_failed, sy_queue ex_failed))"
    by (rule creation_is_idempotent [OF ex_reachable_installed, rotated 4])
       (simp_all add: ex_failed_def ex_answered_def ex_claimed_def ex_accepted_def ex_installed_def ex_start_def
          ex_env_def ex_data_def context_or_empty_def live_ids_def live_tasks_def timedelta_defs)
  then show ?thesis by auto
qed

text \<open>
  C6: an accepted message is settled. Take a message that a request to the whole site added,
  and any later state within the retention window, whatever happened in between: requests,
  worker deaths, lost tasks, broker failures. The message is still there with the content it
  was accepted with, and it either has a final status or, once its recovery deadline has
  passed, one dispatcher run with the broker up publishes a task that gives it one.
\<close>

theorem accepted_message_settles:
  assumes "reachable s" and "creates_now (ae_create ae) s" and "ss_data st = (sy_db s, sy_queue s)"
    and "site (api_site e ae show_answer data) rq st = (out, st')"
    and "get_message k (fst (ss_data st')) = Some m"
    and "sys_step\<^sup>*\<^sup>* (s\<lparr>sy_db := fst (ss_data st'), sy_queue := snd (ss_data st')\<rparr>) s2"
    and "sy_now s2 - days 90 \<le> msg_created_at m"
    and "\<forall>i. up i" and "\<forall>j. \<not> locked be j"
    and "length (filter (eligible now) (messages (sy_db s2))) \<le> DISPATCH_BATCH_SIZE"
    and "dispatch_scheduled be up ids now (sy_db s2, q) = (res, d', q')"
    and "\<And>i m. recordable (channel_outcome (send i m))"
  shows "\<exists>m2. get_message k (sy_db s2) = Some m2 \<and> payload m2 = payload m \<and>
     (is_terminal (msg_status m2) \<or>
      (recovery_deadline m2 < now \<longrightarrow>
       (\<exists>i. task_for (ids i) m2 \<in> set q' \<and> finished_run k d' 7 (run_task send (ids i) t k 0 (d', mt)))))"
proof -
  let ?s = "s\<lparr>sy_db := fst (ss_data st'), sy_queue := snd (ss_data st')\<rparr>"
  have "reachable ?s" using site_run_reachable [OF assms(1-4)] by blast
  moreover from this assms(6) have "reachable s2" unfolding reachable_def by (blast intro: rtranclp_trans)
  moreover obtain m2 where "get_message k (sy_db s2) = Some m2" "payload m2 = payload m"
    using run_payload [OF assms(6) reachable_inv [OF \<open>reachable ?s\<close>]] assms(5,7)
    by (auto simp: retained_def CLEANUP_AGE_DAYS_def)
  ultimately show ?thesis
    using stranded_recovers [where send = send, OF \<open>reachable s2\<close> _ _ _ assms(8-12)] by blast
qed

theorem accepted_message_settles_witness:
  "\<exists>d' q' i. get_message ''m1'' (ex_db\<lparr>messages := [ex_message]\<rparr>) = Some ex_message \<and>
     dispatch_scheduled \<lparr>nulls_last = True, has_skip_locked = True, locked = (\<lambda>_. False)\<rparr> (\<lambda>_. True) (\<lambda>i. ''r'' @ str_nat i)
         1000000000 (ex_db\<lparr>messages := [ex_message]\<rparr>, []) = (Inr 1, d', q') \<and>
     finished_run ''m1'' d' 7 (run_task (\<lambda>_ _. Inl ''down'') (''r'' @ str_nat i) (\<lambda>_. ex_times) ''m1'' 0 (d', ex_metrics))"
proof -
  let ?be = "\<lparr>nulls_last = True, has_skip_locked = True, locked = (\<lambda>_. False)\<rparr> :: db_backend"
  let ?d = "ex_db\<lparr>messages := [ex_message]\<rparr>" and ?ids = "\<lambda>i. ''r'' @ str_nat i"
  obtain out st' where run: "site (api_site ex_api_site ex_api ex_show ex_body) ex_signed_post ex_before = (out, st')"
    by (metis prod.exhaust)
  have st: "ss_data st' = (?d, [ex_task])" by (rule ex_post_changes [OF run])
  have now: "creates_now (ae_create ex_api) ex_installed" "ss_data ex_before = (sy_db ex_installed, sy_queue ex_installed)"
    by (rule ex_creates_now) (simp add: ex_before_def ex_installed_def ex_start_def)
  have get: "get_message ''m1'' (fst (ss_data st')) = Some ex_message" by (simp add: st get_message_def get_row_def)
  have kept: "sy_now (ex_installed\<lparr>sy_db := fst (ss_data st'), sy_queue := snd (ss_data st')\<rparr>) - days 90 \<le> msg_created_at ex_message"
    by (simp add: ex_installed_def ex_start_def ex_messages timedelta_defs)
  have pending: "\<not> is_terminal (msg_status ex_message)" "recovery_deadline ex_message < 1000000000"
    by (simp_all add: is_terminal_def recovery_deadline_def ex_messages REENQUEUE_AFTER_def timedelta_defs)
  obtain res d' q' where beat: "dispatch_scheduled ?be (\<lambda>_. True) ?ids 1000000000 (?d, []) = (res, d', q')"
    by (metis prod.exhaust)
  have up: "\<forall>i. (\<lambda>_::nat. True) i" and free: "\<forall>j. \<not> locked ?be j" by simp_all
  have few: "length (filter (eligible 1000000000) (messages (fst (ss_data st')))) \<le> DISPATCH_BATCH_SIZE"
    by (simp add: st DISPATCH_BATCH_SIZE_def)
  have "\<exists>i. finished_run ''m1'' d' 7 (run_task (\<lambda>_ _. Inl ''down'') (?ids i) (\<lambda>_. ex_times) ''m1'' 0 (d', ex_metrics))"
    using accepted_message_settles [OF ex_reachable_installed now run get rtranclp.rtrancl_refl kept up free, where
        now = 1000000000 and ids = ?ids and send = "\<lambda>_ _. Inl ''down''" and t = "\<lambda>_. ex_times" and mt = ex_metrics
        and q = "[]" and res = res and d' = d' and q' = q'] few beat pending get
    by (auto simp: st)
  moreover have "res = Inr 1"
  proof -
    have "dispatch_batch ?be 1000000000 ?d = [ex_message]"
      by (simp add: dispatch_batch_def DISPATCH_BATCH_SIZE_def eligible_def due_def stranded_def ex_messages REENQUEUE_AFTER_def
          timedelta_defs)
    with beat show ?thesis by (simp add: dispatch_scheduled_def enqueue_for_def Let_def)
  qed
  ultimately show ?thesis using beat get by (auto simp: st)
qed

end
